(* ===== verification/Prelude.thy ===== *)
theory Prelude
  imports Main "HOL-Library.List_Lexorder" "HOL-Library.Char_ord"
begin

section \<open>Shared vocabulary of the development\<close>

text \<open>
  What every component of the model uses: results that are either an error or a value, the
  errors the sources register, the pieces of Go's language and standard library that the
  sources call (64-bit arithmetic, decimal formatting, ASCII case folding, trimming), and the
  key-value store of a module. Strings are byte strings (\<^typ>\<open>string\<close>), ordered
  lexicographically as Go's \<open>bytes.Compare\<close> orders them.
\<close>

named_theorems res_simps \<open>equations that turn a successful result into facts about its parts\<close>
named_theorems kv_simps \<open>lookup after an update of a key-value store\<close>

subsection \<open>Errors\<close>

text \<open>
  \<open>Panic\<close> is a Go panic, which the transaction runner turns into a failed transaction.
  \<open>ErrGo\<close> is an error made with \<open>errors.New\<close>, \<open>errors.Errorf\<close> or by the SDK itself, named by
  its text. The others are the sentinels that the modules register; \<open>sdkerrors.Wrap\<close> keeps the
  sentinel and adds a text, which the model drops.
\<close>

datatype clp_error =
    ErrInvalid | ErrPoolDoesNotExist | ErrLiquidityProviderDoesNotExist | ErrInValidAsset
  | ErrInValidAmount | ErrTotalAmountTooLow | ErrNotEnoughAssetTokens | ErrInvalidAsymmetry
  | ErrInvalidWBasis | ErrBalanceTooHigh | ErrUnableToSetPool | ErrUnableToDestroyPool
  | ErrUnableToCreatePool | ErrBalanceNotAvailable | ErrTokenNotSupported
  | ErrUnableToAddBalance | ErrNotEnoughLiquidity | ErrPoolTooShallow | ErrOverFlow
  | ErrUnableToAddLiquidity | ErrUnableToRemoveLiquidity | ErrUnableToSwap
  | ErrUnableToRemoveLiquidityProvider | ErrUnableToDecommissionPool | ErrUnableToParseInt
  | ErrReceivedAmountBelowExpected | ErrAmountTooLow

datatype registry_error = ErrNotFound | ErrPermissionDenied

datatype oracle_error =
    ErrProphecyNotFound | ErrMinimumConsensusNeededInvalid | ErrNoClaims | ErrInvalidIdentifier
  | ErrProphecyFinalized | ErrDuplicateMessage | ErrInvalidClaim | ErrInvalidValidator
  | ErrInternalDB | ErrValidatorNotInWhiteList | ErrNotAdminAccount | ErrInvalidOperationType

datatype bridge_error =
    ErrInvalidEthNonce | ErrInvalidEthAddress | ErrJSONMarshalling | ErrInvalidEthSymbol
  | ErrInvalidClaimType | ErrInvalidEthereumChainID | ErrInvalidAmount | ErrInvalidSymbol
  | ErrInvalidBurnSymbol | ErrCethAmount

datatype dispensation_error = ErrInvalid_disp | ErrFailedInputs | ErrFailedOutputs | ErrDistribution

datatype transfer_error =
    ErrConvertingToUnitDenom | ErrConvertingToCounterpartyDenom | ErrAmountTooLowToConvert
  | ErrAmountTooLargeToSend

datatype error =
    Panic
  | ErrGo string
  | Clp clp_error
  | Registry registry_error
  | Oracle oracle_error
  | Bridge bridge_error
  | Dispensation dispensation_error
  | Transfer transfer_error

type_synonym 'a res = "error + 'a"

subsection \<open>Results\<close>

text \<open>
  \<open>bindE\<close> runs the rest of a function after a call that may fail, as the source's
  \<open>if err != nil { return err }\<close> does. \<open>wrapE e\<close> replaces the error of a call by \<open>e\<close>, as
  \<open>return types.ErrX\<close> and \<open>sdkerrors.Wrap(types.ErrX, err.Error())\<close> do; a panic is no error
  value and passes through. \<open>attempt\<close> is a call whose error the caller handles itself.
  \<open>deref\<close> is a pointer dereference.
\<close>

definition bindE :: "'a res \<Rightarrow> ('a \<Rightarrow> 'b res) \<Rightarrow> 'b res" where
  "bindE m f = (case m of Inl e \<Rightarrow> Inl e | Inr x \<Rightarrow> f x)"

definition guardE :: "bool \<Rightarrow> error \<Rightarrow> unit res" where
  "guardE b e = (if b then Inr () else Inl e)"

definition wrapE :: "error \<Rightarrow> 'a res \<Rightarrow> 'a res" where
  "wrapE e m = (case m of Inl e' \<Rightarrow> Inl (if e' = Panic then Panic else e) | Inr x \<Rightarrow> Inr x)"

definition deref :: "'a option \<Rightarrow> 'a res" where
  "deref p = (case p of None \<Rightarrow> Inl Panic | Some x \<Rightarrow> Inr x)"

definition okE :: "'s \<times> error option \<Rightarrow> 's res" where
  "okE r = (case snd r of None \<Rightarrow> Inr (fst r) | Some e \<Rightarrow> Inl e)"

definition parseE :: "error \<Rightarrow> 'a option \<Rightarrow> 'a res" where
  "parseE e p = (case p of None \<Rightarrow> Inl e | Some x \<Rightarrow> Inr x)"

definition attempt :: "'a res \<Rightarrow> 'a option res" where
  "attempt m = (case m of Inl e \<Rightarrow> if e = Panic then Inl Panic else Inr None | Inr x \<Rightarrow> Inr (Some x))"

lemma bindE_Inr [simp]: "bindE (Inr x) f = f x"
  by (simp add: bindE_def)

lemma bindE_Inl [simp]: "bindE (Inl e) f = Inl e"
  by (simp add: bindE_def)

lemma bindE_eq_Inr [res_simps]: "bindE m f = Inr y \<longleftrightarrow> (\<exists>x. m = Inr x \<and> f x = Inr y)"
  by (auto simp: bindE_def split: sum.splits)

text \<open>Evaluating a closed term: the continuation stays as it is until its argument is known.\<close>

lemma bindE_cong_weak: "m = m' \<Longrightarrow> bindE m f = bindE m' f"
  by simp

lemma bindE_assoc: "bindE (bindE m f) g = bindE m (\<lambda>x. bindE (f x) g)"
  by (simp add: bindE_def split: sum.splits)

lemma guardE_eq_Inr [res_simps]: "guardE b e = Inr u \<longleftrightarrow> b"
  by (simp add: guardE_def)

lemma guardE_simps [simp]: "guardE True e = Inr ()" "guardE False e = Inl e"
  by (simp_all add: guardE_def)

lemma wrapE_Inr [simp]: "wrapE e (Inr x) = Inr x"
  by (simp add: wrapE_def)

lemma wrapE_eq_Inr [res_simps]: "wrapE e m = Inr y \<longleftrightarrow> m = Inr y"
  by (auto simp: wrapE_def split: sum.splits)

lemma deref_Some [simp]: "deref (Some x) = Inr x"
  by (simp add: deref_def)

lemma deref_None [simp]: "deref None = Inl Panic"
  by (simp add: deref_def)

lemma deref_eq_Inr [res_simps]: "deref p = Inr x \<longleftrightarrow> p = Some x"
  by (simp add: deref_def split: option.splits)

lemma okE_eq_Inr [res_simps]: "okE r = Inr s \<longleftrightarrow> r = (s, None)"
  by (cases r) (auto simp: okE_def split: option.splits)

lemma parseE_eq_Inr [res_simps]: "parseE e p = Inr x \<longleftrightarrow> p = Some x"
  by (simp add: parseE_def split: option.splits)

lemma attempt_simps [simp]: "attempt (Inr x) = Inr (Some x)" "attempt (Inl Panic) = Inl Panic"
  by (simp_all add: attempt_def)

lemma attempt_eq_Inr [res_simps]:
  "attempt m = Inr r \<longleftrightarrow> (\<exists>e. m = Inl e \<and> e \<noteq> Panic \<and> r = None) \<or> (\<exists>x. m = Inr x \<and> r = Some x)"
  by (auto simp: attempt_def split: sum.splits if_splits)

lemma if_Inl_eq_Inr [res_simps]: "(if b then Inl e else m) = Inr y \<longleftrightarrow> \<not> b \<and> m = Inr y"
  by simp

lemma if_Inr_Inl_eq_Inr [res_simps]: "(if b then m else Inl e) = Inr y \<longleftrightarrow> b \<and> m = Inr y"
  by simp

lemma case_prod_eq_Inr [res_simps]:
  "(case q of (a, b) \<Rightarrow> f a b) = Inr y \<longleftrightarrow> (\<exists>a b. q = (a, b) \<and> f a b = Inr y)"
  by (cases q) simp

text \<open>A loop whose body may return early with an error.\<close>

fun foldE :: "('s \<Rightarrow> 'a \<Rightarrow> 's res) \<Rightarrow> 's \<Rightarrow> 'a list \<Rightarrow> 's res" where
  "foldE f s [] = Inr s"
| "foldE f s (x # xs) = bindE (f s x) (\<lambda>s. foldE f s xs)"

lemma foldE_append [simp]: "foldE f s (xs @ ys) = bindE (foldE f s xs) (\<lambda>s. foldE f s ys)"
  by (induction xs arbitrary: s) (simp_all add: bindE_assoc)

lemma foldE_inv:
  assumes "foldE f s xs = Inr s'" and "I s"
    and "\<And>s x s'. x \<in> set xs \<Longrightarrow> I s \<Longrightarrow> f s x = Inr s' \<Longrightarrow> I s'"
  shows "I s'"
  using assms by (induction xs arbitrary: s) (auto simp: res_simps)

subsection \<open>Histories of messages\<close>

text \<open>
  A message either takes the state to a new one or fails, and a failed message leaves the state
  as it was. \<open>machine\<close> is the contract of a handler with an invariant; what holds of one message
  then holds of every history.
\<close>

definition deliver :: "('s \<Rightarrow> 'm \<Rightarrow> 's res) \<Rightarrow> 's \<Rightarrow> 'm \<Rightarrow> 's" where
  "deliver step s m = (case step s m of Inl _ \<Rightarrow> s | Inr s' \<Rightarrow> s')"

locale machine =
  fixes step :: "'s \<Rightarrow> 'm \<Rightarrow> 's res"
    and inv :: "'s \<Rightarrow> bool"
    and allowed :: "'m \<Rightarrow> bool"
  assumes step_inv: "inv s \<Longrightarrow> allowed m \<Longrightarrow> step s m = Inr s' \<Longrightarrow> inv s'"
begin

lemma deliver_inv: "inv s \<Longrightarrow> allowed m \<Longrightarrow> inv (deliver step s m)"
  using step_inv by (auto simp: deliver_def split: sum.splits)

lemma run_inv: "inv s \<Longrightarrow> list_all allowed ms \<Longrightarrow> inv (foldl (deliver step) s ms)"
  by (induction ms arbitrary: s) (simp_all add: deliver_inv)

end

text \<open>
  A handler that may close a matter and say so: \<open>once_only\<close> is the contract that a matter is
  closed only while it is open and never opens again, so that in every history each matter is
  closed at most once. \<open>closed_in\<close> lists the matters that a history closes.
\<close>

fun closed_in :: "('s \<Rightarrow> 'm \<Rightarrow> ('i option \<times> 's) res) \<Rightarrow> 's \<Rightarrow> 'm list \<Rightarrow> 'i list" where
  "closed_in step s [] = []"
| "closed_in step s (m # ms) =
     (case step s m of
        Inl _ \<Rightarrow> closed_in step s ms
      | Inr (None, s') \<Rightarrow> closed_in step s' ms
      | Inr (Some i, s') \<Rightarrow> i # closed_in step s' ms)"

locale once_only =
  fixes step :: "'s \<Rightarrow> 'm \<Rightarrow> ('i option \<times> 's) res"
    and inv :: "'s \<Rightarrow> bool"
    and allowed :: "'m \<Rightarrow> bool"
    and is_open :: "'s \<Rightarrow> 'i \<Rightarrow> bool"
  assumes once_inv: "inv s \<Longrightarrow> allowed m \<Longrightarrow> step s m = Inr (r, s') \<Longrightarrow> inv s'"
    and stays_closed: "inv s \<Longrightarrow> allowed m \<Longrightarrow> step s m = Inr (r, s') \<Longrightarrow> \<not> is_open s i \<Longrightarrow> \<not> is_open s' i"
    and closes: "inv s \<Longrightarrow> allowed m \<Longrightarrow> step s m = Inr (Some i, s') \<Longrightarrow> is_open s i \<and> \<not> is_open s' i"
begin

lemma closed_once:
  "inv s \<Longrightarrow> list_all allowed ms \<Longrightarrow>
     distinct (closed_in step s ms) \<and> (\<forall>i\<in>set (closed_in step s ms). is_open s i)"
proof (induction ms arbitrary: s)
  case (Cons m ms)
  show ?case
  proof (cases "step s m")
    case (Inr rs)
    obtain r s' where rs: "rs = (r, s')" by fastforce
    have s': "inv s'" using Cons.prems Inr rs once_inv by auto
    have opens: "is_open s i" if "is_open s' i" for i
      using that Cons.prems Inr rs stays_closed [of s m r s' i] by auto
    show ?thesis
      using Cons.IH [OF s'] Cons.prems Inr rs opens closes [of s m] by (cases r) auto
  qed (use Cons in simp)
qed simp

end

subsection \<open>64-bit integers\<close>

text \<open>Go's \<open>int64\<close> addition and subtraction wrap around in two's complement.\<close>

definition i64 :: "int \<Rightarrow> int" where
  "i64 n = (n + 2 ^ 63) mod 2 ^ 64 - 2 ^ 63"

text \<open>Go's conversion of an \<open>int64\<close> to a \<open>uint64\<close>.\<close>

definition u64 :: "int \<Rightarrow> nat" where
  "u64 n = nat (n mod 2 ^ 64)"

lemma i64_id: "- (2 ^ 63) \<le> n \<Longrightarrow> n < 2 ^ 63 \<Longrightarrow> i64 n = n"
  by (simp add: i64_def)

lemma i64_range: "- (2 ^ 63) \<le> i64 n \<and> i64 n < 2 ^ 63"
proof -
  have "0 \<le> (n + 2 ^ 63) mod 2 ^ 64" and "(n + 2 ^ 63) mod 2 ^ 64 < (2 ^ 64 :: int)"
    by simp_all
  then show ?thesis by (simp add: i64_def)
qed

lemma i64_wraps: "i64 (2 ^ 63) = - (2 ^ 63)"
  by (simp add: i64_def)

lemma i64_small: "0 \<le> n \<Longrightarrow> n < 2 ^ 63 \<Longrightarrow> i64 n = n"
  by (rule i64_id) simp_all

text \<open>A running sum that stays below \<open>2 ^ 63\<close> never wraps.\<close>

lemma u64_i64: "0 \<le> n \<Longrightarrow> n < 2 ^ 63 \<Longrightarrow> u64 (i64 n) = nat n"
  by (simp add: i64_small u64_def)

lemma i64_sum:
  "(\<And>x. x \<in> set xs \<Longrightarrow> 0 \<le> f x) \<Longrightarrow> 0 \<le> s \<Longrightarrow> s + (\<Sum>x\<leftarrow>xs. f x) < 2 ^ 63 \<Longrightarrow>
     foldl (\<lambda>s x. i64 (s + f x)) s xs = s + (\<Sum>x\<leftarrow>xs. f x)"
proof (induction xs arbitrary: s)
  case (Cons x xs)
  have "0 \<le> (\<Sum>x\<leftarrow>xs. f x)" using Cons.prems by (intro sum_list_nonneg) auto
  then have "i64 (s + f x) = s + f x" using Cons.prems by (intro i64_small) auto
  then show ?case using Cons by (simp add: add.assoc)
qed simp

subsection \<open>Decimal formatting\<close>

text \<open>\<open>strconv.FormatInt(n, 10)\<close> and \<open>big.Int.String\<close>.\<close>

definition digit :: "nat \<Rightarrow> char" where
  "digit d = char_of (48 + d)"

fun nat_string :: "nat \<Rightarrow> string" where
  "nat_string n = (if n < 10 then [digit n] else nat_string (n div 10) @ [digit (n mod 10)])"

declare nat_string.simps [simp del]

definition int_string :: "int \<Rightarrow> string" where
  "int_string n = (if n < 0 then CHR ''-'' # nat_string (nat (- n)) else nat_string (nat n))"

lemma of_char_digit: "d < 10 \<Longrightarrow> of_char (digit d) = 48 + d"
  by (simp add: digit_def)

lemma digit_inj: "d < 10 \<Longrightarrow> e < 10 \<Longrightarrow> digit d = digit e \<Longrightarrow> d = e"
  by (metis add_left_cancel of_char_digit)

lemma nat_string_nonempty [simp]: "nat_string n \<noteq> []" "[] \<noteq> nat_string n"
  by (subst nat_string.simps, simp)+

lemma nat_string_inj: "nat_string m = nat_string n \<Longrightarrow> m = n"
proof (induction m arbitrary: n rule: nat_string.induct)
  case (1 m)
  show ?case
  proof (cases "m < 10 \<or> n < 10")
    case True
    with "1.prems" show ?thesis
      by (auto simp: nat_string.simps [of m] nat_string.simps [of n]
          split: if_splits dest: digit_inj)
  next
    case False
    with "1.prems" have eq: "nat_string (m div 10) = nat_string (n div 10)"
      and d: "digit (m mod 10) = digit (n mod 10)"
      by (simp_all add: nat_string.simps [of m] nat_string.simps [of n])
    from False have "m div 10 = n div 10"
      using "1.IH" [OF _ eq] by simp
    moreover from d have "m mod 10 = n mod 10"
      by (rule digit_inj [rotated 2]) simp_all
    ultimately show ?thesis
      by (metis div_mult_mod_eq)
  qed
qed

lemma nat_string_eq_iff [simp]: "nat_string m = nat_string n \<longleftrightarrow> m = n"
  by (auto dest: nat_string_inj)

lemma digit_neq: "d < 10 \<Longrightarrow> of_char c < (48::nat) \<or> (57::nat) < of_char c \<Longrightarrow> digit d \<noteq> c"
  using of_char_digit by fastforce

lemma nat_string_chars: "c \<in> set (nat_string n) \<Longrightarrow> \<exists>d<10. c = digit d"
proof (induction n rule: nat_string.induct)
  case (1 n)
  have last: "\<exists>d<10. digit (n mod 10) = digit d"
    by (rule exI [of _ "n mod 10"]) simp
  from 1 last show ?case
    by (subst (asm) (2) nat_string.simps) (auto split: if_splits)
qed

lemma nat_string_no_char:
  "of_char c < (48::nat) \<or> (57::nat) < of_char c \<Longrightarrow> c \<notin> set (nat_string n)"
  using nat_string_chars digit_neq by blast

subsection \<open>Strings\<close>

text \<open>
  \<open>strings.TrimSpace\<close>, \<open>strings.ToLower\<close>, \<open>strings.EqualFold\<close>, \<open>strings.HasPrefix\<close> and
  \<open>strings.Contains\<close> on ASCII strings, which is what the sources pass them (denominations,
  symbols, message type names and bech32 addresses).
\<close>

definition is_space :: "char \<Rightarrow> bool" where
  "is_space c \<longleftrightarrow> of_char c \<in> ({9, 10, 11, 12, 13, 32} :: nat set)"

definition TrimSpace :: "string \<Rightarrow> string" where
  "TrimSpace s = rev (dropWhile is_space (rev (dropWhile is_space s)))"

lemma TrimSpace_Nil: "TrimSpace s = [] \<longleftrightarrow> list_all is_space s"
proof
  assume "TrimSpace s = []"
  then have "\<forall>c\<in>set (dropWhile is_space s). is_space c"
    by (simp add: TrimSpace_def dropWhile_eq_Nil_conv)
  then have "dropWhile is_space s = []"
    using hd_dropWhile [of is_space s] list.set_sel(1) by blast
  then show "list_all is_space s" by (simp add: dropWhile_eq_Nil_conv list_all_iff)
next
  assume "list_all is_space s"
  then have "dropWhile is_space s = []" by (simp add: dropWhile_eq_Nil_conv list_all_iff)
  then show "TrimSpace s = []" unfolding TrimSpace_def by (simp only: rev.simps dropWhile.simps)
qed

definition lower_char :: "char \<Rightarrow> char" where
  "lower_char c = (let n = of_char c :: nat in if 65 \<le> n \<and> n \<le> 90 then char_of (n + 32) else c)"

definition ToLower :: "string \<Rightarrow> string" where
  "ToLower s = map lower_char s"

definition EqualFold :: "string \<Rightarrow> string \<Rightarrow> bool" where
  "EqualFold s t \<longleftrightarrow> ToLower s = ToLower t"

definition HasPrefix :: "string \<Rightarrow> string \<Rightarrow> bool" where
  "HasPrefix s p \<longleftrightarrow> take (length p) s = p"

fun Contains :: "string \<Rightarrow> string \<Rightarrow> bool" where
  "Contains [] sub = (sub = [])"
| "Contains (c # s) sub = (HasPrefix (c # s) sub \<or> Contains s sub)"

lemma EqualFold_refl [simp]: "EqualFold s s"
  by (simp add: EqualFold_def)

lemma EqualFold_sym: "EqualFold s t \<Longrightarrow> EqualFold t s"
  by (simp add: EqualFold_def)

lemma EqualFold_trans: "EqualFold s t \<Longrightarrow> EqualFold t u \<Longrightarrow> EqualFold s u"
  by (simp add: EqualFold_def)

lemma HasPrefix_append [simp]: "HasPrefix (p @ s) p"
  by (simp add: HasPrefix_def)

lemma HasPrefix_Cons [simp]: "HasPrefix (c # s) [d] \<longleftrightarrow> c = d"
  by (auto simp: HasPrefix_def)

text \<open>Two strings around a separator that the first halves do not contain.\<close>

lemma append_sep_inj:
  assumes "s @ c # t = s' @ c # t'" and "c \<notin> set s" and "c \<notin> set s'"
  shows "s = s' \<and> t = t'"
  using assms
proof (induction s arbitrary: s')
  case Nil
  then show ?case by (cases s') auto
next
  case (Cons x s)
  then show ?case by (cases s') auto
qed

subsection \<open>UTF-8\<close>

text \<open>
  \<open>utf8.ValidString\<close>: \<open>utf8_rune\<close> is the number of bytes of the first rune, 0 when it is not a
  valid one. \<open>encoding/json\<close> keeps a string as it is only when it is valid UTF-8.
\<close>

definition utf8_cont :: "nat \<Rightarrow> bool" where
  "utf8_cont b \<longleftrightarrow> 128 \<le> b \<and> b \<le> 191"

definition utf8_second :: "nat \<Rightarrow> nat \<Rightarrow> bool" where
  "utf8_second b c =
     (if b = 224 then 160 \<le> c \<and> c \<le> 191
      else if b = 237 then 128 \<le> c \<and> c \<le> 159
      else if b = 240 then 144 \<le> c \<and> c \<le> 191
      else if b = 244 then 128 \<le> c \<and> c \<le> 143
      else utf8_cont c)"

fun utf8_rune :: "nat list \<Rightarrow> nat" where
  "utf8_rune [] = 0"
| "utf8_rune (b # bs) =
     (if b < 128 then 1
      else if 194 \<le> b \<and> b \<le> 223 \<and> 1 \<le> length bs \<and> utf8_cont (bs ! 0) then 2
      else if 224 \<le> b \<and> b \<le> 239 \<and> 2 \<le> length bs \<and> utf8_second b (bs ! 0) \<and> utf8_cont (bs ! 1) then 3
      else if 240 \<le> b \<and> b \<le> 244 \<and> 3 \<le> length bs \<and> utf8_second b (bs ! 0) \<and> utf8_cont (bs ! 1)
        \<and> utf8_cont (bs ! 2) then 4
      else 0)"

function valid_utf8 :: "string \<Rightarrow> bool" where
  "valid_utf8 s = (if s = [] then True
     else let n = utf8_rune (map of_char s) in
       if n = 0 then False else valid_utf8 (drop n s))"
  by pat_completeness auto
termination
  by (relation "measure length") auto

declare valid_utf8.simps [simp del]

lemma ascii_valid_utf8: "list_all (\<lambda>c. of_char c < (128 :: nat)) s \<Longrightarrow> valid_utf8 s"
proof (induction s)
  case Nil
  then show ?case by (subst valid_utf8.simps) simp
next
  case (Cons c s)
  then show ?case by (subst valid_utf8.simps) simp
qed

section \<open>The key-value store of a module\<close>

text \<open>
  \<open>ctx.KVStore(key)\<close> gives a module its own ordered map from byte strings to values; an iterator
  visits the keys in ascending order. The model keeps the entries as a list sorted by key; the
  value type \<open>'v\<close> is the module's own sum of the messages it marshals into the store.
  \<open>KVStorePrefixIterator(store, p)\<close> visits the keys with prefix \<open>p\<close>, and
  \<open>store.Iterator(p, nil)\<close> all keys from \<open>p\<close> on.
\<close>

type_synonym key = string
type_synonym 'v kv = "(key \<times> 'v) list"

definition kv_get :: "'v kv \<Rightarrow> key \<Rightarrow> 'v option" where
  "kv_get st k = map_of st k"

definition kv_has :: "'v kv \<Rightarrow> key \<Rightarrow> bool" where
  "kv_has st k \<longleftrightarrow> kv_get st k \<noteq> None"

fun kv_set :: "key \<Rightarrow> 'v \<Rightarrow> 'v kv \<Rightarrow> 'v kv" where
  "kv_set k v [] = [(k, v)]"
| "kv_set k v (e # st) =
     (if fst e = k then (k, v) # st
      else if k < fst e then (k, v) # e # st
      else e # kv_set k v st)"

definition kv_delete :: "key \<Rightarrow> 'v kv \<Rightarrow> 'v kv" where
  "kv_delete k st = filter (\<lambda>e. fst e \<noteq> k) st"

definition kv_prefix :: "key \<Rightarrow> 'v kv \<Rightarrow> 'v kv" where
  "kv_prefix p st = filter (\<lambda>e. HasPrefix (fst e) p) st"

definition kv_from :: "key \<Rightarrow> 'v kv \<Rightarrow> 'v kv" where
  "kv_from p st = filter (\<lambda>e. p \<le> fst e) st"

definition kv_ok :: "'v kv \<Rightarrow> bool" where
  "kv_ok st \<longleftrightarrow> sorted_wrt (<) (map fst st)"

subsection \<open>The store's interface\<close>

text \<open>
  The contract the keepers rely on: reads see the last write, other keys are not touched, and
  the entries an iterator visits are the entries that a read finds, in strictly ascending
  order.
\<close>

locale kv_store =
  fixes get :: "'s \<Rightarrow> key \<Rightarrow> 'v option"
    and set_key :: "key \<Rightarrow> 'v \<Rightarrow> 's \<Rightarrow> 's"
    and delete :: "key \<Rightarrow> 's \<Rightarrow> 's"
    and entries :: "'s \<Rightarrow> (key \<times> 'v) list"
    and ok :: "'s \<Rightarrow> bool"
  assumes get_set: "get (set_key k v s) = (get s)(k \<mapsto> v)"
    and get_delete: "get (delete k s) = (get s)(k := None)"
    and ok_set: "ok s \<Longrightarrow> ok (set_key k v s)"
    and ok_delete: "ok s \<Longrightarrow> ok (delete k s)"
    and entries_sorted: "ok s \<Longrightarrow> sorted_wrt (<) (map fst (entries s))"
    and entries_get: "ok s \<Longrightarrow> (k, v) \<in> set (entries s) \<longleftrightarrow> get s k = Some v"
begin

lemma entries_distinct: "ok s \<Longrightarrow> distinct (map fst (entries s))"
  using entries_sorted strict_sorted_iff by blast

text \<open>Two stores with the same entries are read alike, and iterate alike.\<close>

lemma entries_unique:
  assumes "ok s" and "ok t" and "get s = get t"
  shows "entries s = entries t"
proof (rule map_sorted_distinct_set_unique [where f = fst])
  from assms have eq: "set (entries s) = set (entries t)"
    by (auto simp: entries_get)
  show "inj_on fst (set (entries s) \<union> set (entries t))"
  proof (rule inj_onI)
    fix e e' assume "e \<in> set (entries s) \<union> set (entries t)"
      and "e' \<in> set (entries s) \<union> set (entries t)" and "fst e = fst e'"
    with eq have "e \<in> set (entries s)" and "e' \<in> set (entries s)" by simp_all
    with \<open>fst e = fst e'\<close> show "e = e'"
      by (cases e; cases e') (simp add: entries_get [OF assms(1)])
  qed
  show "sorted (map fst (entries s))" "distinct (map fst (entries s))"
    "sorted (map fst (entries t))" "distinct (map fst (entries t))"
    using entries_sorted [OF assms(1)] entries_sorted [OF assms(2)]
    by (simp_all add: strict_sorted_iff)
  show "set (entries s) = set (entries t)" by (rule eq)
qed

lemma dom_get: "ok s \<Longrightarrow> dom (get s) = fst ` set (entries s)"
proof -
  assume "ok s"
  then have "k \<in> dom (get s) \<longleftrightarrow> (\<exists>v. (k, v) \<in> set (entries s))" for k
    by (simp add: entries_get domIff)
  then show ?thesis by force
qed

lemma finite_dom_get: "ok s \<Longrightarrow> finite (dom (get s))"
  by (simp add: dom_get)

text \<open>Writing one key changes a sum over the entries by that key's difference.\<close>

lemma sum_entries:
  fixes f :: "'v \<Rightarrow> int"
  assumes "ok s"
  shows "(\<Sum>e\<leftarrow>entries s. f (snd e)) = (\<Sum>k\<in>dom (get s). f (the (get s k)))"
proof -
  have inj: "inj_on fst (set (entries s))"
    using entries_distinct [OF assms] by (simp add: distinct_map)
  have "(\<Sum>e\<leftarrow>entries s. f (snd e)) = (\<Sum>e\<in>set (entries s). f (snd e))"
    using entries_distinct [OF assms] by (simp add: sum_list_distinct_conv_sum_set distinct_map)
  also have "\<dots> = (\<Sum>e\<in>set (entries s). f (the (get s (fst e))))"
    by (rule sum.cong) (auto simp: entries_get [OF assms])
  also have "\<dots> = (\<Sum>k\<in>fst ` set (entries s). f (the (get s k)))"
    by (simp add: sum.reindex [OF inj])
  finally show ?thesis by (simp only: dom_get [OF assms])
qed

lemma sum_set:
  fixes f :: "'v \<Rightarrow> int"
  assumes "ok s"
  shows "(\<Sum>e\<leftarrow>entries (set_key k v s). f (snd e))
    = (\<Sum>e\<leftarrow>entries s. f (snd e)) + f v - (case get s k of None \<Rightarrow> 0 | Some w \<Rightarrow> f w)"
proof -
  let ?g = "\<lambda>m k. f (the (m k))"
  have fin: "finite (dom (get s) - {k})"
    using finite_dom_get [OF assms] by simp
  have "(\<Sum>e\<leftarrow>entries (set_key k v s). f (snd e)) = (\<Sum>i\<in>insert k (dom (get s)). ?g ((get s)(k \<mapsto> v)) i)"
    by (simp add: sum_entries [OF ok_set [OF assms]] get_set)
  also have "\<dots> = f v + (\<Sum>i\<in>dom (get s) - {k}. ?g ((get s)(k \<mapsto> v)) i)"
    using finite_dom_get [OF assms] by (simp add: sum.insert_remove)
  also have "(\<Sum>i\<in>dom (get s) - {k}. ?g ((get s)(k \<mapsto> v)) i) = (\<Sum>i\<in>dom (get s) - {k}. ?g (get s) i)"
    by (rule sum.cong) auto
  also have "\<dots> = (\<Sum>i\<in>dom (get s). ?g (get s) i) - (case get s k of None \<Rightarrow> 0 | Some w \<Rightarrow> f w)"
    using finite_dom_get [OF assms] by (auto simp: sum_diff1 split: option.splits)
  finally show ?thesis by (simp add: sum_entries [OF assms])
qed

lemma sum_delete:
  fixes f :: "'v \<Rightarrow> int"
  assumes "ok s"
  shows "(\<Sum>e\<leftarrow>entries (delete k s). f (snd e))
    = (\<Sum>e\<leftarrow>entries s. f (snd e)) - (case get s k of None \<Rightarrow> 0 | Some w \<Rightarrow> f w)"
proof -
  let ?g = "\<lambda>m k. f (the (m k))"
  have "(\<Sum>e\<leftarrow>entries (delete k s). f (snd e)) = (\<Sum>i\<in>dom (get s) - {k}. ?g ((get s)(k := None)) i)"
    by (simp add: sum_entries [OF ok_delete [OF assms]] get_delete)
  also have "\<dots> = (\<Sum>i\<in>dom (get s) - {k}. ?g (get s) i)"
    by (rule sum.cong) auto
  also have "\<dots> = (\<Sum>i\<in>dom (get s). ?g (get s) i) - (case get s k of None \<Rightarrow> 0 | Some w \<Rightarrow> f w)"
    using finite_dom_get [OF assms] by (auto simp: sum_diff1 split: option.splits)
  finally show ?thesis by (simp add: sum_entries [OF assms])
qed

end

subsection \<open>The sorted list implements the interface\<close>

lemma kv_get_set: "kv_get (kv_set k v st) = (kv_get st)(k \<mapsto> v)"
  by (induction st) (auto simp: kv_get_def fun_eq_iff)

lemma kv_get_delete: "kv_get (kv_delete k st) = (kv_get st)(k := None)"
  by (induction st) (auto simp: kv_get_def kv_delete_def fun_eq_iff)

lemma kv_set_keys: "set (map fst (kv_set k v st)) = insert k (set (map fst st))"
  by (induction st) auto

lemma kv_ok_set: "kv_ok st \<Longrightarrow> kv_ok (kv_set k v st)"
proof (induction st)
  case Nil
  then show ?case by (simp add: kv_ok_def)
next
  case (Cons e st)
  then have IH: "kv_ok (kv_set k v st)" and lt: "\<forall>x\<in>set (map fst st). fst e < x"
    by (simp_all add: kv_ok_def)
  show ?case
    using Cons.prems IH lt kv_set_keys [of k v st]
    by (auto simp: kv_ok_def not_less_iff_gr_or_eq)
qed

lemma kv_ok_delete: "kv_ok st \<Longrightarrow> kv_ok (kv_delete k st)"
  by (induction st) (auto simp: kv_ok_def kv_delete_def)

lemma kv_ok_Nil [simp]: "kv_ok []"
  by (simp add: kv_ok_def)

interpretation kvs: kv_store kv_get kv_set kv_delete "\<lambda>st. st" kv_ok
proof
  fix st :: "'v kv" and k v
  show "kv_get (kv_set k v st) = (kv_get st)(k \<mapsto> v)" by (rule kv_get_set)
  show "kv_get (kv_delete k st) = (kv_get st)(k := None)" by (rule kv_get_delete)
  show "kv_ok st \<Longrightarrow> kv_ok (kv_set k v st)" by (rule kv_ok_set)
  show "kv_ok st \<Longrightarrow> kv_ok (kv_delete k st)" by (rule kv_ok_delete)
  show "kv_ok st \<Longrightarrow> sorted_wrt (<) (map fst st)" by (simp add: kv_ok_def)
  show "kv_ok st \<Longrightarrow> (k, v) \<in> set st \<longleftrightarrow> kv_get st k = Some v"
    by (auto simp: kv_ok_def kv_get_def strict_sorted_iff map_of_eq_Some_iff)
qed

lemma kv_get_set_same [kv_simps]: "kv_get (kv_set k v st) k = Some v"
  by (simp add: kv_get_set)

lemma kv_get_set_other [kv_simps]: "k' \<noteq> k \<Longrightarrow> kv_get (kv_set k v st) k' = kv_get st k'"
  by (simp add: kv_get_set)

lemma kv_get_delete_same [kv_simps]: "kv_get (kv_delete k st) k = None"
  by (simp add: kv_get_delete)

lemma kv_get_delete_other [kv_simps]: "k' \<noteq> k \<Longrightarrow> kv_get (kv_delete k st) k' = kv_get st k'"
  by (simp add: kv_get_delete)

lemma kv_has_set [kv_simps]: "kv_has (kv_set k v st) k' \<longleftrightarrow> k' = k \<or> kv_has st k'"
  by (simp add: kv_has_def kv_get_set)

lemma kv_has_delete [kv_simps]: "kv_has (kv_delete k st) k' \<longleftrightarrow> k' \<noteq> k \<and> kv_has st k'"
  by (simp add: kv_has_def kv_get_delete)

lemma in_kv_prefix: "kv_ok st \<Longrightarrow> (k, v) \<in> set (kv_prefix p st) \<longleftrightarrow> HasPrefix k p \<and> kv_get st k = Some v"
  by (auto simp: kv_prefix_def kvs.entries_get)

lemma kv_values: "kv_ok st \<Longrightarrow> v \<in> snd ` set st \<longleftrightarrow> (\<exists>k. kv_get st k = Some v)"
  using kvs.entries_get [of st] by (auto simp: image_iff) (metis snd_conv)

lemma kv_eqI:
  assumes "kv_ok st" and "kv_ok st'" and "set st = set st'"
  shows "st = st'"
proof (rule kvs.entries_unique [OF assms(1,2)])
  have "kv_get st k = Some v \<longleftrightarrow> kv_get st' k = Some v" for k v
    using assms kvs.entries_get by metis
  then show "kv_get st = kv_get st'" by (metis ext not_None_eq)
qed

lemma kv_ok_filter: "kv_ok st \<Longrightarrow> kv_ok (filter P st)"
  by (induction st) (auto simp: kv_ok_def)

text \<open>The sum of an integer weight over the values of a store.\<close>

definition kv_sum :: "('v \<Rightarrow> int) \<Rightarrow> 'v kv \<Rightarrow> int" where
  "kv_sum f st = (\<Sum>e\<leftarrow>st. f (snd e))"

lemma kv_sum_set:
  "kv_ok st \<Longrightarrow> kv_sum f (kv_set k v st) = kv_sum f st + f v - (case kv_get st k of None \<Rightarrow> 0 | Some w \<Rightarrow> f w)"
  unfolding kv_sum_def by (rule kvs.sum_set)

lemma kv_sum_delete:
  "kv_ok st \<Longrightarrow> kv_sum f (kv_delete k st) = kv_sum f st - (case kv_get st k of None \<Rightarrow> 0 | Some w \<Rightarrow> f w)"
  unfolding kv_sum_def by (rule kvs.sum_delete)

text \<open>
  Storing a list of values under keys that the values determine. Storing all values of a store,
  in any order, restores it.
\<close>

definition kv_puts :: "('v \<Rightarrow> key) \<Rightarrow> 'v kv \<Rightarrow> 'v list \<Rightarrow> 'v kv" where
  "kv_puts f st vs = foldl (\<lambda>t v. kv_set (f v) v t) st vs"

lemma kv_puts_simps [simp]:
  "kv_puts f st [] = st"
  "kv_puts f st (v # vs) = kv_puts f (kv_set (f v) v st) vs"
  "kv_puts f st (vs @ ws) = kv_puts f (kv_puts f st vs) ws"
  by (simp_all add: kv_puts_def)

lemma kv_puts_get:
  assumes "\<forall>v\<in>set vs. kv_get st (f v) = Some v"
  shows "kv_get (kv_puts f t vs) k = (if k \<in> f ` set vs then kv_get st k else kv_get t k)"
  using assms by (induction vs rule: rev_induct) (auto simp: kv_get_set)

lemma kv_puts_other: "k \<notin> f ` set vs \<Longrightarrow> kv_get (kv_puts f t vs) k = kv_get t k"
  by (induction vs rule: rev_induct) (auto simp: kv_get_set)

lemma kv_puts_member:
  assumes "v \<in> set vs" and "\<And>w. w \<in> set vs \<Longrightarrow> f w = f v \<Longrightarrow> w = v"
  shows "kv_get (kv_puts f t vs) (f v) = Some v"
  using assms
proof (induction vs rule: rev_induct)
  case (snoc w vs)
  then show ?case by (cases "f w = f v") (auto simp: kv_get_set)
qed simp

lemma kv_puts_ok: "kv_ok t \<Longrightarrow> kv_ok (kv_puts f t vs)"
  by (induction vs arbitrary: t) (simp_all add: kv_ok_set)

lemma kv_puts_restore:
  assumes "kv_ok st" and keys: "\<And>k v. kv_get st k = Some v \<Longrightarrow> f v = k" and "set vs = snd ` set st"
  shows "kv_puts f [] vs = st"
proof (rule kvs.entries_unique)
  have mem: "v \<in> set vs \<longleftrightarrow> (\<exists>k. kv_get st k = Some v)" for v
    using assms(3) by (force simp: kvs.entries_get [OF assms(1), symmetric])
  show "kv_ok (kv_puts f [] vs)" and "kv_ok st"
    using assms(1) by (simp_all add: kv_puts_ok)
  show "kv_get (kv_puts f [] vs) = kv_get st"
  proof
    fix k
    have "kv_get st k = None" if "k \<notin> f ` set vs"
      using that mem keys by (metis image_eqI not_None_eq)
    then show "kv_get (kv_puts f [] vs) k = kv_get st k"
      using mem keys by (subst kv_puts_get [where st = st]) (auto simp: kv_get_def)
  qed
qed

end
