(* ===== verification/Types.thy ===== *)
theory Types
  imports Prelude
begin

section \<open>The data of the modules\<close>

text \<open>
  The messages that the modules keep in their stores, with the fields of the protobuf types, and
  for each module the sum of the types it marshals into its store. A pointer field is an
  option. \<open>sdk.Uint\<close> is a \<^typ>\<open>nat\<close>, \<open>sdk.Int\<close> and \<open>int64\<close> are \<^typ>\<open>int\<close>, an address is its
  bytes, its bech32 form a string.
\<close>

type_synonym addr = string

record coin =
  coin_denom :: string
  coin_amount :: int

type_synonym coins = "coin list"

definition AmountOf :: "coins \<Rightarrow> string \<Rightarrow> int" where
  "AmountOf cs d = (\<Sum>c\<leftarrow>cs. if coin_denom c = d then coin_amount c else 0)"

lemma AmountOf_Nil [simp]: "AmountOf [] d = 0"
  by (simp add: AmountOf_def)

lemma AmountOf_Cons [simp]:
  "AmountOf (c # cs) d = (if coin_denom c = d then coin_amount c else 0) + AmountOf cs d"
  by (simp add: AmountOf_def)

subsection \<open>Token registry\<close>

datatype permission = Permission_UNSPECIFIED | Permission_CLP | Permission_IBCEXPORT | Permission_IBCIMPORT

record registry_entry =
  Decimals :: int
  Denom :: string
  BaseDenom :: string
  Path :: string
  IbcChannelId :: string
  IbcCounterpartyChannelId :: string
  DisplayName :: string
  DisplaySymbol :: string
  Network :: string
  Address :: string
  ExternalSymbol :: string
  TransferLimit :: string
  Permissions :: "permission list"
  UnitDenom :: string
  IbcCounterpartyDenom :: string
  IbcCounterpartyChainId :: string

type_synonym registry = "registry_entry list"

datatype registry_value = RV_Registry registry | RV_Admin addr

subsection \<open>Continuous liquidity pools\<close>

record asset =
  Symbol :: string

record pool =
  ExternalAsset :: "asset option"
  NativeAssetBalance :: nat
  ExternalAssetBalance :: nat
  PoolUnits :: nat

record liquidity_provider =
  lp_Asset :: "asset option"
  LiquidityProviderUnits :: nat
  LiquidityProviderAddress :: string

datatype clp_value = V_Pool pool | V_LP liquidity_provider | V_WhiteList "string list"

subsection \<open>Oracle\<close>

datatype status_text =
  STATUS_TEXT_UNSPECIFIED | STATUS_TEXT_PENDING | STATUS_TEXT_SUCCESS | STATUS_TEXT_FAILED

record status =
  Text :: status_text
  FinalClaim :: string

record claim =
  claim_Id :: string
  claim_ValidatorAddress :: string
  claim_Content :: string

record db_prophecy =
  db_Id :: string
  db_Status :: status
  db_ClaimValidators :: string
  db_ValidatorClaims :: string

datatype oracle_value = OV_WhiteList "string list" | OV_Admin addr | OV_Prophecy db_prophecy

subsection \<open>Ethereum bridge\<close>

datatype claim_type = CLAIM_TYPE_UNSPECIFIED | CLAIM_TYPE_BURN | CLAIM_TYPE_LOCK

record oracle_claim_content =
  occ_CosmosReceiver :: addr
  occ_Amount :: int
  occ_Symbol :: string
  occ_TokenContractAddress :: string
  occ_ClaimType :: claim_type

datatype bridge_value = BV_PeggyTokens "string list" | BV_CethReceiver string | BV_Blacklisted

subsection \<open>Dispensation\<close>

datatype distribution_type =
    DISTRIBUTION_TYPE_UNSPECIFIED | DISTRIBUTION_TYPE_AIRDROP
  | DISTRIBUTION_TYPE_VALIDATOR_SUBSIDY | DISTRIBUTION_TYPE_LIQUIDITY_MINING

datatype distribution_status =
    DISTRIBUTION_STATUS_UNSPECIFIED | DISTRIBUTION_STATUS_PENDING
  | DISTRIBUTION_STATUS_COMPLETED | DISTRIBUTION_STATUS_FAILED

record distribution_record =
  dr_DistributionStatus :: distribution_status
  dr_DistributionType :: distribution_type
  dr_DistributionName :: string
  dr_RecipientAddress :: string
  dr_Coins :: coins
  dr_DistributionStartHeight :: int
  dr_DistributionCompletedHeight :: int
  dr_AuthorizedRunner :: string

record distribution =
  d_DistributionType :: distribution_type
  d_DistributionName :: string
  d_Runner :: string

record user_claim =
  UserAddress :: string
  UserClaimType :: distribution_type
  UserClaimTime :: int

datatype dispensation_value = DV_Record distribution_record | DV_Distribution distribution | DV_Claim user_claim

end
