(* ===== verification/Lib.thy ===== *)
theory Lib
  imports Types
begin

section \<open>The libraries the node is built on\<close>

text \<open>
  The Cosmos SDK, go-ethereum and the JSON encoding of their types are not part of the
  repository. Every function of theirs that the sources call is a field of the record
  \<open>lib\<close>, which the definitions of the model take as their first argument \<open>L\<close>. The state those
  libraries keep (bank balances, accounts, staking) is the opaque type \<open>'x\<close>. What the node
  relies on is stated below as locales over \<open>L\<close>, one per package, each law the documented
  behaviour of the call; the properties that need a law name its locale as a hypothesis.

  Data: \<open>sdk.Uint\<close> is a \<^typ>\<open>nat\<close> and \<open>sdk.Int\<close> an \<^typ>\<open>int\<close> (their operations panic when the
  result leaves the documented range); \<open>sdk.Dec\<close> is its integer mantissa, the value times
  \<open>10 ^ 18\<close>; an address is its bytes.
\<close>

type_synonym dec = int

abbreviation one_dec :: int where
  "one_dec \<equiv> 10 ^ 18"

record validator =
  val_operator :: addr
  val_operator_address :: string
  val_power :: int
  val_bonded :: bool

record page_request =
  page_key :: string
  page_offset :: nat
  page_limit :: nat

record page_response =
  page_next_key :: string
  page_total :: nat

record 'x lib =
  Uint_Add :: "nat \<Rightarrow> nat \<Rightarrow> nat res"
  Uint_Sub :: "nat \<Rightarrow> nat \<Rightarrow> nat res"
  Uint_Mul :: "nat \<Rightarrow> nat \<Rightarrow> nat res"
  Uint_Quo :: "nat \<Rightarrow> nat \<Rightarrow> nat res"
  NewUintFromBigInt :: "int \<Rightarrow> nat res"
  Int_Add :: "int \<Rightarrow> int \<Rightarrow> int res"
  NewIntFromString :: "string \<Rightarrow> int option"
  NewDec :: "int \<Rightarrow> dec"
  NewDecFromStr :: "string \<Rightarrow> dec res"
  Dec_Add :: "dec \<Rightarrow> dec \<Rightarrow> dec res"
  Dec_Sub :: "dec \<Rightarrow> dec \<Rightarrow> dec res"
  Dec_Mul :: "dec \<Rightarrow> dec \<Rightarrow> dec res"
  Dec_Quo :: "dec \<Rightarrow> dec \<Rightarrow> dec res"
  Dec_MulTruncate :: "dec \<Rightarrow> dec \<Rightarrow> dec res"
  Dec_QuoTruncate :: "dec \<Rightarrow> dec \<Rightarrow> dec res"
  Dec_Abs :: "dec \<Rightarrow> dec"
  Dec_Power :: "dec \<Rightarrow> nat \<Rightarrow> dec res"
  Dec_RoundInt :: "dec \<Rightarrow> int res"
  Dec_TruncateInt :: "dec \<Rightarrow> int res"
  ValidateDenom :: "string \<Rightarrow> bool"
  NewCoin :: "string \<Rightarrow> int \<Rightarrow> coin res"
  Coin_IsValid :: "coin \<Rightarrow> bool"
  NewCoins :: "coin list \<Rightarrow> coins res"
  Coin_Add :: "coin \<Rightarrow> coin \<Rightarrow> coin res"
  Coin_Sub :: "coin \<Rightarrow> coin \<Rightarrow> coin res"
  Coins_Add :: "coins \<Rightarrow> coins \<Rightarrow> coins res"
  Coins_IsValid :: "coins \<Rightarrow> bool"
  Coins_IsAllPositive :: "coins \<Rightarrow> bool"
  AccAddressFromBech32 :: "string \<Rightarrow> addr res"
  AccAddress_String :: "addr \<Rightarrow> string"
  ValAddressFromBech32 :: "string \<Rightarrow> addr res"
  ValAddress_String :: "addr \<Rightarrow> string"
  NewModuleAddress :: "string \<Rightarrow> addr"
  GetBalance :: "'x \<Rightarrow> addr \<Rightarrow> string \<Rightarrow> int"
  HasBalance :: "'x \<Rightarrow> addr \<Rightarrow> coin \<Rightarrow> bool"
  SendCoins :: "'x \<Rightarrow> addr \<Rightarrow> addr \<Rightarrow> coins \<Rightarrow> 'x \<times> error option"
  SendCoinsFromModuleToAccount :: "'x \<Rightarrow> string \<Rightarrow> addr \<Rightarrow> coins \<Rightarrow> 'x \<times> error option"
  SendCoinsFromAccountToModule :: "'x \<Rightarrow> addr \<Rightarrow> string \<Rightarrow> coins \<Rightarrow> 'x \<times> error option"
  MintCoins :: "'x \<Rightarrow> string \<Rightarrow> coins \<Rightarrow> 'x \<times> error option"
  BurnCoins :: "'x \<Rightarrow> string \<Rightarrow> coins \<Rightarrow> 'x \<times> error option"
  GetAccount :: "'x \<Rightarrow> addr \<Rightarrow> nat option"
  GetValidator :: "'x \<Rightarrow> addr \<Rightarrow> validator option"
  GetBondedValidatorsByPower :: "'x \<Rightarrow> validator list"
  Paginate :: "page_request \<Rightarrow> key list \<Rightarrow> (key list \<times> page_response) res"
  FilteredPaginate :: "page_request \<Rightarrow> (key \<times> bool) list \<Rightarrow> (key list \<times> page_response) res"
  IsHexAddress :: "string \<Rightarrow> bool"
  HexToAddress :: "string \<Rightarrow> string"
  EthAddress_String :: "string \<Rightarrow> string"
  MarshalClaimValidators :: "addr list kv \<Rightarrow> string res"
  UnmarshalClaimValidators :: "string \<Rightarrow> addr list kv res"
  MarshalValidatorClaims :: "string kv \<Rightarrow> string res"
  UnmarshalValidatorClaims :: "string \<Rightarrow> string kv res"
  MarshalClaimContent :: "oracle_claim_content \<Rightarrow> string res"
  UnmarshalClaimContent :: "string \<Rightarrow> oracle_claim_content res"
  Pool_String :: "pool \<Rightarrow> string"
  LiquidityProvider_String :: "liquidity_provider \<Rightarrow> string"
  TimestampProto :: "int \<Rightarrow> int res"
  Timestamp_String :: "int \<Rightarrow> string"
  Coins_String :: "coins \<Rightarrow> string"

subsection \<open>Unsigned and signed integers\<close>

text \<open>\<open>sdk.Uint\<close> covers 0 to \<open>2 ^ 256 - 1\<close>, \<open>sdk.Int\<close> 255 bits and a sign; both panic outside.\<close>

locale uint_laws =
  fixes L :: "'x lib"
  assumes uint_add: "Uint_Add L a b = (if a + b < 2 ^ 256 then Inr (a + b) else Inl Panic)"
    and uint_sub: "Uint_Sub L a b = (if b \<le> a then Inr (a - b) else Inl Panic)"
    and uint_mul: "Uint_Mul L a b = (if a * b < 2 ^ 256 then Inr (a * b) else Inl Panic)"
    and uint_quo: "Uint_Quo L a b = (if b = 0 then Inl Panic else Inr (a div b))"
    and uint_of_int: "NewUintFromBigInt L n = (if 0 \<le> n \<and> n < 2 ^ 256 then Inr (nat n) else Inl Panic)"
    and int_add: "Int_Add L m n = (if \<bar>m + n\<bar> < 2 ^ 255 then Inr (m + n) else Inl Panic)"
    and int_of_string: "NewIntFromString L (int_string n) = (if \<bar>n\<bar> < 2 ^ 255 then Some n else None)"
begin

lemma uint_add_Inr [res_simps]: "Uint_Add L a b = Inr c \<longleftrightarrow> c = a + b \<and> a + b < 2 ^ 256"
  by (auto simp: uint_add)

lemma uint_sub_Inr [res_simps]: "Uint_Sub L a b = Inr c \<longleftrightarrow> b \<le> a \<and> c = a - b"
  by (auto simp: uint_sub)

lemma uint_mul_Inr [res_simps]: "Uint_Mul L a b = Inr c \<longleftrightarrow> c = a * b \<and> a * b < 2 ^ 256"
  by (auto simp: uint_mul)

lemma uint_of_int_Inr [res_simps]:
  "NewUintFromBigInt L n = Inr m \<longleftrightarrow> 0 \<le> n \<and> n < 2 ^ 256 \<and> m = nat n"
  by (auto simp: uint_of_int)

lemma int_of_nat_string: "NewIntFromString L (nat_string n) = Some m \<Longrightarrow> m = int n"
  using int_of_string [of "int n"] by (simp add: int_string_def split: if_splits)

end

subsection \<open>Decimals\<close>

text \<open>
  \<open>sdk.Dec\<close> has 18 decimal places. Sums and differences are exact; a product is rounded to the
  nearest last place, a quotient to within one last place, and both are exact where the exact
  result has at most 18 places. An operation panics only on overflow, which cannot happen while
  the mantissa of the exact result is below \<open>2 ^ 255\<close>, and on division by zero.
\<close>

locale dec_laws =
  fixes L :: "'x lib"
  assumes dec_of_int: "NewDec L n = n * one_dec"
    and dec_of_str: "NewDecFromStr L (int_string n) = Inr d \<Longrightarrow> d = n * one_dec"
    and dec_of_str_defined: "\<bar>n * one_dec\<bar> < 2 ^ 255 \<Longrightarrow> \<exists>d. NewDecFromStr L (int_string n) = Inr d"
    and dec_add: "Dec_Add L a b = Inr c \<Longrightarrow> c = a + b"
    and dec_add_defined: "\<bar>a + b\<bar> < 2 ^ 255 \<Longrightarrow> \<exists>c. Dec_Add L a b = Inr c"
    and dec_sub: "Dec_Sub L a b = Inr c \<Longrightarrow> c = a - b"
    and dec_sub_defined: "\<bar>a - b\<bar> < 2 ^ 255 \<Longrightarrow> \<exists>c. Dec_Sub L a b = Inr c"
    and dec_mul: "Dec_Mul L a b = Inr c \<Longrightarrow> 2 * \<bar>c * one_dec - a * b\<bar> \<le> one_dec"
    and dec_mul_defined: "\<bar>a * b\<bar> < 2 ^ 255 * one_dec \<Longrightarrow> \<exists>c. Dec_Mul L a b = Inr c"
    and dec_quo: "Dec_Quo L a b = Inr c \<Longrightarrow> \<bar>c * b - a * one_dec\<bar> < \<bar>b\<bar>"
    and dec_quo_zero: "Dec_Quo L a 0 = Inl Panic"
    and dec_quo_defined: "b \<noteq> 0 \<Longrightarrow> \<bar>a * one_dec\<bar> < 2 ^ 255 * \<bar>b\<bar> \<Longrightarrow> \<exists>c. Dec_Quo L a b = Inr c"
    and dec_abs: "Dec_Abs L a = \<bar>a\<bar>"
    and dec_power: "Dec_Power L (n * one_dec) k = Inr c \<Longrightarrow> c = n ^ k * one_dec"
    and dec_power_defined: "\<bar>n ^ k * one_dec\<bar> < 2 ^ 255 \<Longrightarrow> \<exists>c. Dec_Power L (n * one_dec) k = Inr c"
    and dec_round: "Dec_RoundInt L a = Inr r \<Longrightarrow> 2 * \<bar>r * one_dec - a\<bar> \<le> one_dec"
    and dec_round_defined: "\<bar>a\<bar> < 2 ^ 255 \<Longrightarrow> \<exists>r. Dec_RoundInt L a = Inr r"
    and dec_mul_trunc: "0 \<le> a \<Longrightarrow> 0 \<le> b \<Longrightarrow> Dec_MulTruncate L a b = Inr c \<Longrightarrow> c = a * b div one_dec"
    and dec_mul_trunc_defined: "\<bar>a * b\<bar> < 2 ^ 255 * one_dec \<Longrightarrow> \<exists>c. Dec_MulTruncate L a b = Inr c"
    and dec_quo_trunc: "0 \<le> a \<Longrightarrow> 0 < b \<Longrightarrow> Dec_QuoTruncate L a b = Inr c \<Longrightarrow> c = a * one_dec div b"
    and dec_trunc: "0 \<le> a \<Longrightarrow> Dec_TruncateInt L a = Inr r \<Longrightarrow> r = a div one_dec"
    and dec_trunc_defined: "\<bar>a\<bar> < 2 ^ 255 \<Longrightarrow> \<exists>r. Dec_TruncateInt L a = Inr r"
begin

lemma dec_of_nat_str: "NewDecFromStr L (nat_string n) = Inr d \<Longrightarrow> d = int n * one_dec"
  using dec_of_str [of "int n" d] by (simp add: int_string_def)

lemma dec_mul_exact:
  assumes "Dec_Mul L a b = Inr c" and "a * b = q * one_dec"
  shows "c = q"
proof -
  have "2 * \<bar>(c - q) * one_dec\<bar> \<le> one_dec"
    using dec_mul [OF assms(1)] assms(2) by (simp add: algebra_simps)
  then have "\<bar>c - q\<bar> * one_dec < 1 * one_dec"
    by (simp add: abs_mult)
  then have "\<bar>c - q\<bar> < 1"
    by (rule mult_right_less_imp_less) simp
  then show ?thesis by simp
qed

lemma dec_quo_exact:
  assumes "Dec_Quo L a b = Inr c" and "a * one_dec = q * b"
  shows "c = q"
proof -
  have "\<bar>(c - q) * b\<bar> < \<bar>b\<bar>"
    using dec_quo [OF assms(1)] assms(2) by (simp add: algebra_simps)
  then have "\<bar>c - q\<bar> * \<bar>b\<bar> < 1 * \<bar>b\<bar>"
    by (simp add: abs_mult)
  then have "\<bar>c - q\<bar> < 1"
    by (rule mult_right_less_imp_less) simp
  then show ?thesis by simp
qed

lemma dec_mul_nonneg:
  assumes "Dec_Mul L a b = Inr c" and "0 \<le> a" and "0 \<le> b"
  shows "0 \<le> c"
proof -
  have "0 \<le> a * b" using assms by simp
  with dec_mul [OF assms(1)] show ?thesis by (simp add: abs_if split: if_splits)
qed

lemma dec_quo_nonneg:
  assumes "Dec_Quo L a b = Inr c" and "0 \<le> a" and "0 < b"
  shows "0 \<le> c"
proof -
  have "- b < c * b - a * one_dec"
    using dec_quo [OF assms(1)] assms(3) by (simp add: abs_if split: if_splits)
  moreover have "0 \<le> a * one_dec" using assms(2) by simp
  ultimately have "(- 1) * b < c * b" by linarith
  then show ?thesis using assms(3) by (simp only: mult_less_cancel_right_pos)
qed

lemma dec_round_exact: "Dec_RoundInt L (q * one_dec) = Inr r \<Longrightarrow> r = q"
  using dec_round [of "q * one_dec" r] by (simp add: abs_if split: if_splits)

lemma dec_round_nonneg: "Dec_RoundInt L a = Inr r \<Longrightarrow> 0 \<le> a \<Longrightarrow> 0 \<le> r"
  using dec_round [of a r] by (simp add: abs_if split: if_splits)

end

subsection \<open>Coins\<close>

text \<open>
  \<open>NewCoin\<close> panics on an invalid denomination or a negative amount. \<open>NewCoins\<close> sorts, drops zero
  coins and panics on duplicates; \<open>Coins.Add\<close> adds per denomination. \<open>Coin.Add\<close> and \<open>Coin.Sub\<close>
  panic on different denominations, \<open>Coin.Sub\<close> also on a negative result. No valid
  denomination contains an underscore.
\<close>

locale coin_laws =
  fixes L :: "'x lib"
  assumes new_coin: "NewCoin L d a =
      (if ValidateDenom L d \<and> 0 \<le> a then Inr \<lparr>coin_denom = d, coin_amount = a\<rparr> else Inl Panic)"
    and new_coins_amount: "NewCoins L cs = Inr cs' \<Longrightarrow> AmountOf cs' d = AmountOf cs d"
    and new_coins_defined:
      "distinct (map coin_denom cs) \<Longrightarrow> (\<And>c. c \<in> set cs \<Longrightarrow> ValidateDenom L (coin_denom c) \<and> 0 \<le> coin_amount c)
        \<Longrightarrow> \<exists>cs'. NewCoins L cs = Inr cs'"
    and new_coins_dup:
      "\<not> distinct (map coin_denom (filter (\<lambda>c. coin_amount c \<noteq> 0) cs)) \<Longrightarrow> NewCoins L cs = Inl Panic"
    and coin_is_valid: "Coin_IsValid L c \<longleftrightarrow> ValidateDenom L (coin_denom c) \<and> 0 \<le> coin_amount c"
    and coins_add_amount: "Coins_Add L cs ds = Inr es \<Longrightarrow> AmountOf es d = AmountOf cs d + AmountOf ds d"
    and coin_add: "Coin_Add L c c' = Inr e \<Longrightarrow>
        coin_denom c = coin_denom c' \<and> e = c\<lparr>coin_amount := coin_amount c + coin_amount c'\<rparr>"
    and coin_sub: "Coin_Sub L c c' = Inr e \<Longrightarrow> coin_denom c = coin_denom c' \<and> coin_amount c' \<le> coin_amount c
        \<and> e = c\<lparr>coin_amount := coin_amount c - coin_amount c'\<rparr>"
    and coins_all_positive: "Coins_IsAllPositive L cs \<longleftrightarrow> cs \<noteq> [] \<and> list_all (\<lambda>c. 0 < coin_amount c) cs"
    and valid_denom_chars: "ValidateDenom L d \<Longrightarrow> CHR ''_'' \<notin> set d"
begin

lemma new_coin_Inr [res_simps]:
  "NewCoin L d a = Inr c \<longleftrightarrow> ValidateDenom L d \<and> 0 \<le> a \<and> c = \<lparr>coin_denom = d, coin_amount = a\<rparr>"
  by (auto simp: new_coin)

lemma positive_amount: "Coins_IsAllPositive L cs \<Longrightarrow> 0 \<le> AmountOf cs d"
  unfolding coins_all_positive AmountOf_def
  by (rule sum_list_nonneg) (auto simp: list_all_iff intro: less_imp_le)

end

subsection \<open>Bank\<close>

text \<open>
  A successful transfer moves exactly the named amounts and nothing else; a module's account is
  the account at its module address. \<open>MintCoins\<close> and \<open>BurnCoins\<close> change the module's own
  account only. A module's transfer of coins that it holds is refused, if at all, before anything
  is moved; nothing else is assumed of a transfer that fails.
\<close>

definition moved :: "coins \<Rightarrow> addr \<Rightarrow> addr \<Rightarrow> addr \<Rightarrow> string \<Rightarrow> int" where
  "moved cs from to a d =
     (if a = to then AmountOf cs d else 0) - (if a = from then AmountOf cs d else 0)"

locale bank_laws =
  fixes L :: "'x lib"
  assumes balance_nonneg: "0 \<le> GetBalance L x a d"
    and has_balance: "HasBalance L x a c \<longleftrightarrow> coin_amount c \<le> GetBalance L x a (coin_denom c)"
    and send: "SendCoins L x f t cs = (x', None) \<Longrightarrow> GetBalance L x' a d = GetBalance L x a d + moved cs f t a d"
    and send_from_module: "SendCoinsFromModuleToAccount L x m t cs = (x', None) \<Longrightarrow>
        GetBalance L x' a d = GetBalance L x a d + moved cs (NewModuleAddress L m) t a d"
    and send_to_module: "SendCoinsFromAccountToModule L x f m cs = (x', None) \<Longrightarrow>
        GetBalance L x' a d = GetBalance L x a d + moved cs f (NewModuleAddress L m) a d"
    and send_refused: "(\<And>d. AmountOf cs d \<le> GetBalance L x (NewModuleAddress L m) d) \<Longrightarrow>
        SendCoinsFromModuleToAccount L x m t cs = (x', Some e) \<Longrightarrow> x' = x"
    and mint: "MintCoins L x m cs = (x', None) \<Longrightarrow>
        GetBalance L x' a d = GetBalance L x a d + (if a = NewModuleAddress L m then AmountOf cs d else 0)"
    and burn: "BurnCoins L x m cs = (x', None) \<Longrightarrow>
        GetBalance L x' a d = GetBalance L x a d - (if a = NewModuleAddress L m then AmountOf cs d else 0)"

subsection \<open>Addresses\<close>

text \<open>
  The bech32 form of a decoded address decodes to it again (a string in capitals does too). It
  consists of ASCII characters. A blank string is no address.
\<close>

locale addr_laws =
  fixes L :: "'x lib"
  assumes acc_of_string: "AccAddressFromBech32 L s = Inr a \<Longrightarrow>
      a \<noteq> [] \<and> AccAddressFromBech32 L (AccAddress_String L a) = Inr a"
    and acc_string_empty: "AccAddress_String L [] = []"
    and acc_blank: "TrimSpace s = [] \<Longrightarrow> AccAddressFromBech32 L s \<noteq> Inr a"
    and val_of_string: "ValAddressFromBech32 L s = Inr a \<Longrightarrow>
      a \<noteq> [] \<and> ValAddressFromBech32 L (ValAddress_String L a) = Inr a"
    and val_blank: "TrimSpace s = [] \<Longrightarrow> ValAddressFromBech32 L s \<noteq> Inr a"
    and acc_string_ascii: "AccAddressFromBech32 L s = Inr a \<Longrightarrow> valid_utf8 (AccAddress_String L a)"
    and val_string_ascii: "ValAddressFromBech32 L s = Inr a \<Longrightarrow> valid_utf8 (ValAddress_String L a)"

subsection \<open>Pagination\<close>

text \<open>
  \<open>Paginate\<close> takes the keys of a store, \<open>FilteredPaginate\<close> the keys with the filter's verdict;
  both return the keys of the page. A page holds matching entries only, and all of them when
  it starts at the beginning and the limit, an unsigned 64-bit number, does not cut it.
\<close>

locale page_laws =
  fixes L :: "'x lib"
  assumes page_subset: "Paginate L r ks = Inr (ps, res) \<Longrightarrow> set ps \<subseteq> set ks"
    and page_all: "page_key r = [] \<Longrightarrow> page_offset r = 0 \<Longrightarrow> length ks \<le> page_limit r \<Longrightarrow>
        0 < page_limit r \<Longrightarrow> page_limit r < 2 ^ 64 \<Longrightarrow> \<exists>res. Paginate L r ks = Inr (ks, res)"
    and filtered_subset: "FilteredPaginate L r hs = Inr (ps, res) \<Longrightarrow> set ps \<subseteq> {k. (k, True) \<in> set hs}"
    and filtered_all: "page_key r = [] \<Longrightarrow> page_offset r = 0 \<Longrightarrow> length hs \<le> page_limit r \<Longrightarrow>
        0 < page_limit r \<Longrightarrow> page_limit r + 1 < 2 ^ 64 \<Longrightarrow> \<exists>res. FilteredPaginate L r hs = Inr (map fst (filter snd hs), res)"

subsection \<open>JSON\<close>

text \<open>
  Decoding what was encoded gives it back, for maps and contents whose strings are valid UTF-8
  and whose addresses and amounts have a textual form that parses: \<open>json\<close> replaces other bytes.
  The output of \<open>Marshal\<close> is valid UTF-8 itself, and never empty.
\<close>

definition val_ok :: "'x lib \<Rightarrow> addr \<Rightarrow> bool" where
  "val_ok L a \<longleftrightarrow> ValAddressFromBech32 L (ValAddress_String L a) = Inr a"

definition content_ok :: "'x lib \<Rightarrow> oracle_claim_content \<Rightarrow> bool" where
  "content_ok L c \<longleftrightarrow>
     AccAddressFromBech32 L (AccAddress_String L (occ_CosmosReceiver c)) = Inr (occ_CosmosReceiver c) \<and>
     \<bar>occ_Amount c\<bar> < 2 ^ 255 \<and> valid_utf8 (occ_Symbol c) \<and>
     HexToAddress L (EthAddress_String L (occ_TokenContractAddress c)) = occ_TokenContractAddress c"

locale json_laws =
  fixes L :: "'x lib"
  assumes json_validators: "kv_ok m \<Longrightarrow> list_all (\<lambda>e. valid_utf8 (fst e) \<and> list_all (val_ok L) (snd e)) m \<Longrightarrow>
      MarshalClaimValidators L m = Inr s \<Longrightarrow> UnmarshalClaimValidators L s = Inr m"
    and json_claims: "kv_ok m' \<Longrightarrow> list_all (\<lambda>e. valid_utf8 (fst e) \<and> valid_utf8 (snd e)) m' \<Longrightarrow>
      MarshalValidatorClaims L m' = Inr s \<Longrightarrow> UnmarshalValidatorClaims L s = Inr m'"
    and json_content: "content_ok L c \<Longrightarrow> MarshalClaimContent L c = Inr s \<Longrightarrow> UnmarshalClaimContent L s = Inr c"
    and json_content_text: "MarshalClaimContent L c = Inr s \<Longrightarrow> s \<noteq> [] \<and> valid_utf8 s"

locale lib_laws = uint_laws L + dec_laws L + coin_laws L + bank_laws L + addr_laws L + page_laws L + json_laws L
  for L :: "'x lib"

end
