(* ===== verification/State.thy ===== *)
theory State
  imports Lib
begin

section \<open>The context of a transaction\<close>

text \<open>
  \<open>sdk.Context\<close> as the handlers see it: the block's height and time, the events emitted so far,
  the store of each module, and the state of the SDK's own modules (\<open>ext\<close>), which only the
  functions of the library read and write. A handler returns the new context or an error; on an
  error or a panic the transaction runner discards every write, so no context is returned.
\<close>

datatype event = Event (event_type: string) (event_attributes: "(string \<times> string) list")

record 'x ctx =
  ext :: 'x
  BlockHeight :: int
  BlockTime :: int
  events :: "event list"
  registry_store :: "registry_value kv"
  clp_store :: "clp_value kv"
  clp_params :: nat
  oracle_store :: "oracle_value kv"
  bridge_store :: "bridge_value kv"
  dispensation_store :: "dispensation_value kv"

definition EmitEvents :: "event list \<Rightarrow> 'x ctx \<Rightarrow> 'x ctx" where
  "EmitEvents es c = c\<lparr>events := events c @ es\<rparr>"

definition message_event :: "string \<Rightarrow> string \<Rightarrow> event" where
  "message_event m sender = Event ''message'' [(''module'', m), (''sender'', sender)]"

definition height_attr :: "'x ctx \<Rightarrow> string \<times> string" where
  "height_attr c = (''height'', int_string (BlockHeight c))"

text \<open>A call of the bank: its effect on the SDK's state, or its error.\<close>

definition bank :: "('x \<Rightarrow> 'x \<times> error option) \<Rightarrow> 'x ctx \<Rightarrow> 'x ctx res" where
  "bank f c = bindE (okE (f (ext c))) (\<lambda>x. Inr (c\<lparr>ext := x\<rparr>))"

lemma bank_eq_Inr [res_simps]:
  "bank f c = Inr c' \<longleftrightarrow> (\<exists>x. f (ext c) = (x, None) \<and> c' = c\<lparr>ext := x\<rparr>)"
  by (auto simp: bank_def res_simps)

lemma EmitEvents_simps [simp]:
  "ext (EmitEvents es c) = ext c"
  "BlockHeight (EmitEvents es c) = BlockHeight c"
  "BlockTime (EmitEvents es c) = BlockTime c"
  "events (EmitEvents es c) = events c @ es"
  "registry_store (EmitEvents es c) = registry_store c"
  "clp_store (EmitEvents es c) = clp_store c"
  "clp_params (EmitEvents es c) = clp_params c"
  "oracle_store (EmitEvents es c) = oracle_store c"
  "bridge_store (EmitEvents es c) = bridge_store c"
  "dispensation_store (EmitEvents es c) = dispensation_store c"
  by (simp_all add: EmitEvents_def)

end
