(* ===== verification/RefLib.thy ===== *)
theory RefLib
  imports Lib "HOL-Library.Multiset"
begin

section \<open>A reference instance of the libraries\<close>

text \<open>
  The laws of \<open>Lib\<close> are satisfiable: this theory gives each function of the record an
  executable definition that follows the SDK's documentation (banker's rounding of decimals,
  sanitised coin lists, a bank that refuses to overdraw) and proves every law of it. The
  witnesses of the development run the handlers on this instance.
\<close>

named_theorems ref_eval \<open>equations that evaluate the model on the reference instance\<close>

subsection \<open>Decimal parsing\<close>

definition ref_is_digit :: "char \<Rightarrow> bool" where
  "ref_is_digit c \<longleftrightarrow> 48 \<le> (of_char c :: nat) \<and> (of_char c :: nat) \<le> 57"

definition ref_nat :: "string \<Rightarrow> nat" where
  "ref_nat s = foldl (\<lambda>n c. n * 10 + (of_char c - 48)) 0 s"

definition ref_parse_nat :: "string \<Rightarrow> nat option" where
  "ref_parse_nat s = (if s \<noteq> [] \<and> list_all ref_is_digit s then Some (ref_nat s) else None)"

definition ref_parse_int :: "string \<Rightarrow> int option" where
  "ref_parse_int s =
     (if s \<noteq> [] \<and> hd s = CHR ''-'' then map_option (\<lambda>n. - int n) (ref_parse_nat (tl s))
      else map_option int (ref_parse_nat s))"

lemma ref_is_digit_digit: "d < 10 \<Longrightarrow> ref_is_digit (digit d)"
  by (simp add: ref_is_digit_def of_char_digit)

lemma ref_digits: "list_all ref_is_digit (nat_string n)"
  using nat_string_chars ref_is_digit_digit by (fastforce simp: list_all_iff)

lemma ref_nat_nat_string: "ref_nat (nat_string n) = n"
proof (induction n rule: nat_string.induct)
  case (1 n)
  then show ?case
    by (subst nat_string.simps) (simp add: ref_nat_def of_char_digit)
qed

lemma ref_parse_nat_string [simp]: "ref_parse_nat (nat_string n) = Some n"
  by (simp add: ref_parse_nat_def ref_digits ref_nat_nat_string)

lemma ref_parse_int_string [simp]: "ref_parse_int (int_string n) = Some n"
proof (cases "n < 0")
  case False
  have "CHR ''-'' \<notin> set (nat_string (nat n))"
    by (rule nat_string_no_char) simp
  then have "hd (nat_string (nat n)) \<noteq> CHR ''-''"
    using hd_in_set [OF nat_string_nonempty(1)] by metis
  with False show ?thesis
    by (simp add: ref_parse_int_def int_string_def)
qed (simp add: ref_parse_int_def int_string_def)

subsection \<open>Decimals\<close>

definition ref_chop_nonneg :: "int \<Rightarrow> int" where
  "ref_chop_nonneg x = (let q = x div one_dec; r = x mod one_dec in
     if 2 * r < one_dec then q else if 2 * r > one_dec then q + 1
     else if even q then q else q + 1)"

definition ref_chop :: "int \<Rightarrow> int" where
  "ref_chop x = (if x < 0 then - ref_chop_nonneg (- x) else ref_chop_nonneg x)"

definition ref_tdiv :: "int \<Rightarrow> int \<Rightarrow> int" where
  "ref_tdiv a b = sgn a * sgn b * (\<bar>a\<bar> div \<bar>b\<bar>)"

definition ref_range :: "int \<Rightarrow> int res" where
  "ref_range x = (if \<bar>x\<bar> < 2 ^ 315 then Inr x else Inl Panic)"

fun ref_power :: "int \<Rightarrow> nat \<Rightarrow> int" where
  "ref_power d 0 = one_dec"
| "ref_power d (Suc k) = ref_chop (d * ref_power d k)"

definition ref_quo :: "int \<Rightarrow> int \<Rightarrow> int res" where
  "ref_quo a b = (if b = 0 then Inl Panic
     else ref_range (ref_chop (ref_tdiv (a * one_dec * one_dec) b)))"

lemma ref_chop_nonneg_near: "2 * \<bar>ref_chop_nonneg x * one_dec - x\<bar> \<le> one_dec"
proof -
  define q r where "q = x div one_dec" and "r = x mod one_dec"
  have x: "x = q * one_dec + r" and r: "0 \<le> r" "r < one_dec"
    by (simp_all add: q_def r_def)
  have "ref_chop_nonneg x = q \<and> 2 * r \<le> one_dec \<or> ref_chop_nonneg x = q + 1 \<and> one_dec \<le> 2 * r"
    unfolding ref_chop_nonneg_def Let_def q_def [symmetric] r_def [symmetric] by auto
  then show ?thesis
  proof
    assume "ref_chop_nonneg x = q \<and> 2 * r \<le> one_dec"
    then show ?thesis using r by (simp add: x abs_if)
  next
    assume "ref_chop_nonneg x = q + 1 \<and> one_dec \<le> 2 * r"
    then have "ref_chop_nonneg x * one_dec - x = one_dec - r" and "one_dec \<le> 2 * r"
      by (simp_all add: x)
    then show ?thesis using r by simp
  qed
qed

lemma ref_chop_near: "2 * \<bar>ref_chop x * one_dec - x\<bar> \<le> one_dec"
  using ref_chop_nonneg_near [of x] ref_chop_nonneg_near [of "- x"]
  by (auto simp: ref_chop_def abs_if split: if_splits)

lemma ref_chop_exact [simp]: "ref_chop (q * one_dec) = q"
  using ref_chop_near [of "q * one_dec"] by (simp add: abs_if split: if_splits)

lemma ref_chop_bound: "\<bar>x\<bar> < 2 ^ 255 * one_dec \<Longrightarrow> \<bar>ref_chop x\<bar> < 2 ^ 315"
  using ref_chop_near [of x] by (simp add: abs_if split: if_splits)

lemma ref_chop_bound': "\<bar>x\<bar> < 2 ^ 256 * one_dec \<Longrightarrow> \<bar>ref_chop x\<bar> < 2 ^ 315"
  using ref_chop_near [of x] by (simp add: abs_if split: if_splits)

lemma ref_tdiv_near: "b \<noteq> 0 \<Longrightarrow> \<bar>ref_tdiv a b * b - a\<bar> < \<bar>b\<bar>"
proof -
  assume "b \<noteq> 0"
  define t where "t = \<bar>a\<bar> div \<bar>b\<bar> * \<bar>b\<bar>"
  have eq: "ref_tdiv a b * b = sgn a * t"
    by (simp add: ref_tdiv_def t_def abs_sgn mult.commute mult.left_commute)
  have "\<bar>a\<bar> - t = \<bar>a\<bar> mod \<bar>b\<bar>"
    by (simp add: t_def minus_div_mult_eq_mod)
  moreover have "0 \<le> \<bar>a\<bar> mod \<bar>b\<bar>" "\<bar>a\<bar> mod \<bar>b\<bar> < \<bar>b\<bar>"
    using \<open>b \<noteq> 0\<close> by simp_all
  ultimately have "0 \<le> \<bar>a\<bar> - t" and "\<bar>a\<bar> - t < \<bar>b\<bar>"
    by simp_all
  moreover have "\<bar>sgn a * t - a\<bar> = \<bar>t - \<bar>a\<bar>\<bar>" if "a \<noteq> 0"
    using that by (auto simp: sgn_if abs_if)
  ultimately show ?thesis
    unfolding eq using \<open>b \<noteq> 0\<close> by (cases "a = 0") simp_all
qed

lemma ref_quo_near:
  assumes "b \<noteq> 0"
  shows "\<bar>ref_chop (ref_tdiv (a * one_dec * one_dec) b) * b - a * one_dec\<bar> < \<bar>b\<bar>"
proof -
  define q where "q = ref_tdiv (a * one_dec * one_dec) b"
  define c where "c = ref_chop q"
  have 1: "\<bar>q * b - a * one_dec * one_dec\<bar> < \<bar>b\<bar>"
    unfolding q_def using assms by (rule ref_tdiv_near)
  have "2 * \<bar>c * one_dec - q\<bar> \<le> one_dec"
    unfolding c_def by (rule ref_chop_near)
  then have "2 * \<bar>c * one_dec - q\<bar> * \<bar>b\<bar> \<le> one_dec * \<bar>b\<bar>"
    by (rule mult_right_mono) simp
  then have 2: "2 * \<bar>c * one_dec * b - q * b\<bar> \<le> one_dec * \<bar>b\<bar>"
    by (simp add: abs_mult [symmetric] algebra_simps)
  have "\<bar>c * one_dec * b - a * one_dec * one_dec\<bar>
    \<le> \<bar>c * one_dec * b - q * b\<bar> + \<bar>q * b - a * one_dec * one_dec\<bar>"
    by linarith
  with 1 2 have "\<bar>c * one_dec * b - a * one_dec * one_dec\<bar> < one_dec * \<bar>b\<bar>"
    by simp
  moreover have "c * one_dec * b - a * one_dec * one_dec = one_dec * (c * b - a * one_dec)"
    by (simp add: algebra_simps)
  ultimately have "one_dec * \<bar>c * b - a * one_dec\<bar> < one_dec * \<bar>b\<bar>"
    by (simp add: abs_mult)
  then show ?thesis
    unfolding c_def q_def by simp
qed

lemma ref_power_int: "ref_power (n * one_dec) k = n ^ k * one_dec"
proof (induction k)
  case (Suc k)
  have "n * one_dec * (n ^ k * one_dec) = (n ^ Suc k * one_dec) * one_dec"
    by simp
  with Suc show ?case by (simp only: ref_power.simps ref_chop_exact)
qed simp

subsection \<open>Coins\<close>

definition ref_denom_char :: "char \<Rightarrow> bool" where
  "ref_denom_char c = (let n = of_char c :: nat in
     97 \<le> n \<and> n \<le> 122 \<or> 65 \<le> n \<and> n \<le> 90 \<or> 47 \<le> n \<and> n \<le> 57)"

definition ref_valid_denom :: "string \<Rightarrow> bool" where
  "ref_valid_denom d \<longleftrightarrow> 3 \<le> length d \<and> length d \<le> 128 \<and> list_all ref_denom_char d"

definition ref_coin_ok :: "coin \<Rightarrow> bool" where
  "ref_coin_ok c \<longleftrightarrow> ref_valid_denom (coin_denom c) \<and> 0 \<le> coin_amount c"

definition ref_new_coins :: "coin list \<Rightarrow> coins res" where
  "ref_new_coins cs = (let ds = sort_key coin_denom (filter (\<lambda>c. coin_amount c \<noteq> 0) cs) in
     if distinct (map coin_denom ds) \<and> list_all ref_coin_ok ds then Inr ds else Inl Panic)"

fun ref_add_coin :: "coin \<Rightarrow> coins \<Rightarrow> coins" where
  "ref_add_coin c [] = (if coin_amount c = 0 then [] else [c])"
| "ref_add_coin c (e # cs) =
     (if coin_denom c = coin_denom e then
        (if coin_amount c + coin_amount e = 0 then cs
         else e\<lparr>coin_amount := coin_amount e + coin_amount c\<rparr> # cs)
      else if coin_denom c < coin_denom e then
        (if coin_amount c = 0 then e # cs else c # e # cs)
      else e # ref_add_coin c cs)"

definition ref_coins_valid :: "coins \<Rightarrow> bool" where
  "ref_coins_valid cs \<longleftrightarrow> sorted_wrt (<) (map coin_denom cs) \<and>
     list_all (\<lambda>c. ref_valid_denom (coin_denom c) \<and> 0 < coin_amount c) cs"

lemma AmountOf_mset: "mset cs = mset ds \<Longrightarrow> AmountOf cs d = AmountOf ds d"
proof -
  let ?f = "\<lambda>c. if coin_denom c = d then coin_amount c else 0"
  assume "mset cs = mset ds"
  then have "sum_mset (image_mset ?f (mset cs)) = sum_mset (image_mset ?f (mset ds))"
    by (rule arg_cong)
  then show ?thesis
    by (simp only: AmountOf_def mset_map [symmetric] sum_mset_sum_list)
qed

lemma AmountOf_filter_nonzero: "AmountOf (filter (\<lambda>c. coin_amount c \<noteq> 0) cs) d = AmountOf cs d"
  by (induction cs) auto

lemma AmountOf_sort_key [simp]: "AmountOf (sort_key f cs) d = AmountOf cs d"
  by (rule AmountOf_mset) (rule mset_sort)

lemma ref_new_coins_amount: "ref_new_coins cs = Inr ds \<Longrightarrow> AmountOf ds d = AmountOf cs d"
  by (auto simp: ref_new_coins_def Let_def AmountOf_filter_nonzero split: if_splits)

lemma distinct_map_sort_key: "distinct (map f (sort_key g xs)) \<longleftrightarrow> distinct (map f xs)"
  by (rule mset_eq_imp_distinct_iff) simp

lemma ref_add_coin_amount:
  "AmountOf (ref_add_coin c cs) d = AmountOf cs d + (if coin_denom c = d then coin_amount c else 0)"
  by (induction cs) auto

lemma ref_add_coins_amount: "AmountOf (fold ref_add_coin ds cs) d = AmountOf cs d + AmountOf ds d"
  by (induction ds arbitrary: cs) (simp_all add: ref_add_coin_amount)

lemma ref_denom_no_underscore: "ref_valid_denom d \<Longrightarrow> CHR ''_'' \<notin> set d"
  by (auto simp: ref_valid_denom_def list_all_iff ref_denom_char_def Let_def)

subsection \<open>Bank and staking\<close>

record ref_state =
  ref_bank :: "((addr \<times> string) \<times> nat) list"
  ref_validators :: "validator list"

definition ref_bal :: "ref_state \<Rightarrow> addr \<Rightarrow> string \<Rightarrow> nat" where
  "ref_bal x a d = (case map_of (ref_bank x) (a, d) of None \<Rightarrow> 0 | Some n \<Rightarrow> n)"

definition ref_put :: "addr \<Rightarrow> string \<Rightarrow> nat \<Rightarrow> ref_state \<Rightarrow> ref_state" where
  "ref_put a d n x = x\<lparr>ref_bank := ((a, d), n) # filter (\<lambda>e. fst e \<noteq> (a, d)) (ref_bank x)\<rparr>"

fun ref_debit :: "addr \<Rightarrow> coins \<Rightarrow> ref_state \<Rightarrow> ref_state option" where
  "ref_debit a [] x = Some x"
| "ref_debit a (c # cs) x =
     (if 0 \<le> coin_amount c \<and> coin_amount c \<le> int (ref_bal x a (coin_denom c))
      then ref_debit a cs (ref_put a (coin_denom c) (ref_bal x a (coin_denom c) - nat (coin_amount c)) x)
      else None)"

fun ref_credit :: "addr \<Rightarrow> coins \<Rightarrow> ref_state \<Rightarrow> ref_state option" where
  "ref_credit a [] x = Some x"
| "ref_credit a (c # cs) x =
     (if 0 \<le> coin_amount c
      then ref_credit a cs (ref_put a (coin_denom c) (ref_bal x a (coin_denom c) + nat (coin_amount c)) x)
      else None)"

definition ref_outcome :: "ref_state \<Rightarrow> ref_state option \<Rightarrow> ref_state \<times> error option" where
  "ref_outcome x r = (case r of None \<Rightarrow> (x, Some (ErrGo ''insufficient funds'')) | Some x' \<Rightarrow> (x', None))"

definition ref_send :: "ref_state \<Rightarrow> addr \<Rightarrow> addr \<Rightarrow> coins \<Rightarrow> ref_state \<times> error option" where
  "ref_send x f t cs = ref_outcome x (Option.bind (ref_debit f cs x) (ref_credit t cs))"

definition ref_module :: "string \<Rightarrow> addr" where
  "ref_module m = ''module/'' @ m"

lemma map_of_filter_key:
  "map_of (filter (\<lambda>e. fst e \<noteq> k) xs) k' = (if k' = k then None else map_of xs k')"
  by (induction xs) auto

lemma ref_bal_put [simp]: "ref_bal (ref_put a d n x) b e = (if a = b \<and> d = e then n else ref_bal x b e)"
  by (auto simp: ref_bal_def ref_put_def map_of_filter_key)

lemma ref_debit_bal:
  "ref_debit a cs x = Some x' \<Longrightarrow>
     int (ref_bal x' b d) = int (ref_bal x b d) - (if b = a then AmountOf cs d else 0)"
  by (induction cs arbitrary: x) (auto split: if_splits)

lemma ref_credit_bal:
  "ref_credit a cs x = Some x' \<Longrightarrow>
     int (ref_bal x' b d) = int (ref_bal x b d) + (if b = a then AmountOf cs d else 0)"
  by (induction cs arbitrary: x) (auto split: if_splits)

lemma ref_outcome_None [simp]: "ref_outcome x r = (x', None) \<longleftrightarrow> r = Some x'"
  by (auto simp: ref_outcome_def split: option.splits)

lemma ref_outcome_Some: "ref_outcome x r = (x', Some e) \<Longrightarrow> x' = x"
  by (auto simp: ref_outcome_def split: option.splits)

lemma ref_send_bal:
  assumes "ref_send x f t cs = (x', None)"
  shows "int (ref_bal x' a d) = int (ref_bal x a d) + moved cs f t a d"
proof -
  obtain y where "ref_debit f cs x = Some y" and "ref_credit t cs y = Some x'"
    using assms by (auto simp: ref_send_def bind_eq_Some_conv)
  then show ?thesis
    using ref_debit_bal [of f cs x y a d] ref_credit_bal [of t cs y x' a d]
    by (simp add: moved_def)
qed

subsection \<open>Encodings\<close>

text \<open>Length-prefixed strings stand in for JSON.\<close>

definition ref_enc_hd :: "nat \<Rightarrow> string" where
  "ref_enc_hd n = nat_string n @ '':''"

definition ref_dec_hd :: "string \<Rightarrow> (nat \<times> string) option" where
  "ref_dec_hd t = Option.bind (ref_parse_nat (takeWhile (\<lambda>c. c \<noteq> CHR '':'') t))
     (\<lambda>n. Some (n, drop 1 (dropWhile (\<lambda>c. c \<noteq> CHR '':'') t)))"

definition ref_enc_str :: "string \<Rightarrow> string" where
  "ref_enc_str s = ref_enc_hd (length s) @ s"

definition ref_dec_str :: "string \<Rightarrow> (string \<times> string) option" where
  "ref_dec_str t = Option.bind (ref_dec_hd t) (\<lambda>(n, r). Some (take n r, drop n r))"

fun ref_dec_n :: "(string \<Rightarrow> ('a \<times> string) option) \<Rightarrow> nat \<Rightarrow> string \<Rightarrow> ('a list \<times> string) option" where
  "ref_dec_n dec 0 t = Some ([], t)"
| "ref_dec_n dec (Suc n) t = Option.bind (dec t) (\<lambda>(x, r).
     Option.bind (ref_dec_n dec n r) (\<lambda>(xs, r'). Some (x # xs, r')))"

definition ref_enc_list :: "('a \<Rightarrow> string) \<Rightarrow> 'a list \<Rightarrow> string" where
  "ref_enc_list enc xs = ref_enc_hd (length xs) @ concat (map enc xs)"

definition ref_dec_list :: "(string \<Rightarrow> ('a \<times> string) option) \<Rightarrow> string \<Rightarrow> ('a list \<times> string) option" where
  "ref_dec_list dec t = Option.bind (ref_dec_hd t) (\<lambda>(n, r). ref_dec_n dec n r)"

definition ref_enc_pair :: "('a \<Rightarrow> string) \<Rightarrow> ('b \<Rightarrow> string) \<Rightarrow> 'a \<times> 'b \<Rightarrow> string" where
  "ref_enc_pair f g p = f (fst p) @ g (snd p)"

definition ref_dec_pair ::
  "(string \<Rightarrow> ('a \<times> string) option) \<Rightarrow> (string \<Rightarrow> ('b \<times> string) option) \<Rightarrow> string \<Rightarrow> (('a \<times> 'b) \<times> string) option" where
  "ref_dec_pair f g t = Option.bind (f t) (\<lambda>(x, r). Option.bind (g r) (\<lambda>(y, r'). Some ((x, y), r')))"

lemma ref_dec_hd [simp]: "ref_dec_hd (ref_enc_hd n @ r) = Some (n, r)"
proof -
  have "CHR '':'' \<notin> set (nat_string n)"
    by (rule nat_string_no_char) simp
  then have "\<forall>c\<in>set (nat_string n). c \<noteq> CHR '':''" by metis
  then show ?thesis
    by (simp add: ref_dec_hd_def ref_enc_hd_def takeWhile_append dropWhile_append)
qed

lemma ref_dec_str [simp]: "ref_dec_str (ref_enc_str s @ r) = Some (s, r)"
  by (simp add: ref_dec_str_def ref_enc_str_def)

lemma ref_dec_list:
  assumes "\<And>x r. dec (enc x @ r) = Some (x, r)"
  shows "ref_dec_list dec (ref_enc_list enc xs @ r) = Some (xs, r)"
proof -
  have "ref_dec_n dec (length xs) (concat (map enc xs) @ r) = Some (xs, r)"
    by (induction xs) (simp_all add: assms)
  then show ?thesis by (simp add: ref_dec_list_def ref_enc_list_def)
qed

lemma ref_dec_pair:
  assumes "\<And>x r. f (f' x @ r) = Some (x, r)" and "\<And>y r. g (g' y @ r) = Some (y, r)"
  shows "ref_dec_pair f g (ref_enc_pair f' g' p @ r) = Some (p, r)"
  by (simp add: ref_dec_pair_def ref_enc_pair_def assms)

definition ref_run :: "(string \<Rightarrow> ('a \<times> string) option) \<Rightarrow> string \<Rightarrow> 'a res" where
  "ref_run dec t = (case dec t of None \<Rightarrow> Inl (ErrGo ''cannot decode'') | Some (x, _) \<Rightarrow> Inr x)"

lemma ref_run: "dec t = Some (x, r) \<Longrightarrow> ref_run dec t = Inr x"
  by (simp add: ref_run_def)

abbreviation ref_enc_validators :: "addr list kv \<Rightarrow> string" where
  "ref_enc_validators \<equiv> ref_enc_list (ref_enc_pair ref_enc_str (ref_enc_list ref_enc_str))"

abbreviation ref_dec_validators :: "string \<Rightarrow> (addr list kv \<times> string) option" where
  "ref_dec_validators \<equiv> ref_dec_list (ref_dec_pair ref_dec_str (ref_dec_list ref_dec_str))"

abbreviation ref_enc_claims :: "string kv \<Rightarrow> string" where
  "ref_enc_claims \<equiv> ref_enc_list (ref_enc_pair ref_enc_str ref_enc_str)"

abbreviation ref_dec_claims :: "string \<Rightarrow> (string kv \<times> string) option" where
  "ref_dec_claims \<equiv> ref_dec_list (ref_dec_pair ref_dec_str ref_dec_str)"

lemma ref_validators: "ref_run ref_dec_validators (ref_enc_validators m) = Inr m"
  using ref_dec_list [OF ref_dec_pair [OF ref_dec_str ref_dec_list [OF ref_dec_str]], of m "[]"]
  by (simp add: ref_run)

lemma ref_claims: "ref_run ref_dec_claims (ref_enc_claims m) = Inr m"
  using ref_dec_list [OF ref_dec_pair [OF ref_dec_str ref_dec_str], of m "[]"]
  by (simp add: ref_run)

definition ref_enc_content :: "oracle_claim_content \<Rightarrow> string" where
  "ref_enc_content c =
     ref_enc_str (occ_CosmosReceiver c) @ ref_enc_str (int_string (occ_Amount c)) @
     ref_enc_str (occ_Symbol c) @ ref_enc_str (occ_TokenContractAddress c) @
     (case occ_ClaimType c of CLAIM_TYPE_UNSPECIFIED \<Rightarrow> ''0'' | CLAIM_TYPE_BURN \<Rightarrow> ''1'' | CLAIM_TYPE_LOCK \<Rightarrow> ''2'')"

definition ref_dec_content :: "string \<Rightarrow> (oracle_claim_content \<times> string) option" where
  "ref_dec_content t =
     Option.bind (ref_dec_str t) (\<lambda>(receiver, t).
     Option.bind (ref_dec_str t) (\<lambda>(n, t).
     Option.bind (ref_parse_int n) (\<lambda>amount.
     Option.bind (ref_dec_str t) (\<lambda>(symbol, t).
     Option.bind (ref_dec_str t) (\<lambda>(token, t).
     Some (\<lparr>occ_CosmosReceiver = receiver, occ_Amount = amount, occ_Symbol = symbol,
            occ_TokenContractAddress = token,
            occ_ClaimType = (if t = ''1'' then CLAIM_TYPE_BURN else if t = ''2'' then CLAIM_TYPE_LOCK
              else CLAIM_TYPE_UNSPECIFIED)\<rparr>, []))))))"

lemma ref_enc_content_nonempty [simp]: "ref_enc_content c \<noteq> []"
  by (simp add: ref_enc_content_def ref_enc_str_def ref_enc_hd_def)

lemma ref_content: "ref_run ref_dec_content (ref_enc_content c) = Inr c"
  by (cases "occ_ClaimType c") (simp_all add: ref_run_def ref_dec_content_def ref_enc_content_def)

subsection \<open>Addresses and pages\<close>

definition ref_bech :: "string \<Rightarrow> addr \<Rightarrow> string" where
  "ref_bech p a = (if a = [] then [] else p @ a)"

definition ref_unbech :: "string \<Rightarrow> string \<Rightarrow> addr res" where
  "ref_unbech p s = (if HasPrefix s p \<and> length p < length s \<and> list_all (\<lambda>c. of_char c < (128 :: nat)) s then Inr (drop (length p) s)
     else Inl (ErrGo ''decoding bech32 failed''))"

lemma ref_unbech_blank: "list_all is_space s \<Longrightarrow> ref_unbech (CHR ''s'' # p) s \<noteq> Inr a"
  by (cases s) (auto simp: ref_unbech_def HasPrefix_def is_space_def)

lemma ref_unbech_Nil [simp]: "ref_unbech p [] \<noteq> Inr a"
  by (simp add: ref_unbech_def)

lemma HasPrefix_drop: "HasPrefix s p \<Longrightarrow> p @ drop (length p) s = s"
  unfolding HasPrefix_def by (metis append_take_drop_id)

lemma ref_unbech:
  assumes "ref_unbech p s = Inr a"
  shows "a \<noteq> []" and "ref_unbech p (ref_bech p a) = Inr a" and "valid_utf8 (ref_bech p a)"
proof -
  from assms have s: "p @ a = s" and a: "a \<noteq> []" and p: "HasPrefix s p"
    and asc: "list_all (\<lambda>c. of_char c < (128 :: nat)) s"
    by (auto simp: ref_unbech_def HasPrefix_drop split: if_splits)
  show "a \<noteq> []" by (rule a)
  show "ref_unbech p (ref_bech p a) = Inr a"
    using a asc by (auto simp: ref_unbech_def ref_bech_def s [symmetric])
  show "valid_utf8 (ref_bech p a)"
    using a asc by (simp add: ref_bech_def s ascii_valid_utf8)
qed

definition ref_page :: "page_request \<Rightarrow> key list \<Rightarrow> (key list \<times> page_response) res" where
  "ref_page r ks = (let limit = (if page_limit r = 0 then 100 else page_limit r);
      from = (if page_key r = [] then drop (page_offset r) ks else dropWhile (\<lambda>k. k \<noteq> page_key r) ks) in
     if page_key r \<noteq> [] \<and> page_offset r > 0 then Inl (ErrGo ''invalid request'')
     else Inr (take limit from,
       \<lparr>page_next_key = (case drop limit from of [] \<Rightarrow> [] | k # _ \<Rightarrow> k),
        page_total = (if page_limit r = 0 then length ks else 0)\<rparr>))"

lemma ref_page_subset: "ref_page r ks = Inr (ps, res) \<Longrightarrow> set ps \<subseteq> set ks"
  by (auto simp: ref_page_def Let_def split: if_splits dest!: in_set_takeD in_set_dropD set_dropWhileD)

definition ref_is_hex_char :: "char \<Rightarrow> bool" where
  "ref_is_hex_char c = (let n = of_char c :: nat in
     48 \<le> n \<and> n \<le> 57 \<or> 97 \<le> n \<and> n \<le> 102 \<or> 65 \<le> n \<and> n \<le> 70)"

definition ref_is_hex :: "string \<Rightarrow> bool" where
  "ref_is_hex s = (let t = (if HasPrefix s ''0x'' then drop 2 s else s) in
     length t = 40 \<and> list_all ref_is_hex_char t)"

subsection \<open>The instance\<close>

definition ref_lib :: "ref_state lib" where
  "ref_lib = \<lparr>
     Uint_Add = (\<lambda>a b. if a + b < 2 ^ 256 then Inr (a + b) else Inl Panic),
     Uint_Sub = (\<lambda>a b. if b \<le> a then Inr (a - b) else Inl Panic),
     Uint_Mul = (\<lambda>a b. if a * b < 2 ^ 256 then Inr (a * b) else Inl Panic),
     Uint_Quo = (\<lambda>a b. if b = 0 then Inl Panic else Inr (a div b)),
     NewUintFromBigInt = (\<lambda>n. if 0 \<le> n \<and> n < 2 ^ 256 then Inr (nat n) else Inl Panic),
     Int_Add = (\<lambda>m n. if \<bar>m + n\<bar> < 2 ^ 255 then Inr (m + n) else Inl Panic),
     NewIntFromString = (\<lambda>s. Option.bind (ref_parse_int s) (\<lambda>n. if \<bar>n\<bar> < 2 ^ 255 then Some n else None)),
     NewDec = (\<lambda>n. n * one_dec),
     NewDecFromStr = (\<lambda>s. case ref_parse_int s of
        Some n \<Rightarrow> (if \<bar>n * one_dec\<bar> < 2 ^ 255 then Inr (n * one_dec) else Inl (ErrGo ''decimal out of range''))
      | None \<Rightarrow> Inl (ErrGo ''invalid decimal'')),
     Dec_Add = (\<lambda>a b. ref_range (a + b)),
     Dec_Sub = (\<lambda>a b. ref_range (a - b)),
     Dec_Mul = (\<lambda>a b. ref_range (ref_chop (a * b))),
     Dec_Quo = ref_quo,
     Dec_MulTruncate = (\<lambda>a b. ref_range (ref_tdiv (a * b) one_dec)),
     Dec_QuoTruncate = (\<lambda>a b. if b = 0 then Inl Panic else ref_range (ref_tdiv (a * one_dec) b)),
     Dec_Abs = abs,
     Dec_Power = (\<lambda>d k. ref_range (ref_power d k)),
     Dec_RoundInt = (\<lambda>a. if \<bar>ref_chop a\<bar> < 2 ^ 255 then Inr (ref_chop a) else Inl Panic),
     Dec_TruncateInt = (\<lambda>a. if \<bar>ref_tdiv a one_dec\<bar> < 2 ^ 255 then Inr (ref_tdiv a one_dec) else Inl Panic),
     ValidateDenom = ref_valid_denom,
     NewCoin = (\<lambda>d a. if ref_valid_denom d \<and> 0 \<le> a then Inr \<lparr>coin_denom = d, coin_amount = a\<rparr> else Inl Panic),
     Coin_IsValid = ref_coin_ok,
     NewCoins = ref_new_coins,
     Coin_Add = (\<lambda>c d. if coin_denom c = coin_denom d
        then Inr (c\<lparr>coin_amount := coin_amount c + coin_amount d\<rparr>) else Inl Panic),
     Coin_Sub = (\<lambda>c d. if coin_denom c = coin_denom d \<and> coin_amount d \<le> coin_amount c
        then Inr (c\<lparr>coin_amount := coin_amount c - coin_amount d\<rparr>) else Inl Panic),
     Coins_Add = (\<lambda>cs ds. Inr (fold ref_add_coin ds cs)),
     Coins_IsValid = ref_coins_valid,
     Coins_IsAllPositive = (\<lambda>cs. cs \<noteq> [] \<and> list_all (\<lambda>c. 0 < coin_amount c) cs),
     AccAddressFromBech32 = ref_unbech ''sif1'',
     AccAddress_String = ref_bech ''sif1'',
     ValAddressFromBech32 = ref_unbech ''sifvaloper1'',
     ValAddress_String = ref_bech ''sifvaloper1'',
     NewModuleAddress = ref_module,
     GetBalance = (\<lambda>x a d. int (ref_bal x a d)),
     HasBalance = (\<lambda>x a c. coin_amount c \<le> int (ref_bal x a (coin_denom c))),
     SendCoins = ref_send,
     SendCoinsFromModuleToAccount = (\<lambda>x m t cs. ref_send x (ref_module m) t cs),
     SendCoinsFromAccountToModule = (\<lambda>x f m cs. ref_send x f (ref_module m) cs),
     MintCoins = (\<lambda>x m cs. ref_outcome x (ref_credit (ref_module m) cs x)),
     BurnCoins = (\<lambda>x m cs. ref_outcome x (ref_debit (ref_module m) cs x)),
     GetAccount = (\<lambda>x a. Some 0),
     GetValidator = (\<lambda>x a. List.find (\<lambda>v. val_operator v = a) (ref_validators x)),
     GetBondedValidatorsByPower = (\<lambda>x. filter val_bonded (ref_validators x)),
     Paginate = ref_page,
     FilteredPaginate = (\<lambda>r hs. ref_page r (map fst (filter snd hs))),
     IsHexAddress = ref_is_hex,
     HexToAddress = ToLower,
     EthAddress_String = id,
     MarshalClaimValidators = (\<lambda>m. Inr (ref_enc_validators m)),
     UnmarshalClaimValidators = ref_run ref_dec_validators,
     MarshalValidatorClaims = (\<lambda>m. Inr (ref_enc_claims m)),
     UnmarshalValidatorClaims = ref_run ref_dec_claims,
     MarshalClaimContent = (\<lambda>c. if valid_utf8 (ref_enc_content c) then Inr (ref_enc_content c)
        else Inl (ErrGo ''cannot encode'')),
     UnmarshalClaimContent = ref_run ref_dec_content,
     Pool_String = (\<lambda>p. nat_string (PoolUnits p)),
     LiquidityProvider_String = (\<lambda>l. LiquidityProviderAddress l),
     TimestampProto = Inr,
     Timestamp_String = int_string,
     Coins_String = (\<lambda>cs. concat (map (\<lambda>c. int_string (coin_amount c) @ coin_denom c) cs))\<rparr>"

text \<open>The fields one by one, for evaluating the model on this instance.\<close>

lemma ref_uint_simps [ref_eval]:
  "Uint_Add ref_lib a b = (if a + b < 2 ^ 256 then Inr (a + b) else Inl Panic)"
  "Uint_Sub ref_lib a b = (if b \<le> a then Inr (a - b) else Inl Panic)"
  "Uint_Mul ref_lib a b = (if a * b < 2 ^ 256 then Inr (a * b) else Inl Panic)"
  "Uint_Quo ref_lib a b = (if b = 0 then Inl Panic else Inr (a div b))"
  by (simp_all add: ref_lib_def)

lemma ref_num_simps [ref_eval]:
  "NewUintFromBigInt ref_lib n = (if 0 \<le> n \<and> n < 2 ^ 256 then Inr (nat n) else Inl Panic)"
  "Int_Add ref_lib m n = (if \<bar>m + n\<bar> < 2 ^ 255 then Inr (m + n) else Inl Panic)"
  "NewIntFromString ref_lib s = (Option.bind (ref_parse_int s) (\<lambda>n. if \<bar>n\<bar> < 2 ^ 255 then Some n else None))"
  "NewDec ref_lib n = (n * one_dec)"
  "NewDecFromStr ref_lib s = (case ref_parse_int s of Some n \<Rightarrow> (if \<bar>n * one_dec\<bar> < 2 ^ 255 then Inr (n * one_dec) else Inl (ErrGo ''decimal out of range'')) | None \<Rightarrow> Inl (ErrGo ''invalid decimal''))"
  "Dec_Add ref_lib a b = (ref_range (a + b))"
  "Dec_Sub ref_lib a b = (ref_range (a - b))"
  "Dec_Mul ref_lib a b = (ref_range (ref_chop (a * b)))"
  "Dec_Quo ref_lib = ref_quo"
  "Dec_MulTruncate ref_lib a b = (ref_range (ref_tdiv (a * b) one_dec))"
  "Dec_QuoTruncate ref_lib a b = (if b = 0 then Inl Panic else ref_range (ref_tdiv (a * one_dec) b))"
  "Dec_Abs ref_lib = abs"
  "Dec_RoundInt ref_lib a = (if \<bar>ref_chop a\<bar> < 2 ^ 255 then Inr (ref_chop a) else Inl Panic)"
  "Dec_TruncateInt ref_lib a = (if \<bar>ref_tdiv a one_dec\<bar> < 2 ^ 255 then Inr (ref_tdiv a one_dec) else Inl Panic)"
  by (simp_all add: ref_lib_def)

lemma ref_power_simps [ref_eval]:
  "Dec_Power ref_lib d k = (ref_range (ref_power d k))"
  by (simp_all add: ref_lib_def)

lemma ref_coin_simps [ref_eval]:
  "ValidateDenom ref_lib = ref_valid_denom"
  "NewCoin ref_lib d a = (if ref_valid_denom d \<and> 0 \<le> a then Inr \<lparr>coin_denom = d, coin_amount = a\<rparr> else Inl Panic)"
  "Coin_IsValid ref_lib = ref_coin_ok"
  "NewCoins ref_lib = ref_new_coins"
  "Coins_Add ref_lib cs ds = (Inr (fold ref_add_coin ds cs))"
  "Coins_IsValid ref_lib = ref_coins_valid"
  "Coins_IsAllPositive ref_lib cs = (cs \<noteq> [] \<and> list_all (\<lambda>c. 0 < coin_amount c) cs)"
  by (simp_all add: ref_lib_def)

lemma ref_coin_op_simps [ref_eval]:
  "Coin_Add ref_lib c d = (if coin_denom c = coin_denom d then Inr (c\<lparr>coin_amount := coin_amount c + coin_amount d\<rparr>) else Inl Panic)"
  "Coin_Sub ref_lib c d = (if coin_denom c = coin_denom d \<and> coin_amount d \<le> coin_amount c then Inr (c\<lparr>coin_amount := coin_amount c - coin_amount d\<rparr>) else Inl Panic)"
  by (simp_all add: ref_lib_def)

lemma ref_addr_simps [ref_eval]:
  "AccAddressFromBech32 ref_lib = ref_unbech ''sif1''"
  "AccAddress_String ref_lib = ref_bech ''sif1''"
  "ValAddressFromBech32 ref_lib = ref_unbech ''sifvaloper1''"
  "ValAddress_String ref_lib = ref_bech ''sifvaloper1''"
  "NewModuleAddress ref_lib = ref_module"
  by (simp_all add: ref_lib_def)

lemma ref_query_simps [ref_eval]:
  "GetBalance ref_lib x a d = (int (ref_bal x a d))"
  "GetAccount ref_lib x a = (Some 0)"
  "GetValidator ref_lib x a = (List.find (\<lambda>v. val_operator v = a) (ref_validators x))"
  "GetBondedValidatorsByPower ref_lib x = (filter val_bonded (ref_validators x))"
  by (simp_all add: ref_lib_def)

lemma ref_has_simps [ref_eval]:
  "HasBalance ref_lib x a c = (coin_amount c \<le> int (ref_bal x a (coin_denom c)))"
  by (simp_all add: ref_lib_def)

lemma ref_bank_simps [ref_eval]:
  "SendCoins ref_lib = ref_send"
  "SendCoinsFromModuleToAccount ref_lib x m t cs = (ref_send x (ref_module m) t cs)"
  "SendCoinsFromAccountToModule ref_lib x f m cs = (ref_send x f (ref_module m) cs)"
  "MintCoins ref_lib x m cs = (ref_outcome x (ref_credit (ref_module m) cs x))"
  "BurnCoins ref_lib x m cs = (ref_outcome x (ref_debit (ref_module m) cs x))"
  by (simp_all add: ref_lib_def)

lemma ref_page_simps [ref_eval]:
  "Paginate ref_lib = ref_page"
  "FilteredPaginate ref_lib r hs = (ref_page r (map fst (filter snd hs)))"
  by (simp_all add: ref_lib_def)

lemma ref_eth_simps [ref_eval]:
  "IsHexAddress ref_lib = ref_is_hex"
  "HexToAddress ref_lib = ToLower"
  "EthAddress_String ref_lib = id"
  by (simp_all add: ref_lib_def)

lemma ref_json_simps [ref_eval]:
  "UnmarshalClaimValidators ref_lib = ref_run ref_dec_validators"
  "UnmarshalValidatorClaims ref_lib = ref_run ref_dec_claims"
  "MarshalClaimContent ref_lib c =
     (if valid_utf8 (ref_enc_content c) then Inr (ref_enc_content c) else Inl (ErrGo ''cannot encode''))"
  "UnmarshalClaimContent ref_lib = ref_run ref_dec_content"
  by (simp_all add: ref_lib_def)

lemma ref_json_enc_simps [ref_eval]:
  "MarshalClaimValidators ref_lib m = (Inr (ref_enc_validators m))"
  by (simp_all add: ref_lib_def)

lemma ref_json_enc2_simps [ref_eval]:
  "MarshalValidatorClaims ref_lib m = (Inr (ref_enc_claims m))"
  by (simp_all add: ref_lib_def)

lemma ref_string_simps [ref_eval]:
  "Pool_String ref_lib p = (nat_string (PoolUnits p))"
  "LiquidityProvider_String ref_lib l = (LiquidityProviderAddress l)"
  "TimestampProto ref_lib t = Inr t"
  "Timestamp_String ref_lib t = int_string t"
  "Coins_String ref_lib cs = concat (map (\<lambda>c. int_string (coin_amount c) @ coin_denom c) cs)"
  by (simp_all add: ref_lib_def)

lemma digit_simps [ref_eval]:
  "digit 0 = CHR ''0''" "digit 1 = CHR ''1''" "digit (Suc 0) = CHR ''1''" "digit 2 = CHR ''2''" "digit 3 = CHR ''3''"
  "digit 4 = CHR ''4''" "digit 5 = CHR ''5''" "digit 6 = CHR ''6''" "digit 7 = CHR ''7''" "digit 8 = CHR ''8''" "digit 9 = CHR ''9''"
  by code_simp+

lemmas ref_unfold [ref_eval] = nat_string.simps int_string_def ref_range_def ref_chop_def ref_chop_nonneg_def
  ref_quo_def ref_tdiv_def ref_parse_int_def ref_parse_nat_def ref_nat_def ref_is_digit_def
  ref_valid_denom_def ref_denom_char_def ref_coin_ok_def ref_new_coins_def ref_coins_valid_def
  ref_bal_def ref_put_def ref_outcome_def ref_send_def ref_module_def ref_bech_def ref_unbech_def HasPrefix_def

lemma ref_power_numeral [ref_eval]:
  "ref_power d (numeral k) = ref_chop (d * ref_power d (pred_numeral k))"
  by (simp add: numeral_eq_Suc)

lemma ref_range_Inr: "ref_range x = Inr y \<longleftrightarrow> y = x \<and> \<bar>x\<bar> < 2 ^ 315"
  by (auto simp: ref_range_def)

lemma ref_range_defined: "\<bar>x\<bar> < 2 ^ 255 \<Longrightarrow> \<exists>y. ref_range x = Inr y"
  by (simp add: ref_range_def)

lemma ref_tdiv_nonneg: "0 \<le> a \<Longrightarrow> 0 < b \<Longrightarrow> ref_tdiv a b = a div b"
  by (cases "a = 0") (simp_all add: ref_tdiv_def)

lemma ref_tdiv_bound: "\<bar>ref_tdiv a b\<bar> \<le> \<bar>a\<bar>"
proof (cases "b = 0")
  case False
  then have "\<bar>a\<bar> div \<bar>b\<bar> \<le> \<bar>a\<bar> div 1"
    by (intro zdiv_mono2) simp_all
  moreover have "0 \<le> \<bar>a\<bar> div \<bar>b\<bar>"
    using False by (simp add: pos_imp_zdiv_nonneg_iff)
  ultimately have "\<bar>\<bar>a\<bar> div \<bar>b\<bar>\<bar> \<le> \<bar>a\<bar>"
    by simp
  then show ?thesis
    by (simp add: ref_tdiv_def abs_mult abs_sgn_eq split: if_splits)
qed (simp add: ref_tdiv_def)

interpretation ref: uint_laws ref_lib
  by unfold_locales (simp_all add: ref_lib_def)

interpretation ref: addr_laws ref_lib
  by unfold_locales (auto simp: ref_lib_def ref_bech_def TrimSpace_Nil ref_unbech_blank dest: ref_unbech)

interpretation ref: json_laws ref_lib
  by unfold_locales (auto simp: ref_lib_def ref_validators ref_claims ref_content split: if_splits)

interpretation ref: bank_laws ref_lib
  by unfold_locales (simp_all add: ref_lib_def ref_send_bal ref_credit_bal ref_debit_bal ref_send_def ref_outcome_Some)

lemma ref_page_all:
  "page_key r = [] \<Longrightarrow> page_offset r = 0 \<Longrightarrow> length ks \<le> page_limit r \<Longrightarrow> 0 < page_limit r \<Longrightarrow>
     \<exists>res. ref_page r ks = Inr (ks, res)"
  by (simp add: ref_page_def Let_def)

lemma length_filter_snd: "length hs \<le> n \<Longrightarrow> length (map fst (filter snd hs)) \<le> n"
  by (simp, rule le_trans [OF length_filter_le])

interpretation ref: page_laws ref_lib
proof unfold_locales
  show "Paginate ref_lib r ks = Inr (ps, res) \<Longrightarrow> set ps \<subseteq> set ks" for r ks ps res
    using ref_page_subset by (simp add: ref_lib_def)
  show "FilteredPaginate ref_lib r hs = Inr (ps, res) \<Longrightarrow> set ps \<subseteq> {k. (k, True) \<in> set hs}" for r hs ps res
    using ref_page_subset [of r "map fst (filter snd hs)" ps res] by (force simp: ref_lib_def)
qed (simp_all add: ref_lib_def ref_page_all length_filter_snd del: length_map)

lemma ref_new_coins_defined:
  assumes "distinct (map coin_denom cs)"
    and "\<And>c. c \<in> set cs \<Longrightarrow> ref_valid_denom (coin_denom c) \<and> 0 \<le> coin_amount c"
  shows "\<exists>cs'. ref_new_coins cs = Inr cs'"
  using assms by (simp add: ref_new_coins_def Let_def distinct_map_sort_key distinct_map_filter
      list_all_iff ref_coin_ok_def)

lemma ref_new_coins_dup:
  "\<not> distinct (map coin_denom (filter (\<lambda>c. coin_amount c \<noteq> 0) cs)) \<Longrightarrow> ref_new_coins cs = Inl Panic"
  by (simp add: ref_new_coins_def Let_def distinct_map_sort_key)

interpretation ref: coin_laws ref_lib
  by unfold_locales
    (auto simp: ref_lib_def ref_new_coins_amount ref_new_coins_defined ref_new_coins_dup
       ref_add_coins_amount ref_coin_ok_def ref_denom_no_underscore split: if_splits)

lemma ref_quo_defined:
  assumes "b \<noteq> 0" and "\<bar>a * one_dec\<bar> < 2 ^ 255 * \<bar>b\<bar>"
  shows "\<exists>c. ref_quo a b = Inr c"
proof -
  let ?c = "ref_chop (ref_tdiv (a * one_dec * one_dec) b)"
  have "\<bar>?c * b\<bar> < \<bar>b\<bar> + 2 ^ 255 * \<bar>b\<bar>"
    using ref_quo_near [OF assms(1), of a] assms(2) by linarith
  then have "\<bar>?c\<bar> * \<bar>b\<bar> < (1 + 2 ^ 255) * \<bar>b\<bar>"
    by (simp only: abs_mult distrib_right mult_1)
  then have "\<bar>?c\<bar> < 1 + 2 ^ 255"
    by (rule mult_right_less_imp_less) simp
  then show ?thesis
    using assms(1) by (simp add: ref_quo_def ref_range_def)
qed

interpretation ref: dec_laws ref_lib
proof unfold_locales
  show "NewDecFromStr ref_lib (int_string n) = Inr d \<Longrightarrow> d = n * one_dec" for n d
    by (simp add: ref_lib_def split: if_splits)
  show "Dec_Mul ref_lib a b = Inr c \<Longrightarrow> 2 * \<bar>c * one_dec - a * b\<bar> \<le> one_dec" for a b c
    using ref_chop_near [of "a * b"] by (simp add: ref_lib_def ref_range_Inr)
  show "\<bar>a * b\<bar> < 2 ^ 255 * one_dec \<Longrightarrow> \<exists>c. Dec_Mul ref_lib a b = Inr c" for a b
    using ref_chop_bound [of "a * b"] by (simp add: ref_lib_def ref_range_def)
  show "Dec_Quo ref_lib a b = Inr c \<Longrightarrow> \<bar>c * b - a * one_dec\<bar> < \<bar>b\<bar>" for a b c
    using ref_quo_near [of b a] by (simp add: ref_lib_def ref_quo_def ref_range_Inr split: if_splits)
  show "b \<noteq> 0 \<Longrightarrow> \<bar>a * one_dec\<bar> < 2 ^ 255 * \<bar>b\<bar> \<Longrightarrow> \<exists>c. Dec_Quo ref_lib a b = Inr c" for a b
    using ref_quo_defined [of b a] by (simp add: ref_lib_def)
  show "Dec_RoundInt ref_lib a = Inr r \<Longrightarrow> 2 * \<bar>r * one_dec - a\<bar> \<le> one_dec" for a r
    using ref_chop_near [of a] by (simp add: ref_lib_def split: if_splits)
  show "\<bar>a\<bar> < 2 ^ 255 \<Longrightarrow> \<exists>r. Dec_RoundInt ref_lib a = Inr r" for a
    using ref_chop_near [of a] by (simp add: ref_lib_def abs_if split: if_splits)
  show "0 \<le> a \<Longrightarrow> 0 \<le> b \<Longrightarrow> Dec_MulTruncate ref_lib a b = Inr c \<Longrightarrow> c = a * b div one_dec" for a b c
    using ref_tdiv_nonneg [of "a * b" one_dec] by (simp add: ref_lib_def ref_range_Inr)
  show "0 \<le> a \<Longrightarrow> 0 < b \<Longrightarrow> Dec_QuoTruncate ref_lib a b = Inr c \<Longrightarrow> c = a * one_dec div b" for a b c
    using ref_tdiv_nonneg [of "a * one_dec" b] by (simp add: ref_lib_def ref_range_Inr)
  show "0 \<le> a \<Longrightarrow> Dec_TruncateInt ref_lib a = Inr r \<Longrightarrow> r = a div one_dec" for a r
    using ref_tdiv_nonneg [of a one_dec] by (simp add: ref_lib_def split: if_splits)
  show "\<bar>a\<bar> < 2 ^ 255 \<Longrightarrow> \<exists>r. Dec_TruncateInt ref_lib a = Inr r" for a
    using ref_tdiv_bound [of a one_dec] by (simp add: ref_lib_def)
  show "\<bar>a * b\<bar> < 2 ^ 255 * one_dec \<Longrightarrow> \<exists>c. Dec_MulTruncate ref_lib a b = Inr c" for a b
  proof -
    assume "\<bar>a * b\<bar> < 2 ^ 255 * one_dec"
    then have "\<bar>ref_tdiv (a * b) one_dec\<bar> < 2 ^ 315"
      using ref_tdiv_near [of one_dec "a * b"] by (simp add: abs_if split: if_splits)
    then show ?thesis by (simp add: ref_lib_def ref_range_def)
  qed
qed (simp_all add: ref_lib_def ref_range_Inr ref_range_defined ref_quo_def
    ref_power_int [simplified])

interpretation ref: lib_laws ref_lib
  by unfold_locales

end
