(* ===== verification/ClpCalc.thy ===== *)
theory ClpCalc
  imports State RefLib
begin

section \<open>Pool arithmetic\<close>

text \<open>
  \<open>x/clp/keeper/calculations.go\<close> and \<open>pureCalculation.go\<close>, and the asset helpers of
  \<open>x/clp/types\<close>. Every operation on \<open>sdk.Uint\<close> and \<open>sdk.Dec\<close> may panic, so every function here
  returns a result; the order of the operations is the order of the source.
\<close>

definition NativeSymbol :: string where
  "NativeSymbol = ''rowan''"

definition GetSettlementAsset :: asset where
  "GetSettlementAsset = \<lparr>Symbol = NativeSymbol\<rparr>"

definition Asset_Equals :: "asset \<Rightarrow> asset \<Rightarrow> bool" where
  "Asset_Equals a a2 \<longleftrightarrow> Symbol a = Symbol a2"

text \<open>\<open>sdk.NewUintFromBigInt(d.RoundInt().BigInt())\<close>\<close>

definition Uint_of_Dec :: "'x lib \<Rightarrow> dec \<Rightarrow> nat res" where
  "Uint_of_Dec L d = bindE (Dec_RoundInt L d) (NewUintFromBigInt L)"

text \<open>\<open>sdk.NewDecFromStr\<close> with the panic on an error that follows each use.\<close>

definition mustDec :: "'x lib \<Rightarrow> string \<Rightarrow> dec res" where
  "mustDec L s = wrapE Panic (NewDecFromStr L s)"

subsection \<open>Precision\<close>

fun ValidateZero :: "nat list \<Rightarrow> bool" where
  "ValidateZero [] = True"
| "ValidateZero (v # inputs) = (if v = 0 then False else ValidateZero inputs)"

definition ReducePrecision :: "'x lib \<Rightarrow> dec \<Rightarrow> int \<Rightarrow> dec res" where
  "ReducePrecision L d po = bindE (Dec_Power L (NewDec L 10) (nat po)) (\<lambda>p. Dec_Quo L d p)"

definition IncreasePrecision :: "'x lib \<Rightarrow> dec \<Rightarrow> int \<Rightarrow> dec res" where
  "IncreasePrecision L d po = bindE (Dec_Power L (NewDec L 10) (nat po)) (\<lambda>p. Dec_Mul L d p)"

fun input_lens :: "nat list \<Rightarrow> int \<Rightarrow> int \<Rightarrow> int \<times> int" where
  "input_lens [] minLen maxInputLen = (minLen, maxInputLen)"
| "input_lens (v # inputs) minLen maxInputLen =
     (let currentLen = int (length (nat_string v)) in
      input_lens inputs (if currentLen < minLen then currentLen else minLen)
        (if currentLen > maxInputLen then currentLen else maxInputLen))"

definition GetMinLen :: "nat list \<Rightarrow> int" where
  "GetMinLen inputs =
     (let (minLen, maxInputLen) = input_lens inputs (2 ^ 63 - 1) 1 in
      if minLen \<le> 6 then 6
      else if maxInputLen \<ge> 27 \<and> maxInputLen - 27 < minLen then
        (if maxInputLen - 27 \<le> 6 then 6 else maxInputLen - 27)
      else minLen - 1)"

definition GetNormalizationFactor :: "'x lib \<Rightarrow> int \<Rightarrow> (dec \<times> bool) res" where
  "GetNormalizationFactor L decimals =
     (if decimals \<noteq> 18 then
        (if decimals < 18 then
           bindE (Dec_Power L (NewDec L 10) (u64 (i64 (18 - decimals)))) (\<lambda>nf. Inr (nf, True))
         else
           bindE (Dec_Power L (NewDec L 10) (u64 (i64 (decimals - 18)))) (\<lambda>nf. Inr (nf, False)))
      else Inr (NewDec L 1, False))"

subsection \<open>Swaps\<close>

definition SetInputs :: "nat \<Rightarrow> asset \<Rightarrow> pool \<Rightarrow> nat \<times> nat \<times> nat \<times> bool" where
  "SetInputs sentAmount to_asset p =
     (if to_asset = GetSettlementAsset
      then (ExternalAssetBalance p, sentAmount, NativeAssetBalance p, True)
      else (NativeAssetBalance p, sentAmount, ExternalAssetBalance p, False))"

text \<open>The scaling of the inputs to 18 decimals that both calculations share.\<close>

definition scale_inputs ::
  "'x lib \<Rightarrow> bool \<Rightarrow> dec \<Rightarrow> bool \<Rightarrow> nat \<Rightarrow> nat \<Rightarrow> nat \<Rightarrow> (nat \<times> nat \<times> nat) res" where
  "scale_inputs L toRowan normalizationFactor adjustExternalToken X x Y =
     bindE (Uint_of_Dec L normalizationFactor) (\<lambda>nf.
     if adjustExternalToken = toRowan then
       bindE (Uint_Mul L X nf) (\<lambda>X. bindE (Uint_Mul L x nf) (\<lambda>x. Inr (X, x, Y)))
     else bindE (Uint_Mul L Y nf) (\<lambda>Y. Inr (X, x, Y)))"

definition CalcLiquidityFee :: "'x lib \<Rightarrow> bool \<Rightarrow> dec \<Rightarrow> bool \<Rightarrow> nat \<Rightarrow> nat \<Rightarrow> nat \<Rightarrow> nat res" where
  "CalcLiquidityFee L toRowan normalizationFactor adjustExternalToken X x Y =
     (if X = 0 \<and> x = 0 then Inr 0
      else if \<not> ValidateZero [X, x, Y] then Inr 0
      else
        bindE (scale_inputs L toRowan normalizationFactor adjustExternalToken X x Y) (\<lambda>(X, x, Y).
        let minLen = GetMinLen [X, x, Y] in
        bindE (ReducePrecision L (NewDec L (int X)) minLen) (\<lambda>Xd.
        bindE (ReducePrecision L (NewDec L (int x)) minLen) (\<lambda>xd.
        bindE (ReducePrecision L (NewDec L (int Y)) minLen) (\<lambda>Yd.
        bindE (Dec_Mul L xd xd) (\<lambda>xx.
        bindE (Dec_Mul L xx Yd) (\<lambda>n.
        bindE (Dec_Add L xd Xd) (\<lambda>s.
        bindE (Dec_Mul L s s) (\<lambda>d.
        bindE (Dec_Quo L n d) (\<lambda>y.
        bindE (IncreasePrecision L y minLen) (\<lambda>y.
        bindE (if \<not> toRowan then Dec_Quo L y normalizationFactor else Inr y) (\<lambda>y.
        Uint_of_Dec L y))))))))))))"

definition CalcSwapResult :: "'x lib \<Rightarrow> bool \<Rightarrow> dec \<Rightarrow> bool \<Rightarrow> nat \<Rightarrow> nat \<Rightarrow> nat \<Rightarrow> nat res" where
  "CalcSwapResult L toRowan normalizationFactor adjustExternalToken X x Y =
     (if \<not> ValidateZero [X, x, Y] then Inr 0
      else
        bindE (scale_inputs L toRowan normalizationFactor adjustExternalToken X x Y) (\<lambda>(X, x, Y).
        let minLen = GetMinLen [X, x, Y] in
        bindE (ReducePrecision L (NewDec L (int X)) minLen) (\<lambda>Xd.
        bindE (ReducePrecision L (NewDec L (int x)) minLen) (\<lambda>xd.
        bindE (ReducePrecision L (NewDec L (int Y)) minLen) (\<lambda>Yd.
        bindE (Dec_Add L xd Xd) (\<lambda>s.
        bindE (Dec_Mul L s s) (\<lambda>d.
        bindE (Dec_Mul L xd Xd) (\<lambda>xX.
        bindE (Dec_Mul L xX Yd) (\<lambda>n.
        bindE (Dec_Quo L n d) (\<lambda>y.
        bindE (IncreasePrecision L y minLen) (\<lambda>y.
        bindE (if \<not> toRowan then Dec_Quo L y normalizationFactor else Inr y) (\<lambda>y.
        Uint_of_Dec L y))))))))))))"

definition calcPriceImpact :: "'x lib \<Rightarrow> nat \<Rightarrow> nat \<Rightarrow> nat res" where
  "calcPriceImpact L X x =
     (if x = 0 then Inr 0 else bindE (Uint_Add L x X) (\<lambda>d. Uint_Quo L x d))"

definition SwapOne ::
  "'x lib \<Rightarrow> asset \<Rightarrow> nat \<Rightarrow> asset \<Rightarrow> pool \<Rightarrow> dec \<Rightarrow> bool \<Rightarrow> (nat \<times> nat \<times> nat \<times> pool) res" where
  "SwapOne L from_asset sentAmount to_asset p normalizationFactor adjustExternalToken =
     (let (X, x, Y, toRowan) = SetInputs sentAmount to_asset p in
      bindE (CalcLiquidityFee L toRowan normalizationFactor adjustExternalToken X x Y) (\<lambda>liquidityFee.
      bindE (calcPriceImpact L X x) (\<lambda>priceImpact.
      bindE (CalcSwapResult L toRowan normalizationFactor adjustExternalToken X x Y) (\<lambda>swapResult.
      bindE (guardE (\<not> swapResult \<ge> Y) (Clp ErrNotEnoughAssetTokens)) (\<lambda>_.
      bindE (Uint_Add L X x) (\<lambda>X'.
      bindE (Uint_Sub L Y swapResult) (\<lambda>Y'.
      Inr (swapResult, liquidityFee, priceImpact,
           if from_asset = GetSettlementAsset
           then p\<lparr>NativeAssetBalance := X', ExternalAssetBalance := Y'\<rparr>
           else p\<lparr>ExternalAssetBalance := X', NativeAssetBalance := Y'\<rparr>))))))))"

text \<open>On an error \<open>GetSwapFee\<close> returns the zero \<open>sdk.Uint\<close>, whose next use panics.\<close>

definition GetSwapFee :: "'x lib \<Rightarrow> nat \<Rightarrow> asset \<Rightarrow> pool \<Rightarrow> dec \<Rightarrow> bool \<Rightarrow> nat res" where
  "GetSwapFee L sentAmount to_asset p normalizationFactor adjustExternalToken =
     (let (X, x, Y, toRowan) = SetInputs sentAmount to_asset p in
      bindE (wrapE Panic (CalcSwapResult L toRowan normalizationFactor adjustExternalToken X x Y)) (\<lambda>swapResult.
      Inr (if swapResult \<ge> Y then 0 else swapResult)))"

subsection \<open>Withdrawals\<close>

definition share_of :: "'x lib \<Rightarrow> dec \<Rightarrow> dec \<Rightarrow> dec \<Rightarrow> dec res" where
  "share_of L balance poolUnits units =
     bindE (Dec_Quo L poolUnits units) (\<lambda>ratio. Dec_Quo L balance ratio)"

definition CalculateWithdrawal ::
  "'x lib \<Rightarrow> nat \<Rightarrow> string \<Rightarrow> string \<Rightarrow> string \<Rightarrow> string \<Rightarrow> int \<Rightarrow> (nat \<times> nat \<times> nat \<times> nat) res" where
  "CalculateWithdrawal L poolUnits nativeAssetBalance externalAssetBalance lpUnits wBasisPoints asymmetry =
     (let poolUnitsF = NewDec L (int poolUnits) in
      bindE (mustDec L nativeAssetBalance) (\<lambda>nativeAssetBalanceF.
      bindE (mustDec L externalAssetBalance) (\<lambda>externalAssetBalanceF.
      bindE (mustDec L lpUnits) (\<lambda>lpUnitsF.
      bindE (mustDec L wBasisPoints) (\<lambda>wBasisPointsF.
      bindE (mustDec L (int_string asymmetry)) (\<lambda>asymmetryF.
      bindE (Dec_Quo L (NewDec L 10000) wBasisPointsF) (\<lambda>denominator.
      bindE (Dec_Quo L lpUnitsF denominator) (\<lambda>unitsToClaim.
      bindE (share_of L externalAssetBalanceF poolUnitsF unitsToClaim) (\<lambda>withdrawExternalAssetAmount.
      bindE (share_of L nativeAssetBalanceF poolUnitsF unitsToClaim) (\<lambda>withdrawNativeAssetAmount.
      bindE (if asymmetry = 0 then Inr (NewDec L 0)
             else bindE (Dec_Quo L (NewDec L 10000) (Dec_Abs L asymmetryF)) (\<lambda>q.
                  bindE (Dec_Quo L unitsToClaim q) (\<lambda>unitsToSwap.
                  share_of L (if asymmetry > 0 then nativeAssetBalanceF else externalAssetBalanceF)
                    poolUnitsF unitsToSwap))) (\<lambda>swapAmount.
      bindE (Dec_Sub L lpUnitsF unitsToClaim) (\<lambda>lpUnitsLeft.
      bindE (Uint_of_Dec L withdrawNativeAssetAmount) (\<lambda>n.
      bindE (Uint_of_Dec L withdrawExternalAssetAmount) (\<lambda>e.
      bindE (Uint_of_Dec L lpUnitsLeft) (\<lambda>l.
      bindE (Uint_of_Dec L swapAmount) (\<lambda>s.
      Inr (n, e, l, s)))))))))))))))))"

definition MaxWbasis :: int where
  "MaxWbasis = 10000"

definition CalculateAllAssetsForLP ::
  "'x lib \<Rightarrow> pool \<Rightarrow> liquidity_provider \<Rightarrow> (nat \<times> nat \<times> nat \<times> nat) res" where
  "CalculateAllAssetsForLP L p lp =
     CalculateWithdrawal L (PoolUnits p) (nat_string (NativeAssetBalance p))
       (nat_string (ExternalAssetBalance p)) (nat_string (LiquidityProviderUnits lp))
       (int_string MaxWbasis) 0"

subsection \<open>Pool units\<close>

text \<open>
  The units for an addition of \<open>r\<close> native and \<open>a\<close> external tokens to a pool of \<open>P\<close> units and the
  balances \<open>R\<close> and \<open>A\<close>, all at reduced precision.
\<close>

definition slip_adjustment :: "'x lib \<Rightarrow> dec \<Rightarrow> dec \<Rightarrow> dec \<Rightarrow> dec \<Rightarrow> dec res" where
  "slip_adjustment L R A r a =
     bindE (Dec_Add L r R) (\<lambda>rR.
     bindE (Dec_Add L a A) (\<lambda>aA.
     bindE (Dec_Mul L rR aA) (\<lambda>slipAdjDenominator.
     bindE (Dec_Mul L R a) (\<lambda>Ra.
     bindE (Dec_Mul L r A) (\<lambda>rA.
     bindE (if Ra > rA then Dec_Sub L Ra rA else Dec_Sub L rA Ra) (\<lambda>diff.
     bindE (Dec_Quo L diff slipAdjDenominator) (\<lambda>slipAdjustment.
     Dec_Sub L (NewDec L 1) slipAdjustment)))))))"

definition stake_units :: "'x lib \<Rightarrow> dec \<Rightarrow> dec \<Rightarrow> dec \<Rightarrow> dec \<Rightarrow> dec \<Rightarrow> dec res" where
  "stake_units L P R A r a =
     bindE (slip_adjustment L R A r a) (\<lambda>slipAdjustment.
     bindE (Dec_Mul L a R) (\<lambda>aR.
     bindE (Dec_Mul L A r) (\<lambda>Ar.
     bindE (Dec_Add L aR Ar) (\<lambda>sum.
     bindE (Dec_Mul L P sum) (\<lambda>numerator.
     bindE (Dec_Mul L (NewDec L 2) A) (\<lambda>A2.
     bindE (Dec_Mul L A2 R) (\<lambda>denominator.
     bindE (Dec_Quo L numerator denominator) (\<lambda>q.
     Dec_Mul L q slipAdjustment))))))))"

definition CalculatePoolUnits ::
  "'x lib \<Rightarrow> nat \<Rightarrow> nat \<Rightarrow> nat \<Rightarrow> nat \<Rightarrow> nat \<Rightarrow> dec \<Rightarrow> bool \<Rightarrow> (nat \<times> nat) res" where
  "CalculatePoolUnits L oldPoolUnits nativeAssetBalance externalAssetBalance nativeAssetAmount
     externalAssetAmount normalizationFactor adjustExternalToken =
     bindE (Uint_of_Dec L normalizationFactor) (\<lambda>nf.
     bindE (if adjustExternalToken then
              bindE (Uint_Mul L externalAssetAmount nf) (\<lambda>a.
              bindE (Uint_Mul L externalAssetBalance nf) (\<lambda>A.
              Inr (nativeAssetBalance, A, nativeAssetAmount, a)))
            else
              bindE (Uint_Mul L nativeAssetAmount nf) (\<lambda>r.
              bindE (Uint_Mul L nativeAssetBalance nf) (\<lambda>R.
              Inr (R, externalAssetBalance, r, externalAssetAmount)))) (\<lambda>(nBal, eBal, nAmt, eAmt).
     bindE (guardE (\<not> (nAmt = 0 \<and> eAmt = 0)) (Clp ErrAmountTooLow)) (\<lambda>_.
     let minLen = GetMinLen [oldPoolUnits, nBal, eBal, nAmt, eAmt] in
     bindE (Uint_Add L nBal nAmt) (\<lambda>nSum.
     bindE (guardE (nSum \<noteq> 0) (ErrGo ''insufficient funds'')) (\<lambda>_.
     bindE (Uint_Add L eBal eAmt) (\<lambda>eSum.
     bindE (guardE (eSum \<noteq> 0) (ErrGo ''insufficient funds'')) (\<lambda>_.
     if nBal = 0 \<or> eBal = 0 then Inr (nAmt, nAmt)
     else
       bindE (mustDec L (nat_string oldPoolUnits)) (\<lambda>P.
       bindE (mustDec L (nat_string nBal)) (\<lambda>R.
       bindE (mustDec L (nat_string eBal)) (\<lambda>A.
       bindE (mustDec L (nat_string nAmt)) (\<lambda>r.
       bindE (mustDec L (nat_string eAmt)) (\<lambda>a.
       bindE (ReducePrecision L P minLen) (\<lambda>P.
       bindE (ReducePrecision L R minLen) (\<lambda>R.
       bindE (ReducePrecision L A minLen) (\<lambda>A.
       bindE (ReducePrecision L a minLen) (\<lambda>a.
       bindE (ReducePrecision L r minLen) (\<lambda>r.
       bindE (stake_units L P R A r a) (\<lambda>stakeUnits.
       bindE (Dec_Add L P stakeUnits) (\<lambda>newPoolUnit.
       bindE (IncreasePrecision L newPoolUnit minLen) (\<lambda>newPoolUnit.
       bindE (IncreasePrecision L stakeUnits minLen) (\<lambda>stakeUnits.
       bindE (Uint_of_Dec L newPoolUnit) (\<lambda>n.
       bindE (Uint_of_Dec L stakeUnits) (\<lambda>u.
       Inr (n, u))))))))))))))))))))))))"

end
