(* ===== verification/RefCtx.thy ===== *)
theory RefCtx
  imports State RefLib
begin

section \<open>A context over the reference instance\<close>

text \<open>The state of a chain before its first block, with empty stores and no balances.\<close>

definition ref_ctx :: "ref_state ctx" where
  "ref_ctx = \<lparr>ext = \<lparr>ref_bank = [], ref_validators = []\<rparr>, BlockHeight = 1, BlockTime = 0, events = [],
     registry_store = [], clp_store = [], clp_params = 100, oracle_store = [], bridge_store = [],
     dispensation_store = []\<rparr>"

definition fund :: "addr \<Rightarrow> string \<Rightarrow> nat \<Rightarrow> ref_state ctx \<Rightarrow> ref_state ctx" where
  "fund a d n c = c\<lparr>ext := ref_put a d n (ext c)\<rparr>"

lemmas ref_ctx_eval [ref_eval] = ref_ctx_def fund_def bank_def okE_def EmitEvents_def height_attr_def
  message_event_def kv_get_def kv_has_def kv_delete_def guardE_def wrapE_def deref_def parseE_def attempt_def

end
