(* ===== verification/TokenRegistry.thy ===== *)
theory TokenRegistry
  imports RefCtx
begin

section \<open>The token registry\<close>

text \<open>
  \<open>x/tokenregistry\<close>: one list of entries under one key and the admin's address under another;
  an entry is found by its denomination without regard to case, and carries the permissions
  the other modules check before they touch a token. A stored registry has no nil entries
  (marshalling a nil entry panics), so the entries are a plain list.
\<close>

subsection \<open>Keeper\<close>

definition WhitelistStorePrefix :: key where
  "WhitelistStorePrefix = [CHR 0x01]"

definition AdminAccountStorePrefix :: key where
  "AdminAccountStorePrefix = [CHR 0x02]"

definition SetAdminAccount :: "'x ctx \<Rightarrow> addr \<Rightarrow> 'x ctx" where
  "SetAdminAccount c a =
     c\<lparr>registry_store := kv_set AdminAccountStorePrefix (RV_Admin a) (registry_store c)\<rparr>"

definition GetAdminAccount :: "'x ctx \<Rightarrow> addr" where
  "GetAdminAccount c =
     (case kv_get (registry_store c) AdminAccountStorePrefix of
        Some (RV_Admin a) \<Rightarrow> a
      | _ \<Rightarrow> [])"

definition IsAdminAccount :: "'x ctx \<Rightarrow> addr \<Rightarrow> bool" where
  "IsAdminAccount c a = (let account = GetAdminAccount c in
     if account = [] then False else account = a)"

fun CheckEntryPermissions :: "registry_entry \<Rightarrow> permission list \<Rightarrow> bool" where
  "CheckEntryPermissions entry [] = True"
| "CheckEntryPermissions entry (requiredPermission # rest) =
     (if requiredPermission \<in> set (Permissions entry) then CheckEntryPermissions entry rest
      else False)"

fun GetEntry :: "registry \<Rightarrow> string \<Rightarrow> registry_entry res" where
  "GetEntry [] denom = Inl (ErrGo ''key not found'')"
| "GetEntry (e # es) denom = (if EqualFold (Denom e) denom then Inr e else GetEntry es denom)"

definition SetRegistry :: "'x ctx \<Rightarrow> registry \<Rightarrow> 'x ctx" where
  "SetRegistry c wl =
     c\<lparr>registry_store := kv_set WhitelistStorePrefix (RV_Registry wl) (registry_store c)\<rparr>"

definition GetRegistry :: "'x ctx \<Rightarrow> registry" where
  "GetRegistry c =
     (case kv_get (registry_store c) WhitelistStorePrefix of
        Some (RV_Registry wl) \<Rightarrow> wl
      | _ \<Rightarrow> [])"

fun replace_entry :: "registry \<Rightarrow> registry_entry \<Rightarrow> registry" where
  "replace_entry [] entry = [entry]"
| "replace_entry (e # es) entry =
     (if EqualFold (Denom e) (Denom entry) then entry # es else e # replace_entry es entry)"

definition SetToken :: "'x ctx \<Rightarrow> registry_entry \<Rightarrow> 'x ctx" where
  "SetToken c entry = SetRegistry c (replace_entry (GetRegistry c) entry)"

definition RemoveToken :: "'x ctx \<Rightarrow> string \<Rightarrow> 'x ctx" where
  "RemoveToken c denom =
     SetRegistry c (filter (\<lambda>t. \<not> EqualFold (Denom t) denom) (GetRegistry c))"

subsection \<open>Messages\<close>

record msg_register =
  mreg_From :: string
  mreg_Entry :: "registry_entry option"

record msg_set_registry =
  msr_From :: string
  msr_Registry :: "registry option"

record msg_deregister =
  mder_From :: string
  mder_Denom :: string

definition MsgRegister_ValidateBasic :: "'x lib \<Rightarrow> msg_register \<Rightarrow> unit res" where
  "MsgRegister_ValidateBasic L m =
     (case mreg_Entry m of
        None \<Rightarrow> Inl (ErrGo ''no token entry specified'')
      | Some entry \<Rightarrow>
          bindE (guardE (Denom entry \<noteq> []) (ErrGo ''no denom specified'')) (\<lambda>_.
          bindE (guardE (Coin_IsValid L \<lparr>coin_denom = Denom entry, coin_amount = 1\<rparr>)
            (ErrGo ''Denom is not valid'')) (\<lambda>_.
          bindE (AccAddressFromBech32 L (mreg_From m)) (\<lambda>_.
          guardE (\<not> Decimals entry \<le> 0) (ErrGo ''Decimals cannot be zero'')))))"

fun validate_entries :: "'x lib \<Rightarrow> registry \<Rightarrow> unit res" where
  "validate_entries L [] = Inr ()"
| "validate_entries L (entry # es) =
     bindE (guardE (Denom entry \<noteq> []) (ErrGo ''no denom specified'')) (\<lambda>_.
     bindE (guardE (Coin_IsValid L \<lparr>coin_denom = Denom entry, coin_amount = 1\<rparr>)
       (ErrGo ''Denom is not valid'')) (\<lambda>_.
     bindE (guardE (\<not> Decimals entry \<le> 0) (ErrGo ''Decimals cannot be zero'')) (\<lambda>_.
     validate_entries L es)))"

definition MsgSetRegistry_ValidateBasic :: "'x lib \<Rightarrow> msg_set_registry \<Rightarrow> unit res" where
  "MsgSetRegistry_ValidateBasic L m =
     (case msr_Registry m of
        None \<Rightarrow> Inl (ErrGo ''no token entry specified'')
      | Some r \<Rightarrow>
          bindE (validate_entries L r) (\<lambda>_.
          bindE (AccAddressFromBech32 L (msr_From m)) (\<lambda>_. Inr ())))"

definition MsgDeregister_ValidateBasic :: "'x lib \<Rightarrow> msg_deregister \<Rightarrow> unit res" where
  "MsgDeregister_ValidateBasic L m =
     bindE (guardE (mder_Denom m \<noteq> []) (ErrGo ''no denom specified'')) (\<lambda>_.
     bindE (guardE (Coin_IsValid L \<lparr>coin_denom = mder_Denom m, coin_amount = 1\<rparr>)
       (ErrGo ''Denom is not valid'')) (\<lambda>_.
     bindE (AccAddressFromBech32 L (mder_From m)) (\<lambda>_. Inr ())))"

definition MsgRegister_GetSigners :: "'x lib \<Rightarrow> msg_register \<Rightarrow> addr list res" where
  "MsgRegister_GetSigners L m =
     bindE (wrapE Panic (AccAddressFromBech32 L (mreg_From m))) (\<lambda>a. Inr [a])"

definition MsgSetRegistry_GetSigners :: "'x lib \<Rightarrow> msg_set_registry \<Rightarrow> addr list res" where
  "MsgSetRegistry_GetSigners L m =
     bindE (wrapE Panic (AccAddressFromBech32 L (msr_From m))) (\<lambda>a. Inr [a])"

definition MsgDeregister_GetSigners :: "'x lib \<Rightarrow> msg_deregister \<Rightarrow> addr list res" where
  "MsgDeregister_GetSigners L m =
     bindE (wrapE Panic (AccAddressFromBech32 L (mder_From m))) (\<lambda>a. Inr [a])"

subsection \<open>Message server\<close>

text \<open>\<open>require_admin\<close> is the guard that opens all three handlers.\<close>

definition require_admin :: "'x lib \<Rightarrow> 'x ctx \<Rightarrow> string \<Rightarrow> unit res" where
  "require_admin L c from =
     bindE (AccAddressFromBech32 L from) (\<lambda>addr.
     guardE (IsAdminAccount c addr) (ErrGo ''invalid address''))"

definition msg_Register :: "'x lib \<Rightarrow> 'x ctx \<Rightarrow> msg_register \<Rightarrow> 'x ctx res" where
  "msg_Register L c req =
     bindE (require_admin L c (mreg_From req)) (\<lambda>_.
     bindE (deref (mreg_Entry req)) (\<lambda>entry.
     Inr (SetToken c entry)))"

definition msg_SetRegistry :: "'x lib \<Rightarrow> 'x ctx \<Rightarrow> msg_set_registry \<Rightarrow> 'x ctx res" where
  "msg_SetRegistry L c req =
     bindE (require_admin L c (msr_From req)) (\<lambda>_.
     bindE (deref (msr_Registry req)) (\<lambda>r.
     Inr (SetRegistry c r)))"

definition msg_Deregister :: "'x lib \<Rightarrow> 'x ctx \<Rightarrow> msg_deregister \<Rightarrow> 'x ctx res" where
  "msg_Deregister L c req =
     bindE (require_admin L c (mder_From req)) (\<lambda>_.
     Inr (RemoveToken c (mder_Denom req)))"

datatype registry_msg =
  MsgRegister msg_register | MsgSetRegistry msg_set_registry | MsgDeregister msg_deregister

definition registry_NewHandler :: "'x lib \<Rightarrow> 'x ctx \<Rightarrow> registry_msg \<Rightarrow> 'x ctx res" where
  "registry_NewHandler L c msg =
     (let c = c\<lparr>events := []\<rparr> in
      case msg of
        MsgRegister m \<Rightarrow> msg_Register L c m
      | MsgSetRegistry m \<Rightarrow> msg_SetRegistry L c m
      | MsgDeregister m \<Rightarrow> msg_Deregister L c m)"

subsection \<open>Genesis and migration\<close>

record registry_genesis =
  gen_AdminAccount :: string
  gen_Registry :: "registry option"

definition registry_InitGenesis :: "'x lib \<Rightarrow> 'x ctx \<Rightarrow> registry_genesis \<Rightarrow> 'x ctx res" where
  "registry_InitGenesis L c state =
     bindE (if gen_AdminAccount state \<noteq> []
            then bindE (wrapE Panic (AccAddressFromBech32 L (gen_AdminAccount state))) (\<lambda>addr.
                 Inr (SetAdminAccount c addr))
            else Inr c) (\<lambda>c.
     Inr (case gen_Registry state of None \<Rightarrow> c | Some r \<Rightarrow> SetRegistry c r))"

definition registry_ExportGenesis :: "'x lib \<Rightarrow> 'x ctx \<Rightarrow> registry_genesis" where
  "registry_ExportGenesis L c =
     \<lparr>gen_AdminAccount = AccAddress_String L (GetAdminAccount c),
      gen_Registry = Some (GetRegistry c)\<rparr>"

definition MigrateToVer2 :: "'x ctx \<Rightarrow> 'x ctx" where
  "MigrateToVer2 c =
     SetRegistry c (map (\<lambda>entry.
       if Decimals entry > 9 \<and> CheckEntryPermissions entry [Permission_CLP, Permission_IBCEXPORT]
       then entry\<lparr>Permissions := Permissions entry @ [Permission_IBCIMPORT], IbcCounterpartyDenom := []\<rparr>
       else entry) (GetRegistry c))"

definition GetPermissionFromString :: "string \<Rightarrow> permission" where
  "GetPermissionFromString s =
     (if s = ''permission_clp'' then Permission_CLP
      else if s = ''permission_ibc_export'' then Permission_IBCEXPORT
      else if s = ''permission_ibc_import'' then Permission_IBCIMPORT
      else Permission_UNSPECIFIED)"

text \<open>The registry a new chain starts from: every token may be traded in pools.\<close>

definition new_entry :: "string \<times> int \<Rightarrow> registry_entry" where
  "new_entry = (\<lambda>(denom, decimals).
     \<lparr>Decimals = decimals, Denom = denom, BaseDenom = [], Path = [], IbcChannelId = [],
      IbcCounterpartyChannelId = [], DisplayName = [], DisplaySymbol = [], Network = [], Address = [],
      ExternalSymbol = [], TransferLimit = [], Permissions = [Permission_CLP], UnitDenom = [],
      IbcCounterpartyDenom = [], IbcCounterpartyChainId = []\<rparr>)"

definition InitialRegistry :: registry where
  "InitialRegistry =
    map (\<lambda>e. if \<not> HasPrefix (Denom e) ''ibc/'' then e\<lparr>BaseDenom := Denom e\<rparr> else e) (map new_entry [
      (''rowan'', 18), (''causc'', 6), (''cusdt'', 6), (''cusdc'', 6), (''cwscrt'', 6),
      (''cwbtc'', 8), (''ceth'', 18), (''cdai'', 18), (''cyfi'', 18), (''czrx'', 18),
      (''cwfil'', 18), (''cuni'', 18), (''cuma'', 18), (''ctusd'', 18), (''csxp'', 18),
      (''csushi'', 18), (''csusd'', 18), (''csrm'', 18), (''csnx'', 18), (''csand'', 18),
      (''crune'', 18), (''creef'', 18), (''cogn'', 18), (''cocean'', 18), (''cmana'', 18),
      (''clrc'', 18), (''clon'', 18), (''clink'', 18), (''ciotx'', 18), (''cgrt'', 18),
      (''cftm'', 18), (''cesd'', 18), (''cenj'', 18), (''ccream'', 18), (''ccomp'', 18),
      (''ccocos'', 18), (''cbond'', 18), (''cbnt'', 18), (''cbat'', 18), (''cband'', 18),
      (''cbal'', 18), (''cant'', 18), (''caave'', 18), (''c1inch'', 18), (''cleash'', 18),
      (''cshib'', 18), (''ctidal'', 18), (''cpaid'', 18), (''crndr'', 18), (''cconv'', 18),
      (''crally'', 18), (''crfuel'', 18), (''cakro'', 18), (''cb20'', 18), (''ctshp'', 18),
      (''clina'', 18), (''cdaofi'', 18), (''ckeep'', 18)])"

subsection \<open>The contract of the registry\<close>

text \<open>
  What the modules rely on: a lookup after a registration returns the registered entry for
  every spelling of its denomination and is otherwise unchanged; after a deregistration it
  returns nothing for that denomination. From these two laws alone the outcome of any history
  of operations follows: the last operation on a denomination decides.
\<close>

datatype 'e registry_op = Put 'e | Del string

fun run_op :: "('s \<Rightarrow> 'e \<Rightarrow> 's) \<Rightarrow> ('s \<Rightarrow> string \<Rightarrow> 's) \<Rightarrow> 'e registry_op \<Rightarrow> 's \<Rightarrow> 's" where
  "run_op put del (Put e) s = put s e"
| "run_op put del (Del d) s = del s d"

fun touches :: "('e \<Rightarrow> string) \<Rightarrow> string \<Rightarrow> 'e registry_op \<Rightarrow> bool" where
  "touches denom_of d (Put e) = EqualFold (denom_of e) d"
| "touches denom_of d (Del d') = EqualFold d' d"

fun outcome :: "'e registry_op \<Rightarrow> 'e option" where
  "outcome (Put e) = Some e"
| "outcome (Del d) = None"

locale denom_registry =
  fixes lookup :: "'s \<Rightarrow> string \<Rightarrow> 'e option"
    and put :: "'s \<Rightarrow> 'e \<Rightarrow> 's"
    and del :: "'s \<Rightarrow> string \<Rightarrow> 's"
    and denom_of :: "'e \<Rightarrow> string"
  assumes lookup_put: "lookup (put s e) d = (if EqualFold (denom_of e) d then Some e else lookup s d)"
    and lookup_del: "lookup (del s d') d = (if EqualFold d' d then None else lookup s d)"
begin

lemma lookup_run_op:
  "lookup (run_op put del op s) d = (if touches denom_of d op then outcome op else lookup s d)"
  by (cases op) (simp_all add: lookup_put lookup_del)

lemma lookup_history:
  "lookup (fold (run_op put del) ops s) d =
     (case filter (touches denom_of d) (rev ops) of [] \<Rightarrow> lookup s d | op # _ \<Rightarrow> outcome op)"
  by (induction ops rule: rev_induct) (simp_all add: lookup_run_op)

end

subsection \<open>The keeper meets the contract\<close>

definition find_token :: "'x ctx \<Rightarrow> string \<Rightarrow> registry_entry option" where
  "find_token c denom = (case GetEntry (GetRegistry c) denom of Inl _ \<Rightarrow> None | Inr e \<Rightarrow> Some e)"

lemma prefixes_distinct [simp]: "WhitelistStorePrefix \<noteq> AdminAccountStorePrefix"
  "AdminAccountStorePrefix \<noteq> WhitelistStorePrefix"
  by (simp_all add: WhitelistStorePrefix_def AdminAccountStorePrefix_def)

lemma GetRegistry_SetRegistry [simp]: "GetRegistry (SetRegistry c wl) = wl"
  by (simp add: GetRegistry_def SetRegistry_def kv_simps)

lemma GetAdminAccount_SetRegistry [simp]: "GetAdminAccount (SetRegistry c wl) = GetAdminAccount c"
  by (simp add: GetAdminAccount_def SetRegistry_def kv_simps)

lemma GetAdminAccount_SetAdminAccount [simp]: "GetAdminAccount (SetAdminAccount c a) = a"
  by (simp add: GetAdminAccount_def SetAdminAccount_def kv_simps)

lemma GetRegistry_SetAdminAccount [simp]: "GetRegistry (SetAdminAccount c a) = GetRegistry c"
  by (simp add: GetRegistry_def SetAdminAccount_def kv_simps)

lemma GetEntry_replace_entry:
  "GetEntry (replace_entry r e) d = (if EqualFold (Denom e) d then Inr e else GetEntry r d)"
  by (induction r) (auto simp: EqualFold_def)

lemma GetEntry_filter:
  "GetEntry (filter (\<lambda>t. \<not> EqualFold (Denom t) d') r) d =
     (if EqualFold d' d then Inl (ErrGo ''key not found'') else GetEntry r d)"
  by (induction r) (auto simp: EqualFold_def)

interpretation reg: denom_registry find_token SetToken RemoveToken Denom
  by unfold_locales
    (simp_all add: find_token_def SetToken_def RemoveToken_def GetEntry_replace_entry GetEntry_filter)

lemma find_token_SetToken [simp]:
  "find_token (SetToken c e) d = (if EqualFold (Denom e) d then Some e else find_token c d)"
  by (rule reg.lookup_put)

lemma find_token_RemoveToken [simp]:
  "find_token (RemoveToken c d') d = (if EqualFold d' d then None else find_token c d)"
  by (rule reg.lookup_del)

subsection \<open>Well-formed registries\<close>

text \<open>No two entries share a denomination up to case; every entry is found under its own name.\<close>

definition registry_ok :: "registry \<Rightarrow> bool" where
  "registry_ok r \<longleftrightarrow> distinct (map (ToLower \<circ> Denom) r)"

lemma set_replace_entry:
  "(ToLower \<circ> Denom) ` set (replace_entry r e) = insert (ToLower (Denom e)) ((ToLower \<circ> Denom) ` set r)"
  by (induction r) (auto simp: EqualFold_def)

lemma registry_ok_replace_entry: "registry_ok r \<Longrightarrow> registry_ok (replace_entry r e)"
proof (induction r)
  case (Cons a r)
  then show ?case
    using set_replace_entry [of r e]
    by (auto simp: registry_ok_def EqualFold_def)
qed (simp add: registry_ok_def)

lemma registry_ok_filter: "registry_ok r \<Longrightarrow> registry_ok (filter P r)"
  by (simp add: registry_ok_def distinct_map_filter)

lemma GetEntry_member: "GetEntry r d = Inr e \<Longrightarrow> e \<in> set r \<and> EqualFold (Denom e) d"
  by (induction r) (auto split: if_splits)

lemma GetEntry_registry_ok:
  "registry_ok r \<Longrightarrow> GetEntry r d = Inr e \<longleftrightarrow> e \<in> set r \<and> EqualFold (Denom e) d"
proof (induction r)
  case (Cons a r)
  then show ?case
    by (auto simp: registry_ok_def EqualFold_def rev_image_eqI)
qed simp

lemma CheckEntryPermissions_iff:
  "CheckEntryPermissions entry ps \<longleftrightarrow> set ps \<subseteq> set (Permissions entry)"
  by (induction ps) auto

lemma require_admin_Inr [res_simps]:
  "require_admin L c from = Inr u \<longleftrightarrow>
     (\<exists>a. AccAddressFromBech32 L from = Inr a \<and> a \<noteq> [] \<and> a = GetAdminAccount c)"
  by (auto simp: require_admin_def IsAdminAccount_def Let_def res_simps)

subsection \<open>Messages and the invariant\<close>

definition registry_from :: "registry_msg \<Rightarrow> string" where
  "registry_from msg = (case msg of
     MsgRegister m \<Rightarrow> mreg_From m | MsgSetRegistry m \<Rightarrow> msr_From m | MsgDeregister m \<Rightarrow> mder_From m)"

definition is_token_update :: "registry_msg \<Rightarrow> bool" where
  "is_token_update msg = (case msg of MsgSetRegistry _ \<Rightarrow> False | _ \<Rightarrow> True)"

lemma registry_step_ok:
  assumes "registry_ok (GetRegistry c)" and "is_token_update msg" and "registry_NewHandler L c msg = Inr c'"
  shows "registry_ok (GetRegistry c')"
  using assms
  by (auto simp: registry_NewHandler_def is_token_update_def msg_Register_def msg_Deregister_def Let_def
      SetToken_def RemoveToken_def res_simps registry_ok_replace_entry registry_ok_filter
      GetRegistry_def [of "c\<lparr>events := []\<rparr>"] GetRegistry_def [of c] split: registry_msg.splits)

interpretation registry: machine "registry_NewHandler L" "\<lambda>c. registry_ok (GetRegistry c)" is_token_update for L
  by unfold_locales (rule registry_step_ok)

lemma upgrade_GetEntry:
  assumes "\<And>e. Denom (f e) = Denom e"
  shows "GetEntry (map f r) d = map_sum id f (GetEntry r d)"
  by (induction r) (simp_all add: assms)

subsection \<open>Properties\<close>

text \<open>C13. The last operation on a denomination decides what a lookup finds: after any sequence of
  registrations and deregistrations, under any spelling of the denomination's case.\<close>

theorem registry_last_write_wins:
  "find_token (fold (run_op SetToken RemoveToken) ops c) d =
     (case filter (touches Denom d) (rev ops) of [] \<Rightarrow> find_token c d | op # _ \<Rightarrow> outcome op)"
  by (rule reg.lookup_history)

text \<open>C14. Only the admin changes the registry: a message of the module that succeeds was signed by
  the stored admin account, which it leaves in place, and it touches no other module's store.\<close>

theorem registry_admin_only:
  assumes "registry_NewHandler L c msg = Inr c'"
  shows "AccAddressFromBech32 L (registry_from msg) = Inr (GetAdminAccount c)
    \<and> GetAdminAccount c \<noteq> [] \<and> GetAdminAccount c' = GetAdminAccount c
    \<and> ext c' = ext c \<and> clp_store c' = clp_store c \<and> oracle_store c' = oracle_store c
    \<and> bridge_store c' = bridge_store c \<and> dispensation_store c' = dispensation_store c"
proof -
  have [simp]: "GetAdminAccount (c\<lparr>events := []\<rparr>) = GetAdminAccount c"
    by (simp add: GetAdminAccount_def)
  from assms show ?thesis
    by (auto simp: registry_NewHandler_def registry_from_def msg_Register_def msg_SetRegistry_def
        msg_Deregister_def SetToken_def RemoveToken_def Let_def res_simps SetRegistry_def
        GetAdminAccount_def kv_simps split: registry_msg.splits)
qed

lemmas registry_eval [ref_eval] = WhitelistStorePrefix_def AdminAccountStorePrefix_def SetAdminAccount_def
  GetAdminAccount_def IsAdminAccount_def SetRegistry_def GetRegistry_def SetToken_def RemoveToken_def
  require_admin_def msg_Register_def msg_SetRegistry_def msg_Deregister_def registry_NewHandler_def
  registry_from_def EqualFold_def ToLower_def lower_char_def

theorem registry_admin_only_witness:
  "AccAddressFromBech32 ref_lib ''sif1adm'' = Inr (GetAdminAccount (SetAdminAccount ref_ctx ''adm''))
   \<and> GetAdminAccount (SetRegistry (SetAdminAccount ref_ctx ''adm'') []) = ''adm''"
proof -
  let ?c = "SetAdminAccount ref_ctx ''adm''"
  let ?m = "MsgDeregister \<lparr>mder_From = ''sif1adm'', mder_Denom = ''ceth''\<rparr>"
  have "registry_NewHandler ref_lib ?c ?m = Inr (SetRegistry ?c [])"
    by (simp add: ref_eval Let_def cong: bindE_cong_weak)
  from registry_admin_only [OF this] show ?thesis
    by (simp add: registry_from_def)
qed

text \<open>C15. No two entries share a denomination: starting from a registry without duplicates up to
  case, no history of registrations and deregistrations creates one.\<close>

theorem registry_stays_unique:
  assumes "registry_ok (GetRegistry c)" and "list_all is_token_update msgs"
  shows "registry_ok (GetRegistry (foldl (deliver (registry_NewHandler L)) c msgs))"
  using assms by (rule registry.run_inv)

theorem registry_stays_unique_witness:
  "registry_ok (GetRegistry (foldl (deliver (registry_NewHandler ref_lib)) (SetAdminAccount ref_ctx ''adm'')
     [MsgRegister \<lparr>mreg_From = ''sif1adm'', mreg_Entry = Some (new_entry (''ceth'', 18))\<rparr>,
      MsgRegister \<lparr>mreg_From = ''sif1adm'', mreg_Entry = Some (new_entry (''cEth'', 18))\<rparr>]))"
  by (rule registry_stays_unique) (simp_all add: ref_eval registry_ok_def is_token_update_def)

text \<open>A chain restarted from an exported genesis has the same registry and the same admin.\<close>

theorem registry_genesis_roundtrip:
  assumes "addr_laws L"
    and "GetAdminAccount c = [] \<or> (\<exists>s. AccAddressFromBech32 L s = Inr (GetAdminAccount c))"
    and "GetAdminAccount c0 = []"
  shows "\<exists>c1. registry_InitGenesis L c0 (registry_ExportGenesis L c) = Inr c1
    \<and> GetRegistry c1 = GetRegistry c \<and> GetAdminAccount c1 = GetAdminAccount c"
proof (cases "AccAddress_String L (GetAdminAccount c) = []")
  case True
  have "GetAdminAccount c = []"
  proof (rule ccontr)
    assume "GetAdminAccount c \<noteq> []"
    with assms(2) obtain s where "AccAddressFromBech32 L s = Inr (GetAdminAccount c)" by blast
    from addr_laws.acc_of_string [OF assms(1) this] True
    show False using addr_laws.acc_blank [OF assms(1), of "[]"] by (simp add: TrimSpace_def)
  qed
  with True assms(3) show ?thesis
    by (simp add: registry_InitGenesis_def registry_ExportGenesis_def)
next
  case False
  with assms(2) addr_laws.acc_string_empty [OF assms(1)]
  obtain s where "AccAddressFromBech32 L s = Inr (GetAdminAccount c)" by force
  from addr_laws.acc_of_string [OF assms(1) this] False show ?thesis
    by (simp add: registry_InitGenesis_def registry_ExportGenesis_def)
qed

theorem registry_genesis_roundtrip_witness:
  "\<exists>c1. registry_InitGenesis ref_lib ref_ctx (registry_ExportGenesis ref_lib (SetAdminAccount ref_ctx ''adm'')) = Inr c1
    \<and> GetRegistry c1 = GetRegistry (SetAdminAccount ref_ctx ''adm'')
    \<and> GetAdminAccount c1 = GetAdminAccount (SetAdminAccount ref_ctx ''adm'')"
proof (rule registry_genesis_roundtrip)
  show "addr_laws ref_lib" by (rule ref.addr_laws_axioms)
  have "AccAddressFromBech32 ref_lib ''sif1adm'' = Inr (GetAdminAccount (SetAdminAccount ref_ctx ''adm''))"
    by (simp add: ref_eval)
  then show "GetAdminAccount (SetAdminAccount ref_ctx ''adm'') = []
    \<or> (\<exists>s. AccAddressFromBech32 ref_lib s = Inr (GetAdminAccount (SetAdminAccount ref_ctx ''adm'')))"
    by blast
  show "GetAdminAccount ref_ctx = []" by (simp add: ref_eval)
qed

text \<open>The migration to version 2 keeps every denomination and changes exactly the tokens with
  more than nine decimals that may be traded and exported: they may be imported as well and
  lose the denomination of their counterparty.\<close>

theorem MigrateToVer2_effect:
  "find_token (MigrateToVer2 c) d = map_option (\<lambda>e.
     if Decimals e > 9 \<and> {Permission_CLP, Permission_IBCEXPORT} \<subseteq> set (Permissions e)
     then e\<lparr>Permissions := Permissions e @ [Permission_IBCIMPORT], IbcCounterpartyDenom := []\<rparr> else e)
     (find_token c d)"
  unfolding MigrateToVer2_def find_token_def CheckEntryPermissions_iff GetRegistry_SetRegistry
  by (subst upgrade_GetEntry) (auto split: sum.splits)

text \<open>The initial registry has no duplicates; every token of it may be traded, has between 6 and
  18 decimals and names itself as its base denomination.\<close>

theorem InitialRegistry_ok:
  "registry_ok InitialRegistry \<and> list_all (\<lambda>e. CheckEntryPermissions e [Permission_CLP]
     \<and> 6 \<le> Decimals e \<and> Decimals e \<le> 18 \<and> BaseDenom e = Denom e) InitialRegistry"
  by code_simp

end
