(* ===== verification/ClpKeeper.thy ===== *)
theory ClpKeeper
  imports ClpCalc TokenRegistry
begin

section \<open>The keeper of the liquidity pools\<close>

text \<open>
  \<open>x/clp/keeper\<close> without the message server: assets, pools and providers in the module's store
  under the prefixes 0, 1 and 2, the admin list, and the executors that move coins between the
  users and the module's account. An asset, pool or provider behind a pointer is an option;
  reading a nil pointer panics.
\<close>

definition clp_ModuleName :: string where
  "clp_ModuleName = ''clp''"

definition PoolThrehold :: nat where
  "PoolThrehold = 1000000000000000000"

definition MaxSymbolLength :: nat where
  "MaxSymbolLength = 71"

definition PoolPrefix :: key where
  "PoolPrefix = [CHR 0x00]"

definition LiquidityProviderPrefix :: key where
  "LiquidityProviderPrefix = [CHR 0x01]"

definition WhiteListValidatorPrefix :: key where
  "WhiteListValidatorPrefix = [CHR 0x02]"

definition GetPoolKey :: "string \<Rightarrow> string \<Rightarrow> key" where
  "GetPoolKey externalTicker nativeTicker = PoolPrefix @ externalTicker @ ''_'' @ nativeTicker"

definition GetLiquidityProviderKey :: "string \<Rightarrow> string \<Rightarrow> key" where
  "GetLiquidityProviderKey externalTicker lp = LiquidityProviderPrefix @ externalTicker @ ''_'' @ lp"

definition GetCLPModuleAddress :: "'x lib \<Rightarrow> addr" where
  "GetCLPModuleAddress L = NewModuleAddress L clp_ModuleName"

subsection \<open>Types\<close>

definition VerifyRange :: "nat \<Rightarrow> nat \<Rightarrow> nat \<Rightarrow> bool" where
  "VerifyRange num low high = (if num \<ge> high then False else if num \<le> low then False else True)"

definition Asset_Validate :: "'x lib \<Rightarrow> asset \<Rightarrow> bool res" where
  "Asset_Validate L a =
     (if \<not> VerifyRange (length (TrimSpace (Symbol a))) 0 MaxSymbolLength then Inr False
      else bindE (NewCoin L (Symbol a) 1) (\<lambda>coin. Inr (Coin_IsValid L coin)))"

definition Pool_Validate :: "'x lib \<Rightarrow> pool \<Rightarrow> bool res" where
  "Pool_Validate L p = bindE (deref (ExternalAsset p)) (Asset_Validate L)"

definition LiquidityProvider_Validate :: "'x lib \<Rightarrow> liquidity_provider \<Rightarrow> bool res" where
  "LiquidityProvider_Validate L l = bindE (deref (lp_Asset l)) (Asset_Validate L)"

definition NewPool :: "asset option \<Rightarrow> nat \<Rightarrow> nat \<Rightarrow> nat \<Rightarrow> pool" where
  "NewPool externalAsset nativeAssetBalance externalAssetBalance poolUnits =
     \<lparr>ExternalAsset = externalAsset, NativeAssetBalance = nativeAssetBalance,
      ExternalAssetBalance = externalAssetBalance, PoolUnits = poolUnits\<rparr>"

definition NewLiquidityProvider :: "'x lib \<Rightarrow> asset option \<Rightarrow> nat \<Rightarrow> addr \<Rightarrow> liquidity_provider" where
  "NewLiquidityProvider L asset units address =
     \<lparr>lp_Asset = asset, LiquidityProviderUnits = units,
      LiquidityProviderAddress = AccAddress_String L address\<rparr>"

subsection \<open>Pools\<close>

definition SetPool :: "'x lib \<Rightarrow> 'x ctx \<Rightarrow> pool \<Rightarrow> 'x ctx res" where
  "SetPool L c p =
     bindE (Pool_Validate L p) (\<lambda>ok.
     bindE (guardE ok (Clp ErrUnableToSetPool)) (\<lambda>_.
     bindE (deref (ExternalAsset p)) (\<lambda>a.
     Inr (c\<lparr>clp_store := kv_set (GetPoolKey (Symbol a) NativeSymbol) (V_Pool p) (clp_store c)\<rparr>))))"

definition ValidatePool :: "'x lib \<Rightarrow> pool \<Rightarrow> bool res" where
  "ValidatePool L p = bindE (Pool_Validate L p) (\<lambda>ok.
     if \<not> ok then Inr False else bindE (deref (ExternalAsset p)) (\<lambda>_. Inr True))"

definition GetPool :: "'x ctx \<Rightarrow> string \<Rightarrow> pool res" where
  "GetPool c symbol =
     (case kv_get (clp_store c) (GetPoolKey symbol NativeSymbol) of
        None \<Rightarrow> Inl (Clp ErrPoolDoesNotExist)
      | Some (V_Pool p) \<Rightarrow> Inr p
      | _ \<Rightarrow> Inl Panic)"

definition ExistsPool :: "'x ctx \<Rightarrow> string \<Rightarrow> bool" where
  "ExistsPool c symbol = kv_has (clp_store c) (GetPoolKey symbol NativeSymbol)"

fun pools_in :: "clp_value kv \<Rightarrow> pool list" where
  "pools_in [] = []"
| "pools_in ((k, V_Pool p) # st) = p # pools_in st"
| "pools_in ((k, V_LP l) # st) = pools_in st"
| "pools_in ((k, V_WhiteList w) # st) = pools_in st"

definition GetPools :: "'x ctx \<Rightarrow> pool list" where
  "GetPools c = pools_in (kv_prefix PoolPrefix (clp_store c))"

definition prefix_keys :: "key \<Rightarrow> 'v kv \<Rightarrow> key list" where
  "prefix_keys p st = map (\<lambda>e. drop (length p) (fst e)) (kv_prefix p st)"

definition pools_at :: "clp_value kv \<Rightarrow> key list \<Rightarrow> pool list" where
  "pools_at st ks = concat (map (\<lambda>k.
     case kv_get st (PoolPrefix @ k) of Some (V_Pool p) \<Rightarrow> [p] | _ \<Rightarrow> []) ks)"

definition GetPoolsPaginated :: "'x lib \<Rightarrow> 'x ctx \<Rightarrow> page_request \<Rightarrow> (pool list \<times> page_response) res" where
  "GetPoolsPaginated L c pagination =
     bindE (wrapE (ErrGo ''internal'') (Paginate L pagination (prefix_keys PoolPrefix (clp_store c)))) (\<lambda>(ks, pageRes).
     Inr (pools_at (clp_store c) ks, pageRes))"

definition DestroyPool :: "'x ctx \<Rightarrow> string \<Rightarrow> 'x ctx res" where
  "DestroyPool c symbol =
     (let k = GetPoolKey symbol NativeSymbol in
      bindE (guardE (kv_has (clp_store c) k) (Clp ErrPoolDoesNotExist)) (\<lambda>_.
      Inr (c\<lparr>clp_store := kv_delete k (clp_store c)\<rparr>)))"

subsection \<open>Liquidity providers\<close>

definition SetLiquidityProvider :: "'x lib \<Rightarrow> 'x ctx \<Rightarrow> liquidity_provider \<Rightarrow> 'x ctx res" where
  "SetLiquidityProvider L c lp =
     bindE (LiquidityProvider_Validate L lp) (\<lambda>ok.
     if \<not> ok then Inr c
     else bindE (deref (lp_Asset lp)) (\<lambda>a.
       Inr (c\<lparr>clp_store := kv_set (GetLiquidityProviderKey (Symbol a) (LiquidityProviderAddress lp))
              (V_LP lp) (clp_store c)\<rparr>)))"

definition GetLiquidityProvider :: "'x ctx \<Rightarrow> string \<Rightarrow> string \<Rightarrow> liquidity_provider res" where
  "GetLiquidityProvider c symbol lpAddress =
     (case kv_get (clp_store c) (GetLiquidityProviderKey symbol lpAddress) of
        None \<Rightarrow> Inl (Clp ErrLiquidityProviderDoesNotExist)
      | Some (V_LP lp) \<Rightarrow> Inr lp
      | _ \<Rightarrow> Inl Panic)"

definition DestroyLiquidityProvider :: "'x ctx \<Rightarrow> string \<Rightarrow> string \<Rightarrow> 'x ctx" where
  "DestroyLiquidityProvider c symbol lpAddress =
     (let k = GetLiquidityProviderKey symbol lpAddress in
      if \<not> kv_has (clp_store c) k then c
      else c\<lparr>clp_store := kv_delete k (clp_store c)\<rparr>)"

definition lps_at :: "clp_value kv \<Rightarrow> key list \<Rightarrow> liquidity_provider list" where
  "lps_at st ks = concat (map (\<lambda>k.
     case kv_get st (LiquidityProviderPrefix @ k) of Some (V_LP l) \<Rightarrow> [l] | _ \<Rightarrow> []) ks)"

text \<open>The callbacks of \<open>query.FilteredPaginate\<close>: which stored values are hits.\<close>

definition lp_hits :: "(liquidity_provider \<Rightarrow> bool) \<Rightarrow> clp_value kv \<Rightarrow> (key \<times> bool) list" where
  "lp_hits hit st = map (\<lambda>e. (drop (length LiquidityProviderPrefix) (fst e),
     case snd e of V_LP l \<Rightarrow> hit l | _ \<Rightarrow> False)) (kv_prefix LiquidityProviderPrefix st)"

definition GetLiquidityProvidersForAssetPaginated ::
  "'x lib \<Rightarrow> 'x ctx \<Rightarrow> asset \<Rightarrow> page_request \<Rightarrow> (liquidity_provider list \<times> page_response) res" where
  "GetLiquidityProvidersForAssetPaginated L c asset pagination =
     bindE (wrapE (ErrGo ''internal'') (FilteredPaginate L pagination
       (lp_hits (\<lambda>l. case lp_Asset l of None \<Rightarrow> False | Some a \<Rightarrow> Asset_Equals a asset) (clp_store c)))) (\<lambda>(ks, pageRes).
     Inr (lps_at (clp_store c) ks, pageRes))"

definition GetAssetsForLiquidityProviderPaginated ::
  "'x lib \<Rightarrow> 'x ctx \<Rightarrow> addr \<Rightarrow> page_request \<Rightarrow> (asset list \<times> page_response) res" where
  "GetAssetsForLiquidityProviderPaginated L c lpAddress pagination =
     bindE (wrapE (ErrGo ''internal'') (FilteredPaginate L pagination
       (lp_hits (\<lambda>l. lp_Asset l \<noteq> None \<and> LiquidityProviderAddress l = AccAddress_String L lpAddress)
          (clp_store c)))) (\<lambda>(ks, pageRes).
     Inr (List.map_filter lp_Asset (lps_at (clp_store c) ks), pageRes))"

definition GetAllLiquidityProvidersPaginated ::
  "'x lib \<Rightarrow> 'x ctx \<Rightarrow> page_request \<Rightarrow> (liquidity_provider list \<times> page_response) res" where
  "GetAllLiquidityProvidersPaginated L c pagination =
     bindE (wrapE (ErrGo ''internal'') (Paginate L pagination (prefix_keys LiquidityProviderPrefix (clp_store c)))) (\<lambda>(ks, pageRes).
     Inr (lps_at (clp_store c) ks, pageRes))"

subsection \<open>Admin list\<close>

definition SetClpWhiteList :: "'x lib \<Rightarrow> 'x ctx \<Rightarrow> addr list \<Rightarrow> 'x ctx" where
  "SetClpWhiteList L c validatorList =
     c\<lparr>clp_store := kv_set WhiteListValidatorPrefix (V_WhiteList (map (AccAddress_String L) validatorList))
          (clp_store c)\<rparr>"

definition ExistsClpWhiteList :: "'x ctx \<Rightarrow> bool" where
  "ExistsClpWhiteList c = kv_has (clp_store c) WhiteListValidatorPrefix"

fun mustAddresses :: "'x lib \<Rightarrow> string list \<Rightarrow> addr list res" where
  "mustAddresses L [] = Inr []"
| "mustAddresses L (entry # es) =
     bindE (wrapE Panic (AccAddressFromBech32 L entry)) (\<lambda>addr.
     bindE (mustAddresses L es) (\<lambda>vl. Inr (addr # vl)))"

definition GetClpWhiteList :: "'x lib \<Rightarrow> 'x ctx \<Rightarrow> addr list res" where
  "GetClpWhiteList L c =
     (case kv_get (clp_store c) WhiteListValidatorPrefix of
        None \<Rightarrow> Inr []
      | Some (V_WhiteList vs) \<Rightarrow> mustAddresses L vs
      | _ \<Rightarrow> Inl Panic)"

definition ValidateAddress :: "'x lib \<Rightarrow> 'x ctx \<Rightarrow> addr \<Rightarrow> bool res" where
  "ValidateAddress L c address =
     (if \<not> ExistsClpWhiteList c then Inr False
      else bindE (GetClpWhiteList L c) (\<lambda>valList. Inr (list_ex (\<lambda>v. v = address) valList)))"

subsection \<open>Messages\<close>

record msg_create_pool =
  mcp_Signer :: string
  mcp_ExternalAsset :: "asset option"
  mcp_NativeAssetAmount :: nat
  mcp_ExternalAssetAmount :: nat

record msg_add_liquidity =
  mal_Signer :: string
  mal_ExternalAsset :: "asset option"
  mal_NativeAssetAmount :: nat
  mal_ExternalAssetAmount :: nat

record msg_remove_liquidity =
  mrl_Signer :: string
  mrl_ExternalAsset :: "asset option"
  mrl_WBasisPoints :: int
  mrl_Asymmetry :: int

record msg_swap =
  ms_Signer :: string
  ms_SentAsset :: "asset option"
  ms_ReceivedAsset :: "asset option"
  ms_SentAmount :: nat
  ms_MinReceivingAmount :: nat

record msg_decommission_pool =
  mdp_Signer :: string
  mdp_Symbol :: string

subsection \<open>Executors\<close>

definition ParseToInt :: "'x lib \<Rightarrow> string \<Rightarrow> int option" where
  "ParseToInt L nu = NewIntFromString L nu"

text \<open>\<open>ParseToInt(u.String())\<close> with the early return that follows each use.\<close>

definition IntOfUint :: "'x lib \<Rightarrow> nat \<Rightarrow> int res" where
  "IntOfUint L u = parseE (Clp ErrUnableToParseInt) (ParseToInt L (nat_string u))"

definition clp_CreatePool :: "'x lib \<Rightarrow> 'x ctx \<Rightarrow> nat \<Rightarrow> msg_create_pool \<Rightarrow> (pool \<times> 'x ctx) res" where
  "clp_CreatePool L c poolUints msg =
     bindE (IntOfUint L (mcp_ExternalAssetAmount msg)) (\<lambda>extInt.
     bindE (IntOfUint L (mcp_NativeAssetAmount msg)) (\<lambda>nativeInt.
     bindE (AccAddressFromBech32 L (mcp_Signer msg)) (\<lambda>addr.
     bindE (deref (mcp_ExternalAsset msg)) (\<lambda>asset.
     bindE (NewCoin L (Symbol asset) extInt) (\<lambda>externalAssetCoin.
     bindE (NewCoin L (Symbol GetSettlementAsset) nativeInt) (\<lambda>nativeAssetCoin.
     bindE (guardE (\<not> (\<not> HasBalance L (ext c) addr externalAssetCoin \<and> \<not> HasBalance L (ext c) addr nativeAssetCoin))
       (Clp ErrBalanceNotAvailable)) (\<lambda>_.
     let p = NewPool (mcp_ExternalAsset msg) (mcp_NativeAssetAmount msg) (mcp_ExternalAssetAmount msg) poolUints in
     bindE (NewCoins L [externalAssetCoin, nativeAssetCoin]) (\<lambda>coins.
     bindE (bank (\<lambda>x. SendCoinsFromAccountToModule L x addr clp_ModuleName coins) c) (\<lambda>c.
     bindE (wrapE (Clp ErrUnableToSetPool) (SetPool L c p)) (\<lambda>c.
     Inr (p, c)))))))))))"

definition CreateLiquidityProvider ::
  "'x lib \<Rightarrow> 'x ctx \<Rightarrow> asset option \<Rightarrow> nat \<Rightarrow> addr \<Rightarrow> (liquidity_provider \<times> 'x ctx) res" where
  "CreateLiquidityProvider L c asset lpunits lpaddress =
     (let lp = NewLiquidityProvider L asset lpunits lpaddress in
      bindE (SetLiquidityProvider L c lp) (\<lambda>c. Inr (lp, c)))"

definition coin_at :: "coins \<Rightarrow> nat \<Rightarrow> coin res" where
  "coin_at cs i = (if i < length cs then Inr (cs ! i) else Inl Panic)"

text \<open>
  \<open>extInt != sdk.ZeroInt()\<close> compares the pointers inside two \<open>sdk.Int\<close>, so it always holds and
  both coins are always added.
\<close>

definition clp_AddLiquidity ::
  "'x lib \<Rightarrow> 'x ctx \<Rightarrow> msg_add_liquidity \<Rightarrow> pool \<Rightarrow> nat \<Rightarrow> nat \<Rightarrow> (liquidity_provider \<times> 'x ctx) res" where
  "clp_AddLiquidity L c msg p newPoolUnits lpUnits =
     bindE (IntOfUint L (mal_ExternalAssetAmount msg)) (\<lambda>extInt.
     bindE (IntOfUint L (mal_NativeAssetAmount msg)) (\<lambda>nativeInt.
     bindE (deref (mal_ExternalAsset msg)) (\<lambda>asset.
     bindE (NewCoin L (Symbol asset) extInt) (\<lambda>externalAssetCoin.
     bindE (Coins_Add L [] [externalAssetCoin]) (\<lambda>coins.
     bindE (NewCoin L (Symbol GetSettlementAsset) nativeInt) (\<lambda>nativeAssetCoin.
     bindE (Coins_Add L coins [nativeAssetCoin]) (\<lambda>coins.
     bindE (AccAddressFromBech32 L (mal_Signer msg)) (\<lambda>addr.
     bindE (bindE (coin_at coins 0) (\<lambda>c0. if HasBalance L (ext c) addr c0 then Inr True
            else bindE (coin_at coins 1) (\<lambda>c1. Inr (HasBalance L (ext c) addr c1)))) (\<lambda>funded.
     bindE (guardE funded (Clp ErrBalanceNotAvailable)) (\<lambda>_.
     bindE (bank (\<lambda>x. SendCoinsFromAccountToModule L x addr clp_ModuleName coins) c) (\<lambda>c.
     bindE (Uint_Add L (NativeAssetBalance p) (mal_NativeAssetAmount msg)) (\<lambda>nb.
     bindE (Uint_Add L (ExternalAssetBalance p) (mal_ExternalAssetAmount msg)) (\<lambda>eb.
     let p = p\<lparr>PoolUnits := newPoolUnits, NativeAssetBalance := nb, ExternalAssetBalance := eb\<rparr> in
     bindE (attempt (GetLiquidityProvider c (Symbol asset) (mal_Signer msg))) (\<lambda>found.
     bindE (case found of
              Some lp \<Rightarrow> Inr (lp, lpUnits, c)
            | None \<Rightarrow>
                bindE (CreateLiquidityProvider L c (mal_ExternalAsset msg) lpUnits addr) (\<lambda>(lp, c).
                Inr (lp, 0, EmitEvents [Event ''created_new_liquidity_provider''
                  [(''liquidity_provider'', LiquidityProvider_String L lp), height_attr c]] c))) (\<lambda>(lp, lpUnits, c).
     bindE (Uint_Add L (LiquidityProviderUnits lp) lpUnits) (\<lambda>units.
     let lp = lp\<lparr>LiquidityProviderUnits := units\<rparr> in
     bindE (wrapE (Clp ErrUnableToSetPool) (SetPool L c p)) (\<lambda>c.
     bindE (SetLiquidityProvider L c lp) (\<lambda>c.
     Inr (lp, c)))))))))))))))))))"

definition RemoveLiquidityProvider :: "'x lib \<Rightarrow> 'x ctx \<Rightarrow> coins \<Rightarrow> liquidity_provider \<Rightarrow> 'x ctx res" where
  "RemoveLiquidityProvider L c coins lp =
     bindE (AccAddressFromBech32 L (LiquidityProviderAddress lp)) (\<lambda>lpaddr.
     bindE (wrapE (Clp ErrUnableToAddBalance)
       (bank (\<lambda>x. SendCoinsFromModuleToAccount L x clp_ModuleName lpaddr coins) c)) (\<lambda>c.
     bindE (deref (lp_Asset lp)) (\<lambda>asset.
     Inr (DestroyLiquidityProvider c (Symbol asset) (LiquidityProviderAddress lp)))))"

definition clp_DecommissionPool :: "'x ctx \<Rightarrow> pool \<Rightarrow> 'x ctx res" where
  "clp_DecommissionPool c p =
     bindE (deref (ExternalAsset p)) (\<lambda>asset.
     wrapE (Clp ErrUnableToDestroyPool) (DestroyPool c (Symbol asset)))"

definition clp_RemoveLiquidity ::
  "'x lib \<Rightarrow> 'x ctx \<Rightarrow> pool \<Rightarrow> coin \<Rightarrow> coin \<Rightarrow> liquidity_provider \<Rightarrow> nat \<Rightarrow> nat \<Rightarrow> nat \<Rightarrow> 'x ctx res" where
  "clp_RemoveLiquidity L c p externalAssetCoin nativeAssetCoin lp lpUnitsLeft poolOriginalEB poolOriginalNB =
     bindE (AccAddressFromBech32 L (LiquidityProviderAddress lp)) (\<lambda>lpAddr.
     bindE (NewCoins L []) (\<lambda>sendCoins.
     bindE (if coin_amount externalAssetCoin \<noteq> 0 \<and> \<not> coin_amount externalAssetCoin < 0
            then Coins_Add L sendCoins [externalAssetCoin] else Inr sendCoins) (\<lambda>sendCoins.
     bindE (if coin_amount nativeAssetCoin \<noteq> 0 \<and> \<not> coin_amount nativeAssetCoin < 0
            then Coins_Add L sendCoins [nativeAssetCoin] else Inr sendCoins) (\<lambda>sendCoins.
     bindE (guardE (\<not> (coin_amount externalAssetCoin \<ge> int poolOriginalEB \<or> coin_amount nativeAssetCoin \<ge> int poolOriginalNB))
       (Clp ErrPoolTooShallow)) (\<lambda>_.
     bindE (wrapE (Clp ErrUnableToSetPool) (SetPool L c p)) (\<lambda>c.
     bindE (if sendCoins \<noteq> [] then
              bindE (guardE (list_all (HasBalance L (ext c) (GetCLPModuleAddress L)) sendCoins) (Clp ErrNotEnoughLiquidity)) (\<lambda>_.
              bank (\<lambda>x. SendCoinsFromModuleToAccount L x clp_ModuleName lpAddr sendCoins) c)
            else Inr c) (\<lambda>c.
     if lpUnitsLeft = 0 then
       bindE (deref (lp_Asset lp)) (\<lambda>asset.
       Inr (DestroyLiquidityProvider c (Symbol asset) (LiquidityProviderAddress lp)))
     else SetLiquidityProvider L c (lp\<lparr>LiquidityProviderUnits := lpUnitsLeft\<rparr>))))))))"

definition InitiateSwap :: "'x lib \<Rightarrow> 'x ctx \<Rightarrow> coin \<Rightarrow> addr \<Rightarrow> 'x ctx res" where
  "InitiateSwap L c sentCoin swapper =
     bindE (guardE (HasBalance L (ext c) swapper sentCoin) (Clp ErrBalanceNotAvailable)) (\<lambda>_.
     bindE (NewCoins L [sentCoin]) (\<lambda>coins.
     bank (\<lambda>x. SendCoinsFromAccountToModule L x swapper clp_ModuleName coins) c))"

definition FinalizeSwap :: "'x lib \<Rightarrow> 'x ctx \<Rightarrow> string \<Rightarrow> pool \<Rightarrow> msg_swap \<Rightarrow> 'x ctx res" where
  "FinalizeSwap L c sentAmount finalPool msg =
     bindE (wrapE (Clp ErrUnableToSetPool) (SetPool L c finalPool)) (\<lambda>c.
     bindE (parseE (Clp ErrUnableToParseInt) (ParseToInt L sentAmount)) (\<lambda>sentAmountInt.
     bindE (AccAddressFromBech32 L (ms_Signer msg)) (\<lambda>addr.
     bindE (deref (ms_ReceivedAsset msg)) (\<lambda>received.
     bindE (NewCoin L (Symbol received) sentAmountInt) (\<lambda>sentCoin.
     bindE (NewCoins L [sentCoin]) (\<lambda>coins.
     bank (\<lambda>x. SendCoinsFromModuleToAccount L x clp_ModuleName addr coins) c))))))"

end
