(* ===== verification/ClpMsgServer.thy ===== *)
theory ClpMsgServer
  imports ClpKeeper
begin

section \<open>The message server of the liquidity pools\<close>

text \<open>
  \<open>x/clp/keeper/msg_server.go\<close> and \<open>x/clp/types/msgs.go\<close>: the stateless checks of the five
  messages and their handlers, from the guards to the events, with the genesis and the
  dispatch on the message.
\<close>

subsection \<open>Stateless checks\<close>

definition MsgDecommissionPool_ValidateBasic :: "msg_decommission_pool \<Rightarrow> unit res" where
  "MsgDecommissionPool_ValidateBasic m =
     bindE (guardE (length (mdp_Signer m) \<noteq> 0) (ErrGo ''invalid address'')) (\<lambda>_.
     guardE (VerifyRange (length (TrimSpace (mdp_Symbol m))) 0 MaxSymbolLength) (ErrGo ''invalid request''))"

text \<open>
  \<open>m.SentAsset == m.ReceivedAsset\<close> compares two pointers; \<open>same_ptr\<close> says whether the message
  was built with one asset object for both (a decoded message never is).
\<close>

definition MsgSwap_ValidateBasic :: "'x lib \<Rightarrow> bool \<Rightarrow> msg_swap \<Rightarrow> unit res" where
  "MsgSwap_ValidateBasic L same_ptr m =
     bindE (guardE (length (ms_Signer m) \<noteq> 0) (ErrGo ''invalid address'')) (\<lambda>_.
     bindE (deref (ms_SentAsset m)) (\<lambda>sent.
     bindE (Asset_Validate L sent) (\<lambda>ok.
     bindE (guardE ok (Clp ErrInValidAsset)) (\<lambda>_.
     bindE (deref (ms_ReceivedAsset m)) (\<lambda>received.
     bindE (Asset_Validate L received) (\<lambda>ok.
     bindE (guardE ok (Clp ErrInValidAsset)) (\<lambda>_.
     bindE (guardE (\<not> same_ptr) (Clp ErrInValidAsset)) (\<lambda>_.
     guardE (ms_SentAmount m \<noteq> 0) (Clp ErrInValidAmount)))))))))"

definition MsgRemoveLiquidity_ValidateBasic :: "'x lib \<Rightarrow> msg_remove_liquidity \<Rightarrow> unit res" where
  "MsgRemoveLiquidity_ValidateBasic L m =
     bindE (guardE (length (mrl_Signer m) \<noteq> 0) (ErrGo ''invalid address'')) (\<lambda>_.
     bindE (deref (mrl_ExternalAsset m)) (\<lambda>asset.
     bindE (Asset_Validate L asset) (\<lambda>ok.
     bindE (guardE ok (Clp ErrInValidAsset)) (\<lambda>_.
     bindE (guardE (\<not> (\<not> mrl_WBasisPoints m > 0 \<or> mrl_WBasisPoints m > MaxWbasis)) (Clp ErrInvalidWBasis)) (\<lambda>_.
     guardE (\<not> (mrl_Asymmetry m > 10000 \<or> mrl_Asymmetry m < - 10000)) (Clp ErrInvalidAsymmetry))))))"

definition MsgAddLiquidity_ValidateBasic :: "'x lib \<Rightarrow> msg_add_liquidity \<Rightarrow> unit res" where
  "MsgAddLiquidity_ValidateBasic L m =
     bindE (guardE (length (mal_Signer m) \<noteq> 0) (ErrGo ''invalid address'')) (\<lambda>_.
     bindE (deref (mal_ExternalAsset m)) (\<lambda>asset.
     bindE (Asset_Validate L asset) (\<lambda>ok.
     bindE (guardE ok (Clp ErrInValidAsset)) (\<lambda>_.
     bindE (guardE (\<not> Asset_Equals asset GetSettlementAsset) (Clp ErrInValidAsset)) (\<lambda>_.
     guardE (\<not> (\<not> mal_NativeAssetAmount m \<ge> 0 \<and> mal_ExternalAssetAmount m \<ge> 0)) (Clp ErrInValidAmount))))))"

definition MsgCreatePool_ValidateBasic :: "'x lib \<Rightarrow> msg_create_pool \<Rightarrow> unit res" where
  "MsgCreatePool_ValidateBasic L m =
     bindE (guardE (length (mcp_Signer m) \<noteq> 0) (ErrGo ''invalid address'')) (\<lambda>_.
     bindE (deref (mcp_ExternalAsset m)) (\<lambda>asset.
     bindE (Asset_Validate L asset) (\<lambda>ok.
     bindE (guardE ok (Clp ErrInValidAsset)) (\<lambda>_.
     bindE (guardE (\<not> Asset_Equals asset GetSettlementAsset) (Clp ErrInValidAsset)) (\<lambda>_.
     bindE (guardE (mcp_NativeAssetAmount m > 0) (Clp ErrInValidAmount)) (\<lambda>_.
     guardE (mcp_ExternalAssetAmount m > 0) (Clp ErrInValidAmount)))))))"

definition MsgDecommissionPool_GetSigners :: "'x lib \<Rightarrow> msg_decommission_pool \<Rightarrow> addr list res" where
  "MsgDecommissionPool_GetSigners L m =
     bindE (wrapE Panic (AccAddressFromBech32 L (mdp_Signer m))) (\<lambda>a. Inr [a])"

definition MsgSwap_GetSigners :: "'x lib \<Rightarrow> msg_swap \<Rightarrow> addr list res" where
  "MsgSwap_GetSigners L m =
     bindE (wrapE Panic (AccAddressFromBech32 L (ms_Signer m))) (\<lambda>a. Inr [a])"

definition MsgRemoveLiquidity_GetSigners :: "'x lib \<Rightarrow> msg_remove_liquidity \<Rightarrow> addr list res" where
  "MsgRemoveLiquidity_GetSigners L m =
     bindE (wrapE Panic (AccAddressFromBech32 L (mrl_Signer m))) (\<lambda>a. Inr [a])"

definition MsgAddLiquidity_GetSigners :: "'x lib \<Rightarrow> msg_add_liquidity \<Rightarrow> addr list res" where
  "MsgAddLiquidity_GetSigners L m =
     bindE (wrapE Panic (AccAddressFromBech32 L (mal_Signer m))) (\<lambda>a. Inr [a])"

definition MsgCreatePool_GetSigners :: "'x lib \<Rightarrow> msg_create_pool \<Rightarrow> addr list res" where
  "MsgCreatePool_GetSigners L m =
     bindE (wrapE Panic (AccAddressFromBech32 L (mcp_Signer m))) (\<lambda>a. Inr [a])"

subsection \<open>Creating a pool\<close>

definition token_entry :: "'x ctx \<Rightarrow> string \<Rightarrow> registry_entry res" where
  "token_entry c symbol = wrapE (Clp ErrTokenNotSupported) (GetEntry (GetRegistry c) symbol)"

definition require_clp :: "registry_entry \<Rightarrow> unit res" where
  "require_clp entry = guardE (CheckEntryPermissions entry [Permission_CLP]) (Registry ErrPermissionDenied)"

definition msg_CreatePool :: "'x lib \<Rightarrow> 'x ctx \<Rightarrow> msg_create_pool \<Rightarrow> 'x ctx res" where
  "msg_CreatePool L c msg =
     bindE (guardE (\<not> mcp_NativeAssetAmount msg < PoolThrehold) (Clp ErrTotalAmountTooLow)) (\<lambda>_.
     bindE (deref (mcp_ExternalAsset msg)) (\<lambda>asset.
     bindE (token_entry c (Symbol asset)) (\<lambda>eAsset.
     bindE (require_clp eAsset) (\<lambda>_.
     bindE (guardE (\<not> ExistsPool c (Symbol asset)) (Clp ErrUnableToCreatePool)) (\<lambda>_.
     bindE (GetNormalizationFactor L (Decimals eAsset)) (\<lambda>(normalizationFactor, adjustExternalToken).
     bindE (wrapE (Clp ErrUnableToCreatePool)
       (CalculatePoolUnits L 0 0 0 (mcp_NativeAssetAmount msg) (mcp_ExternalAssetAmount msg)
          normalizationFactor adjustExternalToken)) (\<lambda>(poolUnits, lpunits).
     bindE (wrapE (Clp ErrUnableToSetPool) (clp_CreatePool L c poolUnits msg)) (\<lambda>(p, c).
     bindE (AccAddressFromBech32 L (mcp_Signer msg)) (\<lambda>accAddr.
     bindE (CreateLiquidityProvider L c (mcp_ExternalAsset msg) lpunits accAddr) (\<lambda>(lp, c).
     Inr (EmitEvents
       [Event ''created_new_pool'' [(''pool'', Pool_String L p), height_attr c],
        Event ''created_new_liquidity_provider''
          [(''liquidity_provider'', LiquidityProvider_String L lp), height_attr c],
        message_event clp_ModuleName (mcp_Signer msg)] c)))))))))))"

subsection \<open>Adding liquidity\<close>

definition msg_AddLiquidity :: "'x lib \<Rightarrow> 'x ctx \<Rightarrow> msg_add_liquidity \<Rightarrow> 'x ctx res" where
  "msg_AddLiquidity L c msg =
     bindE (deref (mal_ExternalAsset msg)) (\<lambda>asset.
     bindE (token_entry c (Symbol asset)) (\<lambda>eAsset.
     bindE (require_clp eAsset) (\<lambda>_.
     bindE (wrapE (Clp ErrPoolDoesNotExist) (GetPool c (Symbol asset))) (\<lambda>p.
     bindE (GetNormalizationFactor L (Decimals eAsset)) (\<lambda>(normalizationFactor, adjustExternalToken).
     bindE (CalculatePoolUnits L (PoolUnits p) (NativeAssetBalance p) (ExternalAssetBalance p)
       (mal_NativeAssetAmount msg) (mal_ExternalAssetAmount msg)
       normalizationFactor adjustExternalToken) (\<lambda>(newPoolUnits, lpUnits).
     bindE (wrapE (Clp ErrUnableToAddLiquidity) (clp_AddLiquidity L c msg p newPoolUnits lpUnits)) (\<lambda>(lp, c).
     Inr (EmitEvents
       [Event ''added_liquidity'' [(''liquidity_provider'', LiquidityProvider_String L lp), height_attr c],
        message_event clp_ModuleName (mal_Signer msg)] c))))))))"

subsection \<open>Removing liquidity\<close>

text \<open>
  The coins to pay out and the pool to store after the swap that an asymmetric withdrawal adds:
  \<open>from_asset\<close> is swapped for \<open>to_asset\<close>, \<open>gain\<close> is the coin of the latter and \<open>loss\<close> of the former.
\<close>

definition adjust_asymmetry ::
  "'x lib \<Rightarrow> asset \<Rightarrow> nat \<Rightarrow> asset \<Rightarrow> pool \<Rightarrow> dec \<Rightarrow> bool \<Rightarrow> coin \<Rightarrow> coin \<Rightarrow> (coin \<times> coin \<times> pool) res" where
  "adjust_asymmetry L from_asset swapAmount to_asset p normalizationFactor adjustExternalToken gain loss =
     bindE (wrapE (Clp ErrUnableToSwap)
       (SwapOne L from_asset swapAmount to_asset p normalizationFactor adjustExternalToken)) (\<lambda>(swapResult, _, _, swappedPool).
     bindE (if swapResult \<noteq> 0 then
              bindE (IntOfUint L swapResult) (\<lambda>swapResultInt.
              bindE (IntOfUint L swapAmount) (\<lambda>swapAmountInt.
              bindE (NewCoin L (Symbol to_asset) swapResultInt) (\<lambda>swapCoin.
              bindE (NewCoin L (Symbol from_asset) swapAmountInt) (\<lambda>swapAmountInCoin.
              bindE (Coin_Add L gain swapCoin) (\<lambda>gain.
              bindE (Coin_Sub L loss swapAmountInCoin) (\<lambda>loss.
              Inr (gain, loss)))))))
            else Inr (gain, loss)) (\<lambda>(gain, loss).
     Inr (gain, loss, swappedPool)))"

definition msg_RemoveLiquidity :: "'x lib \<Rightarrow> 'x ctx \<Rightarrow> msg_remove_liquidity \<Rightarrow> 'x ctx res" where
  "msg_RemoveLiquidity L c msg =
     bindE (deref (mrl_ExternalAsset msg)) (\<lambda>asset.
     bindE (token_entry c (Symbol asset)) (\<lambda>eAsset.
     bindE (require_clp eAsset) (\<lambda>_.
     bindE (wrapE (Clp ErrPoolDoesNotExist) (GetPool c (Symbol asset))) (\<lambda>p.
     bindE (wrapE (Clp ErrLiquidityProviderDoesNotExist) (GetLiquidityProvider c (Symbol asset) (mrl_Signer msg))) (\<lambda>lp.
     let poolOriginalEB = ExternalAssetBalance p; poolOriginalNB = NativeAssetBalance p in
     bindE (CalculateWithdrawal L (PoolUnits p) (nat_string (NativeAssetBalance p))
       (nat_string (ExternalAssetBalance p)) (nat_string (LiquidityProviderUnits lp))
       (int_string (mrl_WBasisPoints msg)) (mrl_Asymmetry msg))
       (\<lambda>(withdrawNativeAssetAmount, withdrawExternalAssetAmount, lpUnitsLeft, swapAmount).
     bindE (IntOfUint L withdrawExternalAssetAmount) (\<lambda>withdrawExternalAssetAmountInt.
     bindE (IntOfUint L withdrawNativeAssetAmount) (\<lambda>withdrawNativeAssetAmountInt.
     bindE (NewCoin L (Symbol asset) withdrawExternalAssetAmountInt) (\<lambda>externalAssetCoin.
     bindE (NewCoin L (Symbol GetSettlementAsset) withdrawNativeAssetAmountInt) (\<lambda>nativeAssetCoin.
     bindE (bindE (Uint_Sub L (PoolUnits p) (LiquidityProviderUnits lp)) (\<lambda>u. Uint_Add L u lpUnitsLeft)) (\<lambda>poolUnits.
     bindE (Uint_Sub L (NativeAssetBalance p) withdrawNativeAssetAmount) (\<lambda>nb.
     bindE (Uint_Sub L (ExternalAssetBalance p) withdrawExternalAssetAmount) (\<lambda>eb.
     let p = p\<lparr>PoolUnits := poolUnits, NativeAssetBalance := nb, ExternalAssetBalance := eb\<rparr> in
     bindE (guardE (\<not> (mrl_Asymmetry msg \<noteq> 0 \<and> (ExternalAssetBalance p = 0 \<or> NativeAssetBalance p = 0)))
       (Clp ErrPoolTooShallow)) (\<lambda>_.
     bindE (if mrl_Asymmetry msg > 0 then
              bindE (GetNormalizationFactor L (Decimals eAsset)) (\<lambda>(nf, adjust).
              adjust_asymmetry L GetSettlementAsset swapAmount asset p nf adjust externalAssetCoin nativeAssetCoin)
            else Inr (externalAssetCoin, nativeAssetCoin, p)) (\<lambda>(externalAssetCoin, nativeAssetCoin, p).
     bindE (if mrl_Asymmetry msg < 0 then
              bindE (GetNormalizationFactor L (Decimals eAsset)) (\<lambda>(nf, adjust).
              bindE (adjust_asymmetry L asset swapAmount GetSettlementAsset p nf adjust nativeAssetCoin externalAssetCoin)
                (\<lambda>(nativeAssetCoin, externalAssetCoin, p). Inr (externalAssetCoin, nativeAssetCoin, p)))
            else Inr (externalAssetCoin, nativeAssetCoin, p)) (\<lambda>(externalAssetCoin, nativeAssetCoin, p).
     bindE (wrapE (Clp ErrUnableToRemoveLiquidity)
       (clp_RemoveLiquidity L c p externalAssetCoin nativeAssetCoin lp lpUnitsLeft poolOriginalEB poolOriginalNB)) (\<lambda>c.
     Inr (EmitEvents
       [Event ''removed_liquidity'' [(''liquidity_provider'', LiquidityProvider_String L lp), height_attr c],
        message_event clp_ModuleName (mrl_Signer msg)] c))))))))))))))))))"

subsection \<open>Swapping\<close>

definition empty_pool :: pool where
  "empty_pool = \<lparr>ExternalAsset = None, NativeAssetBalance = 0, ExternalAssetBalance = 0, PoolUnits = 0\<rparr>"

definition swap_fee_total ::
  "'x lib \<Rightarrow> int \<Rightarrow> asset \<Rightarrow> pool \<Rightarrow> nat \<Rightarrow> nat \<Rightarrow> nat res" where
  "swap_fee_total L decimals received outPool liquidityFeeNative lp =
     (if liquidityFeeNative > 0 then
        bindE (Uint_Add L 0 lp) (\<lambda>liquidityFeeExternal.
        bindE (GetNormalizationFactor L decimals) (\<lambda>(nf, adjust).
        bindE (GetSwapFee L liquidityFeeNative received outPool nf adjust) (\<lambda>firstSwapFeeInOutputAsset.
        Uint_Add L liquidityFeeExternal firstSwapFeeInOutputAsset)))
      else Uint_Add L liquidityFeeNative lp)"

text \<open>
  The parts of \<open>Swap\<close>: the pool of the sent token, the swap of the sent token for the native one
  when neither side is native, and the pool that pays out.
\<close>

definition swap_in_pool :: "'x ctx \<Rightarrow> asset \<Rightarrow> pool res" where
  "swap_in_pool c sent =
     (if \<not> Asset_Equals sent GetSettlementAsset
      then wrapE (Clp ErrPoolDoesNotExist) (GetPool c (Symbol sent)) else Inr empty_pool)"

definition swap_first_leg ::
  "'x lib \<Rightarrow> 'x ctx \<Rightarrow> registry_entry \<Rightarrow> asset \<Rightarrow> asset \<Rightarrow> nat \<Rightarrow> pool \<Rightarrow> ('x ctx \<times> nat \<times> asset \<times> nat \<times> nat) res" where
  "swap_first_leg L c sAsset sent received sentAmount inPool =
     (let nativeAsset = GetSettlementAsset in
      if \<not> Asset_Equals sent nativeAsset \<and> \<not> Asset_Equals received nativeAsset then
        bindE (GetNormalizationFactor L (Decimals sAsset)) (\<lambda>(nf, adjust).
        bindE (SwapOne L sent sentAmount nativeAsset inPool nf adjust) (\<lambda>(emitAmount, lp, ts, finalPool).
        bindE (wrapE (Clp ErrUnableToSetPool) (SetPool L c finalPool)) (\<lambda>c.
        bindE (Uint_Add L 0 ts) (\<lambda>priceImpact.
        bindE (Uint_Add L 0 lp) (\<lambda>liquidityFeeNative.
        Inr (c, emitAmount, nativeAsset, priceImpact, liquidityFeeNative))))))
      else Inr (c, sentAmount, sent, 0, 0))"

definition swap_out_pool :: "'x ctx \<Rightarrow> asset \<Rightarrow> asset \<Rightarrow> registry_entry \<Rightarrow> registry_entry \<Rightarrow> (pool \<times> int) res" where
  "swap_out_pool c sent received sAsset rAsset =
     (if Asset_Equals received GetSettlementAsset
      then bindE (wrapE (Clp ErrPoolDoesNotExist) (GetPool c (Symbol sent))) (\<lambda>p. Inr (p, Decimals sAsset))
      else bindE (wrapE (Clp ErrPoolDoesNotExist) (GetPool c (Symbol received))) (\<lambda>p. Inr (p, Decimals rAsset)))"

definition msg_Swap :: "'x lib \<Rightarrow> 'x ctx \<Rightarrow> msg_swap \<Rightarrow> 'x ctx res" where
  "msg_Swap L c msg =
     bindE (deref (ms_SentAsset msg)) (\<lambda>sent.
     bindE (token_entry c (Symbol sent)) (\<lambda>sAsset.
     bindE (deref (ms_ReceivedAsset msg)) (\<lambda>received.
     bindE (token_entry c (Symbol received)) (\<lambda>rAsset.
     bindE (require_clp sAsset) (\<lambda>_.
     bindE (require_clp rAsset) (\<lambda>_.
     bindE (swap_in_pool c sent) (\<lambda>inPool.
     bindE (IntOfUint L (ms_SentAmount msg)) (\<lambda>sentAmountInt.
     bindE (AccAddressFromBech32 L (ms_Signer msg)) (\<lambda>accAddr.
     bindE (NewCoin L (Symbol sent) sentAmountInt) (\<lambda>sentCoin.
     bindE (wrapE (Clp ErrUnableToSwap) (InitiateSwap L c sentCoin accAddr)) (\<lambda>c.
     bindE (swap_first_leg L c sAsset sent received (ms_SentAmount msg) inPool)
       (\<lambda>(c, sentAmount, sentAsset, priceImpact, liquidityFeeNative).
     bindE (swap_out_pool c sent received sAsset rAsset) (\<lambda>(outPool, decimals).
     bindE (GetNormalizationFactor L decimals) (\<lambda>(nf, adjust).
     bindE (SwapOne L sentAsset sentAmount received outPool nf adjust) (\<lambda>(emitAmount, lp, ts, finalPool).
     bindE (guardE (\<not> emitAmount < ms_MinReceivingAmount msg) (Clp ErrReceivedAmountBelowExpected)) (\<lambda>_.
     bindE (wrapE (Clp ErrUnableToSwap) (FinalizeSwap L c (nat_string emitAmount) finalPool msg)) (\<lambda>c.
     bindE (swap_fee_total L decimals received outPool liquidityFeeNative lp) (\<lambda>totalLiquidityFee.
     bindE (Uint_Add L priceImpact ts) (\<lambda>priceImpact.
     Inr (EmitEvents
       [Event ''swap_successful''
          [(''swap_amount'', nat_string emitAmount), (''liquidity_fee'', nat_string totalLiquidityFee),
           (''price_impact'', nat_string priceImpact), (''in_pool'', Pool_String L inPool),
           (''out_pool'', Pool_String L outPool), height_attr c],
        message_event clp_ModuleName (ms_Signer msg)] c))))))))))))))))))))"

subsection \<open>Decommissioning a pool\<close>

fun refund_providers ::
  "'x lib \<Rightarrow> string \<Rightarrow> pool \<Rightarrow> liquidity_provider list \<Rightarrow> nat \<Rightarrow> nat \<Rightarrow> nat \<Rightarrow> 'x ctx \<Rightarrow> 'x ctx res" where
  "refund_providers L symbol p [] poolUnits nativeAssetBalance externalAssetBalance c = Inr c"
| "refund_providers L symbol p (lp # lps) poolUnits nativeAssetBalance externalAssetBalance c =
     bindE (CalculateAllAssetsForLP L p lp) (\<lambda>(withdrawNativeAsset, withdrawExternalAsset, _, _).
     bindE (Uint_Sub L poolUnits (LiquidityProviderUnits lp)) (\<lambda>poolUnits.
     bindE (Uint_Sub L nativeAssetBalance withdrawNativeAsset) (\<lambda>nativeAssetBalance.
     bindE (Uint_Sub L externalAssetBalance withdrawExternalAsset) (\<lambda>externalAssetBalance.
     bindE (IntOfUint L withdrawNativeAsset) (\<lambda>withdrawNativeAssetInt.
     bindE (IntOfUint L withdrawExternalAsset) (\<lambda>withdrawExternalAssetInt.
     bindE (NewCoin L (Symbol GetSettlementAsset) withdrawNativeAssetInt) (\<lambda>withdrawNativeCoins.
     bindE (NewCoin L symbol withdrawExternalAssetInt) (\<lambda>withdrawExternalCoins.
     bindE (NewCoins L [withdrawExternalCoins, withdrawNativeCoins]) (\<lambda>refundingCoins.
     bindE (wrapE (Clp ErrUnableToRemoveLiquidityProvider) (RemoveLiquidityProvider L c refundingCoins lp)) (\<lambda>c.
     refund_providers L symbol p lps poolUnits nativeAssetBalance externalAssetBalance c))))))))))"

definition MaxUint64 :: nat where
  "MaxUint64 = 2 ^ 64 - 1"

definition msg_DecommissionPool :: "'x lib \<Rightarrow> 'x ctx \<Rightarrow> msg_decommission_pool \<Rightarrow> 'x ctx res" where
  "msg_DecommissionPool L c msg =
     bindE (wrapE (Clp ErrPoolDoesNotExist) (GetPool c (mdp_Symbol msg))) (\<lambda>p.
     bindE (AccAddressFromBech32 L (mdp_Signer msg)) (\<lambda>addAddr.
     bindE (ValidateAddress L c addAddr) (\<lambda>permitted.
     bindE (guardE permitted (Clp ErrInvalid)) (\<lambda>_.
     bindE (guardE (\<not> NativeAssetBalance p \<ge> PoolThrehold) (Clp ErrBalanceTooHigh)) (\<lambda>_.
     bindE (parseE (ErrGo ''nill external asset'') (ExternalAsset p)) (\<lambda>asset.
     bindE (wrapE (Clp ErrLiquidityProviderDoesNotExist) (GetLiquidityProvidersForAssetPaginated L c asset
       \<lparr>page_key = [], page_offset = 0, page_limit = MaxUint64\<rparr>)) (\<lambda>(lpList, _).
     bindE (refund_providers L (mdp_Symbol msg) p lpList (PoolUnits p) (NativeAssetBalance p)
       (ExternalAssetBalance p) c) (\<lambda>c.
     bindE (wrapE (Clp ErrUnableToDecommissionPool) (clp_DecommissionPool c p)) (\<lambda>c.
     Inr (EmitEvents
       [Event ''decommission_pool'' [(''pool'', Pool_String L p), height_attr c],
        message_event clp_ModuleName (mdp_Signer msg)] c))))))))))"

subsection \<open>Dispatch and genesis\<close>

datatype clp_msg =
    MsgCreatePool msg_create_pool | MsgAddLiquidity msg_add_liquidity
  | MsgRemoveLiquidity msg_remove_liquidity | MsgSwap msg_swap | MsgDecommissionPool msg_decommission_pool

definition clp_NewHandler :: "'x lib \<Rightarrow> 'x ctx \<Rightarrow> clp_msg \<Rightarrow> 'x ctx res" where
  "clp_NewHandler L c msg =
     (let c = c\<lparr>events := []\<rparr> in
      case msg of
        MsgCreatePool m \<Rightarrow> msg_CreatePool L c m
      | MsgAddLiquidity m \<Rightarrow> msg_AddLiquidity L c m
      | MsgRemoveLiquidity m \<Rightarrow> msg_RemoveLiquidity L c m
      | MsgSwap m \<Rightarrow> msg_Swap L c m
      | MsgDecommissionPool m \<Rightarrow> msg_DecommissionPool L c m)"

end
