(* ===== verification/Float64.thy ===== *)
theory Float64
  imports Complex_Main "HOL-Library.Log_Nat"
begin

section \<open>Go's float64\<close>

text \<open>
  The oracle compares ratios of validator powers as \<open>float64\<close>. A finite double is its rational
  value; conversion from an integer and division round the exact result to 53 significant bits,
  ties to even. The exponents met here are far from the limits of the format, so neither
  overflow nor subnormal numbers arise. A quotient by zero is an infinity or NaN, and a
  comparison with NaN is false.
\<close>

datatype f64 = NaN | PosInf | NegInf | Fin rat

definition round_half_even :: "rat \<Rightarrow> int" where
  "round_half_even x = (let q = \<lfloor>x\<rfloor>; r = x - of_int q in
     if r < 1 / 2 then q else if r > 1 / 2 then q + 1 else if even q then q else q + 1)"

text \<open>The exponent of the last place: \<open>x / 2 ^ e\<close> lies between \<open>2 ^ 52\<close> and \<open>2 ^ 53\<close>.\<close>

definition ulp_exp :: "rat \<Rightarrow> int" where
  "ulp_exp x = (let (p, q) = quotient_of x; k = bitlen p - bitlen q in
     (if 2 powi k \<le> x then k else k - 1) - 52)"

definition round53 :: "rat \<Rightarrow> rat" where
  "round53 x =
     (if x = 0 then 0
      else let e = ulp_exp \<bar>x\<bar>; m = round_half_even (\<bar>x\<bar> / 2 powi e) in
        (if x < 0 then - (of_int m * 2 powi e) else of_int m * 2 powi e))"

definition f64_of_int :: "int \<Rightarrow> f64" where
  "f64_of_int n = Fin (round53 (of_int n))"

fun f64_div :: "f64 \<Rightarrow> f64 \<Rightarrow> f64" where
  "f64_div (Fin a) (Fin b) =
     (if b = 0 then (if a = 0 then NaN else if a > 0 then PosInf else NegInf)
      else Fin (round53 (a / b)))"
| "f64_div _ _ = NaN"

fun f64_ge :: "f64 \<Rightarrow> f64 \<Rightarrow> bool" where
  "f64_ge (Fin a) (Fin b) = (b \<le> a)"
| "f64_ge PosInf b = (b \<noteq> NaN)"
| "f64_ge a NegInf = (a \<noteq> NaN)"
| "f64_ge _ _ = False"

fun f64_lt :: "f64 \<Rightarrow> f64 \<Rightarrow> bool" where
  "f64_lt (Fin a) (Fin b) = (a < b)"
| "f64_lt NegInf b = (b \<noteq> NaN \<and> b \<noteq> NegInf)"
| "f64_lt a PosInf = (a \<noteq> NaN \<and> a \<noteq> PosInf)"
| "f64_lt _ _ = False"

subsection \<open>Rounding\<close>

lemma round_half_even_near: "\<bar>of_int (round_half_even x) - x\<bar> \<le> 1 / 2"
proof -
  define q r where "q = \<lfloor>x\<rfloor>" and "r = x - of_int q"
  have r: "0 \<le> r" "r < 1" and x: "x = of_int q + r"
    unfolding q_def r_def by (simp_all add: floor_less_iff le_floor_iff) linarith
  have "round_half_even x = q \<and> r \<le> 1 / 2 \<or> round_half_even x = q + 1 \<and> 1 / 2 \<le> r"
    unfolding round_half_even_def Let_def q_def [symmetric] r_def [symmetric] by auto
  then show ?thesis
    using r by (auto simp: x)
qed

lemma round_half_even_int [simp]: "round_half_even (of_int n) = n"
  by (simp add: round_half_even_def)

lemma bitlen_range: "0 < n \<Longrightarrow> (2 :: rat) powi (bitlen n - 1) \<le> of_int n \<and> (of_int n :: rat) < 2 powi (bitlen n)"
proof -
  assume n: "0 < n"
  have b: "2 ^ nat (bitlen n - 1) \<le> n" "n < 2 ^ nat (bitlen n)"
    using bitlen_bounds [OF n] by auto
  have pos: "0 < bitlen n" using n b(2) by (cases "0 < bitlen n") auto
  have "(2 :: rat) powi (bitlen n - 1) = of_int (2 ^ nat (bitlen n - 1))"
    and "(2 :: rat) powi (bitlen n) = of_int (2 ^ nat (bitlen n))"
    using pos by (simp_all add: power_int_def)
  then show ?thesis
    using b by (metis of_int_le_iff of_int_less_iff)
qed

lemma ulp_exp_range:
  assumes "0 < x"
  shows "2 powi (ulp_exp x + 52) \<le> x \<and> x < 2 powi (ulp_exp x + 53)"
proof -
  obtain p q where pq: "quotient_of x = (p, q)" by fastforce
  have q: "0 < q" and x: "x = of_int p / of_int q"
    using quotient_of_denom_pos [OF pq] quotient_of_div [OF pq] by simp_all
  have p: "0 < p" using assms q by (simp add: x zero_less_divide_iff)
  define k where "k = bitlen p - bitlen q"
  note bp = bitlen_range [OF p] and bq = bitlen_range [OF q]
  have hi: "x < 2 powi (k + 1)"
  proof -
    have "x < 2 powi bitlen p / of_int q"
      using bp q by (simp add: x divide_strict_right_mono)
    also have "\<dots> \<le> 2 powi bitlen p / 2 powi (bitlen q - 1)"
      using bq q by (intro divide_left_mono mult_pos_pos) simp_all
    also have "\<dots> = 2 powi (k + 1)"
      by (simp add: k_def power_int_diff [symmetric] algebra_simps)
    finally show ?thesis .
  qed
  have lo: "2 powi (k - 1) \<le> x"
  proof -
    have "2 powi (k - 1) = 2 powi (bitlen p - 1) / (2 :: rat) powi bitlen q"
      by (simp add: k_def power_int_diff [symmetric] algebra_simps)
    also have "\<dots> \<le> of_int p / 2 powi bitlen q"
      using bp by (intro divide_right_mono) simp_all
    also have "\<dots> \<le> x"
      unfolding x using bq q p by (intro divide_left_mono mult_pos_pos) simp_all
    finally show ?thesis .
  qed
  show ?thesis
    unfolding ulp_exp_def pq Let_def k_def [symmetric] prod.case
    using hi lo by (simp add: algebra_simps)
qed

text \<open>A rounded value is off by at most half a unit in the 53rd bit.\<close>

lemma round53_near:
  assumes "0 < x"
  shows "\<bar>round53 x - x\<bar> \<le> x / 2 ^ 53"
proof -
  define e where "e = ulp_exp x"
  define m where "m = round_half_even (x / 2 powi e)"
  have r: "round53 x = of_int m * 2 powi e"
    using assms by (simp add: round53_def Let_def e_def m_def)
  have "\<bar>of_int m - x / 2 powi e\<bar> \<le> 1 / 2"
    unfolding m_def by (rule round_half_even_near)
  then have "\<bar>of_int m - x / 2 powi e\<bar> * 2 powi e \<le> 1 / 2 * 2 powi e"
    by (rule mult_right_mono) simp
  moreover have "\<bar>of_int m - x / 2 powi e\<bar> * 2 powi e = \<bar>round53 x - x\<bar>"
  proof -
    have "round53 x - x = (of_int m - x / 2 powi e) * 2 powi e"
      by (simp add: r left_diff_distrib)
    then show ?thesis by (simp add: abs_mult)
  qed
  moreover have "1 / 2 * 2 powi e \<le> x / 2 ^ 53"
  proof -
    have "2 powi (e + 52) = (2 :: rat) powi e * 2 ^ 52"
      by (simp add: power_int_add)
    then show ?thesis using ulp_exp_range [OF assms] by (simp add: e_def)
  qed
  ultimately show ?thesis by simp
qed

lemma round53_0 [simp]: "round53 0 = 0"
  by (simp add: round53_def)

text \<open>Integers below \<open>2 ^ 53\<close> are represented exactly.\<close>

lemma round53_exact:
  assumes "\<bar>n\<bar> < 2 ^ 53"
  shows "round53 (of_int n) = of_int n"
proof (cases "n = 0")
  case False
  define x :: rat where "x = of_int \<bar>n\<bar>"
  define e where "e = ulp_exp x"
  have pos: "0 < x" using False by (simp add: x_def)
  have "x < 2 powi 53"
    using assms by (simp add: x_def)
  then have "(2 :: rat) powi (e + 52) < 2 powi 53"
    using ulp_exp_range [OF pos] unfolding e_def by linarith
  then have "e \<le> 0"
    using power_int_increasing [of 53 "e + 52" "2 :: rat"] by (cases "e \<le> 0") auto
  then obtain k where e: "e = - int k" by (metis nonpos_int_cases)
  have "x / 2 powi e = of_int (\<bar>n\<bar> * 2 ^ k)"
    by (simp add: e x_def power_int_minus divide_inverse)
  then have "round_half_even (x / 2 powi e) = \<bar>n\<bar> * 2 ^ k"
    by (metis round_half_even_int)
  then have "of_int (round_half_even (x / 2 powi e)) * 2 powi e = x"
    by (simp add: e x_def power_int_minus)
  then show ?thesis
    using False by (auto simp: round53_def Let_def e_def x_def abs_if)
qed simp

subsection \<open>Comparing a ratio of integers with a decimal threshold\<close>

text \<open>
  For a threshold \<open>a / b\<close> in lowest precision and a denominator below \<open>2 ^ 48\<close>, the rounding of
  both sides never changes the outcome of the comparison: distinct ratios are further apart than
  the two rounding errors together.
\<close>

lemma round53_compare:
  fixes h t a b :: int
  assumes h: "0 \<le> h" "h \<le> t" and t: "0 < t" "t \<le> 2 ^ 48" and ab: "0 < a" "a \<le> b" "b \<le> 10"
  shows "round53 (of_int a / of_int b) \<le> round53 (of_int h / of_int t) \<longleftrightarrow> a * t \<le> b * h"
proof -
  define x y :: rat where "x = of_int h / of_int t" and "y = of_int a / of_int b"
  have b: "0 < b" using ab by linarith
  have x: "0 \<le> x" "x \<le> 1" and y: "0 < y" "y \<le> 1"
    using h t ab b by (simp_all add: x_def y_def)
  have ex: "\<bar>round53 x - x\<bar> \<le> 1 / 2 ^ 53"
  proof (cases "x = 0")
    case False
    then show ?thesis using round53_near [of x] x by (simp add: field_simps)
  qed simp
  have ey: "\<bar>round53 y - y\<bar> \<le> 1 / 2 ^ 53"
    using round53_near [of y] y by (simp add: field_simps)
  have diff: "x - y = of_int (b * h - a * t) / of_int (b * t)"
    using t b by (simp add: x_def y_def field_simps)
  have bt: "0 < b * t" "b * t \<le> 10 * 2 ^ 48"
    using t b ab mult_mono [of b 10 t "2 ^ 48"] by simp_all
  define g :: rat where "g = 1 / of_int (b * t)"
  have gap: "1 / (10 * 2 ^ 48) \<le> g"
  proof -
    have "(of_int (b * t) :: rat) \<le> of_int (10 * 2 ^ 48)" using bt(2) by (simp only: of_int_le_iff)
    moreover have "0 < (of_int (b * t) :: rat)" using bt(1) by (simp only: of_int_0_less_iff)
    ultimately show ?thesis unfolding g_def by (intro divide_left_mono mult_pos_pos) simp_all
  qed
  define u :: rat where "u = 1 / 2 ^ 53"
  have u: "2 * u < g" using gap by (simp add: u_def)
  note e = ex [folded u_def] ey [folded u_def]
  consider "b * h = a * t" | "a * t < b * h" | "b * h < a * t" by linarith
  then show ?thesis
  proof cases
    case 1
    then have "x = y" using diff by simp
    then show ?thesis using 1 by (simp add: x_def y_def)
  next
    case 2
    then have "g \<le> x - y"
      unfolding diff g_def using bt(1) by (intro divide_right_mono) linarith+
    then have "round53 y \<le> round53 x" using e u by linarith
    then show ?thesis using 2 by (simp add: x_def y_def)
  next
    case 3
    then have "g \<le> - (x - y)"
      unfolding diff g_def minus_divide_left using bt(1) by (intro divide_right_mono) linarith+
    then have "round53 x < round53 y" using e u by linarith
    then show ?thesis using 3 by (simp add: x_def y_def)
  qed
qed

lemma round53_pos: "0 < x \<Longrightarrow> 0 < round53 x"
proof -
  assume x: "0 < x"
  have "x / 2 ^ 53 < x" using x by simp
  with round53_near [OF x] show ?thesis by linarith
qed

lemma round53_minus: "round53 (- x) = - round53 x"
  by (auto simp: round53_def Let_def)

text \<open>The same without bounds on the numerator.\<close>

lemma round53_compare_any:
  fixes h t a b :: int
  assumes t: "0 < t" "t \<le> 2 ^ 48" and ab: "0 < a" "a \<le> b" "b \<le> 10"
  shows "round53 (of_int a / of_int b) \<le> round53 (of_int h / of_int t) \<longleftrightarrow> a * t \<le> b * h"
proof -
  define x y :: rat where "x = of_int h / of_int t" and "y = of_int a / of_int b"
  have y: "0 < y" "y \<le> 1" using ab by (simp_all add: y_def)
  consider "0 \<le> h" "h \<le> t" | "h < 0" | "t < h" by linarith
  then show ?thesis
  proof cases
    case 1
    then show ?thesis using round53_compare t ab by blast
  next
    case 2
    then have "0 < - x" using t by (simp add: x_def divide_neg_pos)
    then have "round53 x < round53 y"
      using round53_pos [of "- x"] round53_pos [OF y(1)] by (simp add: round53_minus)
    moreover have "b * h < 0" "0 < a * t" using 2 t ab by (simp_all add: mult_pos_neg)
    ultimately show ?thesis by (simp add: x_def y_def)
  next
    case 3
    then have "(of_int t + 1 :: rat) \<le> of_int h" by (metis of_int_1 of_int_add of_int_le_iff zless_imp_add1_zle)
    then have "(of_int t + 1) / of_int t \<le> x" using t unfolding x_def by (intro divide_right_mono) simp_all
    moreover have "1 / 2 ^ 48 \<le> 1 / (of_int t :: rat)"
      using t by (intro divide_left_mono) (simp_all add: of_int_le_numeral_power_cancel_iff)
    moreover have "(of_int t + 1) / of_int t = 1 + 1 / (of_int t :: rat)" using t by (simp add: add_divide_distrib)
    ultimately have x: "1 + 1 / 2 ^ 48 \<le> x" by linarith
    define u :: rat where "u = 1 / 2 ^ 53"
    have "0 < x" using x by (rule less_le_trans [rotated]) simp
    from round53_near [OF this] round53_near [OF y(1)]
    have "\<bar>round53 x - x\<bar> \<le> x * u" "\<bar>round53 y - y\<bar> \<le> y * u"
      by (simp_all add: u_def)
    then have "x - x * u \<le> round53 x" "round53 y \<le> y + y * u" by linarith+
    moreover have "y * u \<le> u" using y by (simp add: u_def)
    moreover have "1 + u \<le> x - x * u" using x by (simp add: u_def)
    ultimately have "round53 y \<le> round53 x" using y by linarith
    moreover have "a * t \<le> b * h" using 3 t ab by (intro mult_mono) simp_all
    ultimately show ?thesis by (simp add: x_def y_def)
  qed
qed

definition f64_dec :: "int \<Rightarrow> int \<Rightarrow> f64" where
  "f64_dec a b = Fin (round53 (of_int a / of_int b))"

lemma f64_of_int_exact: "\<bar>n\<bar> < 2 ^ 53 \<Longrightarrow> f64_of_int n = Fin (of_int n)"
  by (simp add: f64_of_int_def round53_exact)

lemma f64_ratio:
  assumes "\<bar>h\<bar> < 2 ^ 53" and "0 < t" "t \<le> 2 ^ 48" and "0 < a" "a \<le> b" "b \<le> 10"
  shows "f64_ge (f64_div (f64_of_int h) (f64_of_int t)) (f64_dec a b) \<longleftrightarrow> a * t \<le> b * h"
    and "f64_lt (f64_div (f64_of_int h) (f64_of_int t)) (f64_dec a b) \<longleftrightarrow> b * h < a * t"
proof -
  have "f64_of_int h = Fin (of_int h)" "f64_of_int t = Fin (of_int t)"
    using assms by (simp_all add: f64_of_int_exact)
  with round53_compare_any [OF assms(2-), of h] assms(2)
  show "f64_ge (f64_div (f64_of_int h) (f64_of_int t)) (f64_dec a b) \<longleftrightarrow> a * t \<le> b * h"
    and "f64_lt (f64_div (f64_of_int h) (f64_of_int t)) (f64_dec a b) \<longleftrightarrow> b * h < a * t"
    by (auto simp: f64_dec_def not_le [symmetric])
qed

end
