(* ===== verification/Oracle.thy ===== *)
theory Oracle
  imports RefCtx Float64
begin

section \<open>The oracle\<close>

text \<open>
  \<open>x/oracle\<close>: validators on a whitelist make claims about a prophecy; a claim with enough of the
  whitelisted voting power behind it decides the prophecy. The two Go maps of a prophecy are
  key-value lists sorted by key, as JSON writes them. Go visits a map in no fixed order:
  \<open>FindHighestClaim\<close> takes the order as the argument \<open>ord\<close>, any permutation of the entries.
\<close>

subsection \<open>Prophecies\<close>

record prophecy =
  p_ID :: string
  p_Status :: status
  p_ClaimValidators :: "addr list kv"
  p_ValidatorClaims :: "string kv"

definition DefaultConsensusNeeded :: f64 where
  "DefaultConsensusNeeded = f64_dec 7 10"

definition NewStatus :: "status_text \<Rightarrow> string \<Rightarrow> status" where
  "NewStatus text finalClaim = \<lparr>Text = text, FinalClaim = finalClaim\<rparr>"

definition NewProphecy :: "string \<Rightarrow> prophecy" where
  "NewProphecy i = \<lparr>p_ID = i, p_Status = NewStatus STATUS_TEXT_PENDING [],
     p_ClaimValidators = [], p_ValidatorClaims = []\<rparr>"

definition NewClaim :: "string \<Rightarrow> string \<Rightarrow> string \<Rightarrow> claim" where
  "NewClaim i validatorAddress content =
     \<lparr>claim_Id = i, claim_ValidatorAddress = validatorAddress, claim_Content = content\<rparr>"

definition SerializeForDB :: "'x lib \<Rightarrow> prophecy \<Rightarrow> db_prophecy res" where
  "SerializeForDB L p =
     bindE (MarshalClaimValidators L (p_ClaimValidators p)) (\<lambda>claimValidators.
     bindE (MarshalValidatorClaims L (p_ValidatorClaims p)) (\<lambda>validatorClaims.
     Inr \<lparr>db_Id = p_ID p, db_Status = p_Status p, db_ClaimValidators = claimValidators,
           db_ValidatorClaims = validatorClaims\<rparr>))"

definition DeserializeFromDB :: "'x lib \<Rightarrow> db_prophecy \<Rightarrow> prophecy res" where
  "DeserializeFromDB L db =
     bindE (UnmarshalClaimValidators L (db_ClaimValidators db)) (\<lambda>claimValidators.
     bindE (UnmarshalValidatorClaims L (db_ValidatorClaims db)) (\<lambda>validatorClaims.
     Inr \<lparr>p_ID = db_Id db, p_Status = db_Status db, p_ClaimValidators = claimValidators,
           p_ValidatorClaims = validatorClaims\<rparr>))"

text \<open>Reading a map at an absent key gives the zero value.\<close>

definition claimers :: "prophecy \<Rightarrow> string \<Rightarrow> addr list" where
  "claimers p claim = (case kv_get (p_ClaimValidators p) claim of None \<Rightarrow> [] | Some as \<Rightarrow> as)"

definition claim_of :: "prophecy \<Rightarrow> string \<Rightarrow> string" where
  "claim_of p v = (case kv_get (p_ValidatorClaims p) v of None \<Rightarrow> [] | Some s \<Rightarrow> s)"

definition AddClaim :: "'x lib \<Rightarrow> prophecy \<Rightarrow> addr \<Rightarrow> string \<Rightarrow> prophecy" where
  "AddClaim L p validator claim =
     p\<lparr>p_ClaimValidators := kv_set claim (claimers p claim @ [validator]) (p_ClaimValidators p),
       p_ValidatorClaims := kv_set (ValAddress_String L validator) claim (p_ValidatorClaims p)\<rparr>"

fun inWhiteList :: "validator \<Rightarrow> addr list \<Rightarrow> bool" where
  "inWhiteList v [] = False"
| "inWhiteList v (a # as) = (if val_operator v = a then True else inWhiteList v as)"

definition total_power :: "validator list \<Rightarrow> addr list \<Rightarrow> int" where
  "total_power vs wl = foldl (\<lambda>t v. if inWhiteList v wl then i64 (t + val_power v) else t) 0 vs"

text \<open>\<open>validatorsByAddress\<close>: a later validator replaces an earlier one with the same address.\<close>

definition validator_by_address :: "validator list \<Rightarrow> string \<Rightarrow> validator option" where
  "validator_by_address vs s = List.find (\<lambda>v. val_operator_address v = s) (rev vs)"

definition claim_power :: "'x lib \<Rightarrow> validator list \<Rightarrow> addr list \<Rightarrow> int" where
  "claim_power L vs as = foldl (\<lambda>p a.
     case validator_by_address vs (ValAddress_String L a) of
       None \<Rightarrow> p
     | Some v \<Rightarrow> i64 (p + val_power v)) 0 as"

definition highest_step ::
  "'x lib \<Rightarrow> validator list \<Rightarrow> string \<times> int \<times> int \<Rightarrow> string \<times> addr list \<Rightarrow> string \<times> int \<times> int" where
  "highest_step L vs = (\<lambda>(highestClaim, highestClaimPower, totalClaimsPower) (claim, as).
     let claimPower = claim_power L vs as; totalClaimsPower = i64 (totalClaimsPower + claimPower) in
     if claimPower > highestClaimPower then (claim, claimPower, totalClaimsPower)
     else (highestClaim, highestClaimPower, totalClaimsPower))"

type_synonym map_order = "(string \<times> addr list) list \<Rightarrow> (string \<times> addr list) list"

definition FindHighestClaim ::
  "'x lib \<Rightarrow> map_order \<Rightarrow> 'x ctx \<Rightarrow> prophecy \<Rightarrow> addr list \<Rightarrow> string \<times> int \<times> int \<times> int" where
  "FindHighestClaim L ord c p wl =
     (let vs = GetBondedValidatorsByPower L (ext c);
          (highestClaim, highestClaimPower, totalClaimsPower) =
            foldl (highest_step L vs) ([], - 1, 0) (ord (p_ClaimValidators p))
      in (highestClaim, highestClaimPower, totalClaimsPower, total_power vs wl))"

subsection \<open>Keeper\<close>

definition oracle_WhiteListValidatorPrefix :: key where
  "oracle_WhiteListValidatorPrefix = [CHR 0x00]"

definition oracle_AdminAccountPrefix :: key where
  "oracle_AdminAccountPrefix = [CHR 0x01]"

definition ProphecyPrefix :: key where
  "ProphecyPrefix = [CHR 0x02]"

definition oracle_NewKeeper :: "f64 \<Rightarrow> f64 res" where
  "oracle_NewKeeper consensusNeeded =
     (if f64_ge (Fin 0) consensusNeeded \<or> f64_lt (Fin 1) consensusNeeded then Inl Panic
      else Inr consensusNeeded)"

definition prophecy_key :: "string \<Rightarrow> key" where
  "prophecy_key i = ProphecyPrefix @ ''_'' @ i"

definition GetProphecies :: "'x lib \<Rightarrow> 'x ctx \<Rightarrow> prophecy list res" where
  "GetProphecies L c = foldE (\<lambda>ps e.
     case snd e of
       OV_Prophecy db \<Rightarrow> bindE (wrapE Panic (DeserializeFromDB L db)) (\<lambda>p. Inr (ps @ [p]))
     | _ \<Rightarrow> Inl Panic) [] (kv_from ProphecyPrefix (oracle_store c))"

definition GetProphecy :: "'x lib \<Rightarrow> 'x ctx \<Rightarrow> string \<Rightarrow> prophecy option" where
  "GetProphecy L c i =
     (case kv_get (oracle_store c) (prophecy_key i) of
        Some (OV_Prophecy db) \<Rightarrow>
          (case DeserializeFromDB L db of Inl _ \<Rightarrow> None | Inr p \<Rightarrow> Some p)
      | _ \<Rightarrow> None)"

definition SetDBProphecy :: "'x ctx \<Rightarrow> db_prophecy \<Rightarrow> 'x ctx" where
  "SetDBProphecy c db =
     c\<lparr>oracle_store := kv_set (prophecy_key (db_Id db)) (OV_Prophecy db) (oracle_store c)\<rparr>"

definition SetProphecy :: "'x lib \<Rightarrow> 'x ctx \<Rightarrow> prophecy \<Rightarrow> 'x ctx res" where
  "SetProphecy L c p = bindE (SerializeForDB L p) (\<lambda>db. Inr (SetDBProphecy c db))"

definition SetOracleWhiteList :: "'x lib \<Rightarrow> 'x ctx \<Rightarrow> addr list \<Rightarrow> 'x ctx" where
  "SetOracleWhiteList L c vs =
     c\<lparr>oracle_store := kv_set oracle_WhiteListValidatorPrefix
         (OV_WhiteList (map (ValAddress_String L) vs)) (oracle_store c)\<rparr>"

definition ExistsOracleWhiteList :: "'x ctx \<Rightarrow> bool" where
  "ExistsOracleWhiteList c = kv_has (oracle_store c) oracle_WhiteListValidatorPrefix"

fun mustValAddresses :: "'x lib \<Rightarrow> string list \<Rightarrow> addr list res" where
  "mustValAddresses L [] = Inr []"
| "mustValAddresses L (entry # rest) =
     bindE (wrapE Panic (ValAddressFromBech32 L entry)) (\<lambda>a.
     bindE (mustValAddresses L rest) (\<lambda>as. Inr (a # as)))"

definition GetOracleWhiteList :: "'x lib \<Rightarrow> 'x ctx \<Rightarrow> addr list res" where
  "GetOracleWhiteList L c =
     mustValAddresses L (case kv_get (oracle_store c) oracle_WhiteListValidatorPrefix of
        Some (OV_WhiteList ss) \<Rightarrow> ss
      | _ \<Rightarrow> [])"

definition oracle_ValidateAddress :: "'x lib \<Rightarrow> 'x ctx \<Rightarrow> addr \<Rightarrow> bool res" where
  "oracle_ValidateAddress L c a =
     (if \<not> ExistsOracleWhiteList c then Inr False
      else bindE (GetOracleWhiteList L c) (\<lambda>vs. Inr (list_ex (\<lambda>v. v = a) vs)))"

definition AddOracleWhiteList :: "'x lib \<Rightarrow> 'x ctx \<Rightarrow> addr \<Rightarrow> 'x ctx res" where
  "AddOracleWhiteList L c a =
     bindE (GetOracleWhiteList L c) (\<lambda>vs. Inr (SetOracleWhiteList L c (vs @ [a])))"

definition RemoveOracleWhiteList :: "'x lib \<Rightarrow> 'x ctx \<Rightarrow> addr \<Rightarrow> 'x ctx res" where
  "RemoveOracleWhiteList L c a =
     bindE (GetOracleWhiteList L c) (\<lambda>vs.
     Inr (SetOracleWhiteList L c (filter (\<lambda>v. \<not> a = v) vs)))"

definition oracle_SetAdminAccount :: "'x ctx \<Rightarrow> addr \<Rightarrow> 'x ctx" where
  "oracle_SetAdminAccount c a =
     c\<lparr>oracle_store := kv_set oracle_AdminAccountPrefix (OV_Admin a) (oracle_store c)\<rparr>"

definition oracle_GetAdminAccount :: "'x ctx \<Rightarrow> addr" where
  "oracle_GetAdminAccount c =
     (case kv_get (oracle_store c) oracle_AdminAccountPrefix of Some (OV_Admin a) \<Rightarrow> a | _ \<Rightarrow> [])"

definition oracle_IsAdminAccount :: "'x ctx \<Rightarrow> addr \<Rightarrow> bool" where
  "oracle_IsAdminAccount c a = (let account = oracle_GetAdminAccount c in
     if account = [] then False else account = a)"

definition EnsureAddressIsInWhitelist :: "'x lib \<Rightarrow> 'x ctx \<Rightarrow> string \<Rightarrow> unit res" where
  "EnsureAddressIsInWhitelist L c validatorAddress =
     bindE (GetOracleWhiteList L c) (\<lambda>whiteList.
     guardE (list_ex (\<lambda>a. ValAddress_String L a = validatorAddress) whiteList)
       (Oracle ErrValidatorNotInWhiteList))"

definition checkActiveValidator :: "'x lib \<Rightarrow> 'x ctx \<Rightarrow> addr \<Rightarrow> bool" where
  "checkActiveValidator L c a =
     (case GetValidator L (ext c) a of None \<Rightarrow> False | Some v \<Rightarrow> val_bonded v)"

definition processCompletion ::
  "'x lib \<Rightarrow> map_order \<Rightarrow> f64 \<Rightarrow> 'x ctx \<Rightarrow> prophecy \<Rightarrow> prophecy res" where
  "processCompletion L ord consensusNeeded c p =
     bindE (GetOracleWhiteList L c) (\<lambda>wl.
     let (highestClaim, highestClaimPower, totalClaimsPower, totalPower) = FindHighestClaim L ord c p wl;
         highestConsensusRatio = f64_div (f64_of_int highestClaimPower) (f64_of_int totalPower);
         remainingPossibleClaimPower = i64 (totalPower - totalClaimsPower);
         highestPossibleClaimPower = i64 (highestClaimPower + remainingPossibleClaimPower);
         highestPossibleConsensusRatio =
           f64_div (f64_of_int highestPossibleClaimPower) (f64_of_int totalPower)
     in Inr
       (if f64_ge highestConsensusRatio consensusNeeded
        then p\<lparr>p_Status := \<lparr>Text = STATUS_TEXT_SUCCESS, FinalClaim = highestClaim\<rparr>\<rparr>
        else if f64_lt highestPossibleConsensusRatio consensusNeeded
        then p\<lparr>p_Status := (p_Status p)\<lparr>Text := STATUS_TEXT_FAILED\<rparr>\<rparr>
        else p))"

definition oracle_ProcessClaim ::
  "'x lib \<Rightarrow> map_order \<Rightarrow> f64 \<Rightarrow> 'x ctx \<Rightarrow> claim \<Rightarrow> (status \<times> 'x ctx) res" where
  "oracle_ProcessClaim L ord consensusNeeded c claim =
     bindE (EnsureAddressIsInWhitelist L c (claim_ValidatorAddress claim)) (\<lambda>_.
     bindE (ValAddressFromBech32 L (claim_ValidatorAddress claim)) (\<lambda>valAddr.
     bindE (guardE (checkActiveValidator L c valAddr) (Oracle ErrInvalidValidator)) (\<lambda>_.
     bindE (guardE (claim_Id claim \<noteq> []) (Oracle ErrInvalidIdentifier)) (\<lambda>_.
     bindE (guardE (claim_Content claim \<noteq> []) (Oracle ErrInvalidClaim)) (\<lambda>_.
     let p = (case GetProphecy L c (claim_Id claim) of
                Some p \<Rightarrow> p
              | None \<Rightarrow> NewProphecy (claim_Id claim)) in
     bindE (guardE (Text (p_Status p) = STATUS_TEXT_PENDING) (Oracle ErrProphecyFinalized)) (\<lambda>_.
     bindE (guardE (claim_of p (claim_ValidatorAddress claim) = []) (Oracle ErrDuplicateMessage)) (\<lambda>_.
     bindE (processCompletion L ord consensusNeeded c (AddClaim L p valAddr (claim_Content claim))) (\<lambda>p.
     bindE (SetProphecy L c p) (\<lambda>c.
     Inr (p_Status p, c))))))))))"

definition ProcessUpdateWhiteListValidator ::
  "'x lib \<Rightarrow> 'x ctx \<Rightarrow> addr \<Rightarrow> addr \<Rightarrow> string \<Rightarrow> 'x ctx res" where
  "ProcessUpdateWhiteListValidator L c cosmosSender validator operationtype =
     bindE (guardE (oracle_IsAdminAccount c cosmosSender) (Oracle ErrNotAdminAccount)) (\<lambda>_.
     if operationtype = ''add'' then AddOracleWhiteList L c validator
     else if operationtype = ''remove'' then RemoveOracleWhiteList L c validator
     else Inl (Oracle ErrInvalidOperationType))"

subsection \<open>Genesis\<close>

record oracle_genesis =
  og_AddressWhitelist :: "string list option"
  og_AdminAddress :: string
  og_Prophecies :: "db_prophecy list"

definition oracle_InitGenesis :: "'x lib \<Rightarrow> 'x ctx \<Rightarrow> oracle_genesis \<Rightarrow> 'x ctx res" where
  "oracle_InitGenesis L c data =
     bindE (case og_AddressWhitelist data of
              None \<Rightarrow> Inr c
            | Some ss \<Rightarrow>
                bindE (mustValAddresses L (filter (\<lambda>s. length (TrimSpace s) \<noteq> 0) ss)) (\<lambda>wl.
                Inr (SetOracleWhiteList L c wl))) (\<lambda>c.
     bindE (if length (TrimSpace (og_AdminAddress data)) \<noteq> 0
            then bindE (wrapE Panic (AccAddressFromBech32 L (og_AdminAddress data))) (\<lambda>a.
                 Inr (oracle_SetAdminAccount c a))
            else Inr c) (\<lambda>c.
     Inr (foldl SetDBProphecy c (og_Prophecies data))))"

definition oracle_ExportGenesis :: "'x lib \<Rightarrow> 'x ctx \<Rightarrow> oracle_genesis res" where
  "oracle_ExportGenesis L c =
     bindE (GetOracleWhiteList L c) (\<lambda>whiteList.
     bindE (GetProphecies L c) (\<lambda>prophecies.
     bindE (foldE (\<lambda>dbs p. bindE (wrapE Panic (SerializeForDB L p)) (\<lambda>db. Inr (dbs @ [db]))) [] prophecies) (\<lambda>dbs.
     Inr \<lparr>og_AddressWhitelist = Some (map (ValAddress_String L) whiteList),
           og_AdminAddress = AccAddress_String L (oracle_GetAdminAccount c),
           og_Prophecies = dbs\<rparr>)))"

end
