(* ===== verification/EthBridge.thy ===== *)
theory EthBridge
  imports Oracle
begin

section \<open>The Ethereum bridge\<close>

text \<open>
  \<open>x/ethbridge\<close>: a user locks or burns coins here to have them released on Ethereum, and
  validators claim what was locked or burned there; the oracle decides on the claims, and a
  decided claim mints. The store holds the list of pegged tokens, the account that receives the
  fees in ceth, and the blacklist of Ethereum addresses. A claim whose type is none of the two
  known ones is \<open>CLAIM_TYPE_UNSPECIFIED\<close>; the handlers treat all such numbers alike.
\<close>

subsection \<open>Types\<close>

record eth_bridge_claim =
  ebc_EthereumChainId :: int
  ebc_BridgeContractAddress :: string
  ebc_Nonce :: int
  ebc_Symbol :: string
  ebc_TokenContractAddress :: string
  ebc_EthereumSender :: string
  ebc_CosmosReceiver :: string
  ebc_ValidatorAddress :: string
  ebc_Amount :: int
  ebc_ClaimType :: claim_type

definition NewEthereumAddress :: "'x lib \<Rightarrow> string \<Rightarrow> string" where
  "NewEthereumAddress L s = HexToAddress L s"

definition EthereumAddress_String :: "'x lib \<Rightarrow> string \<Rightarrow> string" where
  "EthereumAddress_String L a = EthAddress_String L a"

definition NewEthBridgeClaim ::
  "'x lib \<Rightarrow> int \<Rightarrow> string \<Rightarrow> int \<Rightarrow> string \<Rightarrow> string \<Rightarrow> string \<Rightarrow> addr \<Rightarrow> addr \<Rightarrow> int \<Rightarrow> claim_type \<Rightarrow> eth_bridge_claim" where
  "NewEthBridgeClaim L ethereumChainID bridgeContract nonce symbol tokenContact ethereumSender cosmosReceiver
     validator amount claimType =
     \<lparr>ebc_EthereumChainId = ethereumChainID,
      ebc_BridgeContractAddress = EthereumAddress_String L bridgeContract,
      ebc_Nonce = nonce, ebc_Symbol = symbol,
      ebc_TokenContractAddress = EthereumAddress_String L tokenContact,
      ebc_EthereumSender = EthereumAddress_String L ethereumSender,
      ebc_CosmosReceiver = AccAddress_String L cosmosReceiver,
      ebc_ValidatorAddress = ValAddress_String L validator,
      ebc_Amount = amount, ebc_ClaimType = claimType\<rparr>"

definition NewOracleClaimContent :: "addr \<Rightarrow> int \<Rightarrow> string \<Rightarrow> string \<Rightarrow> claim_type \<Rightarrow> oracle_claim_content" where
  "NewOracleClaimContent cosmosReceiver amount symbol tokenContractAddress claimType =
     \<lparr>occ_CosmosReceiver = cosmosReceiver, occ_Amount = amount, occ_Symbol = symbol,
      occ_TokenContractAddress = tokenContractAddress, occ_ClaimType = claimType\<rparr>"

definition oracle_id :: "int \<Rightarrow> int \<Rightarrow> string \<Rightarrow> string" where
  "oracle_id chain nonce sender = int_string chain @ int_string nonce @ sender"

definition CreateOracleClaimFromEthClaim :: "'x lib \<Rightarrow> eth_bridge_claim \<Rightarrow> claim res" where
  "CreateOracleClaimFromEthClaim L ethClaim =
     (let oracleID = oracle_id (ebc_EthereumChainId ethClaim) (ebc_Nonce ethClaim) (ebc_EthereumSender ethClaim) in
      bindE (AccAddressFromBech32 L (ebc_CosmosReceiver ethClaim)) (\<lambda>cosmosReceiver.
      bindE (MarshalClaimContent L (NewOracleClaimContent cosmosReceiver (ebc_Amount ethClaim)
               (ebc_Symbol ethClaim) (NewEthereumAddress L (ebc_TokenContractAddress ethClaim))
               (ebc_ClaimType ethClaim))) (\<lambda>claimString.
      Inr (NewClaim oracleID (ebc_ValidatorAddress ethClaim) claimString))))"

definition CreateOracleClaimFromOracleString :: "'x lib \<Rightarrow> string \<Rightarrow> oracle_claim_content res" where
  "CreateOracleClaimFromOracleString L s = wrapE (Bridge ErrJSONMarshalling) (UnmarshalClaimContent L s)"

definition CreateEthClaimFromOracleString ::
  "'x lib \<Rightarrow> int \<Rightarrow> string \<Rightarrow> int \<Rightarrow> string \<Rightarrow> addr \<Rightarrow> string \<Rightarrow> eth_bridge_claim res" where
  "CreateEthClaimFromOracleString L ethereumChainID bridgeContract nonce ethereumAddress validator oracleClaimString =
     bindE (CreateOracleClaimFromOracleString L oracleClaimString) (\<lambda>oracleClaim.
     Inr (NewEthBridgeClaim L ethereumChainID bridgeContract nonce (occ_Symbol oracleClaim)
       (occ_TokenContractAddress oracleClaim) ethereumAddress (occ_CosmosReceiver oracleClaim) validator
       (occ_Amount oracleClaim) (occ_ClaimType oracleClaim)))"

definition status_text_String :: "status_text \<Rightarrow> string" where
  "status_text_String t =
     (case t of
        STATUS_TEXT_UNSPECIFIED \<Rightarrow> ''STATUS_TEXT_UNSPECIFIED''
      | STATUS_TEXT_PENDING \<Rightarrow> ''STATUS_TEXT_PENDING''
      | STATUS_TEXT_SUCCESS \<Rightarrow> ''STATUS_TEXT_SUCCESS''
      | STATUS_TEXT_FAILED \<Rightarrow> ''STATUS_TEXT_FAILED'')"

definition claim_type_String :: "claim_type \<Rightarrow> string" where
  "claim_type_String t =
     (case t of
        CLAIM_TYPE_UNSPECIFIED \<Rightarrow> ''CLAIM_TYPE_UNSPECIFIED''
      | CLAIM_TYPE_BURN \<Rightarrow> ''CLAIM_TYPE_BURN''
      | CLAIM_TYPE_LOCK \<Rightarrow> ''CLAIM_TYPE_LOCK'')"

definition bridge_ModuleName :: string where
  "bridge_ModuleName = ''ethbridge''"

definition CethSymbol :: string where
  "CethSymbol = ''ceth''"

definition PeggedCoinPrefix :: string where
  "PeggedCoinPrefix = ''c''"

definition PeggyTokenKeyPrefix :: key where
  "PeggyTokenKeyPrefix = [CHR 0x00]"

definition CethReceiverAccountPrefix :: key where
  "CethReceiverAccountPrefix = [CHR 0x01]"

definition BlacklistPrefix :: key where
  "BlacklistPrefix = [CHR 0x02]"

subsection \<open>Messages\<close>

record msg_lock =
  ml_CosmosSender :: string
  ml_Amount :: int
  ml_Symbol :: string
  ml_EthereumChainId :: int
  ml_EthereumReceiver :: string
  ml_CethAmount :: int

record msg_burn =
  mb_CosmosSender :: string
  mb_Amount :: int
  mb_Symbol :: string
  mb_EthereumChainId :: int
  mb_EthereumReceiver :: string
  mb_CethAmount :: int

record msg_create_eth_bridge_claim =
  mc_EthBridgeClaim :: "eth_bridge_claim option"

record msg_update_white_list_validator =
  mw_CosmosSender :: string
  mw_Validator :: string
  mw_OperationType :: string

record msg_update_ceth_receiver_account =
  mu_CosmosSender :: string
  mu_CethReceiverAccount :: string

record msg_rescue_ceth =
  mr_CosmosSender :: string
  mr_CosmosReceiver :: string
  mr_CethAmount :: int

record msg_set_blacklist =
  mbl_From :: string
  mbl_Addresses :: "string list"

definition lockGasCost :: int where
  "lockGasCost = 60000000000 * 393000"

definition burnGasCost :: int where
  "burnGasCost = 60000000000 * 393000"

definition MsgLock_ValidateBasic :: "'x lib \<Rightarrow> msg_lock \<Rightarrow> unit res" where
  "MsgLock_ValidateBasic L msg =
     bindE (guardE (int_string (ml_EthereumChainId msg) \<noteq> []) (Bridge ErrInvalidEthereumChainID)) (\<lambda>_.
     bindE (guardE (ml_CosmosSender msg \<noteq> []) (ErrGo ''invalid address'')) (\<lambda>_.
     bindE (guardE (ml_EthereumReceiver msg \<noteq> []) (Bridge ErrInvalidEthAddress)) (\<lambda>_.
     bindE (guardE (IsHexAddress L (ml_EthereumReceiver msg)) (Bridge ErrInvalidEthAddress)) (\<lambda>_.
     bindE (guardE (\<not> ml_Amount msg \<le> 0) (Bridge ErrInvalidAmount)) (\<lambda>_.
     bindE (guardE (\<not> ml_CethAmount msg < lockGasCost) (Bridge ErrCethAmount)) (\<lambda>_.
     guardE (length (ml_Symbol msg) \<noteq> 0) (Bridge ErrInvalidSymbol)))))))"

definition MsgBurn_ValidateBasic :: "'x lib \<Rightarrow> msg_burn \<Rightarrow> unit res" where
  "MsgBurn_ValidateBasic L msg =
     bindE (guardE (mb_EthereumChainId msg \<noteq> 0) (Bridge ErrInvalidEthereumChainID)) (\<lambda>_.
     bindE (guardE (mb_CosmosSender msg \<noteq> []) (ErrGo ''invalid address'')) (\<lambda>_.
     bindE (guardE (mb_EthereumReceiver msg \<noteq> []) (Bridge ErrInvalidEthAddress)) (\<lambda>_.
     bindE (guardE (IsHexAddress L (mb_EthereumReceiver msg)) (Bridge ErrInvalidEthAddress)) (\<lambda>_.
     bindE (guardE (\<not> mb_Amount msg \<le> 0) (Bridge ErrInvalidAmount)) (\<lambda>_.
     let prefixLength = length PeggedCoinPrefix in
     bindE (guardE (\<not> length (mb_Symbol msg) \<le> prefixLength + 1) (Bridge ErrInvalidBurnSymbol)) (\<lambda>_.
     bindE (guardE (take prefixLength (mb_Symbol msg) = PeggedCoinPrefix) (Bridge ErrInvalidBurnSymbol)) (\<lambda>_.
     bindE (guardE (\<not> mb_CethAmount msg < burnGasCost) (Bridge ErrCethAmount)) (\<lambda>_.
     guardE (length (drop prefixLength (mb_Symbol msg)) \<noteq> 0) (Bridge ErrInvalidBurnSymbol)))))))))"

definition MsgCreateEthBridgeClaim_ValidateBasic :: "'x lib \<Rightarrow> msg_create_eth_bridge_claim \<Rightarrow> unit res" where
  "MsgCreateEthBridgeClaim_ValidateBasic L msg =
     bindE (deref (mc_EthBridgeClaim msg)) (\<lambda>cl.
     bindE (guardE (ebc_CosmosReceiver cl \<noteq> []) (ErrGo ''invalid address'')) (\<lambda>_.
     bindE (guardE (ebc_ValidatorAddress cl \<noteq> []) (ErrGo ''invalid address'')) (\<lambda>_.
     bindE (guardE (\<not> ebc_Nonce cl < 0) (Bridge ErrInvalidEthNonce)) (\<lambda>_.
     bindE (guardE (IsHexAddress L (ebc_EthereumSender cl)) (Bridge ErrInvalidEthAddress)) (\<lambda>_.
     bindE (guardE (IsHexAddress L (ebc_BridgeContractAddress cl)) (Bridge ErrInvalidEthAddress)) (\<lambda>_.
     bindE (guardE (IsHexAddress L (ebc_TokenContractAddress cl)) (Bridge ErrInvalidEthAddress)) (\<lambda>_.
     guardE (\<not> (ToLower (ebc_Symbol cl) = ''eth'' \<and>
         NewEthereumAddress L (ebc_TokenContractAddress cl) \<noteq>
         NewEthereumAddress L ''0x0000000000000000000000000000000000000000''))
       (Bridge ErrInvalidEthSymbol))))))))"

definition MsgUpdateCethReceiverAccount_ValidateBasic :: "msg_update_ceth_receiver_account \<Rightarrow> unit res" where
  "MsgUpdateCethReceiverAccount_ValidateBasic msg =
     bindE (guardE (mu_CosmosSender msg \<noteq> []) (ErrGo ''invalid address'')) (\<lambda>_.
     guardE (mu_CethReceiverAccount msg \<noteq> []) (ErrGo ''invalid address''))"

definition MsgRescueCeth_ValidateBasic :: "msg_rescue_ceth \<Rightarrow> unit res" where
  "MsgRescueCeth_ValidateBasic msg =
     bindE (guardE (mr_CosmosSender msg \<noteq> []) (ErrGo ''invalid address'')) (\<lambda>_.
     guardE (mr_CosmosReceiver msg \<noteq> []) (ErrGo ''invalid address''))"

definition MsgUpdateWhiteListValidator_ValidateBasic :: "msg_update_white_list_validator \<Rightarrow> unit res" where
  "MsgUpdateWhiteListValidator_ValidateBasic msg =
     bindE (guardE (mw_CosmosSender msg \<noteq> []) (ErrGo ''invalid address'')) (\<lambda>_.
     guardE (mw_Validator msg \<noteq> []) (ErrGo ''invalid address''))"

definition MsgLock_GetSigners :: "'x lib \<Rightarrow> msg_lock \<Rightarrow> addr list res" where
  "MsgLock_GetSigners L msg =
     bindE (wrapE Panic (AccAddressFromBech32 L (ml_CosmosSender msg))) (\<lambda>a. Inr [a])"

definition MsgBurn_GetSigners :: "'x lib \<Rightarrow> msg_burn \<Rightarrow> addr list res" where
  "MsgBurn_GetSigners L msg =
     bindE (wrapE Panic (AccAddressFromBech32 L (mb_CosmosSender msg))) (\<lambda>a. Inr [a])"

definition MsgCreateEthBridgeClaim_GetSigners :: "'x lib \<Rightarrow> msg_create_eth_bridge_claim \<Rightarrow> addr list res" where
  "MsgCreateEthBridgeClaim_GetSigners L msg =
     bindE (deref (mc_EthBridgeClaim msg)) (\<lambda>cl.
     bindE (wrapE Panic (ValAddressFromBech32 L (ebc_ValidatorAddress cl))) (\<lambda>a. Inr [a]))"

definition MsgUpdateCethReceiverAccount_GetSigners ::
  "'x lib \<Rightarrow> msg_update_ceth_receiver_account \<Rightarrow> addr list res" where
  "MsgUpdateCethReceiverAccount_GetSigners L msg =
     bindE (wrapE Panic (AccAddressFromBech32 L (mu_CosmosSender msg))) (\<lambda>a. Inr [a])"

definition MsgRescueCeth_GetSigners :: "'x lib \<Rightarrow> msg_rescue_ceth \<Rightarrow> addr list res" where
  "MsgRescueCeth_GetSigners L msg =
     bindE (wrapE Panic (AccAddressFromBech32 L (mr_CosmosSender msg))) (\<lambda>a. Inr [a])"

definition MsgUpdateWhiteListValidator_GetSigners ::
  "'x lib \<Rightarrow> msg_update_white_list_validator \<Rightarrow> addr list res" where
  "MsgUpdateWhiteListValidator_GetSigners L msg =
     bindE (wrapE Panic (AccAddressFromBech32 L (mw_CosmosSender msg))) (\<lambda>a. Inr [a])"

definition MsgSetBlacklist_GetSigners :: "'x lib \<Rightarrow> msg_set_blacklist \<Rightarrow> addr list res" where
  "MsgSetBlacklist_GetSigners L msg =
     bindE (wrapE Panic (AccAddressFromBech32 L (mbl_From msg))) (\<lambda>a. Inr [a])"

subsection \<open>Keeper\<close>

definition GetPeggyToken :: "'x ctx \<Rightarrow> string list" where
  "GetPeggyToken c =
     (case kv_get (bridge_store c) PeggyTokenKeyPrefix of Some (BV_PeggyTokens ts) \<Rightarrow> ts | _ \<Rightarrow> [])"

definition ExistsPeggyToken :: "'x ctx \<Rightarrow> string \<Rightarrow> bool" where
  "ExistsPeggyToken c token = list_ex (\<lambda>t. t = token) (GetPeggyToken c)"

definition AddPeggyToken :: "'x ctx \<Rightarrow> string \<Rightarrow> 'x ctx" where
  "AddPeggyToken c token =
     (if ExistsPeggyToken c token then c
      else c\<lparr>bridge_store := kv_set PeggyTokenKeyPrefix (BV_PeggyTokens (GetPeggyToken c @ [token])) (bridge_store c)\<rparr>)"

text \<open>The receiver's account is stored as a bech32 string; no address is the empty one.\<close>

definition SetCethReceiverAccount :: "'x lib \<Rightarrow> 'x ctx \<Rightarrow> addr \<Rightarrow> 'x ctx" where
  "SetCethReceiverAccount L c a =
     c\<lparr>bridge_store := kv_set CethReceiverAccountPrefix (BV_CethReceiver (AccAddress_String L a)) (bridge_store c)\<rparr>"

definition GetCethReceiverAccount :: "'x lib \<Rightarrow> 'x ctx \<Rightarrow> addr" where
  "GetCethReceiverAccount L c =
     (case kv_get (bridge_store c) CethReceiverAccountPrefix of
        Some (BV_CethReceiver s) \<Rightarrow>
          (if s = [] then [] else case AccAddressFromBech32 L s of Inl _ \<Rightarrow> [] | Inr a \<Rightarrow> a)
      | _ \<Rightarrow> [])"

definition IsCethReceiverAccount :: "'x lib \<Rightarrow> 'x ctx \<Rightarrow> addr \<Rightarrow> bool" where
  "IsCethReceiverAccount L c a = (GetCethReceiverAccount L c = a)"

definition IsCethReceiverAccountSet :: "'x lib \<Rightarrow> 'x ctx \<Rightarrow> bool" where
  "IsCethReceiverAccountSet L c = (GetCethReceiverAccount L c \<noteq> [])"

definition IsBlacklisted :: "'x ctx \<Rightarrow> string \<Rightarrow> bool" where
  "IsBlacklisted c address = kv_has (bridge_store c) (BlacklistPrefix @ address)"

definition blacklist_removals :: "string list \<Rightarrow> bridge_value kv \<Rightarrow> string list" where
  "blacklist_removals addresses es =
     filter (\<lambda>address. \<not> list_ex (\<lambda>current. current = address) addresses)
       (map (\<lambda>e. drop 1 (fst e)) (filter (\<lambda>e. length (fst e) > 1) es))"

definition SetBlacklist :: "'x lib \<Rightarrow> 'x ctx \<Rightarrow> msg_set_blacklist \<Rightarrow> 'x ctx res" where
  "SetBlacklist L c msg =
     bindE (AccAddressFromBech32 L (mbl_From msg)) (\<lambda>from.
     bindE (guardE (oracle_IsAdminAccount c from) (Oracle ErrNotAdminAccount)) (\<lambda>_.
     let st = bridge_store c;
         removals = blacklist_removals (mbl_Addresses msg) (kv_from BlacklistPrefix st);
         st = foldl (\<lambda>st address. kv_delete (BlacklistPrefix @ address) st) st removals;
         st = foldl (\<lambda>st address. kv_set (BlacklistPrefix @ address) BV_Blacklisted st) st (mbl_Addresses msg)
     in Inr (c\<lparr>bridge_store := st\<rparr>)))"

definition GetBlacklist :: "'x ctx \<Rightarrow> string list" where
  "GetBlacklist c = map (\<lambda>e. drop 1 (fst e)) (kv_from BlacklistPrefix (bridge_store c))"

definition bridge_ProcessClaim ::
  "'x lib \<Rightarrow> map_order \<Rightarrow> f64 \<Rightarrow> 'x ctx \<Rightarrow> eth_bridge_claim \<Rightarrow> (status \<times> 'x ctx) res" where
  "bridge_ProcessClaim L ord needed c claim =
     bindE (CreateOracleClaimFromEthClaim L claim) (\<lambda>oracleClaim.
     oracle_ProcessClaim L ord needed c oracleClaim)"

definition coin_list :: "'x lib \<Rightarrow> string \<Rightarrow> int \<Rightarrow> coins res" where
  "coin_list L denom amount = bindE (NewCoin L denom amount) (\<lambda>coin. NewCoins L [coin])"

definition ProcessSuccessfulClaim :: "'x lib \<Rightarrow> 'x ctx \<Rightarrow> string \<Rightarrow> 'x ctx res" where
  "ProcessSuccessfulClaim L c claim =
     bindE (CreateOracleClaimFromOracleString L claim) (\<lambda>oracleClaim.
     let receiverAddress = occ_CosmosReceiver oracleClaim in
     bindE (case occ_ClaimType oracleClaim of
              CLAIM_TYPE_LOCK \<Rightarrow>
                (let symbol = PeggedCoinPrefix @ occ_Symbol oracleClaim; c = AddPeggyToken c symbol in
                 bindE (coin_list L symbol (occ_Amount oracleClaim)) (\<lambda>coins.
                 bindE (bank (\<lambda>x. MintCoins L x bridge_ModuleName coins) c) (\<lambda>c. Inr (coins, c))))
            | CLAIM_TYPE_BURN \<Rightarrow>
                bindE (coin_list L (occ_Symbol oracleClaim) (occ_Amount oracleClaim)) (\<lambda>coins.
                bindE (bank (\<lambda>x. MintCoins L x bridge_ModuleName coins) c) (\<lambda>c. Inr (coins, c)))
            | CLAIM_TYPE_UNSPECIFIED \<Rightarrow> Inl (Bridge ErrInvalidClaimType)) (\<lambda>(coins, c).
     wrapE Panic (bank (\<lambda>x. SendCoinsFromModuleToAccount L x bridge_ModuleName receiverAddress coins) c)))"

definition ProcessBurn :: "'x lib \<Rightarrow> 'x ctx \<Rightarrow> addr \<Rightarrow> msg_burn \<Rightarrow> 'x ctx res" where
  "ProcessBurn L c cosmosSender msg =
     bindE (guardE (\<not> IsBlacklisted c (mb_EthereumReceiver msg)) (Bridge ErrInvalidEthAddress)) (\<lambda>_.
     bindE (if IsCethReceiverAccountSet L c
            then bindE (coin_list L CethSymbol (mb_CethAmount msg)) (\<lambda>coins.
                 bindE (bank (\<lambda>x. SendCoins L x cosmosSender (GetCethReceiverAccount L c) coins) c) (\<lambda>c.
                 bindE (coin_list L (mb_Symbol msg) (mb_Amount msg)) (\<lambda>coins. Inr (coins, c))))
            else if mb_Symbol msg = CethSymbol
            then bindE (Int_Add L (mb_CethAmount msg) (mb_Amount msg)) (\<lambda>amount.
                 bindE (coin_list L CethSymbol amount) (\<lambda>coins. Inr (coins, c)))
            else bindE (NewCoin L (mb_Symbol msg) (mb_Amount msg)) (\<lambda>coin1.
                 bindE (NewCoin L CethSymbol (mb_CethAmount msg)) (\<lambda>coin2.
                 bindE (NewCoins L [coin1, coin2]) (\<lambda>coins. Inr (coins, c))))) (\<lambda>(coins, c).
     bindE (bank (\<lambda>x. SendCoinsFromAccountToModule L x cosmosSender bridge_ModuleName coins) c) (\<lambda>c.
     bindE (coin_list L (mb_Symbol msg) (mb_Amount msg)) (\<lambda>coins.
     bank (\<lambda>x. BurnCoins L x bridge_ModuleName coins) c))))"

definition ProcessLock :: "'x lib \<Rightarrow> 'x ctx \<Rightarrow> addr \<Rightarrow> msg_lock \<Rightarrow> 'x ctx res" where
  "ProcessLock L c cosmosSender msg =
     bindE (guardE (\<not> IsBlacklisted c (ml_EthereumReceiver msg)) (Bridge ErrInvalidEthAddress)) (\<lambda>_.
     bindE (if IsCethReceiverAccountSet L c
            then bindE (coin_list L CethSymbol (ml_CethAmount msg)) (\<lambda>coins.
                 bindE (bank (\<lambda>x. SendCoins L x cosmosSender (GetCethReceiverAccount L c) coins) c) (\<lambda>c.
                 bindE (coin_list L (ml_Symbol msg) (ml_Amount msg)) (\<lambda>coins. Inr (coins, c))))
            else bindE (NewCoin L (ml_Symbol msg) (ml_Amount msg)) (\<lambda>coin1.
                 bindE (NewCoin L CethSymbol (ml_CethAmount msg)) (\<lambda>coin2.
                 bindE (NewCoins L [coin1, coin2]) (\<lambda>coins. Inr (coins, c))))) (\<lambda>(coins, c).
     bindE (bank (\<lambda>x. SendCoinsFromAccountToModule L x cosmosSender bridge_ModuleName coins) c) (\<lambda>c.
     bindE (coin_list L (ml_Symbol msg) (ml_Amount msg)) (\<lambda>coins.
     bank (\<lambda>x. BurnCoins L x bridge_ModuleName coins) c))))"

definition bridge_ProcessUpdateWhiteListValidator ::
  "'x lib \<Rightarrow> 'x ctx \<Rightarrow> addr \<Rightarrow> addr \<Rightarrow> string \<Rightarrow> 'x ctx res" where
  "bridge_ProcessUpdateWhiteListValidator L c cosmosSender validator operationtype =
     ProcessUpdateWhiteListValidator L c cosmosSender validator operationtype"

definition ProcessUpdateCethReceiverAccount :: "'x lib \<Rightarrow> 'x ctx \<Rightarrow> addr \<Rightarrow> addr \<Rightarrow> 'x ctx res" where
  "ProcessUpdateCethReceiverAccount L c cosmosSender cethReceiverAccount =
     bindE (guardE (oracle_IsAdminAccount c cosmosSender)
       (ErrGo ''only admin account can update ceth receiver account'')) (\<lambda>_.
     Inr (SetCethReceiverAccount L c cethReceiverAccount))"

definition ProcessRescueCeth :: "'x lib \<Rightarrow> 'x ctx \<Rightarrow> msg_rescue_ceth \<Rightarrow> 'x ctx res" where
  "ProcessRescueCeth L c msg =
     bindE (AccAddressFromBech32 L (mr_CosmosSender msg)) (\<lambda>cosmosSender.
     bindE (AccAddressFromBech32 L (mr_CosmosReceiver msg)) (\<lambda>cosmosReceiver.
     bindE (guardE (oracle_IsAdminAccount c cosmosSender)
       (ErrGo ''only admin account can call rescue ceth'')) (\<lambda>_.
     bindE (coin_list L CethSymbol (mr_CethAmount msg)) (\<lambda>coins.
     bank (\<lambda>x. SendCoinsFromModuleToAccount L x bridge_ModuleName cosmosReceiver coins) c))))"

subsection \<open>Message server\<close>

definition account_of :: "'x lib \<Rightarrow> 'x ctx \<Rightarrow> addr \<Rightarrow> error \<Rightarrow> nat res" where
  "account_of L c a e = parseE e (GetAccount L (ext c) a)"

definition msg_Lock :: "'x lib \<Rightarrow> 'x ctx \<Rightarrow> msg_lock \<Rightarrow> 'x ctx res" where
  "msg_Lock L c msg =
     bindE (guardE (\<not> ExistsPeggyToken c (ml_Symbol msg)) (ErrGo ''Pegged token can't be lock.'')) (\<lambda>_.
     bindE (AccAddressFromBech32 L (ml_CosmosSender msg)) (\<lambda>cosmosSender.
     bindE (account_of L c cosmosSender (ErrGo ''invalid address'')) (\<lambda>sequence.
     bindE (ProcessLock L c cosmosSender msg) (\<lambda>c.
     Inr (EmitEvents [
       message_event bridge_ModuleName (ml_CosmosSender msg),
       Event ''lock'' [
         (''ethereum_chain_id'', int_string (ml_EthereumChainId msg)),
         (''cosmos_sender'', ml_CosmosSender msg),
         (''cosmos_sender_sequence'', nat_string sequence),
         (''ethereum_receiver'', ml_EthereumReceiver msg),
         (''amount'', int_string (ml_Amount msg)),
         (''symbol'', ml_Symbol msg),
         (''ceth_amount'', int_string (ml_CethAmount msg))]] c)))))"

definition msg_Burn :: "'x lib \<Rightarrow> 'x ctx \<Rightarrow> msg_burn \<Rightarrow> 'x ctx res" where
  "msg_Burn L c msg =
     bindE (guardE (ExistsPeggyToken c (mb_Symbol msg)) (ErrGo ''Native token can't be burn.'')) (\<lambda>_.
     bindE (AccAddressFromBech32 L (mb_CosmosSender msg)) (\<lambda>cosmosSender.
     bindE (account_of L c cosmosSender (ErrGo ''invalid address'')) (\<lambda>sequence.
     bindE (ProcessBurn L c cosmosSender msg) (\<lambda>c.
     Inr (EmitEvents [
       message_event bridge_ModuleName (mb_CosmosSender msg),
       Event ''burn'' [
         (''ethereum_chain_id'', int_string (mb_EthereumChainId msg)),
         (''cosmos_sender'', mb_CosmosSender msg),
         (''cosmos_sender_sequence'', nat_string sequence),
         (''ethereum_receiver'', mb_EthereumReceiver msg),
         (''amount'', int_string (mb_Amount msg)),
         (''symbol'', mb_Symbol msg),
         (''ceth_amount'', int_string (mb_CethAmount msg))]] c)))))"

definition claim_events :: "eth_bridge_claim \<Rightarrow> status \<Rightarrow> event list" where
  "claim_events cl status = [
     message_event bridge_ModuleName (ebc_ValidatorAddress cl),
     Event ''create_claim'' [
       (''cosmos_sender'', ebc_ValidatorAddress cl),
       (''ethereum_sender'', ebc_EthereumSender cl),
       (''ethereum_sender_nonce'', int_string (ebc_Nonce cl)),
       (''cosmos_receiver'', ebc_CosmosReceiver cl),
       (''amount'', int_string (ebc_Amount cl)),
       (''symbol'', ebc_Symbol cl),
       (''token_contract_address'', ebc_TokenContractAddress cl),
       (''claim_type'', claim_type_String (ebc_ClaimType cl))],
     Event ''prophecy_status'' [(''status'', status_text_String (Text status))]]"

definition msg_CreateEthBridgeClaim ::
  "'x lib \<Rightarrow> map_order \<Rightarrow> f64 \<Rightarrow> 'x ctx \<Rightarrow> msg_create_eth_bridge_claim \<Rightarrow> 'x ctx res" where
  "msg_CreateEthBridgeClaim L ord needed c msg =
     bindE (deref (mc_EthBridgeClaim msg)) (\<lambda>cl.
     bindE (bridge_ProcessClaim L ord needed c cl) (\<lambda>(status, c).
     bindE (if Text status = STATUS_TEXT_SUCCESS then ProcessSuccessfulClaim L c (FinalClaim status)
            else Inr c) (\<lambda>c.
     Inr (EmitEvents (claim_events cl status) c))))"

definition msg_UpdateWhiteListValidator ::
  "'x lib \<Rightarrow> 'x ctx \<Rightarrow> msg_update_white_list_validator \<Rightarrow> 'x ctx res" where
  "msg_UpdateWhiteListValidator L c msg =
     bindE (AccAddressFromBech32 L (mw_CosmosSender msg)) (\<lambda>cosmosSender.
     bindE (account_of L c cosmosSender (ErrGo ''unknown address'')) (\<lambda>_.
     bindE (wrapE (ErrGo ''invalid address'') (ValAddressFromBech32 L (mw_Validator msg))) (\<lambda>valAddr.
     bindE (bridge_ProcessUpdateWhiteListValidator L c cosmosSender valAddr (mw_OperationType msg)) (\<lambda>c.
     Inr (EmitEvents [
       message_event bridge_ModuleName (mw_CosmosSender msg),
       Event ''lock'' [
         (''cosmos_sender'', mw_CosmosSender msg),
         (''validator'', mw_Validator msg),
         (''operation_type'', mw_OperationType msg)]] c)))))"

definition msg_UpdateCethReceiverAccount ::
  "'x lib \<Rightarrow> 'x ctx \<Rightarrow> msg_update_ceth_receiver_account \<Rightarrow> 'x ctx res" where
  "msg_UpdateCethReceiverAccount L c msg =
     bindE (AccAddressFromBech32 L (mu_CosmosSender msg)) (\<lambda>cosmosSender.
     bindE (AccAddressFromBech32 L (mu_CethReceiverAccount msg)) (\<lambda>cethReceiverAddress.
     bindE (account_of L c cosmosSender (ErrGo ''invalid address'')) (\<lambda>_.
     bindE (ProcessUpdateCethReceiverAccount L c cosmosSender cethReceiverAddress) (\<lambda>c.
     Inr (EmitEvents [
       message_event bridge_ModuleName (mu_CosmosSender msg),
       Event ''lock'' [
         (''cosmos_sender'', mu_CosmosSender msg),
         (''ceth_receiver_account'', mu_CethReceiverAccount msg)]] c)))))"

definition msg_RescueCeth :: "'x lib \<Rightarrow> 'x ctx \<Rightarrow> msg_rescue_ceth \<Rightarrow> 'x ctx res" where
  "msg_RescueCeth L c msg =
     bindE (AccAddressFromBech32 L (mr_CosmosSender msg)) (\<lambda>cosmosSender.
     bindE (account_of L c cosmosSender (ErrGo ''invalid address'')) (\<lambda>_.
     ProcessRescueCeth L c msg))"

definition msg_SetBlacklist :: "'x lib \<Rightarrow> 'x ctx \<Rightarrow> msg_set_blacklist \<Rightarrow> 'x ctx res" where
  "msg_SetBlacklist L c msg = SetBlacklist L c msg"

datatype bridge_msg =
    MsgCreateEthBridgeClaim map_order msg_create_eth_bridge_claim
  | MsgBurn msg_burn
  | MsgLock msg_lock
  | MsgUpdateWhiteListValidator msg_update_white_list_validator
  | MsgUpdateCethReceiverAccount msg_update_ceth_receiver_account
  | MsgRescueCeth msg_rescue_ceth
  | MsgSetBlacklist msg_set_blacklist

text \<open>The order of the oracle's map iteration travels with the claim.\<close>

definition bridge_NewHandler :: "'x lib \<Rightarrow> f64 \<Rightarrow> 'x ctx \<Rightarrow> bridge_msg \<Rightarrow> 'x ctx res" where
  "bridge_NewHandler L needed c msg =
     (let c = c\<lparr>events := []\<rparr> in
      case msg of
        MsgCreateEthBridgeClaim ord m \<Rightarrow> msg_CreateEthBridgeClaim L ord needed c m
      | MsgBurn m \<Rightarrow> msg_Burn L c m
      | MsgLock m \<Rightarrow> msg_Lock L c m
      | MsgUpdateWhiteListValidator m \<Rightarrow> msg_UpdateWhiteListValidator L c m
      | MsgUpdateCethReceiverAccount m \<Rightarrow> msg_UpdateCethReceiverAccount L c m
      | MsgRescueCeth m \<Rightarrow> msg_RescueCeth L c m
      | MsgSetBlacklist m \<Rightarrow> msg_SetBlacklist L c m)"

subsection \<open>Queries and genesis\<close>

record query_eth_prophecy =
  qp_EthereumChainId :: int
  qp_BridgeContractAddress :: string
  qp_Nonce :: int
  qp_Symbol :: string
  qp_TokenContractAddress :: string
  qp_EthereumSender :: string

text \<open>The loop runs over a Go map in the order \<open>ord\<close>, so the order of the result is arbitrary.\<close>

definition MapOracleClaimsToEthBridgeClaims ::
  "'x lib \<Rightarrow> (string kv \<Rightarrow> string kv) \<Rightarrow> int \<Rightarrow> string \<Rightarrow> int \<Rightarrow> string \<Rightarrow> string kv \<Rightarrow>
   (int \<Rightarrow> string \<Rightarrow> int \<Rightarrow> string \<Rightarrow> addr \<Rightarrow> string \<Rightarrow> eth_bridge_claim res) \<Rightarrow> eth_bridge_claim list res" where
  "MapOracleClaimsToEthBridgeClaims L ord ethereumChainID bridgeContract nonce ethereumSender oracleValidatorClaims f =
     foldE (\<lambda>mappedClaims (validatorBech32, validatorClaim).
       bindE (wrapE (ErrGo ''invalid address'') (ValAddressFromBech32 L validatorBech32)) (\<lambda>validatorAddress.
       bindE (f ethereumChainID bridgeContract nonce ethereumSender validatorAddress validatorClaim) (\<lambda>mappedClaim.
       Inr (mappedClaims @ [mappedClaim])))) [] (ord oracleValidatorClaims)"

definition Query_EthProphecy ::
  "'x lib \<Rightarrow> (string kv \<Rightarrow> string kv) \<Rightarrow> 'x ctx \<Rightarrow> query_eth_prophecy \<Rightarrow> (string \<times> status \<times> eth_bridge_claim list) res" where
  "Query_EthProphecy L ord c req =
     (let i = oracle_id (qp_EthereumChainId req) (qp_Nonce req) (qp_EthereumSender req) in
      case GetProphecy L c i of
        None \<Rightarrow> Inl (Oracle ErrProphecyNotFound)
      | Some p \<Rightarrow>
          bindE (MapOracleClaimsToEthBridgeClaims L ord (qp_EthereumChainId req)
             (NewEthereumAddress L (qp_BridgeContractAddress req)) (qp_Nonce req)
             (NewEthereumAddress L (qp_EthereumSender req)) (p_ValidatorClaims p)
             (CreateEthClaimFromOracleString L)) (\<lambda>bridgeClaims.
          Inr (p_ID p, p_Status p, bridgeClaims)))"

definition Query_GetBlacklist :: "'x ctx \<Rightarrow> string list" where
  "Query_GetBlacklist c = GetBlacklist c"

record bridge_genesis =
  bg_CethReceiveAccount :: string
  bg_PeggyTokens :: "string list"

definition bridge_InitGenesis :: "'x lib \<Rightarrow> 'x ctx \<Rightarrow> bridge_genesis \<Rightarrow> 'x ctx res" where
  "bridge_InitGenesis L c data =
     bindE (if bg_CethReceiveAccount data \<noteq> []
            then bindE (wrapE Panic (AccAddressFromBech32 L (bg_CethReceiveAccount data))) (\<lambda>a.
                 Inr (SetCethReceiverAccount L c a))
            else Inr c) (\<lambda>c.
     Inr (foldl AddPeggyToken c (bg_PeggyTokens data)))"

definition bridge_ExportGenesis :: "'x lib \<Rightarrow> 'x ctx \<Rightarrow> bridge_genesis" where
  "bridge_ExportGenesis L c =
     \<lparr>bg_CethReceiveAccount = AccAddress_String L (GetCethReceiverAccount L c),
      bg_PeggyTokens = GetPeggyToken c\<rparr>"

end
