(* ===== verification/Dispensation.thy ===== *)
theory Dispensation
  imports RefCtx
begin

section \<open>Dispensation\<close>

text \<open>
  \<open>x/dispensation\<close>: a distributor pays the sum of a list of outputs into the module's account and
  leaves one pending record per recipient; the runner it names pays the records out, at most ten
  per message. Pending, completed and failed records, distributions and user claims live under
  five prefixes of one store.
\<close>

subsection \<open>Types\<close>

record bank_output =
  out_Address :: string
  out_Coins :: coins

definition distribution_type_nr :: "distribution_type \<Rightarrow> nat" where
  "distribution_type_nr t =
     (case t of
        DISTRIBUTION_TYPE_UNSPECIFIED \<Rightarrow> 0
      | DISTRIBUTION_TYPE_AIRDROP \<Rightarrow> 1
      | DISTRIBUTION_TYPE_VALIDATOR_SUBSIDY \<Rightarrow> 2
      | DISTRIBUTION_TYPE_LIQUIDITY_MINING \<Rightarrow> 3)"

definition distribution_type_String :: "distribution_type \<Rightarrow> string" where
  "distribution_type_String t =
     (case t of
        DISTRIBUTION_TYPE_UNSPECIFIED \<Rightarrow> ''DISTRIBUTION_TYPE_UNSPECIFIED''
      | DISTRIBUTION_TYPE_AIRDROP \<Rightarrow> ''DISTRIBUTION_TYPE_AIRDROP''
      | DISTRIBUTION_TYPE_VALIDATOR_SUBSIDY \<Rightarrow> ''DISTRIBUTION_TYPE_VALIDATOR_SUBSIDY''
      | DISTRIBUTION_TYPE_LIQUIDITY_MINING \<Rightarrow> ''DISTRIBUTION_TYPE_LIQUIDITY_MINING'')"

definition dispensation_ModuleName :: string where
  "dispensation_ModuleName = ''dispensation''"

definition MaxRecordsPerBlock :: nat where
  "MaxRecordsPerBlock = 10"

definition DistributionRecordPrefixPending :: key where
  "DistributionRecordPrefixPending = [CHR 0x00]"

definition DistributionRecordPrefixCompleted :: key where
  "DistributionRecordPrefixCompleted = [CHR 0x11]"

definition DistributionRecordPrefixFailed :: key where
  "DistributionRecordPrefixFailed = [CHR 0x12]"

definition DistributionsPrefix :: key where
  "DistributionsPrefix = [CHR 0x01]"

definition UserClaimPrefix :: key where
  "UserClaimPrefix = [CHR 0x02]"

definition GetDistributionRecordKey ::
  "distribution_status \<Rightarrow> string \<Rightarrow> string \<Rightarrow> distribution_type \<Rightarrow> key" where
  "GetDistributionRecordKey status name recipient t =
     (let k = name @ ''_'' @ nat_string (distribution_type_nr t) @ ''_'' @ recipient in
      case status of
        DISTRIBUTION_STATUS_PENDING \<Rightarrow> DistributionRecordPrefixPending @ k
      | DISTRIBUTION_STATUS_COMPLETED \<Rightarrow> DistributionRecordPrefixCompleted @ k
      | DISTRIBUTION_STATUS_FAILED \<Rightarrow> DistributionRecordPrefixFailed @ k
      | DISTRIBUTION_STATUS_UNSPECIFIED \<Rightarrow> DistributionRecordPrefixCompleted @ k)"

definition GetDistributionsKey :: "string \<Rightarrow> distribution_type \<Rightarrow> string \<Rightarrow> key" where
  "GetDistributionsKey name t authorizedRunner =
     DistributionsPrefix @ name @ ''_'' @ nat_string (distribution_type_nr t) @ ''_'' @ authorizedRunner"

definition GetUserClaimKey :: "string \<Rightarrow> distribution_type \<Rightarrow> key" where
  "GetUserClaimKey userAddress t = UserClaimPrefix @ userAddress @ ''_'' @ nat_string (distribution_type_nr t)"

definition NewDistributionRecord ::
  "distribution_status \<Rightarrow> distribution_type \<Rightarrow> string \<Rightarrow> string \<Rightarrow> coins \<Rightarrow> int \<Rightarrow> int \<Rightarrow> string \<Rightarrow> distribution_record" where
  "NewDistributionRecord status t name recipientAddress coins start end runner =
     \<lparr>dr_DistributionStatus = status, dr_DistributionType = t, dr_DistributionName = name,
      dr_RecipientAddress = recipientAddress, dr_Coins = coins, dr_DistributionStartHeight = start,
      dr_DistributionCompletedHeight = end, dr_AuthorizedRunner = runner\<rparr>"

definition DistributionRecord_Validate :: "'x lib \<Rightarrow> distribution_record \<Rightarrow> bool" where
  "DistributionRecord_Validate L dr =
     (if length (dr_RecipientAddress dr) = 0 then False
      else if \<not> Coins_IsValid L (dr_Coins dr) then False
      else if \<not> Coins_IsAllPositive L (dr_Coins dr) then False
      else True)"

definition DistributionRecord_Add :: "'x lib \<Rightarrow> distribution_record \<Rightarrow> distribution_record \<Rightarrow> distribution_record res" where
  "DistributionRecord_Add L dr dr2 =
     bindE (Coins_Add L (dr_Coins dr) (dr_Coins dr2)) (\<lambda>cs. Inr (dr\<lparr>dr_Coins := cs\<rparr>))"

definition DoesTypeSupportClaim :: "distribution_record \<Rightarrow> bool" where
  "DoesTypeSupportClaim dr =
     (if dr_DistributionType dr = DISTRIBUTION_TYPE_LIQUIDITY_MINING \<or>
         dr_DistributionType dr = DISTRIBUTION_TYPE_VALIDATOR_SUBSIDY then True else False)"

definition NewUserClaim :: "'x lib \<Rightarrow> string \<Rightarrow> distribution_type \<Rightarrow> int \<Rightarrow> user_claim res" where
  "NewUserClaim L userAddress t time =
     bindE (TimestampProto L time) (\<lambda>tProto.
     Inr \<lparr>UserAddress = userAddress, UserClaimType = t, UserClaimTime = tProto\<rparr>)"

definition UserClaim_Validate :: "user_claim \<Rightarrow> bool" where
  "UserClaim_Validate uc = (if length (UserAddress uc) = 0 then False else True)"

definition NewDistribution :: "distribution_type \<Rightarrow> string \<Rightarrow> string \<Rightarrow> distribution" where
  "NewDistribution t name authorizedRunner =
     \<lparr>d_DistributionType = t, d_DistributionName = name, d_Runner = authorizedRunner\<rparr>"

definition Distribution_Validate :: "distribution \<Rightarrow> bool" where
  "Distribution_Validate ar = (if d_DistributionName ar = [] then False else True)"

definition GetDistributionStatus :: "string \<Rightarrow> distribution_status \<times> bool" where
  "GetDistributionStatus status =
     (if status = ''Completed'' then (DISTRIBUTION_STATUS_COMPLETED, True)
      else if status = ''Pending'' then (DISTRIBUTION_STATUS_PENDING, True)
      else if status = ''Failed'' then (DISTRIBUTION_STATUS_FAILED, True)
      else (DISTRIBUTION_STATUS_UNSPECIFIED, False))"

definition GetClaimType :: "string \<Rightarrow> distribution_type \<times> bool" where
  "GetClaimType claimType =
     (if claimType = ''LiquidityMining'' then (DISTRIBUTION_TYPE_LIQUIDITY_MINING, True)
      else if claimType = ''ValidatorSubsidy'' then (DISTRIBUTION_TYPE_VALIDATOR_SUBSIDY, True)
      else (DISTRIBUTION_TYPE_UNSPECIFIED, False))"

definition GetDistributionTypeFromShortString :: "string \<Rightarrow> distribution_type \<times> bool" where
  "GetDistributionTypeFromShortString s =
     (if s = ''Airdrop'' then (DISTRIBUTION_TYPE_AIRDROP, True)
      else if s = ''LiquidityMining'' then (DISTRIBUTION_TYPE_LIQUIDITY_MINING, True)
      else if s = ''ValidatorSubsidy'' then (DISTRIBUTION_TYPE_VALIDATOR_SUBSIDY, True)
      else (DISTRIBUTION_TYPE_UNSPECIFIED, False))"

definition IsValidDistributionType :: "string \<Rightarrow> distribution_type \<times> bool" where
  "IsValidDistributionType s =
     (if s = ''DISTRIBUTION_TYPE_AIRDROP'' then (DISTRIBUTION_TYPE_AIRDROP, True)
      else if s = ''DISTRIBUTION_TYPE_LIQUIDITY_MINING'' then (DISTRIBUTION_TYPE_LIQUIDITY_MINING, True)
      else if s = ''DISTRIBUTION_TYPE_VALIDATOR_SUBSIDY'' then (DISTRIBUTION_TYPE_VALIDATOR_SUBSIDY, True)
      else (DISTRIBUTION_TYPE_UNSPECIFIED, False))"

definition IsValidClaimType :: "string \<Rightarrow> distribution_type \<times> bool" where
  "IsValidClaimType s =
     (if s = ''DISTRIBUTION_TYPE_LIQUIDITY_MINING'' then (DISTRIBUTION_TYPE_LIQUIDITY_MINING, True)
      else if s = ''DISTRIBUTION_TYPE_VALIDATOR_SUBSIDY'' then (DISTRIBUTION_TYPE_VALIDATOR_SUBSIDY, True)
      else (DISTRIBUTION_TYPE_UNSPECIFIED, False))"

subsection \<open>Records in the store\<close>

definition SetDistributionRecord :: "'x lib \<Rightarrow> 'x ctx \<Rightarrow> distribution_record \<Rightarrow> 'x ctx res" where
  "SetDistributionRecord L c dr =
     (if \<not> DistributionRecord_Validate L dr then Inl (Dispensation ErrInvalid_disp)
      else let k = GetDistributionRecordKey (dr_DistributionStatus dr) (dr_DistributionName dr)
                     (dr_RecipientAddress dr) (dr_DistributionType dr)
           in Inr (c\<lparr>dispensation_store := kv_set k (DV_Record dr) (dispensation_store c)\<rparr>))"

definition record_of :: "dispensation_value \<Rightarrow> distribution_record res" where
  "record_of v = (case v of DV_Record dr \<Rightarrow> Inr dr | _ \<Rightarrow> Inl Panic)"

definition GetDistributionRecord ::
  "'x ctx \<Rightarrow> string \<Rightarrow> string \<Rightarrow> distribution_status \<Rightarrow> distribution_type \<Rightarrow> distribution_record res" where
  "GetDistributionRecord c airdropName recipientAddress status t =
     (case kv_get (dispensation_store c) (GetDistributionRecordKey status airdropName recipientAddress t) of
        None \<Rightarrow> Inl (Dispensation ErrInvalid_disp)
      | Some v \<Rightarrow> record_of v)"

definition ExistsDistributionRecord ::
  "'x ctx \<Rightarrow> string \<Rightarrow> string \<Rightarrow> distribution_status \<Rightarrow> distribution_type \<Rightarrow> bool" where
  "ExistsDistributionRecord c airdropName recipientAddress status t =
     kv_has (dispensation_store c) (GetDistributionRecordKey status airdropName recipientAddress t)"

text \<open>No iterator is returned for an unknown status, and its first use panics.\<close>

definition GetDistributionRecordsIterator :: "'x ctx \<Rightarrow> distribution_status \<Rightarrow> dispensation_value kv res" where
  "GetDistributionRecordsIterator c status =
     (case status of
        DISTRIBUTION_STATUS_PENDING \<Rightarrow> Inr (kv_prefix DistributionRecordPrefixPending (dispensation_store c))
      | DISTRIBUTION_STATUS_COMPLETED \<Rightarrow> Inr (kv_prefix DistributionRecordPrefixCompleted (dispensation_store c))
      | DISTRIBUTION_STATUS_FAILED \<Rightarrow> Inr (kv_prefix DistributionRecordPrefixFailed (dispensation_store c))
      | DISTRIBUTION_STATUS_UNSPECIFIED \<Rightarrow> Inl Panic)"

definition DeleteDistributionRecord ::
  "'x ctx \<Rightarrow> string \<Rightarrow> string \<Rightarrow> distribution_status \<Rightarrow> distribution_type \<Rightarrow> 'x ctx res" where
  "DeleteDistributionRecord c distributionName recipientAddress status t =
     (let k = GetDistributionRecordKey status distributionName recipientAddress t in
      if \<not> kv_has (dispensation_store c) k then Inl (Dispensation ErrInvalid_disp)
      else Inr (c\<lparr>dispensation_store := kv_delete k (dispensation_store c)\<rparr>))"

fun records_in :: "(distribution_record \<Rightarrow> bool) \<Rightarrow> dispensation_value kv \<Rightarrow> distribution_record list res" where
  "records_in P [] = Inr []"
| "records_in P (e # es) =
     bindE (record_of (snd e)) (\<lambda>dr.
     bindE (records_in P es) (\<lambda>rs. Inr (if P dr then dr # rs else rs)))"

definition GetRecordsForNameAndStatus :: "'x ctx \<Rightarrow> string \<Rightarrow> distribution_status \<Rightarrow> distribution_record list res" where
  "GetRecordsForNameAndStatus c name status =
     bindE (GetDistributionRecordsIterator c status) (\<lambda>es.
     records_in (\<lambda>dr. dr_DistributionName dr = name) es)"

definition GetRecordsForNameStatusAndType ::
  "'x ctx \<Rightarrow> string \<Rightarrow> distribution_status \<Rightarrow> distribution_type \<Rightarrow> distribution_record list res" where
  "GetRecordsForNameStatusAndType c name status t =
     bindE (GetDistributionRecordsIterator c status) (\<lambda>es.
     records_in (\<lambda>dr. dr_DistributionName dr = name \<and> dr_DistributionType dr = t) es)"

definition records_in_all :: "'x ctx \<Rightarrow> (distribution_record \<Rightarrow> bool) \<Rightarrow> distribution_record list res" where
  "records_in_all c P =
     bindE (GetDistributionRecordsIterator c DISTRIBUTION_STATUS_PENDING) (\<lambda>es1.
     bindE (records_in P es1) (\<lambda>rs1.
     bindE (GetDistributionRecordsIterator c DISTRIBUTION_STATUS_COMPLETED) (\<lambda>es2.
     bindE (records_in P es2) (\<lambda>rs2.
     bindE (GetDistributionRecordsIterator c DISTRIBUTION_STATUS_FAILED) (\<lambda>es3.
     bindE (records_in P es3) (\<lambda>rs3.
     Inr (rs1 @ rs2 @ rs3)))))))"

definition GetRecordsForRecipient :: "'x ctx \<Rightarrow> string \<Rightarrow> distribution_record list res" where
  "GetRecordsForRecipient c recipient = records_in_all c (\<lambda>dr. dr_RecipientAddress dr = recipient)"

definition GetRecordsForName :: "'x ctx \<Rightarrow> string \<Rightarrow> distribution_record list res" where
  "GetRecordsForName c name = records_in_all c (\<lambda>dr. dr_DistributionName dr = name)"

definition GetRecords :: "'x ctx \<Rightarrow> distribution_record list res" where
  "GetRecords c =
     bindE (GetDistributionRecordsIterator c DISTRIBUTION_STATUS_PENDING) (\<lambda>es1.
     let rs1 = concat (map (\<lambda>e. case snd e of DV_Record dr \<Rightarrow> [dr] | _ \<Rightarrow> []) es1) in
     bindE (GetDistributionRecordsIterator c DISTRIBUTION_STATUS_COMPLETED) (\<lambda>es2.
     bindE (records_in (\<lambda>dr. True) es2) (\<lambda>rs2.
     bindE (GetDistributionRecordsIterator c DISTRIBUTION_STATUS_FAILED) (\<lambda>es3.
     bindE (records_in (\<lambda>dr. True) es3) (\<lambda>rs3.
     Inr (rs1 @ rs2 @ rs3))))))"

text \<open>The loops that stop after ten records: the counter runs down.\<close>

fun limited_records :: "nat \<Rightarrow> (distribution_record \<Rightarrow> bool) \<Rightarrow> dispensation_value kv \<Rightarrow> distribution_record list res" where
  "limited_records 0 P es = Inr []"
| "limited_records (Suc n) P [] = Inr []"
| "limited_records (Suc n) P (e # es) =
     bindE (record_of (snd e)) (\<lambda>dr.
     if P dr then bindE (limited_records n P es) (\<lambda>rs. Inr (dr # rs))
     else limited_records (Suc n) P es)"

definition GetLimitedRecordsForStatus :: "'x ctx \<Rightarrow> distribution_status \<Rightarrow> distribution_record list res" where
  "GetLimitedRecordsForStatus c status =
     bindE (GetDistributionRecordsIterator c status) (\<lambda>es.
     limited_records MaxRecordsPerBlock (\<lambda>dr. True) es)"

definition GetLimitedRecordsForRunner ::
  "'x ctx \<Rightarrow> string \<Rightarrow> string \<Rightarrow> distribution_type \<Rightarrow> distribution_status \<Rightarrow> distribution_record list res" where
  "GetLimitedRecordsForRunner c distributionName authorizedRunner t status =
     bindE (GetDistributionRecordsIterator c status) (\<lambda>es.
     limited_records MaxRecordsPerBlock
       (\<lambda>dr. dr_DistributionName dr = distributionName \<and>
         dr_DistributionStatus dr = DISTRIBUTION_STATUS_PENDING \<and>
         dr_AuthorizedRunner dr = authorizedRunner \<and>
         dr_DistributionType dr = t) es)"

text \<open>
  The caller of \<open>ChangeRecordStatus\<close> goes on after an error, so what was written before the error
  is part of the result.
\<close>

definition ChangeRecordStatus ::
  "'x lib \<Rightarrow> 'x ctx \<Rightarrow> distribution_record \<Rightarrow> int \<Rightarrow> distribution_status \<Rightarrow> 'x ctx \<times> error option" where
  "ChangeRecordStatus L c dr height newStatus =
     (let oldStatus = dr_DistributionStatus dr;
          dr = dr\<lparr>dr_DistributionStatus := newStatus, dr_DistributionCompletedHeight := height\<rparr> in
      case SetDistributionRecord L c dr of
        Inl _ \<Rightarrow> (c, Some (Dispensation ErrDistribution))
      | Inr c \<Rightarrow>
          (case DeleteDistributionRecord c (dr_DistributionName dr) (dr_RecipientAddress dr) oldStatus
                  (dr_DistributionType dr) of
             Inl _ \<Rightarrow> (c, Some (Dispensation ErrDistribution))
           | Inr c \<Rightarrow> (c, None)))"

subsection \<open>Distributions and claims in the store\<close>

definition SetDistribution :: "'x ctx \<Rightarrow> distribution \<Rightarrow> 'x ctx res" where
  "SetDistribution c ar =
     (if \<not> Distribution_Validate ar then Inl (Dispensation ErrInvalid_disp)
      else Inr (c\<lparr>dispensation_store :=
             kv_set (GetDistributionsKey (d_DistributionName ar) (d_DistributionType ar) (d_Runner ar))
               (DV_Distribution ar) (dispensation_store c)\<rparr>))"

definition GetDistribution :: "'x ctx \<Rightarrow> string \<Rightarrow> distribution_type \<Rightarrow> string \<Rightarrow> distribution res" where
  "GetDistribution c name t authorizedRunner =
     (case kv_get (dispensation_store c) (GetDistributionsKey name t authorizedRunner) of
        None \<Rightarrow> Inl (Dispensation ErrInvalid_disp)
      | Some (DV_Distribution d) \<Rightarrow> Inr d
      | Some _ \<Rightarrow> Inl Panic)"

definition ExistsDistribution :: "'x ctx \<Rightarrow> string \<Rightarrow> distribution_type \<Rightarrow> string \<Rightarrow> bool" where
  "ExistsDistribution c name t authorizedRunner =
     kv_has (dispensation_store c) (GetDistributionsKey name t authorizedRunner)"

definition GetDistributions :: "'x ctx \<Rightarrow> distribution list" where
  "GetDistributions c = concat (map (\<lambda>e. case snd e of DV_Distribution d \<Rightarrow> [d] | _ \<Rightarrow> [])
     (kv_prefix DistributionsPrefix (dispensation_store c)))"

definition SetClaim :: "'x ctx \<Rightarrow> user_claim \<Rightarrow> 'x ctx res" where
  "SetClaim c ar =
     (if \<not> UserClaim_Validate ar then Inl (Dispensation ErrInvalid_disp)
      else Inr (c\<lparr>dispensation_store :=
             kv_set (GetUserClaimKey (UserAddress ar) (UserClaimType ar)) (DV_Claim ar) (dispensation_store c)\<rparr>))"

definition GetClaim :: "'x ctx \<Rightarrow> string \<Rightarrow> distribution_type \<Rightarrow> user_claim res" where
  "GetClaim c recipient t =
     (case kv_get (dispensation_store c) (GetUserClaimKey recipient t) of
        None \<Rightarrow> Inl (Dispensation ErrInvalid_disp)
      | Some (DV_Claim u) \<Rightarrow> Inr u
      | Some _ \<Rightarrow> Inl Panic)"

definition ExistsClaim :: "'x ctx \<Rightarrow> string \<Rightarrow> distribution_type \<Rightarrow> bool" where
  "ExistsClaim c recipient t = kv_has (dispensation_store c) (GetUserClaimKey recipient t)"

definition DeleteClaim :: "'x ctx \<Rightarrow> string \<Rightarrow> distribution_type \<Rightarrow> 'x ctx" where
  "DeleteClaim c recipient t =
     c\<lparr>dispensation_store := kv_delete (GetUserClaimKey recipient t) (dispensation_store c)\<rparr>"

definition GetClaims :: "'x ctx \<Rightarrow> user_claim list" where
  "GetClaims c = concat (map (\<lambda>e. case snd e of DV_Claim u \<Rightarrow> [u] | _ \<Rightarrow> [])
     (kv_prefix UserClaimPrefix (dispensation_store c)))"

definition GetClaimsByType :: "'x ctx \<Rightarrow> distribution_type \<Rightarrow> user_claim list res" where
  "GetClaimsByType c t =
     foldE (\<lambda>us e. case snd e of
         DV_Claim u \<Rightarrow> Inr (if UserClaimType u = t then us @ [u] else us)
       | _ \<Rightarrow> Inl Panic) [] (kv_prefix UserClaimPrefix (dispensation_store c))"

subsection \<open>Executors\<close>

definition create_drop ::
  "'x lib \<Rightarrow> string \<Rightarrow> distribution_type \<Rightarrow> string \<Rightarrow> 'x ctx \<Rightarrow> bank_output \<Rightarrow> 'x ctx res" where
  "create_drop L name t authorizedRunner c receiver =
     (let dr = NewDistributionRecord DISTRIBUTION_STATUS_PENDING t name (out_Address receiver)
                 (out_Coins receiver) (BlockHeight c) (- 1) authorizedRunner in
      bindE (if ExistsDistributionRecord c name (out_Address receiver) DISTRIBUTION_STATUS_PENDING (dr_DistributionType dr)
             then bindE (wrapE (Dispensation ErrDistribution)
                    (GetDistributionRecord c name (out_Address receiver) DISTRIBUTION_STATUS_PENDING
                       (dr_DistributionType dr))) (\<lambda>oldRecord.
                  DistributionRecord_Add L dr oldRecord)
             else Inr dr) (\<lambda>dr.
      wrapE (Dispensation ErrFailedOutputs) (SetDistributionRecord L c dr)))"

definition CreateDrops ::
  "'x lib \<Rightarrow> 'x ctx \<Rightarrow> bank_output list \<Rightarrow> string \<Rightarrow> distribution_type \<Rightarrow> string \<Rightarrow> 'x ctx res" where
  "CreateDrops L c output name t authorizedRunner = foldE (create_drop L name t authorizedRunner) c output"

definition distribute_drop :: "'x lib \<Rightarrow> int \<Rightarrow> 'x ctx \<Rightarrow> distribution_record \<Rightarrow> 'x ctx res" where
  "distribute_drop L height c record =
     bindE (attempt (AccAddressFromBech32 L (dr_RecipientAddress record))) (\<lambda>found.
     case found of
       None \<Rightarrow> Inr c
     | Some recipientAddress \<Rightarrow>
         (case SendCoinsFromModuleToAccount L (ext c) dispensation_ModuleName recipientAddress (dr_Coins record) of
            (x, Some e) \<Rightarrow>
              (if e = Panic then Inl Panic
               else case ChangeRecordStatus L (c\<lparr>ext := x\<rparr>) record height DISTRIBUTION_STATUS_FAILED of
                 (c, None) \<Rightarrow> Inr c
               | (_, Some _) \<Rightarrow> Inl Panic)
          | (x, None) \<Rightarrow>
              (case ChangeRecordStatus L (c\<lparr>ext := x\<rparr>) record height DISTRIBUTION_STATUS_COMPLETED of
                 (c, Some _) \<Rightarrow>
                   wrapE Panic (bank (\<lambda>x. SendCoinsFromAccountToModule L x recipientAddress
                     dispensation_ModuleName (dr_Coins record)) c)
               | (c, None) \<Rightarrow>
                   Inr (if DoesTypeSupportClaim record
                        then DeleteClaim c (dr_RecipientAddress record) (dr_DistributionType record)
                        else c))))"

definition DistributeDrops ::
  "'x lib \<Rightarrow> 'x ctx \<Rightarrow> int \<Rightarrow> string \<Rightarrow> string \<Rightarrow> distribution_type \<Rightarrow> (distribution_record list \<times> 'x ctx) res" where
  "DistributeDrops L c height distributionName authorizedRunner t =
     bindE (GetLimitedRecordsForRunner c distributionName authorizedRunner t DISTRIBUTION_STATUS_PENDING) (\<lambda>pendingRecords.
     bindE (foldE (distribute_drop L height) c pendingRecords) (\<lambda>c.
     Inr (pendingRecords, c)))"

definition AccumulateDrops :: "'x lib \<Rightarrow> 'x ctx \<Rightarrow> string \<Rightarrow> coins \<Rightarrow> 'x ctx res" where
  "AccumulateDrops L c addr amount =
     bindE (AccAddressFromBech32 L addr) (\<lambda>address.
     wrapE (Dispensation ErrFailedInputs)
       (bank (\<lambda>x. SendCoinsFromAccountToModule L x address dispensation_ModuleName amount) c))"

definition VerifyAndSetDistribution :: "'x ctx \<Rightarrow> string \<Rightarrow> distribution_type \<Rightarrow> string \<Rightarrow> 'x ctx res" where
  "VerifyAndSetDistribution c distributionName t authorizedRunner =
     bindE (guardE (\<not> ExistsDistribution c distributionName t authorizedRunner) (Dispensation ErrDistribution)) (\<lambda>_.
     wrapE (Dispensation ErrDistribution) (SetDistribution c (NewDistribution t distributionName authorizedRunner)))"

definition HasCoins :: "'x lib \<Rightarrow> 'x ctx \<Rightarrow> addr \<Rightarrow> coins \<Rightarrow> bool" where
  "HasCoins L c user coins = list_all (\<lambda>coin. HasBalance L (ext c) user coin) coins"

fun total_rest :: "'x lib \<Rightarrow> coins \<Rightarrow> bank_output list \<Rightarrow> coins res" where
  "total_rest L t [] = Inr t"
| "total_rest L t (out # outs) = bindE (Coins_Add L t (out_Coins out)) (\<lambda>t. total_rest L t outs)"

definition TotalOutput :: "'x lib \<Rightarrow> bank_output list \<Rightarrow> coins res" where
  "TotalOutput L output =
     (case output of
        [] \<Rightarrow> Inl (ErrGo ''no outputs to send transaction'')
      | out # outs \<Rightarrow> total_rest L (out_Coins out) outs)"

subsection \<open>Messages\<close>

record msg_create_distribution =
  mcd_Distributor :: string
  mcd_AuthorizedRunner :: string
  mcd_DistributionType :: distribution_type
  mcd_Output :: "bank_output list"

record msg_create_user_claim =
  muc_UserClaimAddress :: string
  muc_UserClaimType :: distribution_type

record msg_run_distribution =
  mrd_AuthorizedRunner :: string
  mrd_DistributionName :: string
  mrd_DistributionType :: distribution_type

fun validate_outputs :: "'x lib \<Rightarrow> bank_output list \<Rightarrow> unit res" where
  "validate_outputs L [] = Inr ()"
| "validate_outputs L (out # outs) =
     bindE (wrapE (Dispensation ErrInvalid_disp) (AccAddressFromBech32 L (out_Address out))) (\<lambda>_.
     bindE (guardE (Coins_IsValid L (out_Coins out)) (Dispensation ErrInvalid_disp)) (\<lambda>_.
     validate_outputs L outs))"

definition MsgCreateDistribution_ValidateBasic :: "'x lib \<Rightarrow> msg_create_distribution \<Rightarrow> unit res" where
  "MsgCreateDistribution_ValidateBasic L m =
     bindE (guardE (snd (IsValidDistributionType (distribution_type_String (mcd_DistributionType m))))
       (Dispensation ErrInvalid_disp)) (\<lambda>_.
     bindE (guardE (length (mcd_Output m) \<noteq> 0) (Dispensation ErrInvalid_disp)) (\<lambda>_.
     bindE (wrapE (Dispensation ErrInvalid_disp) (AccAddressFromBech32 L (mcd_Distributor m))) (\<lambda>_.
     bindE (wrapE (Dispensation ErrInvalid_disp) (AccAddressFromBech32 L (mcd_AuthorizedRunner m))) (\<lambda>_.
     validate_outputs L (mcd_Output m)))))"

definition MsgCreateUserClaim_ValidateBasic :: "'x lib \<Rightarrow> msg_create_user_claim \<Rightarrow> unit res" where
  "MsgCreateUserClaim_ValidateBasic L m =
     bindE (wrapE (ErrGo ''invalid address'') (AccAddressFromBech32 L (muc_UserClaimAddress m))) (\<lambda>_.
     guardE (snd (IsValidClaimType (distribution_type_String (muc_UserClaimType m)))) (Dispensation ErrInvalid_disp))"

definition MsgRunDistribution_ValidateBasic :: "'x lib \<Rightarrow> msg_run_distribution \<Rightarrow> unit res" where
  "MsgRunDistribution_ValidateBasic L m =
     bindE (guardE (snd (IsValidDistributionType (distribution_type_String (mrd_DistributionType m))))
       (Dispensation ErrInvalid_disp)) (\<lambda>_.
     bindE (guardE (mrd_DistributionName m \<noteq> []) (Dispensation ErrInvalid_disp)) (\<lambda>_.
     bindE (wrapE (Dispensation ErrInvalid_disp) (AccAddressFromBech32 L (mrd_AuthorizedRunner m))) (\<lambda>_.
     Inr ())))"

definition MsgCreateDistribution_GetSigners :: "'x lib \<Rightarrow> msg_create_distribution \<Rightarrow> addr list res" where
  "MsgCreateDistribution_GetSigners L m =
     bindE (wrapE Panic (AccAddressFromBech32 L (mcd_Distributor m))) (\<lambda>a. Inr [a])"

definition MsgCreateUserClaim_GetSigners :: "'x lib \<Rightarrow> msg_create_user_claim \<Rightarrow> addr list res" where
  "MsgCreateUserClaim_GetSigners L m =
     bindE (wrapE Panic (AccAddressFromBech32 L (muc_UserClaimAddress m))) (\<lambda>a. Inr [a])"

definition MsgRunDistribution_GetSigners :: "'x lib \<Rightarrow> msg_run_distribution \<Rightarrow> addr list res" where
  "MsgRunDistribution_GetSigners L m =
     bindE (wrapE Panic (AccAddressFromBech32 L (mrd_AuthorizedRunner m))) (\<lambda>a. Inr [a])"

subsection \<open>Message server\<close>

definition GetDistributionModuleAddress :: "'x lib \<Rightarrow> addr" where
  "GetDistributionModuleAddress L = NewModuleAddress L dispensation_ModuleName"

definition distribution_name :: "'x ctx \<Rightarrow> string \<Rightarrow> string" where
  "distribution_name c distributor = int_string (BlockHeight c) @ ''_'' @ distributor"

definition msg_CreateDistribution :: "'x lib \<Rightarrow> 'x ctx \<Rightarrow> msg_create_distribution \<Rightarrow> 'x ctx res" where
  "msg_CreateDistribution L c msg =
     (let distributionName = distribution_name c (mcd_Distributor msg) in
      bindE (VerifyAndSetDistribution c distributionName (mcd_DistributionType msg) (mcd_AuthorizedRunner msg)) (\<lambda>c.
      bindE (TotalOutput L (mcd_Output msg)) (\<lambda>totalOutput.
      bindE (AccumulateDrops L c (mcd_Distributor msg) totalOutput) (\<lambda>c.
      bindE (CreateDrops L c (mcd_Output msg) distributionName (mcd_DistributionType msg)
               (mcd_AuthorizedRunner msg)) (\<lambda>c.
      Inr (EmitEvents [
        Event ''distribution_started'' [
          (''module_account'', AccAddress_String L (GetDistributionModuleAddress L)),
          (''distribution_name'', distributionName),
          (''distribution_type'', distribution_type_String (mcd_DistributionType msg))]] c))))))"

definition msg_CreateUserClaim :: "'x lib \<Rightarrow> 'x ctx \<Rightarrow> msg_create_user_claim \<Rightarrow> 'x ctx res" where
  "msg_CreateUserClaim L c claim =
     bindE (guardE (\<not> ExistsClaim c (muc_UserClaimAddress claim) (muc_UserClaimType claim))
       (Dispensation ErrInvalid_disp)) (\<lambda>_.
     bindE (NewUserClaim L (muc_UserClaimAddress claim) (muc_UserClaimType claim) (BlockTime c)) (\<lambda>newClaim.
     bindE (SetClaim c newClaim) (\<lambda>c.
     Inr (EmitEvents [
       Event ''userClaim_new'' [
         (''userClaim_creator'', UserAddress newClaim),
         (''userClaim_type'', distribution_type_String (UserClaimType newClaim)),
         (''userClaim_creationTime'', Timestamp_String L (UserClaimTime newClaim))]] c))))"

definition record_event :: "'x lib \<Rightarrow> nat \<times> distribution_record \<Rightarrow> event" where
  "record_event L = (\<lambda>(i, record).
     Event (''distribution_record_'' @ nat_string i) [
       (''recipient_address'', dr_RecipientAddress record),
       (''type'', distribution_type_String (dr_DistributionType record)),
       (''amount'', Coins_String L (dr_Coins record))])"

definition msg_RunDistribution :: "'x lib \<Rightarrow> 'x ctx \<Rightarrow> msg_run_distribution \<Rightarrow> 'x ctx res" where
  "msg_RunDistribution L c distribution =
     bindE (DistributeDrops L c (BlockHeight c) (mrd_DistributionName distribution)
       (mrd_AuthorizedRunner distribution) (mrd_DistributionType distribution)) (\<lambda>(records, c).
     Inr (EmitEvents (map (record_event L) (zip [0..<length records] records) @ [
       Event ''distribution_run'' [
         (''distribution_name'', mrd_DistributionName distribution),
         (''distribution_runner'', mrd_AuthorizedRunner distribution)]]) c))"

datatype dispensation_msg =
    MsgCreateDistribution msg_create_distribution
  | MsgCreateUserClaim msg_create_user_claim
  | MsgRunDistribution msg_run_distribution

definition dispensation_NewHandler :: "'x lib \<Rightarrow> 'x ctx \<Rightarrow> dispensation_msg \<Rightarrow> 'x ctx res" where
  "dispensation_NewHandler L c msg =
     (let c = c\<lparr>events := []\<rparr> in
      case msg of
        MsgCreateDistribution m \<Rightarrow> msg_CreateDistribution L c m
      | MsgCreateUserClaim m \<Rightarrow> msg_CreateUserClaim L c m
      | MsgRunDistribution m \<Rightarrow> msg_RunDistribution L c m)"

subsection \<open>Queries and genesis\<close>

definition Query_AllDistributions :: "'x ctx \<Rightarrow> distribution list" where
  "Query_AllDistributions c = GetDistributions c"

definition Query_ClaimsByType :: "'x ctx \<Rightarrow> distribution_type \<Rightarrow> user_claim list res" where
  "Query_ClaimsByType c t = GetClaimsByType c t"

definition Query_RecordsByDistributionName ::
  "'x ctx \<Rightarrow> string \<Rightarrow> distribution_status \<Rightarrow> distribution_record list res" where
  "Query_RecordsByDistributionName c name status =
     bindE (GetRecordsForNameAndStatus c name status) (\<lambda>records.
     if status = DISTRIBUTION_STATUS_UNSPECIFIED
     then bindE (GetRecordsForNameAndStatus c name DISTRIBUTION_STATUS_PENDING) (\<lambda>more. Inr (records @ more))
     else Inr records)"

definition Query_RecordsByRecipient :: "'x ctx \<Rightarrow> string \<Rightarrow> distribution_record list res" where
  "Query_RecordsByRecipient c address = GetRecordsForRecipient c address"

record dispensation_genesis =
  dg_DistributionRecords :: "distribution_record list option"
  dg_Distributions :: "distribution list option"
  dg_Claims :: "user_claim list option"

definition dispensation_InitGenesis :: "'x lib \<Rightarrow> 'x ctx \<Rightarrow> dispensation_genesis \<Rightarrow> 'x ctx res" where
  "dispensation_InitGenesis L c data =
     bindE (case dg_DistributionRecords data of
              None \<Rightarrow> Inr c
            | Some rs \<Rightarrow> foldE (\<lambda>c r. wrapE Panic (SetDistributionRecord L c r)) c rs) (\<lambda>c.
     bindE (case dg_Distributions data of
              None \<Rightarrow> Inr c
            | Some ds \<Rightarrow> foldE (\<lambda>c d. wrapE Panic (SetDistribution c d)) c ds) (\<lambda>c.
     case dg_Claims data of
       None \<Rightarrow> Inr c
     | Some us \<Rightarrow> foldE (\<lambda>c u. wrapE Panic (SetClaim c u)) c us))"

definition dispensation_ExportGenesis :: "'x ctx \<Rightarrow> dispensation_genesis res" where
  "dispensation_ExportGenesis c =
     bindE (GetRecords c) (\<lambda>records.
     Inr \<lparr>dg_DistributionRecords = Some records, dg_Distributions = Some (GetDistributions c),
          dg_Claims = Some (GetClaims c)\<rparr>)"

definition dispensation_ValidateGenesis :: "'x lib \<Rightarrow> dispensation_genesis \<Rightarrow> unit res" where
  "dispensation_ValidateGenesis L data =
     bindE (guardE (case dg_DistributionRecords data of None \<Rightarrow> True
       | Some rs \<Rightarrow> list_all (DistributionRecord_Validate L) rs) (Dispensation ErrInvalid_disp)) (\<lambda>_.
     bindE (guardE (case dg_Distributions data of None \<Rightarrow> True
       | Some ds \<Rightarrow> list_all Distribution_Validate ds) (Dispensation ErrInvalid_disp)) (\<lambda>_.
     guardE (case dg_Claims data of None \<Rightarrow> True
       | Some us \<Rightarrow> list_all UserClaim_Validate us) (Dispensation ErrInvalid_disp)))"

subsection \<open>Migration of the state of version 39\<close>

record v39_record =
  v39_DistributionStatus :: int
  v39_DistributionName :: string
  v39_DistributionType :: int
  v39_RecipientAddress :: addr
  v39_Coins :: coins
  v39_DistributionStartHeight :: int
  v39_DistributionCompletedHeight :: int
  v39_AuthorizedRunner :: addr

record v39_distribution =
  v39_d_DistributionType :: int
  v39_d_DistributionName :: string
  v39_d_Runner :: addr

record v39_user_claim =
  v39_UserAddress :: addr
  v39_UserClaimType :: int
  v39_UserClaimTime :: int

record v39_genesis =
  v39_DistributionRecords :: "v39_record list"
  v39_Distributions :: "v39_distribution list"
  v39_Claims :: "v39_user_claim list"

definition v39_status_String :: "int \<Rightarrow> string" where
  "v39_status_String ds = (if ds = 1 then ''Pending'' else if ds = 2 then ''Completed'' else ''All'')"

definition v39_type_String :: "int \<Rightarrow> string" where
  "v39_type_String dt =
     (if dt = 1 then ''Airdrop'' else if dt = 2 then ''LiquidityMining'' else if dt = 3 then ''ValidatorSubsidy''
      else ''Invalid'')"

definition migrateDistributionRecordStatus :: "int \<Rightarrow> distribution_status" where
  "migrateDistributionRecordStatus st =
     (if st = 1 then DISTRIBUTION_STATUS_PENDING
      else if st = 2 then DISTRIBUTION_STATUS_COMPLETED
      else DISTRIBUTION_STATUS_UNSPECIFIED)"

definition migrateDistributionType :: "int \<Rightarrow> distribution_type" where
  "migrateDistributionType t =
     (if t = 1 then DISTRIBUTION_TYPE_AIRDROP
      else if t = 2 then DISTRIBUTION_TYPE_LIQUIDITY_MINING
      else if t = 3 then DISTRIBUTION_TYPE_VALIDATOR_SUBSIDY
      else DISTRIBUTION_TYPE_UNSPECIFIED)"

definition migrate_record :: "'x lib \<Rightarrow> v39_record \<Rightarrow> distribution_record" where
  "migrate_record L d =
     \<lparr>dr_DistributionStatus = migrateDistributionRecordStatus (v39_DistributionStatus d),
      dr_DistributionType = migrateDistributionType (v39_DistributionType d),
      dr_DistributionName = v39_DistributionName d,
      dr_RecipientAddress = AccAddress_String L (v39_RecipientAddress d),
      dr_Coins = v39_Coins d,
      dr_DistributionStartHeight = v39_DistributionStartHeight d,
      dr_DistributionCompletedHeight = v39_DistributionCompletedHeight d,
      dr_AuthorizedRunner = AccAddress_String L (v39_AuthorizedRunner d)\<rparr>"

definition migrate_distribution :: "'x lib \<Rightarrow> v39_distribution \<Rightarrow> distribution" where
  "migrate_distribution L d =
     \<lparr>d_DistributionType = migrateDistributionType (v39_d_DistributionType d),
      d_DistributionName = v39_d_DistributionName d,
      d_Runner = AccAddress_String L (v39_d_Runner d)\<rparr>"

definition migrate_claim :: "'x lib \<Rightarrow> v39_user_claim \<Rightarrow> user_claim res" where
  "migrate_claim L cl =
     bindE (wrapE Panic (TimestampProto L (v39_UserClaimTime cl))) (\<lambda>t.
     Inr \<lparr>UserAddress = AccAddress_String L (v39_UserAddress cl),
          UserClaimType = migrateDistributionType (v39_UserClaimType cl), UserClaimTime = t\<rparr>)"

definition dispensation_Migrate :: "'x lib \<Rightarrow> v39_genesis \<Rightarrow> dispensation_genesis res" where
  "dispensation_Migrate L state =
     (let records = map (migrate_record L) (v39_DistributionRecords state);
          distributions = map (migrate_distribution L) (v39_Distributions state) in
      bindE (foldE (\<lambda>cls cl. bindE (migrate_claim L cl) (\<lambda>cl. Inr (cls @ [cl]))) [] (v39_Claims state)) (\<lambda>claims.
      Inr \<lparr>dg_DistributionRecords = Some records, dg_Distributions = Some distributions, dg_Claims = Some claims\<rparr>))"

end
