(* ===== verification/App.thy ===== *)
theory App
  imports ClpMsgServer EthBridge Dispensation TokenRegistry
begin

section \<open>The application\<close>

text \<open>
  \<open>app/app.go\<close> hands every message to the module it belongs to. The modules share the context:
  the pools and the bridge read the token registry, the bridge drives the oracle, and all move
  coins through one bank. \<open>app_GetSigners\<close> are the accounts whose signatures the chain demands
  before it delivers the message. Transfers over IBC (\<open>IbcTransfer\<close>) and the SDK's own
  messages are not among these.
\<close>

datatype app_msg =
    RegistryMsg registry_msg
  | ClpMsg clp_msg
  | BridgeMsg bridge_msg
  | DispensationMsg dispensation_msg

definition registry_GetSigners :: "'x lib \<Rightarrow> registry_msg \<Rightarrow> addr list res" where
  "registry_GetSigners L msg =
     (case msg of
        MsgRegister m \<Rightarrow> MsgRegister_GetSigners L m
      | MsgSetRegistry m \<Rightarrow> MsgSetRegistry_GetSigners L m
      | MsgDeregister m \<Rightarrow> MsgDeregister_GetSigners L m)"

definition clp_GetSigners :: "'x lib \<Rightarrow> clp_msg \<Rightarrow> addr list res" where
  "clp_GetSigners L msg =
     (case msg of
        MsgCreatePool m \<Rightarrow> MsgCreatePool_GetSigners L m
      | MsgAddLiquidity m \<Rightarrow> MsgAddLiquidity_GetSigners L m
      | MsgRemoveLiquidity m \<Rightarrow> MsgRemoveLiquidity_GetSigners L m
      | MsgSwap m \<Rightarrow> MsgSwap_GetSigners L m
      | MsgDecommissionPool m \<Rightarrow> MsgDecommissionPool_GetSigners L m)"

definition bridge_GetSigners :: "'x lib \<Rightarrow> bridge_msg \<Rightarrow> addr list res" where
  "bridge_GetSigners L msg =
     (case msg of
        MsgCreateEthBridgeClaim ord m \<Rightarrow> MsgCreateEthBridgeClaim_GetSigners L m
      | MsgBurn m \<Rightarrow> MsgBurn_GetSigners L m
      | MsgLock m \<Rightarrow> MsgLock_GetSigners L m
      | MsgUpdateWhiteListValidator m \<Rightarrow> MsgUpdateWhiteListValidator_GetSigners L m
      | MsgUpdateCethReceiverAccount m \<Rightarrow> MsgUpdateCethReceiverAccount_GetSigners L m
      | MsgRescueCeth m \<Rightarrow> MsgRescueCeth_GetSigners L m
      | MsgSetBlacklist m \<Rightarrow> MsgSetBlacklist_GetSigners L m)"

definition dispensation_GetSigners :: "'x lib \<Rightarrow> dispensation_msg \<Rightarrow> addr list res" where
  "dispensation_GetSigners L msg =
     (case msg of
        MsgCreateDistribution m \<Rightarrow> MsgCreateDistribution_GetSigners L m
      | MsgCreateUserClaim m \<Rightarrow> MsgCreateUserClaim_GetSigners L m
      | MsgRunDistribution m \<Rightarrow> MsgRunDistribution_GetSigners L m)"

definition app_GetSigners :: "'x lib \<Rightarrow> app_msg \<Rightarrow> addr list res" where
  "app_GetSigners L msg =
     (case msg of
        RegistryMsg m \<Rightarrow> registry_GetSigners L m
      | ClpMsg m \<Rightarrow> clp_GetSigners L m
      | BridgeMsg m \<Rightarrow> bridge_GetSigners L m
      | DispensationMsg m \<Rightarrow> dispensation_GetSigners L m)"

text \<open>The keeper of the oracle is built with the default share of consensus.\<close>

definition app_handler :: "'x lib \<Rightarrow> 'x ctx \<Rightarrow> app_msg \<Rightarrow> 'x ctx res" where
  "app_handler L c msg =
     (case msg of
        RegistryMsg m \<Rightarrow> registry_NewHandler L c m
      | ClpMsg m \<Rightarrow> clp_NewHandler L c m
      | BridgeMsg m \<Rightarrow> bridge_NewHandler L DefaultConsensusNeeded c m
      | DispensationMsg m \<Rightarrow> dispensation_NewHandler L c m)"

end
