(* ===== verification/ClpInvariants.thy ===== *)
theory ClpInvariants
  imports ClpMsgServer
begin

section \<open>Solvency of the liquidity pools\<close>

text \<open>
  The module's account holds, for every denomination, at least what the pools' books say.
  \<open>slack\<close> is the difference; each executor changes it by a known amount, and the handlers by
  nothing or in the module's favour.
\<close>

subsection \<open>Books\<close>

definition pool_owes :: "pool \<Rightarrow> string \<Rightarrow> int" where
  "pool_owes p d = (if d = NativeSymbol then int (NativeAssetBalance p) else 0)
     + (case ExternalAsset p of None \<Rightarrow> 0
        | Some a \<Rightarrow> if d = Symbol a then int (ExternalAssetBalance p) else 0)"

definition value_owes :: "string \<Rightarrow> clp_value \<Rightarrow> int" where
  "value_owes d v = (case v of V_Pool p \<Rightarrow> pool_owes p d | _ \<Rightarrow> 0)"

definition clp_owed :: "'x ctx \<Rightarrow> string \<Rightarrow> int" where
  "clp_owed c d = kv_sum (value_owes d) (clp_store c)"

definition slack :: "'x lib \<Rightarrow> 'x ctx \<Rightarrow> string \<Rightarrow> int" where
  "slack L c d = GetBalance L (ext c) (GetCLPModuleAddress L) d - clp_owed c d"

definition clp_solvent :: "'x lib \<Rightarrow> 'x ctx \<Rightarrow> bool" where
  "clp_solvent L c \<longleftrightarrow> (\<forall>d. clp_owed c d \<le> GetBalance L (ext c) (GetCLPModuleAddress L) d)"

definition entry_ok :: "key \<Rightarrow> clp_value \<Rightarrow> bool" where
  "entry_ok k v = (case v of
       V_Pool p \<Rightarrow> (case ExternalAsset p of None \<Rightarrow> False
         | Some a \<Rightarrow> k = GetPoolKey (Symbol a) NativeSymbol)
     | V_LP l \<Rightarrow> (case lp_Asset l of None \<Rightarrow> False
         | Some a \<Rightarrow> k = GetLiquidityProviderKey (Symbol a) (LiquidityProviderAddress l))
     | V_WhiteList _ \<Rightarrow> k = WhiteListValidatorPrefix)"

definition clp_wf :: "'x ctx \<Rightarrow> bool" where
  "clp_wf c \<longleftrightarrow> kv_ok (clp_store c) \<and> list_all (\<lambda>(k, v). entry_ok k v) (clp_store c)"

lemma clp_solvent_iff: "clp_solvent L c \<longleftrightarrow> (\<forall>d. 0 \<le> slack L c d)"
  by (simp add: clp_solvent_def slack_def)

text \<open>The messages that histories of the module are made of.\<close>

definition clp_signer :: "clp_msg \<Rightarrow> string" where
  "clp_signer msg = (case msg of
       MsgCreatePool m \<Rightarrow> mcp_Signer m | MsgAddLiquidity m \<Rightarrow> mal_Signer m
     | MsgRemoveLiquidity m \<Rightarrow> mrl_Signer m | MsgSwap m \<Rightarrow> ms_Signer m
     | MsgDecommissionPool m \<Rightarrow> mdp_Signer m)"

definition clp_allowed :: "'x lib \<Rightarrow> clp_msg \<Rightarrow> bool" where
  "clp_allowed L msg \<longleftrightarrow> AccAddressFromBech32 L (clp_signer msg) \<noteq> Inr (GetCLPModuleAddress L)
     \<and> (case msg of MsgRemoveLiquidity m \<Rightarrow> mrl_Asymmetry m = 0 | _ \<Rightarrow> True)"

lemma clp_wf_ok: "clp_wf c \<Longrightarrow> kv_ok (clp_store c)"
  by (simp add: clp_wf_def)

lemma clp_wf_get: "clp_wf c \<Longrightarrow> kv_get (clp_store c) k = Some v \<Longrightarrow> entry_ok k v"
  by (auto simp: clp_wf_def list_all_iff kvs.entries_get [symmetric])

lemma clp_wf_iff:
  "clp_wf c \<longleftrightarrow> kv_ok (clp_store c) \<and> (\<forall>k v. kv_get (clp_store c) k = Some v \<longrightarrow> entry_ok k v)"
  by (auto simp: clp_wf_def list_all_iff kvs.entries_get)

lemma clp_wf_set:
  "clp_wf c \<Longrightarrow> entry_ok k v \<Longrightarrow> clp_wf (c\<lparr>clp_store := kv_set k v (clp_store c)\<rparr>)"
  by (auto simp: clp_wf_iff kv_ok_set kv_get_set)

lemma clp_wf_delete: "clp_wf c \<Longrightarrow> clp_wf (c\<lparr>clp_store := kv_delete k (clp_store c)\<rparr>)"
  by (auto simp: clp_wf_iff kv_ok_delete kv_get_delete split: if_splits)

lemma clp_wf_simps [simp]:
  "clp_wf (c\<lparr>ext := x\<rparr>) = clp_wf c" "clp_wf (c\<lparr>events := es\<rparr>) = clp_wf c" "clp_wf (EmitEvents es c) = clp_wf c"
  by (simp_all add: clp_wf_def EmitEvents_def)

lemma slack_simps [simp]:
  "slack L (c\<lparr>events := es\<rparr>) d = slack L c d" "slack L (EmitEvents es c) d = slack L c d"
  by (simp_all add: slack_def clp_owed_def EmitEvents_def)

subsection \<open>Keys\<close>

lemma GetPoolKey_inj [simp]: "GetPoolKey s n = GetPoolKey s' n \<longleftrightarrow> s = s'"
  by (simp add: GetPoolKey_def)

lemma key_prefixes_distinct [simp]:
  "GetPoolKey s n \<noteq> GetLiquidityProviderKey s' a" "GetLiquidityProviderKey s' a \<noteq> GetPoolKey s n"
  "GetPoolKey s n \<noteq> WhiteListValidatorPrefix" "WhiteListValidatorPrefix \<noteq> GetPoolKey s n"
  "GetLiquidityProviderKey s' a \<noteq> WhiteListValidatorPrefix" "WhiteListValidatorPrefix \<noteq> GetLiquidityProviderKey s' a"
  by (simp_all add: GetPoolKey_def GetLiquidityProviderKey_def PoolPrefix_def
      LiquidityProviderPrefix_def WhiteListValidatorPrefix_def)

lemma GetLiquidityProviderKey_inj:
  "CHR ''_'' \<notin> set s \<Longrightarrow> CHR ''_'' \<notin> set s' \<Longrightarrow>
     GetLiquidityProviderKey s a = GetLiquidityProviderKey s' a' \<longleftrightarrow> s = s' \<and> a = a'"
  by (auto simp: GetLiquidityProviderKey_def dest: append_sep_inj)

lemma pool_at_key:
  assumes "clp_wf c" and "kv_get (clp_store c) (GetPoolKey s NativeSymbol) = Some v"
  obtains p a where "v = V_Pool p" "ExternalAsset p = Some a" "Symbol a = s"
  using clp_wf_get [OF assms] by (auto simp: entry_ok_def split: clp_value.splits option.splits)

lemma lp_at_key:
  assumes "clp_wf c" and "kv_get (clp_store c) (GetLiquidityProviderKey s a) = Some v"
  obtains l where "v = V_LP l"
  using clp_wf_get [OF assms] by (auto simp: entry_ok_def split: clp_value.splits option.splits)

lemma GetPool_wf:
  assumes "clp_wf c" and "GetPool c s = Inr p"
  obtains a where "ExternalAsset p = Some a" "Symbol a = s"
proof -
  from assms(2) have "kv_get (clp_store c) (GetPoolKey s NativeSymbol) = Some (V_Pool p)"
    by (simp add: GetPool_def split: option.splits clp_value.splits)
  from pool_at_key [OF assms(1) this] that show thesis by auto
qed

lemma GetPool_ext [simp]: "GetPool (c\<lparr>ext := x\<rparr>) s = GetPool c s"
  "GetPool (c\<lparr>events := es\<rparr>) s = GetPool c s" "GetPool (EmitEvents es c) s = GetPool c s"
  by (simp_all add: GetPool_def EmitEvents_def)

subsection \<open>Effects of the keeper's writes\<close>

definition booked :: "'x ctx \<Rightarrow> string \<Rightarrow> string \<Rightarrow> int" where
  "booked c s d = (case GetPool c s of Inl _ \<Rightarrow> 0 | Inr p \<Rightarrow> pool_owes p d)"

lemma booked_get:
  "clp_wf c \<Longrightarrow> (case kv_get (clp_store c) (GetPoolKey s NativeSymbol) of None \<Rightarrow> 0 | Some v \<Rightarrow> value_owes d v)
     = booked c s d"
  by (auto simp: booked_def GetPool_def value_owes_def split: option.splits elim: pool_at_key)

lemma SetPool_effect:
  assumes "SetPool L c p = Inr c'" and "clp_wf c"
  obtains a where "ExternalAsset p = Some a" "clp_wf c'" "ext c' = ext c"
    "\<And>d. slack L c' d = slack L c d - pool_owes p d + booked c (Symbol a) d"
    "\<And>s. GetPool c' s = (if s = Symbol a then Inr p else GetPool c s)"
proof -
  from assms(1) obtain a where a: "ExternalAsset p = Some a"
    and c': "c' = c\<lparr>clp_store := kv_set (GetPoolKey (Symbol a) NativeSymbol) (V_Pool p) (clp_store c)\<rparr>"
    by (auto simp: SetPool_def res_simps)
  have "clp_wf c'"
    unfolding c' using assms(2) a by (intro clp_wf_set) (simp_all add: entry_ok_def)
  moreover have "slack L c' d = slack L c d - pool_owes p d + booked c (Symbol a) d" for d
    using booked_get [OF assms(2)] kv_sum_set [OF clp_wf_ok [OF assms(2)]]
    by (simp add: c' slack_def clp_owed_def value_owes_def)
  moreover have "GetPool c' s = (if s = Symbol a then Inr p else GetPool c s)" for s
    by (simp add: c' GetPool_def kv_get_set)
  ultimately show thesis using a c' that by simp
qed

lemma lp_write_slack:
  assumes "clp_wf c"
  shows "slack L (c\<lparr>clp_store := kv_set (GetLiquidityProviderKey s a) (V_LP lp) (clp_store c)\<rparr>) d = slack L c d"
    and "slack L (c\<lparr>clp_store := kv_delete (GetLiquidityProviderKey s a) (clp_store c)\<rparr>) d = slack L c d"
proof -
  have "(case kv_get (clp_store c) (GetLiquidityProviderKey s a) of None \<Rightarrow> 0 | Some v \<Rightarrow> value_owes d v) = 0"
    by (auto simp: value_owes_def split: option.splits elim: lp_at_key [OF assms])
  then show "slack L (c\<lparr>clp_store := kv_set (GetLiquidityProviderKey s a) (V_LP lp) (clp_store c)\<rparr>) d = slack L c d"
    and "slack L (c\<lparr>clp_store := kv_delete (GetLiquidityProviderKey s a) (clp_store c)\<rparr>) d = slack L c d"
    using kv_sum_set [OF clp_wf_ok [OF assms]] kv_sum_delete [OF clp_wf_ok [OF assms]]
    by (simp_all add: slack_def clp_owed_def value_owes_def)
qed

lemma SetLiquidityProvider_effect:
  assumes "SetLiquidityProvider L c lp = Inr c'" and "clp_wf c"
  shows "clp_wf c' \<and> ext c' = ext c \<and> slack L c' d = slack L c d \<and> GetPool c' s = GetPool c s"
proof -
  from assms(1) consider "c' = c"
    | a where "lp_Asset lp = Some a"
        "c' = c\<lparr>clp_store := kv_set (GetLiquidityProviderKey (Symbol a) (LiquidityProviderAddress lp))
                  (V_LP lp) (clp_store c)\<rparr>"
    by (auto simp: SetLiquidityProvider_def res_simps split: if_splits)
  then show ?thesis
  proof cases
    case 2
    with assms(2) show ?thesis
      by (auto simp: lp_write_slack GetPool_def kv_get_set entry_ok_def intro!: clp_wf_set)
  qed (simp add: assms(2))
qed

lemma DestroyLiquidityProvider_effect:
  assumes "clp_wf c"
  shows "clp_wf (DestroyLiquidityProvider c s a) \<and> ext (DestroyLiquidityProvider c s a) = ext c
    \<and> slack L (DestroyLiquidityProvider c s a) d = slack L c d
    \<and> GetPool (DestroyLiquidityProvider c s a) s' = GetPool c s'"
  using assms by (auto simp: DestroyLiquidityProvider_def Let_def lp_write_slack clp_wf_delete
      GetPool_def kv_get_delete)

lemma DestroyPool_effect:
  assumes "DestroyPool c s = Inr c'" and "clp_wf c"
  shows "clp_wf c' \<and> ext c' = ext c \<and> slack L c' d = slack L c d + booked c s d"
  using assms(1) booked_get [OF assms(2)] kv_sum_delete [OF clp_wf_ok [OF assms(2)]] assms(2)
  by (auto simp: DestroyPool_def res_simps Let_def clp_wf_delete slack_def clp_owed_def)

subsection \<open>Effects of the executors\<close>

lemma pool_owes_simps [simp]:
  "pool_owes (p\<lparr>PoolUnits := u\<rparr>) d = pool_owes p d"
  by (simp add: pool_owes_def split: option.splits)

lemma slack_bank: "slack L (c\<lparr>ext := x\<rparr>) d =
    slack L c d + (GetBalance L x (GetCLPModuleAddress L) d - GetBalance L (ext c) (GetCLPModuleAddress L) d)"
  by (simp add: slack_def clp_owed_def)

lemma booked_simps [simp]: "booked (c\<lparr>ext := x\<rparr>) s d = booked c s d"
  "booked (EmitEvents es c) s d = booked c s d"
  by (simp_all add: booked_def)

lemma booked_Inr: "GetPool c s = Inr p \<Longrightarrow> booked c s d = pool_owes p d"
  by (simp add: booked_def)

context lib_laws
begin

lemma IntOfUint_Inr [res_simps]: "IntOfUint L u = Inr i \<longleftrightarrow> i = int u \<and> u < 2 ^ 255"
  using int_of_string [of "int u"]
  by (auto simp: IntOfUint_def ParseToInt_def int_string_def parseE_def split: option.splits if_splits)

lemma deposit_slack:
  assumes "SendCoinsFromAccountToModule L (ext c) a clp_ModuleName cs = (x, None)"
    and "a \<noteq> GetCLPModuleAddress L"
  shows "slack L (c\<lparr>ext := x\<rparr>) d = slack L c d + AmountOf cs d"
  using send_to_module [OF assms(1), of "GetCLPModuleAddress L" d] assms(2)
  by (simp add: slack_bank moved_def GetCLPModuleAddress_def)

lemma payout_slack:
  assumes "SendCoinsFromModuleToAccount L (ext c) clp_ModuleName a cs = (x, None)"
    and "0 \<le> AmountOf cs d"
  shows "slack L c d - AmountOf cs d \<le> slack L (c\<lparr>ext := x\<rparr>) d"
  using send_from_module [OF assms(1), of "GetCLPModuleAddress L" d] assms(2)
  by (simp add: slack_bank moved_def GetCLPModuleAddress_def)

lemma InitiateSwap_effect:
  assumes "InitiateSwap L c coin a = Inr c'" and "a \<noteq> GetCLPModuleAddress L" and "clp_wf c"
  shows "clp_wf c' \<and> GetPool c' s = GetPool c s
    \<and> slack L c' d = slack L c d + (if coin_denom coin = d then coin_amount coin else 0)"
  using assms
  by (auto simp: InitiateSwap_def res_simps deposit_slack new_coins_amount)

lemma FinalizeSwap_effect:
  assumes "FinalizeSwap L c (nat_string n) p msg = Inr c'" and "clp_wf c"
  obtains a r where "ExternalAsset p = Some a" "ms_ReceivedAsset msg = Some r" "clp_wf c'"
    "\<And>d. slack L c d - pool_owes p d + booked c (Symbol a) d - (if Symbol r = d then int n else 0) \<le> slack L c' d"
proof -
  from assms(1) obtain c1 addr r sentCoin coins i x where
    set: "SetPool L c p = Inr c1" and "ms_ReceivedAsset msg = Some r"
    and i: "NewIntFromString L (nat_string n) = Some i"
    and coin: "NewCoin L (Symbol r) i = Inr sentCoin" and "NewCoins L [sentCoin] = Inr coins"
    and send: "SendCoinsFromModuleToAccount L (ext c1) clp_ModuleName addr coins = (x, None)"
    and c': "c' = c1\<lparr>ext := x\<rparr>"
    by (auto simp: FinalizeSwap_def ParseToInt_def res_simps)
  obtain a where a: "ExternalAsset p = Some a" "clp_wf c1" "ext c1 = ext c"
    "\<And>d. slack L c1 d = slack L c d - pool_owes p d + booked c (Symbol a) d"
    using SetPool_effect [OF set assms(2)] by metis
  have amt: "AmountOf coins d = (if Symbol r = d then int n else 0)" for d
    using new_coins_amount [OF \<open>NewCoins L [sentCoin] = Inr coins\<close>, of d] coin int_of_nat_string [OF i]
    by (auto simp: res_simps)
  have "slack L c1 d - AmountOf coins d \<le> slack L c' d" for d
    unfolding c' by (rule payout_slack [OF send]) (simp add: amt)
  then have fin: "slack L c d - pool_owes p d + booked c (Symbol a) d - (if Symbol r = d then int n else 0)
      \<le> slack L c' d" for d
    by (simp only: a(4) amt)
  show thesis
    by (rule that [OF a(1) \<open>ms_ReceivedAsset msg = Some r\<close> _ fin]) (simp add: c' a(2))
qed

lemma CreateLiquidityProvider_effect:
  assumes "CreateLiquidityProvider L c asset u a = Inr (lp, c')" and "clp_wf c"
  shows "clp_wf c' \<and> ext c' = ext c \<and> slack L c' d = slack L c d \<and> GetPool c' s = GetPool c s"
  using assms by (auto simp: CreateLiquidityProvider_def Let_def res_simps dest: SetLiquidityProvider_effect)

lemma clp_CreatePool_effect:
  assumes "clp_CreatePool L c u msg = Inr (p, c')" and "clp_wf c"
    and "mcp_ExternalAsset msg = Some asset" and "\<not> ExistsPool c (Symbol asset)"
    and "AccAddressFromBech32 L (mcp_Signer msg) \<noteq> Inr (GetCLPModuleAddress L)"
  shows "clp_wf c' \<and> slack L c' d = slack L c d"
proof -
  from assms(1,3) obtain addr e n coins x where
    addr: "AccAddressFromBech32 L (mcp_Signer msg) = Inr addr"
    and p: "p = NewPool (Some asset) (mcp_NativeAssetAmount msg) (mcp_ExternalAssetAmount msg) u"
    and e: "e = \<lparr>coin_denom = Symbol asset, coin_amount = int (mcp_ExternalAssetAmount msg)\<rparr>"
    and n: "n = \<lparr>coin_denom = NativeSymbol, coin_amount = int (mcp_NativeAssetAmount msg)\<rparr>"
    and coins: "NewCoins L [e, n] = Inr coins"
    and send: "SendCoinsFromAccountToModule L (ext c) addr clp_ModuleName coins = (x, None)"
    and set: "SetPool L (c\<lparr>ext := x\<rparr>) p = Inr c'"
    by (auto simp: clp_CreatePool_def Let_def res_simps GetSettlementAsset_def)
  have none: "booked c (Symbol asset) d = 0"
    using assms(4) by (simp add: booked_def GetPool_def ExistsPool_def kv_has_def)
  have "addr \<noteq> GetCLPModuleAddress L" using assms(5) addr by auto
  then have dep: "slack L (c\<lparr>ext := x\<rparr>) d = slack L c d + AmountOf [e, n] d"
    using deposit_slack [OF send] new_coins_amount [OF coins] by simp
  have wf: "clp_wf (c\<lparr>ext := x\<rparr>)" using assms(2) by simp
  from SetPool_effect [OF set wf] obtain a where "ExternalAsset p = Some a" "clp_wf c'"
    "slack L c' d = slack L (c\<lparr>ext := x\<rparr>) d - pool_owes p d + booked c (Symbol a) d"
    by (metis booked_simps(1))
  then show ?thesis
    using none dep by (auto simp: p NewPool_def pool_owes_def e n)
qed

lemma clp_AddLiquidity_effect:
  assumes "clp_AddLiquidity L c msg p n u = Inr (lp, c')" and "clp_wf c"
    and "mal_ExternalAsset msg = Some asset" and "GetPool c (Symbol asset) = Inr p"
    and "AccAddressFromBech32 L (mal_Signer msg) \<noteq> Inr (GetCLPModuleAddress L)"
  shows "clp_wf c' \<and> slack L c' d = slack L c d"
proof -
  from assms(1,3) obtain addr cs0 coins x found lp1 u1 c1 c2 units p' where
    addr: "AccAddressFromBech32 L (mal_Signer msg) = Inr addr"
    and cs0: "Coins_Add L [] [\<lparr>coin_denom = Symbol asset, coin_amount = int (mal_ExternalAssetAmount msg)\<rparr>] = Inr cs0"
    and coins: "Coins_Add L cs0 [\<lparr>coin_denom = NativeSymbol, coin_amount = int (mal_NativeAssetAmount msg)\<rparr>] = Inr coins"
    and send: "SendCoinsFromAccountToModule L (ext c) addr clp_ModuleName coins = (x, None)"
    and p': "p' = p\<lparr>PoolUnits := n, NativeAssetBalance := NativeAssetBalance p + mal_NativeAssetAmount msg,
               ExternalAssetBalance := ExternalAssetBalance p + mal_ExternalAssetAmount msg\<rparr>"
    and found: "(case found of Some lp \<Rightarrow> Inr (lp, u, c\<lparr>ext := x\<rparr>)
            | None \<Rightarrow>
                bindE (CreateLiquidityProvider L (c\<lparr>ext := x\<rparr>) (mal_ExternalAsset msg) u addr) (\<lambda>(lp, c).
                Inr (lp, 0, EmitEvents [Event ''created_new_liquidity_provider''
                  [(''liquidity_provider'', LiquidityProvider_String L lp), height_attr c]] c))) = Inr (lp1, u1, c1)"
    and set: "SetPool L c1 p' = Inr c2"
    and setlp: "SetLiquidityProvider L c2 (lp1\<lparr>LiquidityProviderUnits := units\<rparr>) = Inr c'"
    by (auto simp only: clp_AddLiquidity_def Let_def res_simps GetSettlementAsset_def asset.simps option.inject)
  have "addr \<noteq> GetCLPModuleAddress L" using assms(5) addr by auto
  then have dep: "slack L (c\<lparr>ext := x\<rparr>) d = slack L c d + AmountOf coins d"
    using deposit_slack [OF send] by simp
  have wf: "clp_wf (c\<lparr>ext := x\<rparr>)" using assms(2) by simp
  have c1: "clp_wf c1 \<and> slack L c1 d = slack L (c\<lparr>ext := x\<rparr>) d \<and> GetPool c1 (Symbol asset) = GetPool c (Symbol asset)"
    using found wf CreateLiquidityProvider_effect [OF _ wf]
    by (auto simp: res_simps split: option.splits)
  then obtain a where a: "ExternalAsset p' = Some a" "clp_wf c2"
    "slack L c2 d = slack L c1 d - pool_owes p' d + booked c1 (Symbol a) d"
    using SetPool_effect [OF set] by metis
  have "Symbol a = Symbol asset"
    using a(1) GetPool_wf [OF assms(2,4)] by (auto simp: p')
  then have "booked c1 (Symbol a) d = pool_owes p d"
    using c1 assms(4) by (simp add: booked_Inr)
  moreover have "pool_owes p' d = pool_owes p d + AmountOf coins d"
    using a(1) \<open>Symbol a = Symbol asset\<close> coins_add_amount [OF coins, of d] coins_add_amount [OF cs0, of d]
    by (auto simp: p' pool_owes_def)
  ultimately show ?thesis
    using SetLiquidityProvider_effect [OF setlp a(2), of d] a(3) c1 dep by simp
qed

lemma SwapOne_Inr:
  assumes "SwapOne L f x t p nf adj = Inr (y, fee, imp, p')"
  shows "(t = GetSettlementAsset \<longrightarrow> y < NativeAssetBalance p) \<and> (t \<noteq> GetSettlementAsset \<longrightarrow> y < ExternalAssetBalance p)"
    and "f = GetSettlementAsset \<Longrightarrow> t \<noteq> GetSettlementAsset \<Longrightarrow>
      p' = p\<lparr>NativeAssetBalance := NativeAssetBalance p + x, ExternalAssetBalance := ExternalAssetBalance p - y\<rparr>"
    and "f \<noteq> GetSettlementAsset \<Longrightarrow> t = GetSettlementAsset \<Longrightarrow>
      p' = p\<lparr>ExternalAssetBalance := ExternalAssetBalance p + x, NativeAssetBalance := NativeAssetBalance p - y\<rparr>"
  using assms by (auto simp: SwapOne_def SetInputs_def Let_def res_simps split: if_splits)

text \<open>
  The denominations \<open>i\<close> that a swap takes in and \<open>j\<close> that it gives out, for the directions the
  handlers use.
\<close>

definition swap_denoms :: "asset \<Rightarrow> asset \<Rightarrow> asset \<Rightarrow> string \<Rightarrow> string \<Rightarrow> bool" where
  "swap_denoms f t a i j \<longleftrightarrow>
     f = GetSettlementAsset \<and> i = NativeSymbol \<and> j = Symbol a \<and> (t = GetSettlementAsset \<longrightarrow> Symbol a = NativeSymbol)
   \<or> f \<noteq> GetSettlementAsset \<and> t = GetSettlementAsset \<and> i = Symbol a \<and> j = NativeSymbol"

lemma SwapOne_owes:
  assumes "SwapOne L f x t p nf adj = Inr (y, fee, imp, p')" and "ExternalAsset p = Some a"
    and "swap_denoms f t a i j"
  shows "ExternalAsset p' = Some a \<and>
    pool_owes p' d = pool_owes p d + (if i = d then int x else 0) - (if j = d then int y else 0)"
  using assms
  by (auto simp: SwapOne_def SetInputs_def Let_def swap_denoms_def pool_owes_def res_simps
      split: if_splits)

lemma clp_RemoveLiquidity_effect:
  assumes "clp_RemoveLiquidity L c p e n lp left eb nb = Inr c'" and "clp_wf c"
    and "0 \<le> coin_amount e" and "0 \<le> coin_amount n"
  obtains a where "ExternalAsset p = Some a" "clp_wf c'"
    "\<And>d. slack L c d - pool_owes p d + booked c (Symbol a) d - AmountOf [e, n] d \<le> slack L c' d"
proof -
  from assms(1) obtain addr cs0 cs1 cs2 c1 c2 where
    cs0: "NewCoins L [] = Inr cs0"
    and cs1: "(if coin_amount e \<noteq> 0 \<and> \<not> coin_amount e < 0 then Coins_Add L cs0 [e] else Inr cs0) = Inr cs1"
    and cs2: "(if coin_amount n \<noteq> 0 \<and> \<not> coin_amount n < 0 then Coins_Add L cs1 [n] else Inr cs1) = Inr cs2"
    and set: "SetPool L c p = Inr c1"
    and send: "(if cs2 \<noteq> [] then
              bindE (guardE (list_all (HasBalance L (ext c1) (GetCLPModuleAddress L)) cs2) (Clp ErrNotEnoughLiquidity)) (\<lambda>_.
              bank (\<lambda>x. SendCoinsFromModuleToAccount L x clp_ModuleName addr cs2) c1)
            else Inr c1) = Inr c2"
    and fin: "(if left = 0 then
       bindE (deref (lp_Asset lp)) (\<lambda>asset.
       Inr (DestroyLiquidityProvider c2 (Symbol asset) (LiquidityProviderAddress lp)))
     else SetLiquidityProvider L c2 (lp\<lparr>LiquidityProviderUnits := left\<rparr>)) = Inr c'"
    unfolding clp_RemoveLiquidity_def by (simp only: res_simps) blast
  obtain a where a: "ExternalAsset p = Some a" "clp_wf c1"
    "\<And>d. slack L c1 d = slack L c d - pool_owes p d + booked c (Symbol a) d"
    using SetPool_effect [OF set assms(2)] by metis
  have amt: "AmountOf cs2 d = AmountOf [e, n] d" for d
    using cs1 cs2 new_coins_amount [OF cs0, of d] assms(3,4)
    by (auto dest!: coins_add_amount [where d = d] split: if_splits)
  have pay: "slack L c1 d - AmountOf cs2 d \<le> slack L c2 d" for d
    using send payout_slack [of c1 addr cs2 _ d] assms(3,4)
    by (auto simp: res_simps amt [of d] split: if_splits)
  have wf2: "clp_wf c2"
    using send a(2) by (auto simp: res_simps split: if_splits)
  have "clp_wf c' \<and> slack L c' d = slack L c2 d" for d
    using fin SetLiquidityProvider_effect [OF _ wf2] DestroyLiquidityProvider_effect [OF wf2]
    by (auto simp: res_simps split: if_splits)
  with pay have "clp_wf c'" "slack L c d - pool_owes p d + booked c (Symbol a) d - AmountOf [e, n] d \<le> slack L c' d" for d
    by (simp_all only: a(3) amt)
  with a(1) show thesis by (rule that)
qed

lemma refund_providers_effect:
  assumes "refund_providers L s p lps u nb eb c = Inr c'" and "clp_wf c"
  shows "clp_wf c' \<and> GetPool c' t = GetPool c t \<and>
    slack L c d - (if d = NativeSymbol then int nb else 0) - (if d = s then int eb else 0) \<le> slack L c' d"
  using assms
proof (induction lps arbitrary: u nb eb c)
  case (Cons lp lps)
  from Cons.prems(1) obtain wn we wl ws u' coins c1 where
    wn: "wn \<le> nb" and we: "we \<le> eb"
    and coins: "NewCoins L [\<lparr>coin_denom = s, coin_amount = int we\<rparr>, \<lparr>coin_denom = NativeSymbol, coin_amount = int wn\<rparr>] = Inr coins"
    and rem: "RemoveLiquidityProvider L c coins lp = Inr c1"
    and rest: "refund_providers L s p lps u' (nb - wn) (eb - we) c1 = Inr c'"
    by (auto simp: res_simps GetSettlementAsset_def)
  have amt: "AmountOf coins d = (if d = s then int we else 0) + (if d = NativeSymbol then int wn else 0)"
    using new_coins_amount [OF coins, of d] by auto
  from rem obtain addr x and asset :: asset where
    send: "SendCoinsFromModuleToAccount L (ext c) clp_ModuleName addr coins = (x, None)"
    and c1: "c1 = DestroyLiquidityProvider (c\<lparr>ext := x\<rparr>) (Symbol asset) (LiquidityProviderAddress lp)"
    unfolding RemoveLiquidityProvider_def by (simp only: res_simps sum.inject) metis
  have "clp_wf c1 \<and> GetPool c1 t = GetPool c t \<and> slack L c1 d = slack L (c\<lparr>ext := x\<rparr>) d"
    unfolding c1 using DestroyLiquidityProvider_effect [of "c\<lparr>ext := x\<rparr>"] Cons.prems(2) by simp
  moreover have "slack L c d - AmountOf coins d \<le> slack L (c\<lparr>ext := x\<rparr>) d"
    using payout_slack [OF send, of d] by (auto simp: amt)
  ultimately show ?case
    using Cons.IH [OF rest] wn we by (auto simp: amt split: if_splits)
qed simp

subsection \<open>Effects of the handlers\<close>

lemma asset_native_iff: "a = GetSettlementAsset \<longleftrightarrow> Symbol a = NativeSymbol"
  by (cases a) (simp add: GetSettlementAsset_def)

lemma Asset_Equals_native [simp]: "Asset_Equals a GetSettlementAsset \<longleftrightarrow> a = GetSettlementAsset"
  by (cases a) (simp add: GetSettlementAsset_def Asset_Equals_def)

lemma msg_CreatePool_slack:
  assumes "msg_CreatePool L c msg = Inr c'" and "clp_wf c"
    and "AccAddressFromBech32 L (mcp_Signer msg) \<noteq> Inr (GetCLPModuleAddress L)"
  shows "clp_wf c' \<and> slack L c' d = slack L c d"
proof -
  from assms(1) obtain asset u lpu p c1 addr lp c2 where
    "mcp_ExternalAsset msg = Some asset" "\<not> ExistsPool c (Symbol asset)"
    and create: "clp_CreatePool L c u msg = Inr (p, c1)"
    and lp: "CreateLiquidityProvider L c1 (mcp_ExternalAsset msg) lpu addr = Inr (lp, c2)"
    and c': "clp_wf c' = clp_wf c2" "slack L c' d = slack L c2 d"
    by (auto simp: msg_CreatePool_def res_simps)
  from clp_CreatePool_effect [OF create assms(2) this(1,2) assms(3)]
  have "clp_wf c1 \<and> slack L c1 d = slack L c d" .
  with CreateLiquidityProvider_effect [OF lp, of d] c' show ?thesis by simp
qed

lemma msg_AddLiquidity_slack:
  assumes "msg_AddLiquidity L c msg = Inr c'" and "clp_wf c"
    and "AccAddressFromBech32 L (mal_Signer msg) \<noteq> Inr (GetCLPModuleAddress L)"
  shows "clp_wf c' \<and> slack L c' d = slack L c d"
proof -
  from assms(1) obtain asset p n u lp c1 where
    "mal_ExternalAsset msg = Some asset" "GetPool c (Symbol asset) = Inr p"
    and add: "clp_AddLiquidity L c msg p n u = Inr (lp, c1)"
    and c': "clp_wf c' = clp_wf c1" "slack L c' d = slack L c1 d"
    by (auto simp: msg_AddLiquidity_def res_simps)
  from clp_AddLiquidity_effect [OF add assms(2) this(1,2) assms(3), of d] c'
  show ?thesis by simp
qed

lemma msg_DecommissionPool_slack:
  assumes "msg_DecommissionPool L c msg = Inr c'" and "clp_wf c"
  shows "clp_wf c' \<and> slack L c d \<le> slack L c' d"
proof -
  from assms(1) obtain p asset lps c1 c2 where
    p: "GetPool c (mdp_Symbol msg) = Inr p" and asset: "ExternalAsset p = Some asset"
    and refund: "refund_providers L (mdp_Symbol msg) p lps (PoolUnits p) (NativeAssetBalance p) (ExternalAssetBalance p) c = Inr c1"
    and destroy: "DestroyPool c1 (Symbol asset) = Inr c2"
    and c': "clp_wf c' = clp_wf c2" "slack L c' d = slack L c2 d"
    by (auto simp: msg_DecommissionPool_def clp_DecommissionPool_def res_simps)
  have sym: "Symbol asset = mdp_Symbol msg"
    using GetPool_wf [OF assms(2) p] asset by auto
  have c1: "clp_wf c1" "GetPool c1 (mdp_Symbol msg) = Inr p"
    and low: "slack L c d - (if d = NativeSymbol then int (NativeAssetBalance p) else 0)
      - (if d = mdp_Symbol msg then int (ExternalAssetBalance p) else 0) \<le> slack L c1 d"
    using refund_providers_effect [OF refund assms(2), of "mdp_Symbol msg" d] p by auto
  have "clp_wf c2 \<and> slack L c2 d = slack L c1 d + pool_owes p d"
    using DestroyPool_effect [OF destroy c1(1), where d = d and L = L] c1(2) by (simp add: sym booked_Inr)
  with low c' asset sym show ?thesis by (simp add: pool_owes_def)
qed

lemma swap_first_leg_slack:
  assumes "swap_first_leg L c sA sent received n inPool = Inr (c1, n1, sent1, im, fee)"
    and "clp_wf c" and "sent \<noteq> GetSettlementAsset \<longrightarrow> GetPool c (Symbol sent) = Inr inPool"
  shows "clp_wf c1 \<and> (sent1 = GetSettlementAsset \<or> received = GetSettlementAsset \<and> sent1 = sent) \<and>
    slack L c1 d = slack L c d - (if Symbol sent = d then int n else 0) + (if Symbol sent1 = d then int n1 else 0)"
proof (cases "sent \<noteq> GetSettlementAsset \<and> received \<noteq> GetSettlementAsset")
  case True
  with assms(1) obtain nf adj ts lp finalPool where
    swap: "SwapOne L sent n GetSettlementAsset inPool nf adj = Inr (n1, lp, ts, finalPool)"
    and set: "SetPool L c finalPool = Inr c1" and sent1: "sent1 = GetSettlementAsset"
    by (auto simp: swap_first_leg_def Let_def res_simps)
  from True assms(3) have pool: "GetPool c (Symbol sent) = Inr inPool" by simp
  from GetPool_wf [OF assms(2) this] obtain a where a: "ExternalAsset inPool = Some a" "Symbol a = Symbol sent"
    by metis
  have owes: "ExternalAsset finalPool = Some a" "pool_owes finalPool d =
      pool_owes inPool d + (if Symbol sent = d then int n else 0) - (if NativeSymbol = d then int n1 else 0)"
    using SwapOne_owes [OF swap a(1), of "Symbol sent" NativeSymbol d] True a(2) by (simp_all add: swap_denoms_def)
  obtain a' where "ExternalAsset finalPool = Some a'" "clp_wf c1"
    "slack L c1 d = slack L c d - pool_owes finalPool d + booked c (Symbol a') d"
    using SetPool_effect [OF set assms(2)] by metis
  with owes a(2) booked_Inr [OF pool] show ?thesis
    by (simp add: sent1 GetSettlementAsset_def)
next
  case False
  with assms(1,2) show ?thesis by (auto simp: swap_first_leg_def Let_def)
qed

lemma msg_Swap_phases:
  assumes "msg_Swap L c msg = Inr c'"
  obtains sent received sA rA inPool addr c1 c2 n2 sent2 im fee outPool dcm nf adj y lp ts finalPool c3 es
  where "ms_SentAsset msg = Some sent" "ms_ReceivedAsset msg = Some received"
    "swap_in_pool c sent = Inr inPool" "AccAddressFromBech32 L (ms_Signer msg) = Inr addr"
    "InitiateSwap L c \<lparr>coin_denom = Symbol sent, coin_amount = int (ms_SentAmount msg)\<rparr> addr = Inr c1"
    "swap_first_leg L c1 sA sent received (ms_SentAmount msg) inPool = Inr (c2, n2, sent2, im, fee)"
    "swap_out_pool c2 sent received sA rA = Inr (outPool, dcm)"
    "SwapOne L sent2 n2 received outPool nf adj = Inr (y, lp, ts, finalPool)"
    "ms_MinReceivingAmount msg \<le> y"
    "FinalizeSwap L c2 (nat_string y) finalPool msg = Inr c3"
    "c' = EmitEvents es c3"
  using assms unfolding msg_Swap_def by (auto simp only: res_simps not_less sum.inject)

lemma swap_second_leg_owes:
  assumes leg: "swap_first_leg L c1 sA sent received n inPool = Inr (c2, n2, sent2, im, fee)"
    and out: "swap_out_pool c2 sent received sA' rA = Inr (outPool, dcm)"
    and swap: "SwapOne L sent2 n2 received outPool nf adj = Inr (y, lp, ts, finalPool)"
    and wf: "clp_wf c2" and sent2: "sent2 = GetSettlementAsset \<or> received = GetSettlementAsset \<and> sent2 = sent"
  obtains a where "ExternalAsset finalPool = Some a" "\<And>d. pool_owes finalPool d =
      booked c2 (Symbol a) d + (if Symbol sent2 = d then int n2 else 0) - (if Symbol received = d then int y else 0)"
proof -
  define outSymbol where "outSymbol = (if received = GetSettlementAsset then Symbol sent else Symbol received)"
  have out': "GetPool c2 outSymbol = Inr outPool"
    using out by (auto simp: swap_out_pool_def outSymbol_def res_simps split: if_splits)
  obtain a where a: "ExternalAsset outPool = Some a" "Symbol a = outSymbol"
    using GetPool_wf [OF wf out'] by metis
  have "swap_denoms sent2 received a (Symbol sent2) (Symbol received)"
    using sent2 a(2) leg
    by (auto simp: swap_denoms_def outSymbol_def asset_native_iff swap_first_leg_def Let_def res_simps split: if_splits)
  from SwapOne_owes [OF swap a(1) this] show thesis
    using that booked_Inr [OF out'] a(2) by simp
qed

lemma msg_Swap_slack:
  assumes "msg_Swap L c msg = Inr c'" and "clp_wf c"
    and "AccAddressFromBech32 L (ms_Signer msg) \<noteq> Inr (GetCLPModuleAddress L)"
  shows "clp_wf c' \<and> slack L c d \<le> slack L c' d"
proof -
  obtain sent received sA rA inPool addr c1 c2 n2 sent2 im fee outPool dcm nf adj y lp ts finalPool c3 es
  where recv: "ms_ReceivedAsset msg = Some received" and inPool: "swap_in_pool c sent = Inr inPool"
    and addr: "AccAddressFromBech32 L (ms_Signer msg) = Inr addr"
    and init: "InitiateSwap L c \<lparr>coin_denom = Symbol sent, coin_amount = int (ms_SentAmount msg)\<rparr> addr = Inr c1"
    and leg: "swap_first_leg L c1 sA sent received (ms_SentAmount msg) inPool = Inr (c2, n2, sent2, im, fee)"
    and out: "swap_out_pool c2 sent received sA rA = Inr (outPool, dcm)"
    and swap: "SwapOne L sent2 n2 received outPool nf adj = Inr (y, lp, ts, finalPool)"
    and fin: "FinalizeSwap L c2 (nat_string y) finalPool msg = Inr c3"
    and c': "c' = EmitEvents es c3"
    using msg_Swap_phases [OF assms(1)] by metis
  have "addr \<noteq> GetCLPModuleAddress L" using assms(3) addr by auto
  from InitiateSwap_effect [OF init this assms(2)]
  have c1: "clp_wf c1" "slack L c1 d = slack L c d + (if Symbol sent = d then int (ms_SentAmount msg) else 0)"
    and pools: "\<And>s. GetPool c1 s = GetPool c s" by auto
  have "sent \<noteq> GetSettlementAsset \<longrightarrow> GetPool c1 (Symbol sent) = Inr inPool"
    using inPool by (auto simp: swap_in_pool_def pools res_simps)
  from swap_first_leg_slack [OF leg c1(1) this]
  have c2: "clp_wf c2" "slack L c2 d = slack L c d + (if Symbol sent2 = d then int n2 else 0)"
    and sent2: "sent2 = GetSettlementAsset \<or> received = GetSettlementAsset \<and> sent2 = sent"
    using c1(2) by auto
  obtain a where owes: "ExternalAsset finalPool = Some a" "pool_owes finalPool d =
      booked c2 (Symbol a) d + (if Symbol sent2 = d then int n2 else 0) - (if Symbol received = d then int y else 0)"
    using swap_second_leg_owes [OF leg out swap c2(1) sent2] by metis
  obtain a' r where "ExternalAsset finalPool = Some a'" "ms_ReceivedAsset msg = Some r" "clp_wf c3"
    "slack L c2 d - pool_owes finalPool d + booked c2 (Symbol a') d - (if Symbol r = d then int y else 0) \<le> slack L c3 d"
    using FinalizeSwap_effect [OF fin c2(1)] by metis
  with owes recv c2(2) show ?thesis
    by (simp add: c')
qed

lemma msg_RemoveLiquidity_symmetric:
  assumes "msg_RemoveLiquidity L c msg = Inr c'" and "mrl_Asymmetry msg = 0"
  obtains asset p lp n e left sw u c1 es where "mrl_ExternalAsset msg = Some asset"
    "GetPool c (Symbol asset) = Inr p" "GetLiquidityProvider c (Symbol asset) (mrl_Signer msg) = Inr lp"
    "CalculateWithdrawal L (PoolUnits p) (nat_string (NativeAssetBalance p)) (nat_string (ExternalAssetBalance p))
      (nat_string (LiquidityProviderUnits lp)) (int_string (mrl_WBasisPoints msg)) 0 = Inr (n, e, left, sw)"
    "n \<le> NativeAssetBalance p" "e \<le> ExternalAssetBalance p"
    "LiquidityProviderUnits lp \<le> PoolUnits p" "u = PoolUnits p - LiquidityProviderUnits lp + left"
    "clp_RemoveLiquidity L c (p\<lparr>PoolUnits := u, NativeAssetBalance := NativeAssetBalance p - n,
        ExternalAssetBalance := ExternalAssetBalance p - e\<rparr>)
      \<lparr>coin_denom = Symbol asset, coin_amount = int e\<rparr> \<lparr>coin_denom = NativeSymbol, coin_amount = int n\<rparr>
      lp left (ExternalAssetBalance p) (NativeAssetBalance p) = Inr c1"
    "c' = EmitEvents es c1"
  using assms(1) unfolding msg_RemoveLiquidity_def
  by (auto simp: assms(2) Let_def res_simps GetSettlementAsset_def)

lemma msg_RemoveLiquidity_slack:
  assumes "msg_RemoveLiquidity L c msg = Inr c'" and "mrl_Asymmetry msg = 0" and "clp_wf c"
  shows "clp_wf c' \<and> slack L c d \<le> slack L c' d"
proof -
  obtain p lp n e left u c1 es and asset :: asset where p: "GetPool c (Symbol asset) = Inr p"
    and n: "n \<le> NativeAssetBalance p" and e: "e \<le> ExternalAssetBalance p"
    and rem: "clp_RemoveLiquidity L c (p\<lparr>PoolUnits := u, NativeAssetBalance := NativeAssetBalance p - n,
        ExternalAssetBalance := ExternalAssetBalance p - e\<rparr>)
      \<lparr>coin_denom = Symbol asset, coin_amount = int e\<rparr> \<lparr>coin_denom = NativeSymbol, coin_amount = int n\<rparr>
      lp left (ExternalAssetBalance p) (NativeAssetBalance p) = Inr c1"
    and c': "c' = EmitEvents es c1"
    using msg_RemoveLiquidity_symmetric [OF assms(1,2)] by metis
  obtain a where a: "ExternalAsset p = Some a" "Symbol a = Symbol asset"
    using GetPool_wf [OF assms(3) p] by metis
  let ?p = "p\<lparr>PoolUnits := u, NativeAssetBalance := NativeAssetBalance p - n,
        ExternalAssetBalance := ExternalAssetBalance p - e\<rparr>"
  obtain a' where "ExternalAsset ?p = Some a'" "clp_wf c1"
    "slack L c d - pool_owes ?p d + booked c (Symbol a') d - AmountOf
      [\<lparr>coin_denom = Symbol asset, coin_amount = int e\<rparr>, \<lparr>coin_denom = NativeSymbol, coin_amount = int n\<rparr>] d \<le> slack L c1 d"
    using clp_RemoveLiquidity_effect [OF rem assms(3)] by (metis coin.select_convs(2) of_nat_0_le_iff)
  moreover have "pool_owes ?p d = pool_owes p d - AmountOf
      [\<lparr>coin_denom = Symbol asset, coin_amount = int e\<rparr>, \<lparr>coin_denom = NativeSymbol, coin_amount = int n\<rparr>] d"
    using a n e by (auto simp: pool_owes_def)
  ultimately show ?thesis
    using a booked_Inr [OF p, of d] by (simp add: c')
qed

subsection \<open>Every history keeps the pools solvent\<close>

text \<open>
  No handler is run for the module's own address, which no one can sign for. Withdrawals are
  symmetric here; \<open>clp_asymmetric_withdrawal_insolvent\<close> shows why.
\<close>

lemma clp_step_solvent:
  assumes "clp_wf c \<and> clp_solvent L c" and "clp_allowed L msg" and "clp_NewHandler L c msg = Inr c'"
  shows "clp_wf c' \<and> clp_solvent L c'"
proof -
  let ?c = "c\<lparr>events := []\<rparr>"
  have wf: "clp_wf ?c" using assms(1) by simp
  have "clp_wf c' \<and> slack L ?c d \<le> slack L c' d" for d
    using assms(2,3) msg_CreatePool_slack [OF _ wf, of _ _ d] msg_AddLiquidity_slack [OF _ wf, of _ _ d]
      msg_RemoveLiquidity_slack [OF _ _ wf, of _ _ d] msg_Swap_slack [OF _ wf, of _ _ d]
      msg_DecommissionPool_slack [OF _ wf, of _ _ d]
    by (auto simp: clp_NewHandler_def clp_allowed_def clp_signer_def Let_def split: clp_msg.splits)
  moreover have "0 \<le> slack L ?c d" for d
    using assms(1) by (simp add: clp_solvent_iff)
  ultimately show ?thesis
    unfolding clp_solvent_iff by (meson order_trans)
qed

end

sublocale lib_laws \<subseteq> clp: machine "clp_NewHandler L" "\<lambda>c. clp_wf c \<and> clp_solvent L c" "clp_allowed L"
  by unfold_locales (rule clp_step_solvent)

context lib_laws
begin

lemma clp_run_solvent:
  "clp_wf c \<Longrightarrow> clp_solvent L c \<Longrightarrow> list_all (clp_allowed L) msgs \<Longrightarrow>
     clp_solvent L (foldl (deliver (clp_NewHandler L)) c msgs)"
  using clp.run_inv by blast

end

end
