(* ===== verification/OracleProperties.thy ===== *)
theory OracleProperties
  imports Oracle
begin

section \<open>What the oracle guarantees\<close>

text \<open>
  The invariant of a stored prophecy (each validator is counted once, under the claim recorded
  for it), the exact meaning of the floating-point thresholds in terms of voting power, and
  finality: a decided prophecy is never touched again.
\<close>

subsection \<open>Prophecies in the store\<close>

definition prophecy_ok :: "'x lib \<Rightarrow> prophecy \<Rightarrow> bool" where
  "prophecy_ok L p \<longleftrightarrow>
     kv_ok (p_ClaimValidators p) \<and> kv_ok (p_ValidatorClaims p) \<and>
     (\<forall>cl as. kv_get (p_ClaimValidators p) cl = Some as \<longrightarrow>
        cl \<noteq> [] \<and> valid_utf8 cl \<and> distinct as \<and>
        (\<forall>a\<in>set as. val_ok L a \<and> kv_get (p_ValidatorClaims p) (ValAddress_String L a) = Some cl)) \<and>
     (\<forall>v cl. kv_get (p_ValidatorClaims p) v = Some cl \<longrightarrow> valid_utf8 v \<and> valid_utf8 cl)"

definition oracle_ok :: "'x lib \<Rightarrow> 'x ctx \<Rightarrow> bool" where
  "oracle_ok L c \<longleftrightarrow>
     kv_ok (oracle_store c) \<and> (\<forall>i p. GetProphecy L c i = Some p \<longrightarrow> p_ID p = i \<and> prophecy_ok L p)"

definition current_prophecy :: "'x lib \<Rightarrow> 'x ctx \<Rightarrow> string \<Rightarrow> prophecy" where
  "current_prophecy L c i = (case GetProphecy L c i of Some p \<Rightarrow> p | None \<Rightarrow> NewProphecy i)"

lemma prophecy_key_inj [simp]: "prophecy_key i = prophecy_key j \<longleftrightarrow> i = j"
  by (simp add: prophecy_key_def)

lemma prophecy_key_other [simp]:
  "prophecy_key i \<noteq> oracle_WhiteListValidatorPrefix" "prophecy_key i \<noteq> oracle_AdminAccountPrefix"
  "oracle_WhiteListValidatorPrefix \<noteq> prophecy_key i" "oracle_AdminAccountPrefix \<noteq> prophecy_key i"
  "oracle_WhiteListValidatorPrefix \<noteq> oracle_AdminAccountPrefix"
  "oracle_AdminAccountPrefix \<noteq> oracle_WhiteListValidatorPrefix"
  by (simp_all add: prophecy_key_def ProphecyPrefix_def oracle_WhiteListValidatorPrefix_def
      oracle_AdminAccountPrefix_def)

lemma NewProphecy_ok: "prophecy_ok L (NewProphecy i)"
  by (simp add: prophecy_ok_def NewProphecy_def kv_get_def)

lemma prophecy_ok_status [simp]: "prophecy_ok L (p\<lparr>p_Status := s\<rparr>) = prophecy_ok L p"
  by (simp add: prophecy_ok_def)

lemma current_prophecy_ok:
  "oracle_ok L c \<Longrightarrow> prophecy_ok L (current_prophecy L c i) \<and> p_ID (current_prophecy L c i) = i"
  by (auto simp: oracle_ok_def current_prophecy_def NewProphecy_ok split: option.splits)
    (simp add: NewProphecy_def)

lemma claimers_ok:
  assumes "prophecy_ok L p" and "a \<in> set (claimers p cl)"
  shows "val_ok L a \<and> kv_get (p_ValidatorClaims p) (ValAddress_String L a) = Some cl"
proof (cases "kv_get (p_ClaimValidators p) cl")
  case (Some as)
  then show ?thesis using assms by (auto simp: claimers_def prophecy_ok_def)
qed (use assms in \<open>simp add: claimers_def\<close>)

lemma claim_of_Nil:
  assumes "prophecy_ok L p" and "claim_of p (ValAddress_String L a) = []"
    and "kv_get (p_ClaimValidators p) cl = Some as"
  shows "a \<notin> set as"
  using assms by (auto simp: prophecy_ok_def claim_of_def)

lemma prophecy_ok_AddClaim:
  assumes p: "prophecy_ok L p" and a: "val_ok L a" and s: "valid_utf8 (ValAddress_String L a)"
    and cl: "valid_utf8 cl" "cl \<noteq> []" and new: "claim_of p (ValAddress_String L a) = []"
  shows "prophecy_ok L (AddClaim L p a cl)"
proof -
  have inj: "ValAddress_String L b = ValAddress_String L a \<Longrightarrow> b = a" if "val_ok L b" for b
    using a that by (metis val_ok_def sum.inject(2))
  have fresh: "a \<notin> set (claimers p cl)"
    using claim_of_Nil [OF p new, of cl] by (simp add: claimers_def split: option.splits)
  have old: "distinct (claimers p cl)"
    using p by (auto simp: claimers_def prophecy_ok_def split: option.splits)
  have other: "kv_get (p_ClaimValidators p) cl' = Some as \<Longrightarrow> b \<in> set as \<Longrightarrow>
      ValAddress_String L b \<noteq> ValAddress_String L a" for cl' as b
    using claim_of_Nil [OF p new, of cl' as] p inj [of b] by (auto simp: prophecy_ok_def)
  show ?thesis
    unfolding prophecy_ok_def
    using p a s cl fresh old other inj claimers_ok [OF p]
    by (auto simp: AddClaim_def kv_ok_set kv_get_set prophecy_ok_def split: if_splits)
qed

subsection \<open>Reading back what was written\<close>

context lib_laws
begin

lemma prophecy_roundtrip:
  assumes p: "prophecy_ok L p" and "SerializeForDB L p = Inr db"
  shows "DeserializeFromDB L db = Inr p" and "db_Id db = p_ID p"
proof -
  obtain s t where s: "MarshalClaimValidators L (p_ClaimValidators p) = Inr s"
    and t: "MarshalValidatorClaims L (p_ValidatorClaims p) = Inr t"
    and db: "db = \<lparr>db_Id = p_ID p, db_Status = p_Status p, db_ClaimValidators = s, db_ValidatorClaims = t\<rparr>"
    using assms(2) by (auto simp: SerializeForDB_def res_simps)
  have kv: "kv_ok (p_ClaimValidators p)" "kv_ok (p_ValidatorClaims p)"
    using p by (simp_all add: prophecy_ok_def)
  have "UnmarshalClaimValidators L s = Inr (p_ClaimValidators p)"
    using p kv by (intro json_validators [OF _ _ s])
      (auto simp: list_all_iff kvs.entries_get prophecy_ok_def)
  moreover have "UnmarshalValidatorClaims L t = Inr (p_ValidatorClaims p)"
    using p kv by (intro json_claims [OF _ _ t])
      (auto simp: list_all_iff kvs.entries_get prophecy_ok_def)
  ultimately show "DeserializeFromDB L db = Inr p" and "db_Id db = p_ID p"
    by (simp_all add: DeserializeFromDB_def db)
qed

lemma GetProphecy_SetProphecy:
  assumes "prophecy_ok L p" and "SetProphecy L c p = Inr c'"
  shows "GetProphecy L c' = (GetProphecy L c)(p_ID p \<mapsto> p)"
    and "\<exists>st. c' = c\<lparr>oracle_store := st\<rparr>" and "kv_ok (oracle_store c) \<Longrightarrow> kv_ok (oracle_store c')"
    and "GetOracleWhiteList L c' = GetOracleWhiteList L c"
    and "oracle_GetAdminAccount c' = oracle_GetAdminAccount c"
proof -
  obtain db where db: "SerializeForDB L p = Inr db" and c': "c' = SetDBProphecy c db"
    using assms(2) by (auto simp: SetProphecy_def res_simps)
  note rt = prophecy_roundtrip [OF assms(1) db]
  show "GetProphecy L c' = (GetProphecy L c)(p_ID p \<mapsto> p)"
    by (auto simp: fun_eq_iff GetProphecy_def c' SetDBProphecy_def rt kv_get_set)
  show "\<exists>st. c' = c\<lparr>oracle_store := st\<rparr>" "kv_ok (oracle_store c) \<Longrightarrow> kv_ok (oracle_store c')"
    "GetOracleWhiteList L c' = GetOracleWhiteList L c"
    "oracle_GetAdminAccount c' = oracle_GetAdminAccount c"
    by (auto simp: c' SetDBProphecy_def kv_ok_set GetOracleWhiteList_def oracle_GetAdminAccount_def kv_get_set)
qed

lemma mustValAddresses_ok: "mustValAddresses L ss = Inr as \<Longrightarrow> a \<in> set as \<Longrightarrow>
    val_ok L a \<and> valid_utf8 (ValAddress_String L a) \<and> a \<noteq> []"
proof (induction ss arbitrary: as)
  case (Cons s ss)
  then show ?case
    using val_of_string [of s] val_string_ascii [of s] by (auto simp: res_simps val_ok_def)
qed simp

lemma GetOracleWhiteList_ok: "GetOracleWhiteList L c = Inr as \<Longrightarrow> a \<in> set as \<Longrightarrow>
    val_ok L a \<and> valid_utf8 (ValAddress_String L a) \<and> a \<noteq> []"
  unfolding GetOracleWhiteList_def by (rule mustValAddresses_ok)

lemma processCompletion_effect:
  assumes "processCompletion L ord needed c p = Inr p'"
  shows "\<exists>s. p' = p\<lparr>p_Status := s\<rparr>"
proof -
  have "\<exists>s. p = p\<lparr>p_Status := s\<rparr>" by (rule exI [of _ "p_Status p"]) simp
  with assms show ?thesis
    unfolding processCompletion_def Let_def
    by (auto simp: res_simps split: if_splits prod.splits)
qed

lemma whitelisted_sender:
  assumes "EnsureAddressIsInWhitelist L c v = Inr u" and "ValAddressFromBech32 L v = Inr a"
  obtains wl where "GetOracleWhiteList L c = Inr wl" and "a \<in> set wl" and "ValAddress_String L a = v"
    and "val_ok L a" and "valid_utf8 v"
proof -
  obtain wl b where wl: "GetOracleWhiteList L c = Inr wl" and b: "b \<in> set wl" "ValAddress_String L b = v"
    using assms(1) by (auto simp: EnsureAddressIsInWhitelist_def res_simps list_ex_iff)
  note ok = GetOracleWhiteList_ok [OF wl b(1)]
  have "b = a" using ok b(2) assms(2) by (simp add: val_ok_def)
  then show thesis using that wl b ok by blast
qed

lemma AddClaim_ready:
  assumes "oracle_ok L c" and "EnsureAddressIsInWhitelist L c v = Inr u" and "ValAddressFromBech32 L v = Inr a"
    and "valid_utf8 s" and "s \<noteq> []" and "claim_of (current_prophecy L c i) v = []"
  shows "prophecy_ok L (AddClaim L (current_prophecy L c i) a s)"
proof -
  from assms(2,3) have "ValAddress_String L a = v" "val_ok L a" "valid_utf8 v"
    by (rule whitelisted_sender; blast)+
  then show ?thesis
    using assms current_prophecy_ok [OF assms(1)] by (intro prophecy_ok_AddClaim) auto
qed

text \<open>What an accepted claim does: it is the sender's first, and it changes this prophecy only.\<close>

lemma ProcessClaim_effect:
  assumes ok: "oracle_ok L c" and utf8: "valid_utf8 (claim_Content cl)"
    and run: "oracle_ProcessClaim L ord needed c cl = Inr (st, c')"
  obtains a p' wl where "ValAddressFromBech32 L (claim_ValidatorAddress cl) = Inr a"
    and "GetOracleWhiteList L c = Inr wl" and "a \<in> set wl"
    and "ValAddress_String L a = claim_ValidatorAddress cl" and "checkActiveValidator L c a"
    and "Text (p_Status (current_prophecy L c (claim_Id cl))) = STATUS_TEXT_PENDING"
    and "claim_of (current_prophecy L c (claim_Id cl)) (claim_ValidatorAddress cl) = []"
    and "prophecy_ok L (AddClaim L (current_prophecy L c (claim_Id cl)) a (claim_Content cl))"
    and "processCompletion L ord needed c
           (AddClaim L (current_prophecy L c (claim_Id cl)) a (claim_Content cl)) = Inr p'"
    and "st = p_Status p'" and "GetProphecy L c' = (GetProphecy L c)(claim_Id cl \<mapsto> p')"
    and "oracle_ok L c'" and "\<exists>s. c' = c\<lparr>oracle_store := s\<rparr>"
    and "GetOracleWhiteList L c' = GetOracleWhiteList L c"
    and "oracle_GetAdminAccount c' = oracle_GetAdminAccount c"
proof -
  let ?p = "current_prophecy L c (claim_Id cl)"
  obtain a p' u where a: "ValAddressFromBech32 L (claim_ValidatorAddress cl) = Inr a"
    and ens: "EnsureAddressIsInWhitelist L c (claim_ValidatorAddress cl) = Inr u"
    and act: "checkActiveValidator L c a" and content: "claim_Content cl \<noteq> []"
    and pend: "Text (p_Status ?p) = STATUS_TEXT_PENDING"
    and new: "claim_of ?p (claim_ValidatorAddress cl) = []"
    and comp: "processCompletion L ord needed c (AddClaim L ?p a (claim_Content cl)) = Inr p'"
    and set: "SetProphecy L c p' = Inr c'" and st: "st = p_Status p'"
    using run unfolding oracle_ProcessClaim_def Let_def
    by (auto simp: res_simps current_prophecy_def)
  obtain wl where wl: "GetOracleWhiteList L c = Inr wl"
    and str: "a \<in> set wl" "ValAddress_String L a = claim_ValidatorAddress cl"
    using whitelisted_sender [OF ens a] by metis
  have p: "prophecy_ok L (AddClaim L ?p a (claim_Content cl))"
    by (rule AddClaim_ready [OF ok ens a utf8 content new])
  obtain s where p': "p' = (AddClaim L ?p a (claim_Content cl))\<lparr>p_Status := s\<rparr>"
    using processCompletion_effect [OF comp] by blast
  have p'_ok: "prophecy_ok L p'" and id': "p_ID p' = claim_Id cl"
    using p current_prophecy_ok [OF ok, of "claim_Id cl"] by (simp_all add: p' AddClaim_def)
  note gs = GetProphecy_SetProphecy [OF p'_ok set, unfolded id']
  have "oracle_ok L c'"
    using ok gs(1,3) p'_ok id' by (auto simp: oracle_ok_def)
  then show thesis
    using that a wl str act pend new p comp st gs by blast
qed

end

subsection \<open>Histories\<close>

text \<open>
  A history interleaves claims, each with its own order of map iteration, and updates of the
  whitelist. A step reports the prophecy that it decided in favour of a claim.
\<close>

datatype oracle_op = Op_Claim map_order claim | Op_Update addr addr string

definition oracle_step :: "'x lib \<Rightarrow> f64 \<Rightarrow> 'x ctx \<Rightarrow> oracle_op \<Rightarrow> (string option \<times> 'x ctx) res" where
  "oracle_step L needed c op =
     (case op of
        Op_Claim ord cl \<Rightarrow> bindE (oracle_ProcessClaim L ord needed c cl) (\<lambda>(st, c).
          Inr (if Text st = STATUS_TEXT_SUCCESS then Some (claim_Id cl) else None, c))
      | Op_Update sender v what \<Rightarrow> bindE (ProcessUpdateWhiteListValidator L c sender v what) (\<lambda>c.
          Inr (None, c)))"

definition oracle_deliver :: "'x lib \<Rightarrow> f64 \<Rightarrow> 'x ctx \<Rightarrow> oracle_op \<Rightarrow> 'x ctx" where
  "oracle_deliver L needed = deliver (\<lambda>c op. bindE (oracle_step L needed c op) (\<lambda>(_, c). Inr c))"

fun op_allowed :: "oracle_op \<Rightarrow> bool" where
  "op_allowed (Op_Claim ord cl) = valid_utf8 (claim_Content cl)"
| "op_allowed (Op_Update sender v what) = True"

definition undecided :: "'x lib \<Rightarrow> 'x ctx \<Rightarrow> string \<Rightarrow> bool" where
  "undecided L c i \<longleftrightarrow> Text (p_Status (current_prophecy L c i)) = STATUS_TEXT_PENDING"

definition decided_as :: "'x lib \<Rightarrow> string \<Rightarrow> prophecy \<Rightarrow> 'x ctx \<Rightarrow> bool" where
  "decided_as L i p c \<longleftrightarrow> oracle_ok L c \<and> GetProphecy L c i = Some p \<and> Text (p_Status p) \<noteq> STATUS_TEXT_PENDING"

lemma SetOracleWhiteList_frame:
  "GetProphecy L (SetOracleWhiteList L c vs) = GetProphecy L c"
  "kv_ok (oracle_store c) \<Longrightarrow> kv_ok (oracle_store (SetOracleWhiteList L c vs))"
  by (simp_all add: fun_eq_iff SetOracleWhiteList_def GetProphecy_def kv_get_set kv_ok_set)

lemma Update_effect:
  assumes "ProcessUpdateWhiteListValidator L c sender v what = Inr c'"
  obtains vs where "oracle_IsAdminAccount c sender" and "c' = SetOracleWhiteList L c vs"
  using assms by (auto simp: ProcessUpdateWhiteListValidator_def AddOracleWhiteList_def
      RemoveOracleWhiteList_def res_simps split: if_splits)

context lib_laws
begin

lemma Update_frame:
  assumes "oracle_ok L c" and "ProcessUpdateWhiteListValidator L c sender v what = Inr c'"
  shows "oracle_ok L c' \<and> GetProphecy L c' = GetProphecy L c"
proof -
  obtain vs where "c' = SetOracleWhiteList L c vs" using Update_effect [OF assms(2)] by metis
  then show ?thesis using assms(1) by (simp add: oracle_ok_def SetOracleWhiteList_frame)
qed

lemma oracle_step_effect:
  assumes ok: "oracle_ok L c" and op: "op_allowed op" and run: "oracle_step L needed c op = Inr (r, c')"
  shows "oracle_ok L c' \<and> (\<not> undecided L c i \<longrightarrow> GetProphecy L c' i = GetProphecy L c i) \<and>
    (\<forall>j. r = Some j \<longrightarrow> undecided L c j \<and> \<not> undecided L c' j)"
proof (cases op)
  case (Op_Claim ord cl)
  then obtain st where st: "oracle_ProcessClaim L ord needed c cl = Inr (st, c')"
    and r: "r = (if Text st = STATUS_TEXT_SUCCESS then Some (claim_Id cl) else None)"
    using run by (auto simp: oracle_step_def res_simps)
  have utf8: "valid_utf8 (claim_Content cl)" using op Op_Claim by simp
  obtain p' where "undecided L c (claim_Id cl)" and "st = p_Status p'"
    and "GetProphecy L c' = (GetProphecy L c)(claim_Id cl \<mapsto> p')" and "oracle_ok L c'"
    using ProcessClaim_effect [OF ok utf8 st] unfolding undecided_def by metis
  then show ?thesis by (auto simp: r undecided_def current_prophecy_def)
next
  case (Op_Update sender v what)
  then show ?thesis using run Update_frame [OF ok] by (auto simp: oracle_step_def res_simps)
qed

end

sublocale lib_laws \<subseteq> decisions: once_only "oracle_step L needed" "oracle_ok L" op_allowed "undecided L" for needed :: f64
proof
  fix c op r c' i
  assume "oracle_ok L c" and "op_allowed op" and "oracle_step L needed c op = Inr (r, c')"
  from oracle_step_effect [OF this] show "oracle_ok L c'" and "\<not> undecided L c i \<Longrightarrow> \<not> undecided L c' i"
    by (auto simp: undecided_def current_prophecy_def)
next
  fix c op c' i
  assume "oracle_ok L c" and "op_allowed op" and "oracle_step L needed c op = Inr (Some i, c')"
  from oracle_step_effect [OF this] show "undecided L c i \<and> \<not> undecided L c' i" by simp
qed

sublocale lib_laws \<subseteq> oracle_book: machine
  "\<lambda>c op. bindE (oracle_step L needed c op) (\<lambda>(_, c). Inr c)" "oracle_ok L" op_allowed for needed :: f64
  using oracle_step_effect by unfold_locales (fastforce simp: res_simps)

sublocale lib_laws \<subseteq> oracle_final: machine
  "\<lambda>c op. bindE (oracle_step L needed c op) (\<lambda>(_, c). Inr c)" "decided_as L i p" op_allowed
  for needed :: f64 and i :: string and p :: prophecy
proof
  fix c op c'
  assume inv: "decided_as L i p c" and op: "op_allowed op"
    and run: "bindE (oracle_step L needed c op) (\<lambda>(_, c). Inr c) = Inr c'"
  obtain r where "oracle_step L needed c op = Inr (r, c')" using run by (auto simp: res_simps)
  with inv op have "oracle_ok L c'" and "\<not> undecided L c i \<longrightarrow> GetProphecy L c' i = GetProphecy L c i"
    using oracle_step_effect [of c op needed r c' i] by (auto simp: decided_as_def)
  with inv show "decided_as L i p c'"
    by (simp add: decided_as_def undecided_def current_prophecy_def)
qed

context lib_laws
begin

lemma oracle_run_ok:
  "oracle_ok L c \<Longrightarrow> list_all op_allowed ops \<Longrightarrow> oracle_ok L (foldl (oracle_deliver L needed) c ops)"
  unfolding oracle_deliver_def by (rule oracle_book.run_inv)

lemma oracle_run_final:
  "decided_as L i p c \<Longrightarrow> list_all op_allowed ops \<Longrightarrow> decided_as L i p (foldl (oracle_deliver L needed) c ops)"
  unfolding oracle_deliver_def by (rule oracle_final.run_inv)

lemma oracle_run_once:
  "oracle_ok L c \<Longrightarrow> list_all op_allowed ops \<Longrightarrow> distinct (closed_in (oracle_step L needed) c ops)"
  using decisions.closed_once by blast

end

text \<open>Every validator is counted under one claim only, and once.\<close>

lemma prophecy_ok_distinct:
  assumes "prophecy_ok L p"
  shows "distinct (concat (map snd (p_ClaimValidators p)))"
proof -
  have gen: "distinct (concat (map snd es))"
    if "\<And>cl as. (cl, as) \<in> set es \<Longrightarrow> distinct as \<and> (\<forall>a\<in>set as. f a = Some cl)"
      and "distinct (map fst es)" for es :: "addr list kv" and f :: "addr \<Rightarrow> string option"
    using that
  proof (induction es)
    case (Cons e es)
    have "set (snd e) \<inter> set as = {}" if "(cl, as) \<in> set es" for cl as
    proof -
      have "cl \<noteq> fst e" using that Cons.prems(2) by (auto simp: image_iff)
      moreover have "\<forall>a\<in>set (snd e). f a = Some (fst e)" using Cons.prems(1) [of "fst e" "snd e"] by simp
      moreover have "\<forall>a\<in>set as. f a = Some cl" using Cons.prems(1) [of cl as] that by simp
      ultimately show ?thesis by fastforce
    qed
    moreover have "distinct (concat (map snd es))" using Cons by auto
    moreover have "distinct (snd e)" using Cons.prems(1) [of "fst e" "snd e"] by simp
    ultimately show ?case by fastforce
  qed simp
  have kv: "kv_ok (p_ClaimValidators p)" using assms by (simp add: prophecy_ok_def)
  show ?thesis
    by (rule gen [where f = "\<lambda>a. kv_get (p_ValidatorClaims p) (ValAddress_String L a)"])
      (use assms kvs.entries_get [OF kv] kvs.entries_distinct [OF kv] in \<open>auto simp: prophecy_ok_def\<close>)
qed

text \<open>In every history of claims and whitelist updates each prophecy is decided in favour of a
  claim at most once, whatever the order in which Go iterates over its maps.\<close>

theorem oracle_decides_once:
  assumes "lib_laws L" and "oracle_ok L c" and "list_all op_allowed ops"
  shows "distinct (closed_in (oracle_step L needed) c ops)"
  using lib_laws.oracle_run_once [OF assms] .

text \<open>C18. A prophecy that has been decided, for or against, keeps its status, its claims and its
  claimants for ever: no later claim and no update of the whitelist changes the record.\<close>

theorem oracle_decision_final:
  assumes "lib_laws L" and "oracle_ok L c" and "list_all op_allowed ops"
    and "GetProphecy L c i = Some p" and "Text (p_Status p) \<noteq> STATUS_TEXT_PENDING"
  shows "GetProphecy L (foldl (oracle_deliver L needed) c ops) i = Some p"
  using lib_laws.oracle_run_final [OF assms(1), of i p c ops needed] assms by (simp add: decided_as_def)

text \<open>C19. After every history, each validator is counted at most once in a prophecy: the lists of
  claimants of its claims have no validator twice or in common, and the claim recorded for a
  claimant is the one it is listed under.\<close>

theorem oracle_counts_once:
  assumes "lib_laws L" and "oracle_ok L c" and "list_all op_allowed ops"
    and "GetProphecy L (foldl (oracle_deliver L needed) c ops) i = Some p"
  shows "distinct (concat (map snd (p_ClaimValidators p))) \<and>
    (\<forall>cl. \<forall>a\<in>set (claimers p cl). claim_of p (ValAddress_String L a) = cl)"
proof -
  have "prophecy_ok L p"
    using lib_laws.oracle_run_ok [OF assms(1-3), of needed] assms(4) by (simp add: oracle_ok_def)
  then show ?thesis
    using prophecy_ok_distinct [of L p] claimers_ok [of L p] by (simp add: claim_of_def)
qed

subsection \<open>Voting power\<close>

text \<open>
  The powers without wrap-around: \<open>power_of\<close> is the power of the bonded validator with an
  address, \<open>support\<close> the power behind a claim, \<open>claimed_power\<close> the power behind all claims,
  \<open>whitelisted_power\<close> the power of the bonded validators on the whitelist. The staking module
  gives bonded validators distinct operator addresses and non-negative powers; their sum is at
  most \<open>2 ^ 48\<close>, several orders of magnitude above the supply of the staking token.
\<close>

definition power_of :: "validator list \<Rightarrow> string \<Rightarrow> int" where
  "power_of vs s = (case validator_by_address vs s of None \<Rightarrow> 0 | Some v \<Rightarrow> val_power v)"

definition support_by :: "'x lib \<Rightarrow> validator list \<Rightarrow> addr list \<Rightarrow> int" where
  "support_by L vs as = (\<Sum>a\<leftarrow>as. power_of vs (ValAddress_String L a))"

definition support :: "'x lib \<Rightarrow> 'x ctx \<Rightarrow> prophecy \<Rightarrow> string \<Rightarrow> int" where
  "support L c p cl = support_by L (GetBondedValidatorsByPower L (ext c)) (claimers p cl)"

definition claimed_power :: "'x lib \<Rightarrow> 'x ctx \<Rightarrow> prophecy \<Rightarrow> int" where
  "claimed_power L c p =
     (\<Sum>e\<leftarrow>p_ClaimValidators p. support_by L (GetBondedValidatorsByPower L (ext c)) (snd e))"

definition whitelisted_power :: "'x lib \<Rightarrow> 'x ctx \<Rightarrow> addr list \<Rightarrow> int" where
  "whitelisted_power L c wl =
     (\<Sum>v\<leftarrow>GetBondedValidatorsByPower L (ext c). if val_operator v \<in> set wl then val_power v else 0)"

definition staking_ok :: "validator list \<Rightarrow> bool" where
  "staking_ok vs \<longleftrightarrow> distinct (map val_operator_address vs) \<and> list_all (\<lambda>v. 0 \<le> val_power v) vs \<and>
     (\<Sum>v\<leftarrow>vs. val_power v) \<le> 2 ^ 48"

lemma i64_i64 [simp]: "i64 (i64 n) = i64 n"
  using i64_range [of n] by (intro i64_id) simp_all

lemma sum_list_single:
  "distinct xs \<Longrightarrow> (\<Sum>x\<leftarrow>xs. if x = k then n else 0 :: int) = (if k \<in> set xs then n else 0)"
  by (induction xs) auto

lemma inWhiteList_iff [simp]: "inWhiteList v wl \<longleftrightarrow> val_operator v \<in> set wl"
  by (induction wl) auto

lemma power_of_nonneg: "staking_ok vs \<Longrightarrow> 0 \<le> power_of vs s"
proof -
  assume "staking_ok vs"
  then have "0 \<le> val_power v" if "validator_by_address vs s = Some v" for v
    using that by (auto simp: staking_ok_def validator_by_address_def list_all_iff find_Some_iff)
      (metis nth_mem set_rev length_rev)
  then show ?thesis by (simp add: power_of_def split: option.splits)
qed

lemma validator_by_address_Cons:
  assumes "distinct (map val_operator_address (v # vs))"
  shows "validator_by_address (v # vs) s = (if s = val_operator_address v then Some v else validator_by_address vs s)"
proof -
  have "List.find P (xs @ [x]) = (case List.find P xs of None \<Rightarrow> if P x then Some x else None | Some y \<Rightarrow> Some y)"
    for P and xs :: "validator list" and x
    by (induction xs) auto
  moreover have "List.find (\<lambda>w. val_operator_address w = val_operator_address v) (rev vs) = None"
    using assms by (auto simp: find_None_iff image_iff)
  ultimately show ?thesis
    by (auto simp: validator_by_address_def split: option.splits)
qed

lemma validator_by_address_own:
  "distinct (map val_operator_address (v # vs)) \<Longrightarrow> validator_by_address vs (val_operator_address v) = None"
  by (auto simp: validator_by_address_def find_None_iff image_iff)

text \<open>Distinct addresses of validators with a property hold at most the power of those that have it.\<close>

lemma sum_power_of:
  assumes "staking_ok vs" and "distinct ss"
    and "\<And>s v. s \<in> set ss \<Longrightarrow> validator_by_address vs s = Some v \<Longrightarrow> P v"
  shows "(\<Sum>s\<leftarrow>ss. power_of vs s) \<le> (\<Sum>v\<leftarrow>vs. if P v then val_power v else 0)"
  using assms(1,3)
proof (induction vs)
  case Nil
  have "power_of [] s = 0" for s by (simp add: power_of_def validator_by_address_def)
  then show ?case by simp
next
  case (Cons v vs)
  let ?w = "if P v then val_power v else 0"
  have vs: "staking_ok vs" and v: "0 \<le> val_power v" and d: "distinct (map val_operator_address (v # vs))"
    using Cons.prems(1) by (simp_all add: staking_ok_def)
  note vba = validator_by_address_Cons [OF d] validator_by_address_own [OF d]
  have P: "P u" if "s \<in> set ss" and "validator_by_address vs s = Some u" for s u
    using Cons.prems(2) [of s u] that vba by (cases "s = val_operator_address v") auto
  have one: "power_of (v # vs) s \<le> (if s = val_operator_address v then ?w else 0) + power_of vs s"
    if "s \<in> set ss" for s
    using Cons.prems(2) [of s v] that vba by (simp add: power_of_def)
  have "(\<Sum>s\<leftarrow>ss. power_of (v # vs) s) \<le>
      (\<Sum>s\<leftarrow>ss. (if s = val_operator_address v then ?w else 0) + power_of vs s)"
    by (intro sum_list_mono one)
  also have "\<dots> = (\<Sum>s\<leftarrow>ss. if s = val_operator_address v then ?w else 0) + (\<Sum>s\<leftarrow>ss. power_of vs s)"
    by (rule sum_list_addf)
  also have "(\<Sum>s\<leftarrow>ss. if s = val_operator_address v then ?w else 0) \<le> ?w"
    using assms(2) v by (simp only: sum_list_single) simp
  also have "(\<Sum>s\<leftarrow>ss. power_of vs s) \<le> (\<Sum>v\<leftarrow>vs. if P v then val_power v else 0)"
    by (rule Cons.IH [OF vs P])
  finally show ?case by simp
qed

lemma support_by_nonneg: "staking_ok vs \<Longrightarrow> 0 \<le> support_by L vs as"
  unfolding support_by_def by (intro sum_list_nonneg) (auto simp: power_of_nonneg)

lemma claim_power_exact:
  assumes "staking_ok vs" and "support_by L vs as < 2 ^ 63"
  shows "claim_power L vs as = support_by L vs as"
proof -
  have nn: "0 \<le> power_of vs s" for s using power_of_nonneg [OF assms(1)] .
  have "(case validator_by_address vs s of None \<Rightarrow> p | Some v \<Rightarrow> i64 (p + val_power v)) = i64 (p + power_of vs s)"
    if "i64 p = p" for p s
    using that by (simp add: power_of_def split: option.splits)
  then have "foldl (\<lambda>p a. case validator_by_address vs (ValAddress_String L a) of None \<Rightarrow> p | Some v \<Rightarrow> i64 (p + val_power v)) p as
      = foldl (\<lambda>p a. i64 (p + power_of vs (ValAddress_String L a))) p as" if "i64 p = p" for p
    using that by (induction as arbitrary: p) simp_all
  then have "claim_power L vs as = foldl (\<lambda>p a. i64 (p + power_of vs (ValAddress_String L a))) 0 as"
    by (simp add: claim_power_def i64_def)
  then show ?thesis
    using i64_sum [of as "\<lambda>a. power_of vs (ValAddress_String L a)" 0] nn assms(2)
    by (simp add: support_by_def)
qed

lemma total_power_exact:
  assumes "staking_ok vs"
  shows "total_power vs wl = (\<Sum>v\<leftarrow>vs. if val_operator v \<in> set wl then val_power v else 0)"
proof -
  let ?f = "\<lambda>v. if val_operator v \<in> set wl then val_power v else 0"
  have nn: "\<forall>v\<in>set vs. 0 \<le> val_power v" using assms by (simp add: staking_ok_def list_all_iff)
  have "(\<Sum>v\<leftarrow>vs. ?f v) \<le> (\<Sum>v\<leftarrow>vs. val_power v)"
    using nn by (intro sum_list_mono) auto
  then have small: "(\<Sum>v\<leftarrow>vs. ?f v) < 2 ^ 63" using assms by (simp add: staking_ok_def)
  have "foldl (\<lambda>t v. if val_operator v \<in> set wl then i64 (t + val_power v) else t) t vs = foldl (\<lambda>t v. i64 (t + ?f v)) t vs"
    if "i64 t = t" for t
    using that by (induction vs arbitrary: t) simp_all
  then have "total_power vs wl = foldl (\<lambda>t v. i64 (t + ?f v)) 0 vs"
    by (simp add: total_power_def i64_def)
  also have "\<dots> = (\<Sum>v\<leftarrow>vs. ?f v)"
    using i64_sum [of vs ?f 0] nn small by simp
  finally show ?thesis .
qed

lemma highest_step_simp:
  "highest_step L vs (hc, hp, t) e =
     (if claim_power L vs (snd e) > hp then fst e else hc,
      if claim_power L vs (snd e) > hp then claim_power L vs (snd e) else hp, i64 (t + claim_power L vs (snd e)))"
  by (cases e) (simp add: highest_step_def Let_def)

lemma elem_le_sum_list: "(\<And>x. x \<in> set xs \<Longrightarrow> 0 \<le> f x) \<Longrightarrow> x \<in> set xs \<Longrightarrow> f x \<le> (\<Sum>x\<leftarrow>xs. f x :: int)"
proof (induction xs)
  case (Cons y ys)
  have "0 \<le> (\<Sum>x\<leftarrow>ys. f x)" using Cons.prems(1) by (intro sum_list_nonneg) auto
  then show ?case using Cons by (cases "x = y") (auto intro: add_increasing)
qed simp

text \<open>The scan over the claims finds one with the most support, and the sum of all.\<close>

lemma highest_scan:
  assumes vs: "staking_ok vs"
    and small: "(\<Sum>e\<leftarrow>es. support_by L vs (snd e)) < 2 ^ 63"
  obtains hc hp where "foldl (highest_step L vs) ([], - 1, 0) es = (hc, hp, \<Sum>e\<leftarrow>es. support_by L vs (snd e))"
    and "es \<noteq> [] \<Longrightarrow> \<exists>as. (hc, as) \<in> set es \<and> support_by L vs as = hp"
    and "\<And>e. e \<in> set es \<Longrightarrow> support_by L vs (snd e) \<le> hp"
    and "es = [] \<Longrightarrow> hp = - 1"
proof -
  have "\<exists>hc hp. foldl (highest_step L vs) ([], - 1, 0) es = (hc, hp, \<Sum>e\<leftarrow>es. support_by L vs (snd e)) \<and>
      (es \<noteq> [] \<longrightarrow> (\<exists>as. (hc, as) \<in> set es \<and> support_by L vs as = hp)) \<and>
      (\<forall>e\<in>set es. support_by L vs (snd e) \<le> hp) \<and> (es = [] \<longrightarrow> hp = - 1)"
    using small
  proof (induction es rule: rev_induct)
    case (snoc e es)
    let ?s = "support_by L vs (snd e)" and ?t = "\<Sum>e\<leftarrow>es. support_by L vs (snd e)"
    have "0 \<le> ?t" by (intro sum_list_nonneg) (auto simp: support_by_nonneg [OF vs])
    moreover have pos: "0 \<le> ?s" by (rule support_by_nonneg [OF vs])
    moreover have lt: "?t + ?s < 2 ^ 63" using snoc.prems by simp
    ultimately have small: "?t < 2 ^ 63" "?s < 2 ^ 63" "0 \<le> ?t + ?s" by linarith+
    have exact: "claim_power L vs (snd e) = ?s" "i64 (?t + ?s) = ?t + ?s"
      using small lt by (simp_all add: claim_power_exact [OF vs] i64_small)
    obtain hc hp where IH: "foldl (highest_step L vs) ([], - 1, 0) es = (hc, hp, ?t)"
      "es \<noteq> [] \<longrightarrow> (\<exists>as. (hc, as) \<in> set es \<and> support_by L vs as = hp)"
      "\<forall>e\<in>set es. support_by L vs (snd e) \<le> hp" "es = [] \<longrightarrow> hp = - 1"
      using snoc.IH [OF small(1)] by (elim exE conjE)
    have "foldl (highest_step L vs) ([], - 1, 0) (es @ [e]) =
        (if ?s > hp then fst e else hc, if ?s > hp then ?s else hp, ?t + ?s)"
      by (simp add: IH(1) highest_step_simp exact)
    moreover have "\<exists>as. (if ?s > hp then fst e else hc, as) \<in> set (es @ [e]) \<and>
        support_by L vs as = (if ?s > hp then ?s else hp)"
    proof (cases "?s > hp")
      case True
      then show ?thesis by (intro exI [of _ "snd e"]) simp
    next
      case False
      then have "es \<noteq> []" using IH(4) pos by auto
      then show ?thesis using IH(2) False by auto
    qed
    moreover have "\<forall>d\<in>set (es @ [e]). support_by L vs (snd d) \<le> (if ?s > hp then ?s else hp)"
      using IH(3) by fastforce
    ultimately show ?case
      by (intro exI [of _ "if ?s > hp then fst e else hc"] exI [of _ "if ?s > hp then ?s else hp"]) simp
  qed simp
  then obtain hc hp where r: "foldl (highest_step L vs) ([], - 1, 0) es = (hc, hp, \<Sum>e\<leftarrow>es. support_by L vs (snd e))"
    "es \<noteq> [] \<longrightarrow> (\<exists>as. (hc, as) \<in> set es \<and> support_by L vs as = hp)"
    "\<forall>e\<in>set es. support_by L vs (snd e) \<le> hp" "es = [] \<longrightarrow> hp = - 1"
    by (elim exE conjE)
  show thesis
    by (rule that [OF r(1)]) (use r(2-4) in blast)+
qed

lemma claimed_strings:
  assumes "prophecy_ok L p"
  shows "distinct (map (ValAddress_String L) (concat (map snd (p_ClaimValidators p))))"
proof -
  have kv: "kv_ok (p_ClaimValidators p)" using assms by (simp add: prophecy_ok_def)
  have "val_ok L a" if "a \<in> set (concat (map snd (p_ClaimValidators p)))" for a
    using that assms kvs.entries_get [OF kv] by (fastforce simp: prophecy_ok_def)
  then have "inj_on (ValAddress_String L) (set (concat (map snd (p_ClaimValidators p))))"
    by (intro inj_onI) (metis val_ok_def sum.inject(2))
  then show ?thesis using prophecy_ok_distinct [OF assms] by (simp only: distinct_map)
qed

lemma claimed_power_concat:
  "claimed_power L c p = (\<Sum>s\<leftarrow>map (ValAddress_String L) (concat (map snd (p_ClaimValidators p))).
     power_of (GetBondedValidatorsByPower L (ext c)) s)"
proof -
  have "(\<Sum>e\<leftarrow>es. \<Sum>a\<leftarrow>snd e. f a) = (\<Sum>a\<leftarrow>concat (map snd es). f a :: int)"
    for es :: "addr list kv" and f
    by (induction es) simp_all
  then show ?thesis by (simp add: claimed_power_def support_by_def o_def)
qed

lemma support_entry:
  assumes "kv_ok (p_ClaimValidators p)" and "(cl, as) \<in> set (p_ClaimValidators p)"
  shows "support L c p cl = support_by L (GetBondedValidatorsByPower L (ext c)) as"
  using assms by (simp add: support_def claimers_def kvs.entries_get)

lemma FindHighestClaim_exact:
  assumes vs: "staking_ok (GetBondedValidatorsByPower L (ext c))" and p: "prophecy_ok L p"
    and ord: "mset (ord (p_ClaimValidators p)) = mset (p_ClaimValidators p)"
    and ne: "p_ClaimValidators p \<noteq> []"
  obtains hc where "FindHighestClaim L ord c p wl =
      (hc, support L c p hc, claimed_power L c p, whitelisted_power L c wl)"
    and "\<And>cl. support L c p cl \<le> support L c p hc" and "0 \<le> support L c p hc"
    and "support L c p hc \<le> claimed_power L c p" and "claimed_power L c p \<le> 2 ^ 48"
    and "0 \<le> whitelisted_power L c wl" and "whitelisted_power L c wl \<le> 2 ^ 48"
proof -
  let ?vs = "GetBondedValidatorsByPower L (ext c)" and ?es = "ord (p_ClaimValidators p)"
  have kv: "kv_ok (p_ClaimValidators p)" using p by (simp add: prophecy_ok_def)
  have set: "set ?es = set (p_ClaimValidators p)" using ord by (rule mset_eq_setD)
  have sum: "(\<Sum>e\<leftarrow>?es. support_by L ?vs (snd e)) = claimed_power L c p"
    unfolding claimed_power_def by (simp only: sum_mset_sum_list [symmetric] mset_map ord)
  have powers: "(\<Sum>v\<leftarrow>?vs. val_power v) \<le> 2 ^ 48" "\<forall>v\<in>set ?vs. 0 \<le> val_power v"
    using vs by (simp_all add: staking_ok_def list_all_iff)
  have le: "claimed_power L c p \<le> 2 ^ 48"
    using sum_power_of [OF vs claimed_strings [OF p], of "\<lambda>_. True"] powers(1)
    by (simp add: claimed_power_concat)
  have wp: "whitelisted_power L c wl \<le> (\<Sum>v\<leftarrow>?vs. val_power v)" "0 \<le> whitelisted_power L c wl"
    unfolding whitelisted_power_def using powers(2) by (auto intro!: sum_list_mono sum_list_nonneg)
  have small: "(\<Sum>e\<leftarrow>?es. support_by L ?vs (snd e)) < 2 ^ 63" using le sum by simp
  obtain hc hp where scan: "foldl (highest_step L ?vs) ([], - 1, 0) ?es = (hc, hp, \<Sum>e\<leftarrow>?es. support_by L ?vs (snd e))"
    and at: "?es \<noteq> [] \<Longrightarrow> \<exists>as. (hc, as) \<in> set ?es \<and> support_by L ?vs as = hp"
    and max: "\<And>e. e \<in> set ?es \<Longrightarrow> support_by L ?vs (snd e) \<le> hp"
    by (rule highest_scan [OF vs small]) blast
  have "?es \<noteq> []" using ne set by auto
  then obtain as where as: "(hc, as) \<in> set (p_ClaimValidators p)" "support_by L ?vs as = hp"
    using at set by auto
  have hp: "hp = support L c p hc" using support_entry [OF kv as(1), of L c] as(2) by simp
  have nn: "0 \<le> support L c p hc" by (simp add: support_def support_by_nonneg [OF vs])
  have best: "support L c p cl \<le> support L c p hc" for cl
  proof (cases "kv_get (p_ClaimValidators p) cl")
    case None
    then show ?thesis using nn by (simp add: support_def claimers_def support_by_def)
  next
    case (Some bs)
    then have "(cl, bs) \<in> set ?es" by (simp add: set kvs.entries_get [OF kv])
    then show ?thesis using max [of "(cl, bs)"] Some hp by (simp add: support_def claimers_def)
  qed
  have "hp \<le> claimed_power L c p"
    using elem_le_sum_list [of "p_ClaimValidators p" "\<lambda>e. support_by L ?vs (snd e)" "(hc, as)"] as
    by (simp add: claimed_power_def support_by_nonneg [OF vs])
  then have le_claimed: "support L c p hc \<le> claimed_power L c p" by (simp add: hp)
  have "FindHighestClaim L ord c p wl = (hc, support L c p hc, claimed_power L c p, whitelisted_power L c wl)"
    by (simp add: FindHighestClaim_def scan sum hp total_power_exact [OF vs] whitelisted_power_def)
  then show thesis
    by (rule that [OF _ best nn le_claimed le wp(2) order_trans [OF wp(1) powers(1)]])
qed

subsection \<open>The decision\<close>

text \<open>
  The decision on exact integers: a claim with at least seven tenths of the whitelisted power
  succeeds; when even the best claim together with all power that has not claimed yet would stay
  below, the prophecy fails.
\<close>

definition verdict :: "int \<Rightarrow> int \<Rightarrow> int \<Rightarrow> status_text" where
  "verdict all best claimed =
     (if 7 * all \<le> 10 * best then STATUS_TEXT_SUCCESS
      else if 10 * (best + (all - claimed)) < 7 * all then STATUS_TEXT_FAILED
      else STATUS_TEXT_PENDING)"

lemma processCompletion_verdict:
  assumes vs: "staking_ok (GetBondedValidatorsByPower L (ext c))" and p: "prophecy_ok L p"
    and ord: "mset (ord (p_ClaimValidators p)) = mset (p_ClaimValidators p)"
    and ne: "p_ClaimValidators p \<noteq> []" and pend: "Text (p_Status p) = STATUS_TEXT_PENDING"
    and wl: "GetOracleWhiteList L c = Inr wl" and total: "0 < whitelisted_power L c wl"
  obtains best s where "processCompletion L ord DefaultConsensusNeeded c p = Inr (p\<lparr>p_Status := s\<rparr>)"
    and "\<And>cl. support L c p cl \<le> support L c p best"
    and "Text s = verdict (whitelisted_power L c wl) (support L c p best) (claimed_power L c p)"
    and "FinalClaim s = (if Text s = STATUS_TEXT_SUCCESS then best else FinalClaim (p_Status p))"
proof -
  obtain best where f: "FindHighestClaim L ord c p wl =
      (best, support L c p best, claimed_power L c p, whitelisted_power L c wl)"
    and max: "\<And>cl. support L c p cl \<le> support L c p best" and b: "0 \<le> support L c p best"
    "support L c p best \<le> claimed_power L c p" "claimed_power L c p \<le> 2 ^ 48"
    and t: "whitelisted_power L c wl \<le> 2 ^ 48"
    using FindHighestClaim_exact [where ord = ord and wl = wl, OF vs p ord ne] by metis
  let ?t = "whitelisted_power L c wl" and ?b = "support L c p best" and ?m = "claimed_power L c p"
  have i1: "i64 (?t - ?m) = ?t - ?m" and i2: "i64 (?b + (?t - ?m)) = ?b + (?t - ?m)"
    using b t total by (auto intro!: i64_id)
  have r: "\<bar>?b\<bar> < 2 ^ 53" "\<bar>?b + (?t - ?m)\<bar> < 2 ^ 53" using b t total by auto
  note ratio = f64_ratio [OF r(1) total t, of 7 10] f64_ratio [OF r(2) total t, of 7 10]
  let ?s = "if 7 * ?t \<le> 10 * ?b then \<lparr>Text = STATUS_TEXT_SUCCESS, FinalClaim = best\<rparr>
    else if 10 * (?b + (?t - ?m)) < 7 * ?t then (p_Status p)\<lparr>Text := STATUS_TEXT_FAILED\<rparr>
    else p_Status p"
  have "processCompletion L ord DefaultConsensusNeeded c p = Inr (p\<lparr>p_Status := ?s\<rparr>)"
    by (simp add: processCompletion_def wl f Let_def DefaultConsensusNeeded_def i1 i2 ratio)
  then show thesis
    by (rule that [OF _ max]) (auto simp: verdict_def pend)
qed

lemma AddClaim_nonempty: "p_ClaimValidators (AddClaim L p a cl) \<noteq> []"
proof -
  have "kv_set k v st \<noteq> []" for k v and st :: "'v kv" by (cases st) auto
  then show ?thesis by (simp add: AddClaim_def)
qed

lemma AddClaim_status [simp]: "p_Status (AddClaim L p a cl) = p_Status p"
  by (simp add: AddClaim_def)

lemma power_status [simp]:
  "support L c (p\<lparr>p_Status := s\<rparr>) = support L c p" "claimed_power L c (p\<lparr>p_Status := s\<rparr>) = claimed_power L c p"
  by (simp_all add: fun_eq_iff support_def claimers_def claimed_power_def)

text \<open>C17. The outcome of a claim, computed with 64-bit sums and floating-point ratios, is the
  outcome on exact integers: the prophecy succeeds iff the claim with the most support has at
  least 7/10 of the power of the bonded whitelisted validators, it fails iff no claim can reach
  that any more, and the claim that is declared final is one with the most support.\<close>

theorem oracle_consensus_exact:
  assumes "lib_laws L" and ok: "oracle_ok L c" and utf8: "valid_utf8 (claim_Content cl)"
    and ord: "\<And>m. mset (ord m) = mset m"
    and vs: "staking_ok (GetBondedValidatorsByPower L (ext c))"
    and wl: "GetOracleWhiteList L c = Inr wl" and total: "0 < whitelisted_power L c wl"
    and run: "oracle_ProcessClaim L ord DefaultConsensusNeeded c cl = Inr (st, c')"
  shows "\<exists>p best. GetProphecy L c' (claim_Id cl) = Some p \<and> p_Status p = st \<and>
    (\<forall>cl. support L c p cl \<le> support L c p best) \<and>
    Text st = verdict (whitelisted_power L c wl) (support L c p best) (claimed_power L c p) \<and>
    (Text st = STATUS_TEXT_SUCCESS \<longrightarrow> FinalClaim st = best)"
proof -
  obtain a p' where pend: "Text (p_Status (current_prophecy L c (claim_Id cl))) = STATUS_TEXT_PENDING"
    and p: "prophecy_ok L (AddClaim L (current_prophecy L c (claim_Id cl)) a (claim_Content cl))"
    and comp: "processCompletion L ord DefaultConsensusNeeded c
           (AddClaim L (current_prophecy L c (claim_Id cl)) a (claim_Content cl)) = Inr p'"
    and st: "st = p_Status p'" and get: "GetProphecy L c' = (GetProphecy L c)(claim_Id cl \<mapsto> p')"
    using lib_laws.ProcessClaim_effect [OF assms(1) ok utf8 run] by metis
  define q where "q = AddClaim L (current_prophecy L c (claim_Id cl)) a (claim_Content cl)"
  have q: "p_ClaimValidators q \<noteq> []" "Text (p_Status q) = STATUS_TEXT_PENDING"
    using pend by (simp_all add: q_def AddClaim_nonempty)
  obtain best s where "p' = q\<lparr>p_Status := s\<rparr>" and "\<And>cl. support L c q cl \<le> support L c q best"
    and "Text s = verdict (whitelisted_power L c wl) (support L c q best) (claimed_power L c q)"
    and "FinalClaim s = (if Text s = STATUS_TEXT_SUCCESS then best else FinalClaim (p_Status q))"
    using processCompletion_verdict [where ord = ord, OF vs p [folded q_def] ord q wl total] comp [folded q_def]
    by (metis sum.inject(2))
  then show ?thesis
    by (intro exI [of _ p'] exI [of _ best]) (simp add: get st)
qed

subsection \<open>The order of map iteration\<close>

text \<open>The operator address of a bonded validator is the bech32 form of its operator.\<close>

definition operators_ok :: "'x lib \<Rightarrow> validator list \<Rightarrow> bool" where
  "operators_ok L vs \<longleftrightarrow> list_all (\<lambda>v. ValAddressFromBech32 L (val_operator_address v) = Inr (val_operator v)) vs"

lemma bindE_cong: "m = m' \<Longrightarrow> (\<And>x. m' = Inr x \<Longrightarrow> f x = g x) \<Longrightarrow> bindE m f = bindE m' g"
  by (cases m') simp_all

lemma two_le_sum_list:
  "(\<And>x. x \<in> set xs \<Longrightarrow> 0 \<le> f x) \<Longrightarrow> x \<in> set xs \<Longrightarrow> y \<in> set xs \<Longrightarrow> x \<noteq> y \<Longrightarrow>
     f x + f y \<le> (\<Sum>x\<leftarrow>xs. f x :: int)"
proof (induction xs)
  case (Cons z zs)
  have el: "f u \<le> (\<Sum>x\<leftarrow>zs. f x)" if "u \<in> set zs" for u
    using elem_le_sum_list [of zs f u] Cons.prems(1) that by auto
  have "0 \<le> f z" using Cons.prems(1) by simp
  then show ?case
    using Cons el by (cases "x = z"; cases "y = z") (auto simp: add.commute intro: add_increasing)
qed simp

lemma claimed_le_whitelisted:
  assumes vs: "staking_ok (GetBondedValidatorsByPower L (ext c))"
    and ops: "operators_ok L (GetBondedValidatorsByPower L (ext c))" and p: "prophecy_ok L p"
    and still: "\<And>cl a. a \<in> set (claimers p cl) \<Longrightarrow> a \<in> set wl"
  shows "claimed_power L c p \<le> whitelisted_power L c wl"
  unfolding claimed_power_concat whitelisted_power_def
proof (rule sum_power_of [OF vs claimed_strings [OF p]])
  fix s v
  assume "s \<in> set (map (ValAddress_String L) (concat (map snd (p_ClaimValidators p))))"
    and v: "validator_by_address (GetBondedValidatorsByPower L (ext c)) s = Some v"
  then obtain cl as a where e: "(cl, as) \<in> set (p_ClaimValidators p)" "a \<in> set as" and s: "s = ValAddress_String L a"
    by auto
  have "kv_ok (p_ClaimValidators p)" using p by (simp add: prophecy_ok_def)
  then have a: "a \<in> set (claimers p cl)"
    using e by (simp add: kvs.entries_get claimers_def)
  have "v \<in> set (GetBondedValidatorsByPower L (ext c)) \<and> val_operator_address v = s"
    using v by (auto simp: validator_by_address_def find_Some_iff) (metis nth_mem set_rev length_rev)
  then have "ValAddressFromBech32 L (ValAddress_String L a) = Inr (val_operator v)"
    using ops s by (auto simp: operators_ok_def list_all_iff)
  then have "val_operator v = a"
    using claimers_ok [OF p a] by (simp add: val_ok_def)
  then show "val_operator v \<in> set wl" using still [OF a] by simp
qed

lemma supports_disjoint:
  assumes vs: "staking_ok (GetBondedValidatorsByPower L (ext c))" and p: "prophecy_ok L p"
    and "0 < support L c p cl" and "0 < support L c p cl'" and "cl \<noteq> cl'"
  shows "support L c p cl + support L c p cl' \<le> claimed_power L c p"
proof -
  let ?f = "\<lambda>e. support_by L (GetBondedValidatorsByPower L (ext c)) (snd e)"
  have kv: "kv_ok (p_ClaimValidators p)" using p by (simp add: prophecy_ok_def)
  have "(d, claimers p d) \<in> set (p_ClaimValidators p)" if "0 < support L c p d" for d
    using that by (auto simp: support_def claimers_def support_by_def kvs.entries_get [OF kv] split: option.splits)
  then show ?thesis
    using two_le_sum_list [of "p_ClaimValidators p" ?f "(cl, claimers p cl)" "(cl', claimers p cl')"] assms
    by (simp add: claimed_power_def support_def support_by_nonneg)
qed

lemma processCompletion_order:
  assumes vs: "staking_ok (GetBondedValidatorsByPower L (ext c))" and p: "prophecy_ok L p"
    and ord: "\<And>m. mset (ord m) = mset m" "\<And>m. mset (ord' m) = mset m"
    and ne: "p_ClaimValidators p \<noteq> []" and pend: "Text (p_Status p) = STATUS_TEXT_PENDING"
    and wl: "GetOracleWhiteList L c = Inr wl" and total: "0 < whitelisted_power L c wl"
    and le: "claimed_power L c p \<le> whitelisted_power L c wl"
  shows "processCompletion L ord DefaultConsensusNeeded c p = processCompletion L ord' DefaultConsensusNeeded c p"
proof -
  obtain b s where 1: "processCompletion L ord DefaultConsensusNeeded c p = Inr (p\<lparr>p_Status := s\<rparr>)"
      "\<And>cl. support L c p cl \<le> support L c p b"
      "Text s = verdict (whitelisted_power L c wl) (support L c p b) (claimed_power L c p)"
      "FinalClaim s = (if Text s = STATUS_TEXT_SUCCESS then b else FinalClaim (p_Status p))"
    using processCompletion_verdict [where ord = ord, OF vs p ord(1) ne pend wl total] by metis
  obtain b' s' where 2: "processCompletion L ord' DefaultConsensusNeeded c p = Inr (p\<lparr>p_Status := s'\<rparr>)"
      "\<And>cl. support L c p cl \<le> support L c p b'"
      "Text s' = verdict (whitelisted_power L c wl) (support L c p b') (claimed_power L c p)"
      "FinalClaim s' = (if Text s' = STATUS_TEXT_SUCCESS then b' else FinalClaim (p_Status p))"
    using processCompletion_verdict [where ord = ord', OF vs p ord(2) ne pend wl total] by metis
  have same: "support L c p b = support L c p b'" using 1(2) 2(2) by (simp add: eq_iff)
  have "b = b'" if "Text s = STATUS_TEXT_SUCCESS"
  proof (rule ccontr)
    assume "b \<noteq> b'"
    moreover have "7 * whitelisted_power L c wl \<le> 10 * support L c p b"
      using that 1(3) by (auto simp: verdict_def split: if_splits)
    ultimately show False
      using supports_disjoint [OF vs p, of b b'] same le total by linarith
  qed
  then have "s = s'" using 1(3,4) 2(3,4) same by (intro status.equality) auto
  then show ?thesis using 1(1) 2(1) by simp
qed

lemma claimers_AddClaim:
  "claimers (AddClaim L p a cl) d = (if d = cl then claimers p cl @ [a] else claimers p d)"
  by (simp add: AddClaim_def claimers_def kv_get_set)

text \<open>C20. While every validator that has claimed on a prophecy is still on the whitelist, the
  outcome of a claim does not depend on the order in which Go iterates over the map of claims,
  so all nodes reach the same state.\<close>

theorem oracle_order_irrelevant:
  assumes laws: "lib_laws L" and ok: "oracle_ok L c" and utf8: "valid_utf8 (claim_Content cl)"
    and ord: "\<And>m. mset (ord m) = mset m" "\<And>m. mset (ord' m) = mset m"
    and vs: "staking_ok (GetBondedValidatorsByPower L (ext c))"
    and ops: "operators_ok L (GetBondedValidatorsByPower L (ext c))"
    and wl: "GetOracleWhiteList L c = Inr wl" and total: "0 < whitelisted_power L c wl"
    and still: "\<And>d a. a \<in> set (claimers (current_prophecy L c (claim_Id cl)) d) \<Longrightarrow> a \<in> set wl"
  shows "oracle_ProcessClaim L ord DefaultConsensusNeeded c cl = oracle_ProcessClaim L ord' DefaultConsensusNeeded c cl"
  unfolding oracle_ProcessClaim_def Let_def current_prophecy_def [symmetric]
proof (intro bindE_cong refl)
  fix u a
  assume ens: "EnsureAddressIsInWhitelist L c (claim_ValidatorAddress cl) = Inr u"
    and a: "ValAddressFromBech32 L (claim_ValidatorAddress cl) = Inr a"
  fix u1 u2 u3 :: unit and u4 u5 :: unit
  let ?q = "AddClaim L (current_prophecy L c (claim_Id cl)) a (claim_Content cl)"
  assume "guardE (claim_Content cl \<noteq> []) (Oracle ErrInvalidClaim) = Inr u3"
    and "guardE (Text (p_Status (current_prophecy L c (claim_Id cl))) = STATUS_TEXT_PENDING) (Oracle ErrProphecyFinalized) = Inr u4"
    and "guardE (claim_of (current_prophecy L c (claim_Id cl)) (claim_ValidatorAddress cl) = []) (Oracle ErrDuplicateMessage) = Inr u5"
  then have content: "claim_Content cl \<noteq> []" and pend: "Text (p_Status ?q) = STATUS_TEXT_PENDING"
    and new: "claim_of (current_prophecy L c (claim_Id cl)) (claim_ValidatorAddress cl) = []"
    by (simp_all add: res_simps)
  have q: "prophecy_ok L ?q"
    by (rule lib_laws.AddClaim_ready [OF laws ok ens a utf8 content new])
  have "a \<in> set wl"
    using lib_laws.whitelisted_sender [OF laws ens a] wl by (metis sum.inject(2))
  then have "b \<in> set wl" if "b \<in> set (claimers ?q d)" for d b
    using that still by (auto simp: claimers_AddClaim split: if_splits)
  then have "claimed_power L c ?q \<le> whitelisted_power L c wl"
    by (rule claimed_le_whitelisted [OF vs ops q])
  then show "processCompletion L ord DefaultConsensusNeeded c ?q = processCompletion L ord' DefaultConsensusNeeded c ?q"
    by (rule processCompletion_order [OF vs q ord AddClaim_nonempty pend wl total])
qed

subsection \<open>The oracle on the reference instance\<close>

text \<open>Four bonded validators on the whitelist, and an admin.\<close>

definition ref_val :: "string \<Rightarrow> int \<Rightarrow> validator" where
  "ref_val a n = \<lparr>val_operator = a, val_operator_address = ref_bech ''sifvaloper1'' a, val_power = n, val_bonded = True\<rparr>"

definition ref_vals :: "validator list" where
  "ref_vals = [ref_val ''D'' 80, ref_val ''A'' 10, ref_val ''B'' 10, ref_val ''C'' 1]"

definition ref_oracle_ctx :: "ref_state ctx" where
  "ref_oracle_ctx = oracle_SetAdminAccount (SetOracleWhiteList ref_lib
     (ref_ctx\<lparr>ext := \<lparr>ref_bank = [], ref_validators = ref_vals\<rparr>\<rparr>) [''A'', ''B'', ''C'', ''D'']) ''admin''"

definition ref_claim :: "string \<Rightarrow> string \<Rightarrow> claim" where
  "ref_claim v s = \<lparr>claim_Id = ''7'', claim_ValidatorAddress = ref_bech ''sifvaloper1'' v, claim_Content = s\<rparr>"

lemmas oracle_eval = oracle_ProcessClaim_def EnsureAddressIsInWhitelist_def GetOracleWhiteList_def
  checkActiveValidator_def GetProphecy_def NewProphecy_def NewStatus_def claim_of_def claimers_def AddClaim_def
  processCompletion_def FindHighestClaim_def total_power_def claim_power_def highest_step_simp
  validator_by_address_def SetProphecy_def SerializeForDB_def DeserializeFromDB_def SetDBProphecy_def
  DefaultConsensusNeeded_def f64_ratio prophecy_key_def ProphecyPrefix_def oracle_WhiteListValidatorPrefix_def
  oracle_AdminAccountPrefix_def SetOracleWhiteList_def oracle_SetAdminAccount_def ref_val_def ref_vals_def i64_def
  ref_oracle_ctx_def ref_claim_def ref_validators ref_claims ProcessUpdateWhiteListValidator_def
  oracle_IsAdminAccount_def oracle_GetAdminAccount_def RemoveOracleWhiteList_def

lemma ref_oracle_ok: "oracle_ok ref_lib ref_oracle_ctx"
proof -
  have "GetProphecy ref_lib ref_oracle_ctx i = None" for i
    by (simp add: GetProphecy_def ref_oracle_ctx_def oracle_SetAdminAccount_def SetOracleWhiteList_def
        ref_ctx_def kv_get_set) (simp add: kv_get_def)
  moreover have "kv_ok (oracle_store ref_oracle_ctx)"
    by (simp add: ref_oracle_ctx_def oracle_SetAdminAccount_def SetOracleWhiteList_def ref_ctx_def kv_ok_set
        del: kv_set.simps)
  ultimately show ?thesis by (simp add: oracle_ok_def)
qed

lemma ref_ascii [simp]: "valid_utf8 ''x''" "valid_utf8 ''y''" "valid_utf8 ''z''"
  by (rule ascii_valid_utf8, simp)+

lemma ref_claim_decides:
  "\<exists>c'. oracle_ProcessClaim ref_lib (\<lambda>m. m) DefaultConsensusNeeded ref_oracle_ctx (ref_claim ''D'' ''x'')
     = Inr (\<lparr>Text = STATUS_TEXT_SUCCESS, FinalClaim = ''x''\<rparr>, c')"
  by (simp add: oracle_eval ref_eval Let_def list_ex_iff cong: bindE_cong_weak)

theorem oracle_decides_once_witness:
  "distinct (closed_in (oracle_step ref_lib DefaultConsensusNeeded) ref_oracle_ctx
     [Op_Claim (\<lambda>m. m) (ref_claim ''D'' ''x''), Op_Claim rev (ref_claim ''A'' ''x'')])"
  by (rule oracle_decides_once [OF ref.lib_laws_axioms ref_oracle_ok]) (simp add: ref_claim_def)

theorem oracle_decision_final_witness:
  "\<exists>c p. GetProphecy ref_lib c ''7'' = Some p \<and> Text (p_Status p) = STATUS_TEXT_SUCCESS \<and>
     GetProphecy ref_lib (foldl (oracle_deliver ref_lib DefaultConsensusNeeded) c
       [Op_Claim rev (ref_claim ''A'' ''y'')]) ''7'' = Some p"
proof -
  obtain c where run: "oracle_ProcessClaim ref_lib (\<lambda>m. m) DefaultConsensusNeeded ref_oracle_ctx (ref_claim ''D'' ''x'')
     = Inr (\<lparr>Text = STATUS_TEXT_SUCCESS, FinalClaim = ''x''\<rparr>, c)"
    using ref_claim_decides by blast
  have utf8: "valid_utf8 (claim_Content (ref_claim ''D'' ''x''))" by (simp add: ref_claim_def)
  obtain p where "\<lparr>Text = STATUS_TEXT_SUCCESS, FinalClaim = ''x''\<rparr> = p_Status p"
    and "GetProphecy ref_lib c = (GetProphecy ref_lib ref_oracle_ctx)(claim_Id (ref_claim ''D'' ''x'') \<mapsto> p)"
    and ok: "oracle_ok ref_lib c"
    using ref.ProcessClaim_effect [OF ref_oracle_ok utf8 run] by metis
  then have p: "GetProphecy ref_lib c ''7'' = Some p" "Text (p_Status p) = STATUS_TEXT_SUCCESS"
    by (simp_all add: ref_claim_def flip: \<open>_ = p_Status p\<close>)
  then show ?thesis
    using oracle_decision_final [OF ref.lib_laws_axioms ok, of "[Op_Claim rev (ref_claim ''A'' ''y'')]" "''7''" p]
    by (intro exI [of _ c] exI [of _ p]) (simp add: ref_claim_def)
qed

theorem oracle_counts_once_witness:
  "\<exists>p. GetProphecy ref_lib (foldl (oracle_deliver ref_lib DefaultConsensusNeeded) ref_oracle_ctx
       [Op_Claim rev (ref_claim ''A'' ''x'')]) ''7'' = Some p \<and> claimers p ''x'' = [''A''] \<and>
     distinct (concat (map snd (p_ClaimValidators p)))"
proof -
  have "\<exists>p. GetProphecy ref_lib (foldl (oracle_deliver ref_lib DefaultConsensusNeeded) ref_oracle_ctx
       [Op_Claim rev (ref_claim ''A'' ''x'')]) ''7'' = Some p \<and> claimers p ''x'' = [''A'']"
    by (simp add: oracle_deliver_def deliver_def oracle_step_def oracle_eval ref_eval Let_def list_ex_iff
        cong: bindE_cong_weak)
  then show ?thesis
    using oracle_counts_once [OF ref.lib_laws_axioms ref_oracle_ok, of "[Op_Claim rev (ref_claim ''A'' ''x'')]"]
    by (fastforce simp: ref_claim_def)
qed

lemma ref_staking: "staking_ok (GetBondedValidatorsByPower ref_lib (ext ref_oracle_ctx))"
  by (simp add: oracle_eval ref_eval staking_ok_def)

lemma ref_whitelist: "GetOracleWhiteList ref_lib ref_oracle_ctx = Inr [''A'', ''B'', ''C'', ''D'']"
  by (simp add: oracle_eval ref_eval cong: bindE_cong_weak)

lemma ref_whitelisted_power: "whitelisted_power ref_lib ref_oracle_ctx [''A'', ''B'', ''C'', ''D''] = 101"
  by (simp add: whitelisted_power_def oracle_eval ref_eval)

theorem oracle_consensus_exact_witness:
  "\<exists>c' p best. oracle_ProcessClaim ref_lib (\<lambda>m. m) DefaultConsensusNeeded ref_oracle_ctx (ref_claim ''D'' ''x'')
     = Inr (\<lparr>Text = STATUS_TEXT_SUCCESS, FinalClaim = ''x''\<rparr>, c') \<and>
     GetProphecy ref_lib c' ''7'' = Some p \<and> best = ''x'' \<and>
     verdict 101 (support ref_lib ref_oracle_ctx p best) (claimed_power ref_lib ref_oracle_ctx p) = STATUS_TEXT_SUCCESS"
proof -
  obtain c where run: "oracle_ProcessClaim ref_lib (\<lambda>m. m) DefaultConsensusNeeded ref_oracle_ctx (ref_claim ''D'' ''x'')
     = Inr (\<lparr>Text = STATUS_TEXT_SUCCESS, FinalClaim = ''x''\<rparr>, c)"
    using ref_claim_decides by blast
  have utf8: "valid_utf8 (claim_Content (ref_claim ''D'' ''x''))" by (simp add: ref_claim_def)
  have total: "0 < whitelisted_power ref_lib ref_oracle_ctx [''A'', ''B'', ''C'', ''D'']"
    by (simp add: ref_whitelisted_power)
  show ?thesis
    using oracle_consensus_exact [OF ref.lib_laws_axioms ref_oracle_ok utf8 refl ref_staking ref_whitelist total run] run
    by (fastforce simp: ref_whitelisted_power ref_claim_def)
qed

theorem oracle_order_irrelevant_witness:
  "oracle_ProcessClaim ref_lib (\<lambda>m. m) DefaultConsensusNeeded ref_oracle_ctx (ref_claim ''D'' ''x'')
     = oracle_ProcessClaim ref_lib rev DefaultConsensusNeeded ref_oracle_ctx (ref_claim ''D'' ''x'')"
proof (rule oracle_order_irrelevant [OF ref.lib_laws_axioms ref_oracle_ok _ refl _ ref_staking _ ref_whitelist])
  show "valid_utf8 (claim_Content (ref_claim ''D'' ''x''))" by (simp add: ref_claim_def)
  show "mset (rev m) = mset m" for m :: "(string \<times> addr list) list" by simp
  show "operators_ok ref_lib (GetBondedValidatorsByPower ref_lib (ext ref_oracle_ctx))"
    by (simp add: oracle_eval ref_eval operators_ok_def)
  show "0 < whitelisted_power ref_lib ref_oracle_ctx [''A'', ''B'', ''C'', ''D'']"
    by (simp add: ref_whitelisted_power)
  show "a \<in> set [''A'', ''B'', ''C'', ''D'']"
    if "a \<in> set (claimers (current_prophecy ref_lib ref_oracle_ctx (claim_Id (ref_claim ''D'' ''x''))) d)" for d a
    using that by (simp add: current_prophecy_def oracle_eval ref_eval)
qed

text \<open>Without that condition the outcome does depend on the order of the map. Two validators of
  equal power make different claims and are then taken off the whitelist together with the
  largest one. Their power still counts for their claims but no longer for the total, so the
  next claim, by the one small validator that remains, decides the prophecy: in favour of
  whichever of the two claims the iteration meets first. Nodes may disagree.\<close>

theorem oracle_map_order_matters:
  "let c = foldl (oracle_deliver ref_lib DefaultConsensusNeeded) ref_oracle_ctx
       [Op_Claim (\<lambda>m. m) (ref_claim ''A'' ''x''), Op_Claim (\<lambda>m. m) (ref_claim ''B'' ''y''),
        Op_Update ''admin'' ''A'' ''remove'', Op_Update ''admin'' ''B'' ''remove'', Op_Update ''admin'' ''D'' ''remove'']
   in \<exists>c1 c2.
     oracle_ProcessClaim ref_lib (\<lambda>m. m) DefaultConsensusNeeded c (ref_claim ''C'' ''z'')
       = Inr (\<lparr>Text = STATUS_TEXT_SUCCESS, FinalClaim = ''x''\<rparr>, c1) \<and>
     oracle_ProcessClaim ref_lib rev DefaultConsensusNeeded c (ref_claim ''C'' ''z'')
       = Inr (\<lparr>Text = STATUS_TEXT_SUCCESS, FinalClaim = ''y''\<rparr>, c2)"
  by (simp add: oracle_deliver_def deliver_def oracle_step_def oracle_eval ref_eval Let_def list_ex_iff
      cong: bindE_cong_weak)

end
