(* ===== verification/Balances.thy ===== *)
theory Balances
  imports State
begin

section \<open>Balances\<close>

text \<open>
  The balances that a context holds, and what each call of the bank does to them: the bank's laws
  carried over from the SDK's state to the context of a transaction.
\<close>

definition bal :: "'x lib \<Rightarrow> 'x ctx \<Rightarrow> addr \<Rightarrow> string \<Rightarrow> int" where
  "bal L c a d = GetBalance L (ext c) a d"

definition amount_if :: "bool \<Rightarrow> int \<Rightarrow> int" where
  "amount_if b n = (if b then n else 0)"

context lib_laws
begin

lemma bal_send: "bank (\<lambda>x. SendCoins L x f t cs) c = Inr c' \<Longrightarrow> bal L c' a d = bal L c a d + moved cs f t a d"
  by (auto simp: res_simps bal_def send)

lemma bal_from_module:
  "bank (\<lambda>x. SendCoinsFromModuleToAccount L x m t cs) c = Inr c' \<Longrightarrow>
     bal L c' a d = bal L c a d + moved cs (NewModuleAddress L m) t a d"
  by (auto simp: res_simps bal_def send_from_module)

lemma bal_to_module:
  "bank (\<lambda>x. SendCoinsFromAccountToModule L x f m cs) c = Inr c' \<Longrightarrow>
     bal L c' a d = bal L c a d + moved cs f (NewModuleAddress L m) a d"
  by (auto simp: res_simps bal_def send_to_module)

lemma bal_mint:
  "bank (\<lambda>x. MintCoins L x m cs) c = Inr c' \<Longrightarrow>
     bal L c' a d = bal L c a d + amount_if (a = NewModuleAddress L m) (AmountOf cs d)"
  by (auto simp: res_simps bal_def mint amount_if_def)

lemma bal_burn:
  "bank (\<lambda>x. BurnCoins L x m cs) c = Inr c' \<Longrightarrow>
     bal L c' a d = bal L c a d - amount_if (a = NewModuleAddress L m) (AmountOf cs d)"
  by (auto simp: res_simps bal_def burn amount_if_def)

end

text \<open>A call of the bank changes nothing but the state of the SDK's modules.\<close>

lemma bank_frame: "bank f c = Inr c' \<Longrightarrow> c'\<lparr>ext := ext c\<rparr> = c"
  by (auto simp: res_simps)

lemma bal_emit [simp]: "bal L (EmitEvents es c) = bal L c"
  by (simp add: fun_eq_iff bal_def)

lemma bal_events [simp]: "bal L (c\<lparr>events := es\<rparr>) = bal L c"
  by (simp add: fun_eq_iff bal_def)

end
