(* ===== verification/EthBridgeProperties.thy ===== *)
theory EthBridgeProperties
  imports EthBridge OracleProperties Balances
begin

section \<open>What the bridge guarantees\<close>

text \<open>
  The exact effect of every message on balances, that only the oracle's admin may administrate,
  the meaning of the blacklist, and that a transfer from Ethereum is paid out at most once.
\<close>

subsection \<open>Amounts\<close>

context lib_laws
begin

lemma coin_list_amount:
  "coin_list L d n = Inr cs \<Longrightarrow> AmountOf cs e = amount_if (e = d) n \<and> 0 \<le> n"
  by (auto simp: coin_list_def res_simps amount_if_def dest: new_coins_amount [where d = e])

end

definition same_stores :: "'x ctx \<Rightarrow> 'x ctx \<Rightarrow> bool" where
  "same_stores c c' \<longleftrightarrow> oracle_store c' = oracle_store c \<and> bridge_store c' = bridge_store c"

lemma bank_same_stores: "bank f c = Inr c' \<Longrightarrow> same_stores c c'"
  by (auto simp: res_simps same_stores_def)

lemma same_stores_trans: "same_stores c d \<Longrightarrow> same_stores d e \<Longrightarrow> same_stores c e"
  by (simp add: same_stores_def)

subsection \<open>Outgoing transfers\<close>

text \<open>Where the fee in ceth goes: to the receiver's account if there is one, else to the module.\<close>

definition fee_account :: "'x lib \<Rightarrow> 'x ctx \<Rightarrow> addr" where
  "fee_account L c =
     (if IsCethReceiverAccountSet L c then GetCethReceiverAccount L c else NewModuleAddress L bridge_ModuleName)"

definition outgoing :: "'x lib \<Rightarrow> 'x ctx \<Rightarrow> addr \<Rightarrow> string \<Rightarrow> int \<Rightarrow> int \<Rightarrow> addr \<Rightarrow> string \<Rightarrow> int" where
  "outgoing L c sender symbol amount fee a d =
     amount_if (a = fee_account L c \<and> d = CethSymbol) fee
     - amount_if (a = sender \<and> d = CethSymbol) fee - amount_if (a = sender \<and> d = symbol) amount"

context lib_laws
begin

text \<open>The two ways in which a transfer is charged and burned.\<close>

lemma settle_direct:
  assumes rcv: "IsCethReceiverAccountSet L c" and "coin_list L CethSymbol fee = Inr cs1"
    and send: "bank (\<lambda>x. SendCoins L x sender (GetCethReceiverAccount L c) cs1) c = Inr c1"
    and "coin_list L symbol amount = Inr cs2"
    and dep: "bank (\<lambda>x. SendCoinsFromAccountToModule L x sender bridge_ModuleName cs2) c1 = Inr c2"
    and "coin_list L symbol amount = Inr cs3"
    and burn: "bank (\<lambda>x. BurnCoins L x bridge_ModuleName cs3) c2 = Inr c'"
  shows "same_stores c c' \<and> bal L c' a d = bal L c a d + outgoing L c sender symbol amount fee a d"
proof -
  have "bal L c' a d = bal L c a d + outgoing L c sender symbol amount fee a d"
    using bal_send [OF send, of a d] bal_to_module [OF dep, of a d] bal_burn [OF burn, of a d]
      coin_list_amount [OF assms(2), of d] coin_list_amount [OF assms(4), of d] coin_list_amount [OF assms(6), of d] rcv
    by (auto simp: outgoing_def fee_account_def moved_def amount_if_def)
  then show ?thesis
    using bank_same_stores [OF send] bank_same_stores [OF dep] bank_same_stores [OF burn]
    by (simp add: same_stores_def)
qed

lemma settle_module:
  assumes rcv: "\<not> IsCethReceiverAccountSet L c"
    and amt: "\<And>d. AmountOf cs1 d = amount_if (d = symbol) amount + amount_if (d = CethSymbol) fee"
    and dep: "bank (\<lambda>x. SendCoinsFromAccountToModule L x sender bridge_ModuleName cs1) c = Inr c2"
    and "coin_list L symbol amount = Inr cs2"
    and burn: "bank (\<lambda>x. BurnCoins L x bridge_ModuleName cs2) c2 = Inr c'"
  shows "same_stores c c' \<and> bal L c' a d = bal L c a d + outgoing L c sender symbol amount fee a d"
proof -
  have "bal L c' a d = bal L c a d + outgoing L c sender symbol amount fee a d"
    using bal_to_module [OF dep, of a d] bal_burn [OF burn, of a d] coin_list_amount [OF assms(4), of d] rcv amt [of d]
    by (auto simp: outgoing_def fee_account_def moved_def amount_if_def)
  then show ?thesis
    using bank_same_stores [OF dep] bank_same_stores [OF burn] by (simp add: same_stores_def)
qed

lemma two_coins_amount:
  assumes "NewCoin L s n = Inr k1" and "NewCoin L t m = Inr k2" and "NewCoins L [k1, k2] = Inr cs"
  shows "AmountOf cs d = amount_if (d = s) n + amount_if (d = t) m"
  using assms(1,2) new_coins_amount [OF assms(3), of d] by (auto simp: res_simps amount_if_def)

lemma ProcessLock_exact:
  assumes "ProcessLock L c sender msg = Inr c'"
  shows "\<not> IsBlacklisted c (ml_EthereumReceiver msg) \<and> same_stores c c' \<and>
    bal L c' a d = bal L c a d + outgoing L c sender (ml_Symbol msg) (ml_Amount msg) (ml_CethAmount msg) a d"
proof (cases "IsCethReceiverAccountSet L c")
  case True
  show ?thesis
    using assms True unfolding ProcessLock_def
    by (simp only: bindE_eq_Inr guardE_eq_Inr case_prod_eq_Inr if_True if_False sum.inject prod.inject)
      (clarify, rule settle_direct; assumption)
next
  case False
  show ?thesis
    using assms False unfolding ProcessLock_def
    by (simp only: bindE_eq_Inr guardE_eq_Inr case_prod_eq_Inr if_True if_False sum.inject prod.inject)
      (clarify, rule settle_module, assumption, rule two_coins_amount; assumption)
qed

lemma ProcessBurn_exact:
  assumes "ProcessBurn L c sender msg = Inr c'"
  shows "\<not> IsBlacklisted c (mb_EthereumReceiver msg) \<and> same_stores c c' \<and>
    bal L c' a d = bal L c a d + outgoing L c sender (mb_Symbol msg) (mb_Amount msg) (mb_CethAmount msg) a d"
proof (cases "IsCethReceiverAccountSet L c")
  case True
  show ?thesis
    using assms True unfolding ProcessBurn_def
    by (simp only: bindE_eq_Inr guardE_eq_Inr case_prod_eq_Inr if_True if_False sum.inject prod.inject)
      (clarify, rule settle_direct; assumption)
next
  case False
  have one: "AmountOf cs d = amount_if (d = CethSymbol) (mb_Amount msg) + amount_if (d = CethSymbol) (mb_CethAmount msg)"
    if "Int_Add L (mb_CethAmount msg) (mb_Amount msg) = Inr n" and "coin_list L CethSymbol n = Inr cs" for n cs d
    using that coin_list_amount [OF that(2), of d] by (auto simp: int_add amount_if_def split: if_splits)
  show ?thesis
  proof (cases "mb_Symbol msg = CethSymbol")
    case True
    show ?thesis
      using assms False unfolding ProcessBurn_def True
      by (simp only: bindE_eq_Inr guardE_eq_Inr case_prod_eq_Inr if_True if_False simp_thms(6) sum.inject prod.inject)
        (clarify, rule settle_module, assumption, rule one; assumption)
  next
    case False
    then show ?thesis
      using assms \<open>\<not> IsCethReceiverAccountSet L c\<close> unfolding ProcessBurn_def
      by (simp only: bindE_eq_Inr guardE_eq_Inr case_prod_eq_Inr if_True if_False sum.inject prod.inject)
        (clarify, rule settle_module, assumption, rule two_coins_amount; assumption)
  qed
qed

end

text \<open>C21. A lock that succeeds is of a token that is not pegged, for a receiver that is not
  blacklisted. It takes exactly the amount from the sender and out of existence, and moves exactly
  the fee in ceth from the sender to the fee account; no other balance changes, and neither the
  oracle nor the bridge's own records do.\<close>

theorem bridge_lock_exact:
  assumes "lib_laws L" and "msg_Lock L c msg = Inr c'"
  shows "\<exists>sender. AccAddressFromBech32 L (ml_CosmosSender msg) = Inr sender \<and>
    \<not> ExistsPeggyToken c (ml_Symbol msg) \<and> \<not> IsBlacklisted c (ml_EthereumReceiver msg) \<and> same_stores c c' \<and>
    (\<forall>a d. bal L c' a d = bal L c a d +
       outgoing L c sender (ml_Symbol msg) (ml_Amount msg) (ml_CethAmount msg) a d)"
proof -
  obtain sender c1 es where "AccAddressFromBech32 L (ml_CosmosSender msg) = Inr sender"
    and "\<not> ExistsPeggyToken c (ml_Symbol msg)" and "ProcessLock L c sender msg = Inr c1" and "c' = EmitEvents es c1"
    using assms(2) unfolding msg_Lock_def by (auto simp: res_simps)
  then show ?thesis
    using lib_laws.ProcessLock_exact [OF assms(1), of c sender msg c1] by (auto simp: same_stores_def)
qed

text \<open>C22. A burn that succeeds is of a pegged token, for a receiver that is not blacklisted, and has
  the same effect on balances, also when the burned token is the fee token itself.\<close>

theorem bridge_burn_exact:
  assumes "lib_laws L" and "msg_Burn L c msg = Inr c'"
  shows "\<exists>sender. AccAddressFromBech32 L (mb_CosmosSender msg) = Inr sender \<and>
    ExistsPeggyToken c (mb_Symbol msg) \<and> \<not> IsBlacklisted c (mb_EthereumReceiver msg) \<and> same_stores c c' \<and>
    (\<forall>a d. bal L c' a d = bal L c a d +
       outgoing L c sender (mb_Symbol msg) (mb_Amount msg) (mb_CethAmount msg) a d)"
proof -
  obtain sender c1 es where "AccAddressFromBech32 L (mb_CosmosSender msg) = Inr sender"
    and "ExistsPeggyToken c (mb_Symbol msg)" and "ProcessBurn L c sender msg = Inr c1" and "c' = EmitEvents es c1"
    using assms(2) unfolding msg_Burn_def by (auto simp: res_simps)
  then show ?thesis
    using lib_laws.ProcessBurn_exact [OF assms(1), of c sender msg c1] by (auto simp: same_stores_def)
qed

subsection \<open>Incoming transfers\<close>

text \<open>What a decided claim pays: the receiver, the denomination and the amount.\<close>

definition paid_denom :: "oracle_claim_content \<Rightarrow> string" where
  "paid_denom k = (if occ_ClaimType k = CLAIM_TYPE_LOCK then PeggedCoinPrefix @ occ_Symbol k else occ_Symbol k)"

context lib_laws
begin

lemma mint_and_send:
  assumes "coin_list L s n = Inr cs" and mint: "bank (\<lambda>x. MintCoins L x m cs) c = Inr c1"
    and send: "bank (\<lambda>x. SendCoinsFromModuleToAccount L x m r cs) c1 = Inr c'"
  shows "bal L c' a d = bal L c a d + amount_if (a = r \<and> d = s) n \<and> same_stores c c'"
  using bal_mint [OF mint, of a d] bal_from_module [OF send, of a d] coin_list_amount [OF assms(1), of d]
    bank_same_stores [OF mint] bank_same_stores [OF send]
  by (auto simp: moved_def amount_if_def same_stores_def)

lemma ProcessSuccessfulClaim_exact:
  assumes "ProcessSuccessfulClaim L c s = Inr c'"
  obtains k where "UnmarshalClaimContent L s = Inr k"
    and "occ_ClaimType k = CLAIM_TYPE_LOCK \<or> occ_ClaimType k = CLAIM_TYPE_BURN"
    and "\<And>a d. bal L c' a d = bal L c a d + amount_if (a = occ_CosmosReceiver k \<and> d = paid_denom k) (occ_Amount k)"
    and "oracle_store c' = oracle_store c"
proof -
  obtain k cs c1 where k: "UnmarshalClaimContent L s = Inr k"
    and send: "bank (\<lambda>x. SendCoinsFromModuleToAccount L x bridge_ModuleName (occ_CosmosReceiver k) cs) c1 = Inr c'"
    and branch: "(case occ_ClaimType k of
              CLAIM_TYPE_LOCK \<Rightarrow>
                (let symbol = PeggedCoinPrefix @ occ_Symbol k; c = AddPeggyToken c symbol in
                 bindE (coin_list L symbol (occ_Amount k)) (\<lambda>coins.
                 bindE (bank (\<lambda>x. MintCoins L x bridge_ModuleName coins) c) (\<lambda>c. Inr (coins, c))))
            | CLAIM_TYPE_BURN \<Rightarrow>
                bindE (coin_list L (occ_Symbol k) (occ_Amount k)) (\<lambda>coins.
                bindE (bank (\<lambda>x. MintCoins L x bridge_ModuleName coins) c) (\<lambda>c. Inr (coins, c)))
            | CLAIM_TYPE_UNSPECIFIED \<Rightarrow> Inl (Bridge ErrInvalidClaimType)) = Inr (cs, c1)"
    using assms unfolding ProcessSuccessfulClaim_def CreateOracleClaimFromOracleString_def Let_def
    by (simp only: bindE_eq_Inr wrapE_eq_Inr case_prod_eq_Inr) blast
  have "\<exists>c0. ext c0 = ext c \<and> oracle_store c0 = oracle_store c \<and> coin_list L (paid_denom k) (occ_Amount k) = Inr cs \<and>
      bank (\<lambda>x. MintCoins L x bridge_ModuleName cs) c0 = Inr c1 \<and>
      (occ_ClaimType k = CLAIM_TYPE_LOCK \<or> occ_ClaimType k = CLAIM_TYPE_BURN)"
  proof (cases "occ_ClaimType k")
    case CLAIM_TYPE_LOCK
    then show ?thesis
      using branch
      by (intro exI [of _ "AddPeggyToken c (PeggedCoinPrefix @ occ_Symbol k)"])
        (auto simp: Let_def paid_denom_def AddPeggyToken_def bindE_eq_Inr)
  qed (use branch in \<open>auto simp: paid_denom_def bindE_eq_Inr\<close>)
  then obtain c0 where c0: "ext c0 = ext c" "oracle_store c0 = oracle_store c"
    and cs: "coin_list L (paid_denom k) (occ_Amount k) = Inr cs"
    and mint: "bank (\<lambda>x. MintCoins L x bridge_ModuleName cs) c0 = Inr c1"
    and ty: "occ_ClaimType k = CLAIM_TYPE_LOCK \<or> occ_ClaimType k = CLAIM_TYPE_BURN"
    by blast
  note ms = mint_and_send [OF cs mint send]
  show thesis
    using that [OF k ty] ms c0 by (simp add: bal_def same_stores_def)
qed

end

text \<open>The report of a claim: the status that the oracle answers.\<close>

definition claim_status ::
  "'x lib \<Rightarrow> map_order \<Rightarrow> f64 \<Rightarrow> 'x ctx \<Rightarrow> msg_create_eth_bridge_claim \<Rightarrow> status option" where
  "claim_status L ord needed c msg =
     (case mc_EthBridgeClaim msg of
        None \<Rightarrow> None
      | Some cl \<Rightarrow> (case bridge_ProcessClaim L ord needed c cl of Inl _ \<Rightarrow> None | Inr (st, _) \<Rightarrow> Some st))"

lemma CreateEthBridgeClaim_parts:
  assumes "msg_CreateEthBridgeClaim L ord needed c msg = Inr c'"
  obtains cl st c1 c2 where "mc_EthBridgeClaim msg = Some cl"
    and "bridge_ProcessClaim L ord needed c cl = Inr (st, c1)"
    and "(if Text st = STATUS_TEXT_SUCCESS then ProcessSuccessfulClaim L c1 (FinalClaim st) else Inr c1) = Inr c2"
    and "c' = EmitEvents (claim_events cl st) c2" and "claim_status L ord needed c msg = Some st"
  using assms unfolding msg_CreateEthBridgeClaim_def
  by (auto simp only: bindE_eq_Inr deref_eq_Inr case_prod_eq_Inr sum.inject claim_status_def
      option.case prod.case sum.case)

context lib_laws
begin

lemma CreateOracleClaim_ok:
  assumes "CreateOracleClaimFromEthClaim L cl = Inr oc"
  shows "claim_Id oc = oracle_id (ebc_EthereumChainId cl) (ebc_Nonce cl) (ebc_EthereumSender cl)"
    and "valid_utf8 (claim_Content oc)" and "claim_ValidatorAddress oc = ebc_ValidatorAddress cl"
  using assms json_content_text
  by (auto simp: CreateOracleClaimFromEthClaim_def Let_def res_simps NewClaim_def)

lemma bridge_ProcessClaim_frame:
  assumes "oracle_ok L c" and "bridge_ProcessClaim L ord needed c cl = Inr (st, c')"
  shows "oracle_ok L c' \<and> ext c' = ext c \<and> bridge_store c' = bridge_store c
    \<and> oracle_GetAdminAccount c' = oracle_GetAdminAccount c"
proof -
  obtain oc where oc: "CreateOracleClaimFromEthClaim L cl = Inr oc"
    and run: "oracle_ProcessClaim L ord needed c oc = Inr (st, c')"
    using assms(2) by (auto simp: bridge_ProcessClaim_def res_simps)
  obtain s where "oracle_ok L c'" and "c' = c\<lparr>oracle_store := s\<rparr>"
    and "oracle_GetAdminAccount c' = oracle_GetAdminAccount c"
    using ProcessClaim_effect [OF assms(1) CreateOracleClaim_ok(2) [OF oc] run] by metis
  then show ?thesis by simp
qed

end

text \<open>C23. A claim that does not decide its prophecy in favour of a claim changes no balance. One that
  does pays the amount of the final claim to its receiver in its denomination, prefixed for
  tokens that were locked on Ethereum and as it is for tokens that were burned there, and changes
  no other balance.\<close>

theorem bridge_claim_pays_exactly:
  assumes "lib_laws L" and "oracle_ok L c" and "msg_CreateEthBridgeClaim L ord needed c msg = Inr c'"
  shows "\<exists>st. claim_status L ord needed c msg = Some st \<and>
    (Text st \<noteq> STATUS_TEXT_SUCCESS \<longrightarrow> (\<forall>a d. bal L c' a d = bal L c a d)) \<and>
    (Text st = STATUS_TEXT_SUCCESS \<longrightarrow> (\<exists>k. UnmarshalClaimContent L (FinalClaim st) = Inr k \<and>
       (\<forall>a d. bal L c' a d = bal L c a d + amount_if (a = occ_CosmosReceiver k \<and> d = paid_denom k) (occ_Amount k))))"
proof -
  obtain cl st c1 c2 where cl: "bridge_ProcessClaim L ord needed c cl = Inr (st, c1)"
    and pay: "(if Text st = STATUS_TEXT_SUCCESS then ProcessSuccessfulClaim L c1 (FinalClaim st) else Inr c1) = Inr c2"
    and c': "c' = EmitEvents (claim_events cl st) c2" and st: "claim_status L ord needed c msg = Some st"
    using CreateEthBridgeClaim_parts [OF assms(3)] by metis
  have same: "bal L c1 = bal L c"
    using lib_laws.bridge_ProcessClaim_frame [OF assms(1,2) cl] by (simp add: fun_eq_iff bal_def)
  show ?thesis
  proof (cases "Text st = STATUS_TEXT_SUCCESS")
    case True
    then have "ProcessSuccessfulClaim L c1 (FinalClaim st) = Inr c2" using pay by simp
    then obtain k where "UnmarshalClaimContent L (FinalClaim st) = Inr k"
      and "\<And>a d. bal L c2 a d = bal L c1 a d + amount_if (a = occ_CosmosReceiver k \<and> d = paid_denom k) (occ_Amount k)"
      using lib_laws.ProcessSuccessfulClaim_exact [OF assms(1)] by metis
    then show ?thesis using st True same c' by auto
  next
    case False
    then show ?thesis using st pay same c' by auto
  qed
qed

subsection \<open>Histories of the bridge\<close>

definition bridge_report :: "'x lib \<Rightarrow> f64 \<Rightarrow> 'x ctx \<Rightarrow> bridge_msg \<Rightarrow> string option" where
  "bridge_report L needed c m =
     (case m of
        MsgCreateEthBridgeClaim ord msg \<Rightarrow>
          (case (mc_EthBridgeClaim msg, claim_status L ord needed (c\<lparr>events := []\<rparr>) msg) of
             (Some cl, Some st) \<Rightarrow>
               (if Text st = STATUS_TEXT_SUCCESS
                then Some (oracle_id (ebc_EthereumChainId cl) (ebc_Nonce cl) (ebc_EthereumSender cl)) else None)
           | _ \<Rightarrow> None)
      | _ \<Rightarrow> None)"

definition bridge_step :: "'x lib \<Rightarrow> f64 \<Rightarrow> 'x ctx \<Rightarrow> bridge_msg \<Rightarrow> (string option \<times> 'x ctx) res" where
  "bridge_step L needed c m =
     bindE (bridge_NewHandler L needed c m) (\<lambda>c'. Inr (bridge_report L needed c m, c'))"

lemma oracle_store_cong:
  assumes "oracle_store c' = oracle_store c"
  shows "GetProphecy L c' = GetProphecy L c" "oracle_ok L c' = oracle_ok L c" "undecided L c' = undecided L c"
    "oracle_GetAdminAccount c' = oracle_GetAdminAccount c" "GetOracleWhiteList L c' = GetOracleWhiteList L c"
proof -
  show 1: "GetProphecy L c' = GetProphecy L c" by (simp add: fun_eq_iff GetProphecy_def assms)
  show "oracle_ok L c' = oracle_ok L c" by (simp add: oracle_ok_def 1 assms)
  show "undecided L c' = undecided L c" by (simp add: fun_eq_iff undecided_def current_prophecy_def 1)
  show "oracle_GetAdminAccount c' = oracle_GetAdminAccount c" by (simp add: oracle_GetAdminAccount_def assms)
  show "GetOracleWhiteList L c' = GetOracleWhiteList L c" by (simp add: GetOracleWhiteList_def assms)
qed

context lib_laws
begin

lemma Lock_same: "msg_Lock L c m = Inr c' \<Longrightarrow> same_stores c c'"
  using ProcessLock_exact by (fastforce simp: msg_Lock_def res_simps same_stores_def)

lemma Burn_same: "msg_Burn L c m = Inr c' \<Longrightarrow> same_stores c c'"
  using ProcessBurn_exact by (fastforce simp: msg_Burn_def res_simps same_stores_def)

lemma Rescue_same: "msg_RescueCeth L c m = Inr c' \<Longrightarrow> same_stores c c'"
  by (auto simp: msg_RescueCeth_def ProcessRescueCeth_def res_simps same_stores_def)

lemma Update_ceth_same: "msg_UpdateCethReceiverAccount L c m = Inr c' \<Longrightarrow> oracle_store c' = oracle_store c"
  by (auto simp: msg_UpdateCethReceiverAccount_def ProcessUpdateCethReceiverAccount_def SetCethReceiverAccount_def res_simps)

lemma Blacklist_same: "msg_SetBlacklist L c m = Inr c' \<Longrightarrow> oracle_store c' = oracle_store c"
  by (auto simp: msg_SetBlacklist_def SetBlacklist_def Let_def res_simps)

lemma Update_whitelist_frame:
  assumes "oracle_ok L c" and "msg_UpdateWhiteListValidator L c m = Inr c'"
  shows "oracle_ok L c' \<and> GetProphecy L c' = GetProphecy L c"
proof -
  obtain s v c1 es where "ProcessUpdateWhiteListValidator L c s v (mw_OperationType m) = Inr c1"
    and "c' = EmitEvents es c1"
    using assms(2) unfolding msg_UpdateWhiteListValidator_def bridge_ProcessUpdateWhiteListValidator_def
    by (auto simp: res_simps)
  then show ?thesis
    using Update_frame [OF assms(1)] oracle_store_cong(1-3) [of c' c1 L] by auto
qed

text \<open>A claim moves exactly the prophecy it is about.\<close>

lemma Claim_effect:
  assumes ok: "oracle_ok L c" and run: "msg_CreateEthBridgeClaim L ord needed c msg = Inr c'"
  shows "oracle_ok L c' \<and> (\<not> undecided L c i \<longrightarrow> GetProphecy L c' i = GetProphecy L c i) \<and>
    (\<forall>cl st. mc_EthBridgeClaim msg = Some cl \<and> claim_status L ord needed c msg = Some st \<and>
       Text st = STATUS_TEXT_SUCCESS \<longrightarrow>
       (let j = oracle_id (ebc_EthereumChainId cl) (ebc_Nonce cl) (ebc_EthereumSender cl) in
        undecided L c j \<and> \<not> undecided L c' j))"
proof -
  obtain cl st c1 c2 where cl: "mc_EthBridgeClaim msg = Some cl" "bridge_ProcessClaim L ord needed c cl = Inr (st, c1)"
    and pay: "(if Text st = STATUS_TEXT_SUCCESS then ProcessSuccessfulClaim L c1 (FinalClaim st) else Inr c1) = Inr c2"
    and c': "c' = EmitEvents (claim_events cl st) c2" and st: "claim_status L ord needed c msg = Some st"
    using CreateEthBridgeClaim_parts [OF run] by metis
  obtain oc where oc: "CreateOracleClaimFromEthClaim L cl = Inr oc"
    and proc: "oracle_ProcessClaim L ord needed c oc = Inr (st, c1)"
    using cl(2) by (auto simp: bridge_ProcessClaim_def res_simps)
  have "oracle_store c2 = oracle_store c1"
  proof (cases "Text st = STATUS_TEXT_SUCCESS")
    case True
    then have "ProcessSuccessfulClaim L c1 (FinalClaim st) = Inr c2" using pay by simp
    then show ?thesis by (rule ProcessSuccessfulClaim_exact) blast
  qed (use pay in simp)
  then have same: "oracle_store c' = oracle_store c1" by (simp add: c')
  obtain p' where "undecided L c (claim_Id oc)" "st = p_Status p'"
    "GetProphecy L c1 = (GetProphecy L c)(claim_Id oc \<mapsto> p')" "oracle_ok L c1"
    using ProcessClaim_effect [OF ok CreateOracleClaim_ok(2) [OF oc] proc] unfolding undecided_def by metis
  then show ?thesis
    using oracle_store_cong(1-3) [OF same, of L] CreateOracleClaim_ok(1) [OF oc] cl(1) st
    by (auto simp: Let_def undecided_def current_prophecy_def)
qed

lemma bridge_step_effect:
  assumes ok: "oracle_ok L c" and run: "bridge_step L needed c m = Inr (r, c')"
  shows "oracle_ok L c' \<and> (\<not> undecided L c i \<longrightarrow> GetProphecy L c' i = GetProphecy L c i) \<and>
    (\<forall>j. r = Some j \<longrightarrow> undecided L c j \<and> \<not> undecided L c' j)"
proof -
  let ?c = "c\<lparr>events := []\<rparr>"
  have same: "oracle_store ?c = oracle_store c" by simp
  note fr = oracle_store_cong(1-3) [OF same, of L]
  have h: "bridge_NewHandler L needed c m = Inr c'" and r: "r = bridge_report L needed c m"
    using run by (auto simp: bridge_step_def res_simps)
  show ?thesis
  proof (cases m)
    case (MsgCreateEthBridgeClaim ord msg)
    then have "msg_CreateEthBridgeClaim L ord needed ?c msg = Inr c'"
      using h by (simp add: bridge_NewHandler_def)
    then show ?thesis
      using Claim_effect [of ?c ord needed msg c' i] ok fr MsgCreateEthBridgeClaim r
      by (auto simp: bridge_report_def Let_def split: option.splits if_splits)
  next
    case (MsgUpdateWhiteListValidator msg)
    then show ?thesis
      using Update_whitelist_frame [of ?c msg c'] ok fr h r
      by (auto simp: bridge_NewHandler_def bridge_report_def)
  next
    case (MsgBurn msg)
    then have "oracle_store c' = oracle_store c"
      using h Burn_same [of ?c msg c'] by (simp add: bridge_NewHandler_def same_stores_def)
    then show ?thesis using MsgBurn ok r oracle_store_cong(1-3) [of c' c L] by (simp add: bridge_report_def)
  next
    case (MsgLock msg)
    then have "oracle_store c' = oracle_store c"
      using h Lock_same [of ?c msg c'] by (simp add: bridge_NewHandler_def same_stores_def)
    then show ?thesis using MsgLock ok r oracle_store_cong(1-3) [of c' c L] by (simp add: bridge_report_def)
  next
    case (MsgUpdateCethReceiverAccount msg)
    then have "oracle_store c' = oracle_store c"
      using h Update_ceth_same [of ?c msg c'] by (simp add: bridge_NewHandler_def)
    then show ?thesis using MsgUpdateCethReceiverAccount ok r oracle_store_cong(1-3) [of c' c L] by (simp add: bridge_report_def)
  next
    case (MsgRescueCeth msg)
    then have "oracle_store c' = oracle_store c"
      using h Rescue_same [of ?c msg c'] by (simp add: bridge_NewHandler_def same_stores_def)
    then show ?thesis using MsgRescueCeth ok r oracle_store_cong(1-3) [of c' c L] by (simp add: bridge_report_def)
  next
    case (MsgSetBlacklist msg)
    then have "oracle_store c' = oracle_store c"
      using h Blacklist_same [of ?c msg c'] by (simp add: bridge_NewHandler_def)
    then show ?thesis using MsgSetBlacklist ok r oracle_store_cong(1-3) [of c' c L] by (simp add: bridge_report_def)
  qed
qed

end

sublocale lib_laws \<subseteq> payments: once_only "bridge_step L needed" "oracle_ok L" "\<lambda>_. True" "undecided L"
  for needed :: f64
proof
  fix c m r c' i
  assume "oracle_ok L c" and "bridge_step L needed c m = Inr (r, c')"
  from bridge_step_effect [OF this] show "oracle_ok L c'" and "\<not> undecided L c i \<Longrightarrow> \<not> undecided L c' i"
    by (auto simp: undecided_def current_prophecy_def)
next
  fix c m c' i
  assume "oracle_ok L c" and "bridge_step L needed c m = Inr (Some i, c')"
  from bridge_step_effect [OF this] show "undecided L c i \<and> \<not> undecided L c' i" by simp
qed

context lib_laws
begin

lemma bridge_run_once: "oracle_ok L c \<Longrightarrow> distinct (closed_in (bridge_step L needed) c ms)"
  using payments.closed_once [of c ms needed] by (simp add: list_all_iff)

end

text \<open>C16. In every history of bridge messages, with claims in any order and by any validators, a
  transfer from Ethereum, identified by chain, nonce and sender, is paid out at most once.\<close>

theorem bridge_pays_once:
  assumes "lib_laws L" and "oracle_ok L c"
  shows "distinct (closed_in (bridge_step L needed) c ms)"
  using lib_laws.bridge_run_once [OF assms] .

subsection \<open>Administration\<close>

fun admin_message :: "bridge_msg \<Rightarrow> string option" where
  "admin_message (MsgUpdateWhiteListValidator m) = Some (mw_CosmosSender m)"
| "admin_message (MsgUpdateCethReceiverAccount m) = Some (mu_CosmosSender m)"
| "admin_message (MsgRescueCeth m) = Some (mr_CosmosSender m)"
| "admin_message (MsgSetBlacklist m) = Some (mbl_From m)"
| "admin_message _ = None"

lemma SetOracleWhiteList_admin [simp]:
  "oracle_GetAdminAccount (SetOracleWhiteList L c vs) = oracle_GetAdminAccount c"
  by (simp add: oracle_GetAdminAccount_def SetOracleWhiteList_def kv_get_set)

lemma oracle_IsAdminAccount_iff: "oracle_IsAdminAccount c a \<longleftrightarrow> a \<noteq> [] \<and> oracle_GetAdminAccount c = a"
  by (auto simp: oracle_IsAdminAccount_def Let_def)

lemma admin_guards:
  "msg_UpdateCethReceiverAccount L c m1 = Inr c' \<Longrightarrow>
     \<exists>a. AccAddressFromBech32 L (mu_CosmosSender m1) = Inr a \<and> oracle_IsAdminAccount c a"
  "msg_RescueCeth L c m2 = Inr c' \<Longrightarrow>
     \<exists>a. AccAddressFromBech32 L (mr_CosmosSender m2) = Inr a \<and> oracle_IsAdminAccount c a"
  "msg_SetBlacklist L c m3 = Inr c' \<Longrightarrow>
     \<exists>a. AccAddressFromBech32 L (mbl_From m3) = Inr a \<and> oracle_IsAdminAccount c a"
  by (auto simp: msg_UpdateCethReceiverAccount_def ProcessUpdateCethReceiverAccount_def msg_RescueCeth_def
      ProcessRescueCeth_def msg_SetBlacklist_def SetBlacklist_def Let_def res_simps)

lemma claim_keeps_admin:
  assumes "lib_laws L" and "oracle_ok L c" and "msg_CreateEthBridgeClaim L ord needed (c\<lparr>events := []\<rparr>) msg = Inr c'"
  shows "oracle_GetAdminAccount c' = oracle_GetAdminAccount c"
proof -
  let ?c = "c\<lparr>events := []\<rparr>"
  have ad: "oracle_GetAdminAccount ?c = oracle_GetAdminAccount c" by (simp add: oracle_GetAdminAccount_def)
  obtain cl st c1 c2 where "bridge_ProcessClaim L ord needed ?c cl = Inr (st, c1)"
    and pay: "(if Text st = STATUS_TEXT_SUCCESS then ProcessSuccessfulClaim L c1 (FinalClaim st) else Inr c1) = Inr c2"
    and c': "c' = EmitEvents (claim_events cl st) c2"
    using assms(3) CreateEthBridgeClaim_parts [of L ord needed ?c msg c'] by metis
  then have "oracle_GetAdminAccount c1 = oracle_GetAdminAccount c"
    using lib_laws.bridge_ProcessClaim_frame [OF assms(1)] assms(2) oracle_store_cong(2) [of ?c c L] ad by fastforce
  moreover have "oracle_store c2 = oracle_store c1"
    using pay lib_laws.ProcessSuccessfulClaim_exact [OF assms(1)] by (metis sum.inject(2))
  ultimately show ?thesis using c' oracle_store_cong(4) [of c' c1] by simp
qed

lemma whitelist_by_admin:
  assumes "msg_UpdateWhiteListValidator L c msg = Inr c'"
  shows "oracle_GetAdminAccount c' = oracle_GetAdminAccount c \<and>
    (\<exists>a. AccAddressFromBech32 L (mw_CosmosSender msg) = Inr a \<and> a \<noteq> [] \<and> a = oracle_GetAdminAccount c)"
proof -
  obtain s v c1 es where s: "AccAddressFromBech32 L (mw_CosmosSender msg) = Inr s"
    and upd: "ProcessUpdateWhiteListValidator L c s v (mw_OperationType msg) = Inr c1" and c': "c' = EmitEvents es c1"
    using assms unfolding msg_UpdateWhiteListValidator_def bridge_ProcessUpdateWhiteListValidator_def
    by (auto simp: res_simps)
  obtain vs where "oracle_IsAdminAccount c s" and "c1 = SetOracleWhiteList L c vs"
    using Update_effect [OF upd] by metis
  then show ?thesis using s c' oracle_store_cong(4) [of c' c1] by (simp add: oracle_IsAdminAccount_iff)
qed

text \<open>C24. Changes of the whitelist, of the fee account and of the blacklist, and the rescue of ceth,
  succeed only for a message signed by the oracle's admin, and no message of the bridge changes
  who the admin is.\<close>

theorem bridge_admin_only:
  assumes "lib_laws L" and "oracle_ok L c" and "bridge_NewHandler L needed c m = Inr c'"
  shows "oracle_GetAdminAccount c' = oracle_GetAdminAccount c \<and>
    (\<forall>s. admin_message m = Some s \<longrightarrow>
       (\<exists>a. AccAddressFromBech32 L s = Inr a \<and> a \<noteq> [] \<and> a = oracle_GetAdminAccount c))"
proof -
  let ?c = "c\<lparr>events := []\<rparr>"
  have ad: "oracle_GetAdminAccount ?c = oracle_GetAdminAccount c" by (simp add: oracle_GetAdminAccount_def)
  note stores = oracle_store_cong(4) [of c' ?c, unfolded ad] and run = assms(3) [unfolded bridge_NewHandler_def Let_def]
  show ?thesis
  proof (cases m)
    case (MsgCreateEthBridgeClaim ord msg)
    then show ?thesis using run claim_keeps_admin [OF assms(1,2), of ord needed msg c'] by simp
  next
    case (MsgUpdateWhiteListValidator msg)
    then show ?thesis using run whitelist_by_admin [of L ?c msg c'] ad by simp
  next
    case (MsgBurn msg)
    then show ?thesis using run lib_laws.Burn_same [OF assms(1), of ?c msg c'] stores by (simp add: same_stores_def)
  next
    case (MsgLock msg)
    then show ?thesis using run lib_laws.Lock_same [OF assms(1), of ?c msg c'] stores by (simp add: same_stores_def)
  next
    case (MsgUpdateCethReceiverAccount msg)
    then have "msg_UpdateCethReceiverAccount L ?c msg = Inr c'" using run by simp
    then show ?thesis
      using MsgUpdateCethReceiverAccount lib_laws.Update_ceth_same [OF assms(1)] stores ad admin_guards(1)
      by (fastforce simp: oracle_IsAdminAccount_iff)
  next
    case (MsgRescueCeth msg)
    then have "msg_RescueCeth L ?c msg = Inr c'" using run by simp
    then show ?thesis
      using MsgRescueCeth lib_laws.Rescue_same [OF assms(1)] stores ad admin_guards(2)
      by (fastforce simp: oracle_IsAdminAccount_iff same_stores_def)
  next
    case (MsgSetBlacklist msg)
    then have "msg_SetBlacklist L ?c msg = Inr c'" using run by simp
    then show ?thesis
      using MsgSetBlacklist lib_laws.Blacklist_same [OF assms(1)] stores ad admin_guards(3)
      by (fastforce simp: oracle_IsAdminAccount_iff)
  qed
qed

subsection \<open>The blacklist\<close>

lemma kv_get_delete_all:
  "kv_get (foldl (\<lambda>st a. kv_delete (f a) st) st as) k = (if k \<in> f ` set as then None else kv_get st k)"
  by (induction as arbitrary: st) (auto simp: kv_get_delete)

lemma kv_get_set_all:
  "kv_get (foldl (\<lambda>st a. kv_set (f a) v st) st as) k = (if k \<in> f ` set as then Some v else kv_get st k)"
  by (induction as arbitrary: st) (auto simp: kv_get_set)

lemma bridge_keys [simp]:
  "PeggyTokenKeyPrefix \<noteq> BlacklistPrefix @ a" "CethReceiverAccountPrefix \<noteq> BlacklistPrefix @ a"
  "PeggyTokenKeyPrefix \<noteq> CethReceiverAccountPrefix" "CethReceiverAccountPrefix \<noteq> PeggyTokenKeyPrefix"
  by (simp_all add: PeggyTokenKeyPrefix_def CethReceiverAccountPrefix_def BlacklistPrefix_def)

lemma blacklisted_removed:
  assumes "kv_ok st" and "kv_get st (BlacklistPrefix @ a) = Some v" and "a \<noteq> []" and "a \<notin> set as"
  shows "a \<in> set (blacklist_removals as (kv_from BlacklistPrefix st))"
proof -
  have "(BlacklistPrefix @ a, v) \<in> set (kv_from BlacklistPrefix st)"
    using assms(1,2) by (simp add: kv_from_def kvs.entries_get) (simp add: BlacklistPrefix_def)
  moreover have "drop 1 (BlacklistPrefix @ a) = a" "1 < length (BlacklistPrefix @ a)"
    using assms(3) by (simp_all add: BlacklistPrefix_def)
  ultimately have "a \<in> set (map (\<lambda>e. drop 1 (fst e)) (filter (\<lambda>e. length (fst e) > 1) (kv_from BlacklistPrefix st)))"
    by force
  then show ?thesis
    using assms(4) by (auto simp: blacklist_removals_def list_ex_iff)
qed

text \<open>C25. After the admin sets the blacklist, exactly the listed addresses are blacklisted, whatever
  was blacklisted before (apart from the empty address, which stays once it is listed); the list
  of pegged tokens, the fee account and all balances are as they were.\<close>

theorem SetBlacklist_exact:
  assumes "kv_ok (bridge_store c)" and "SetBlacklist L c msg = Inr c'"
  shows "(\<forall>a. a \<noteq> [] \<longrightarrow> IsBlacklisted c' a = (a \<in> set (mbl_Addresses msg))) \<and>
    GetPeggyToken c' = GetPeggyToken c \<and> GetCethReceiverAccount L c' = GetCethReceiverAccount L c \<and> ext c' = ext c"
proof -
  let ?rs = "blacklist_removals (mbl_Addresses msg) (kv_from BlacklistPrefix (bridge_store c))"
  have c': "c' = c\<lparr>bridge_store := foldl (\<lambda>st address. kv_set (BlacklistPrefix @ address) BV_Blacklisted st)
      (foldl (\<lambda>st address. kv_delete (BlacklistPrefix @ address) st) (bridge_store c) ?rs) (mbl_Addresses msg)\<rparr>"
    using assms(2) by (auto simp: SetBlacklist_def Let_def res_simps)
  have get: "kv_get (bridge_store c') k =
      (if k \<in> (\<lambda>a. BlacklistPrefix @ a) ` set (mbl_Addresses msg) then Some BV_Blacklisted
       else if k \<in> (\<lambda>a. BlacklistPrefix @ a) ` set ?rs then None else kv_get (bridge_store c) k)" for k
    by (simp add: c' kv_get_set_all kv_get_delete_all)
  have "IsBlacklisted c' a = (a \<in> set (mbl_Addresses msg))" if "a \<noteq> []" for a
    using blacklisted_removed [OF assms(1) _ that, of _ "mbl_Addresses msg"]
    by (cases "kv_get (bridge_store c) (BlacklistPrefix @ a)") (auto simp: IsBlacklisted_def kv_has_def get)
  moreover have "kv_get (bridge_store c') PeggyTokenKeyPrefix = kv_get (bridge_store c) PeggyTokenKeyPrefix"
    "kv_get (bridge_store c') CethReceiverAccountPrefix = kv_get (bridge_store c) CethReceiverAccountPrefix"
    by (auto simp: get)
  ultimately show ?thesis
    by (simp add: GetPeggyToken_def GetCethReceiverAccount_def) (simp add: c')
qed

subsection \<open>Claims and prophecies\<close>


text \<open>For one chain and senders written with the same length, the identifier of a prophecy
  determines nonce and sender, so two different transfers never share a prophecy.\<close>

theorem oracle_id_injective:
  assumes "0 \<le> n" and "0 \<le> n'" and "length s = length s'" and "oracle_id k n s = oracle_id k n' s'"
  shows "n = n' \<and> s = s'"
proof -
  have "int_string n @ s = int_string n' @ s'" using assms(4) by (simp add: oracle_id_def)
  then have "int_string n = int_string n'" and "s = s'" using assms(3) by (simp_all add: append_eq_append_conv)
  then show ?thesis using assms(1,2) by (simp add: int_string_def)
qed

theorem oracle_id_injective_witness: "oracle_id 1 7 ''0xab'' \<noteq> oracle_id 1 8 ''0xab''"
  using oracle_id_injective [of 7 8 "''0xab''" "''0xab''" 1] by fastforce

text \<open>Chain and nonce are written without a separator, so the identifier alone does not tell
  chains apart: nonce 11 of chain 1 and nonce 1 of chain 11 share a prophecy.\<close>

theorem oracle_id_not_injective_in_chain: "oracle_id 1 11 s = oracle_id 11 1 s"
  by (simp add: oracle_id_def int_string_def nat_string.simps)

subsection \<open>The bridge on the reference instance\<close>

definition ref_bridge_ctx :: "ref_state ctx" where
  "ref_bridge_ctx = AddPeggyToken (fund ''U'' ''rowan'' 100 (fund ''U'' ''ceth'' 50 ref_oracle_ctx)) ''ceth''"

lemmas bridge_eval = msg_Lock_def msg_Burn_def ProcessLock_def ProcessBurn_def coin_list_def account_of_def
  ExistsPeggyToken_def GetPeggyToken_def AddPeggyToken_def IsBlacklisted_def IsCethReceiverAccountSet_def
  GetCethReceiverAccount_def PeggyTokenKeyPrefix_def CethReceiverAccountPrefix_def BlacklistPrefix_def
  CethSymbol_def PeggedCoinPrefix_def bridge_ModuleName_def ref_bridge_ctx_def msg_CreateEthBridgeClaim_def
  bridge_ProcessClaim_def CreateOracleClaimFromEthClaim_def oracle_id_def NewOracleClaimContent_def
  NewEthereumAddress_def NewClaim_def ProcessSuccessfulClaim_def CreateOracleClaimFromOracleString_def ref_content

definition ref_lock :: msg_lock where
  "ref_lock = \<lparr>ml_CosmosSender = ''sif1U'', ml_Amount = 30, ml_Symbol = ''rowan'', ml_EthereumChainId = 1,
     ml_EthereumReceiver = ''0xab'', ml_CethAmount = 5\<rparr>"

definition ref_burn :: msg_burn where
  "ref_burn = \<lparr>mb_CosmosSender = ''sif1U'', mb_Amount = 30, mb_Symbol = ''ceth'', mb_EthereumChainId = 1,
     mb_EthereumReceiver = ''0xab'', mb_CethAmount = 5\<rparr>"

theorem bridge_lock_exact_witness:
  "\<exists>c'. msg_Lock ref_lib ref_bridge_ctx ref_lock = Inr c' \<and>
     bal ref_lib c' ''U'' ''rowan'' = bal ref_lib ref_bridge_ctx ''U'' ''rowan''
       + outgoing ref_lib ref_bridge_ctx ''U'' ''rowan'' 30 5 ''U'' ''rowan''"
proof -
  have "\<exists>c'. msg_Lock ref_lib ref_bridge_ctx ref_lock = Inr c'"
    by (simp add: bridge_eval oracle_eval ref_lock_def ref_eval Let_def list_ex_iff cong: bindE_cong_weak)
  then obtain c' where run: "msg_Lock ref_lib ref_bridge_ctx ref_lock = Inr c'" ..
  have u: "AccAddressFromBech32 ref_lib (ml_CosmosSender ref_lock) = Inr ''U''"
    by (simp add: ref_lock_def ref_eval)
  show ?thesis
    using bridge_lock_exact [OF ref.lib_laws_axioms run] run by (auto simp: u) (simp add: ref_lock_def)
qed

theorem bridge_burn_exact_witness:
  "\<exists>c'. msg_Burn ref_lib ref_bridge_ctx ref_burn = Inr c' \<and>
     bal ref_lib c' ''U'' ''ceth'' = bal ref_lib ref_bridge_ctx ''U'' ''ceth''
       + outgoing ref_lib ref_bridge_ctx ''U'' ''ceth'' 30 5 ''U'' ''ceth''"
proof -
  have "\<exists>c'. msg_Burn ref_lib ref_bridge_ctx ref_burn = Inr c'"
    by (simp add: bridge_eval oracle_eval ref_burn_def ref_eval Let_def list_ex_iff cong: bindE_cong_weak)
  then obtain c' where run: "msg_Burn ref_lib ref_bridge_ctx ref_burn = Inr c'" ..
  have u: "AccAddressFromBech32 ref_lib (mb_CosmosSender ref_burn) = Inr ''U''"
    by (simp add: ref_burn_def ref_eval)
  show ?thesis
    using bridge_burn_exact [OF ref.lib_laws_axioms run] run by (auto simp: u) (simp add: ref_burn_def)
qed

definition ref_eth_claim :: "string \<Rightarrow> eth_bridge_claim" where
  "ref_eth_claim v = \<lparr>ebc_EthereumChainId = 1, ebc_BridgeContractAddress = ''0xb'', ebc_Nonce = 7,
     ebc_Symbol = ''dai'', ebc_TokenContractAddress = ''0xd'', ebc_EthereumSender = ''0xe'',
     ebc_CosmosReceiver = ''sif1U'', ebc_ValidatorAddress = ''sifvaloper1'' @ v, ebc_Amount = 9,
     ebc_ClaimType = CLAIM_TYPE_LOCK\<rparr>"

definition ref_content_U :: oracle_claim_content where
  "ref_content_U = \<lparr>occ_CosmosReceiver = ''U'', occ_Amount = 9, occ_Symbol = ''dai'',
     occ_TokenContractAddress = ''0xd'', occ_ClaimType = CLAIM_TYPE_LOCK\<rparr>"

lemma ref_content_utf8: "valid_utf8 (ref_enc_content ref_content_U)"
  by (rule ascii_valid_utf8) (simp add: ref_content_U_def ref_enc_content_def ref_enc_str_def ref_enc_hd_def ref_eval of_char_digit)

lemma ref_oracle_claim:
  "CreateOracleClaimFromEthClaim ref_lib (ref_eth_claim ''D'')
     = Inr (NewClaim ''170xe'' ''sifvaloper1D'' (ref_enc_content ref_content_U))"
proof -
  have "CreateOracleClaimFromEthClaim ref_lib (ref_eth_claim ''D'')
     = bindE (MarshalClaimContent ref_lib ref_content_U) (\<lambda>s. Inr (NewClaim ''170xe'' ''sifvaloper1D'' s))"
    by (simp add: CreateOracleClaimFromEthClaim_def oracle_id_def NewOracleClaimContent_def NewEthereumAddress_def
        ref_eth_claim_def ref_content_U_def Let_def ref_eval ToLower_def lower_char_def cong: bindE_cong_weak)
  then show ?thesis by (simp add: ref_json_simps ref_content_utf8)
qed

lemma ref_bridge_claim_decides:
  "s \<noteq> [] \<Longrightarrow> \<exists>st. oracle_ProcessClaim ref_lib (\<lambda>m. m) DefaultConsensusNeeded ref_bridge_ctx
      (NewClaim ''170xe'' ''sifvaloper1D'' s)
     = Inr (\<lparr>Text = STATUS_TEXT_SUCCESS, FinalClaim = s\<rparr>, ref_bridge_ctx\<lparr>oracle_store := st\<rparr>)"
  by (simp add: bridge_eval oracle_eval ref_eval Let_def list_ex_iff cong: bindE_cong_weak)

lemma ref_claim_pays:
  "\<exists>c'. ProcessSuccessfulClaim ref_lib (ref_bridge_ctx\<lparr>oracle_store := st\<rparr>) (ref_enc_content ref_content_U) = Inr c'"
  by (simp add: bridge_eval ref_content_U_def oracle_eval ref_eval Let_def list_ex_iff cong: bindE_cong_weak)

lemma ref_create_claim_runs:
  "\<exists>c'. msg_CreateEthBridgeClaim ref_lib (\<lambda>m. m) DefaultConsensusNeeded ref_bridge_ctx
     \<lparr>mc_EthBridgeClaim = Some (ref_eth_claim ''D'')\<rparr> = Inr c'"
proof -
  obtain st where st: "oracle_ProcessClaim ref_lib (\<lambda>m. m) DefaultConsensusNeeded ref_bridge_ctx
      (NewClaim ''170xe'' ''sifvaloper1D'' (ref_enc_content ref_content_U))
     = Inr (\<lparr>Text = STATUS_TEXT_SUCCESS, FinalClaim = ref_enc_content ref_content_U\<rparr>, ref_bridge_ctx\<lparr>oracle_store := st\<rparr>)"
    using ref_bridge_claim_decides [OF ref_enc_content_nonempty] by blast
  obtain c' where "ProcessSuccessfulClaim ref_lib (ref_bridge_ctx\<lparr>oracle_store := st\<rparr>) (ref_enc_content ref_content_U) = Inr c'"
    using ref_claim_pays by blast
  then show ?thesis
    by (simp add: msg_CreateEthBridgeClaim_def bridge_ProcessClaim_def ref_oracle_claim st)
qed

lemma ref_bridge_ok: "oracle_ok ref_lib ref_bridge_ctx"
proof -
  have "oracle_store ref_bridge_ctx = oracle_store ref_oracle_ctx"
    by (simp add: ref_bridge_ctx_def AddPeggyToken_def fund_def)
  then show ?thesis using oracle_store_cong(2) ref_oracle_ok by blast
qed

theorem bridge_claim_pays_exactly_witness:
  "\<exists>c' st. msg_CreateEthBridgeClaim ref_lib (\<lambda>m. m) DefaultConsensusNeeded ref_bridge_ctx
     \<lparr>mc_EthBridgeClaim = Some (ref_eth_claim ''D'')\<rparr> = Inr c' \<and>
     claim_status ref_lib (\<lambda>m. m) DefaultConsensusNeeded ref_bridge_ctx
       \<lparr>mc_EthBridgeClaim = Some (ref_eth_claim ''D'')\<rparr> = Some st"
  using ref_create_claim_runs bridge_claim_pays_exactly [OF ref.lib_laws_axioms ref_bridge_ok] by blast

theorem bridge_pays_once_witness:
  "distinct (closed_in (bridge_step ref_lib DefaultConsensusNeeded) ref_bridge_ctx
     [MsgCreateEthBridgeClaim (\<lambda>m. m) \<lparr>mc_EthBridgeClaim = Some (ref_eth_claim ''D'')\<rparr>, MsgLock ref_lock,
      MsgCreateEthBridgeClaim rev \<lparr>mc_EthBridgeClaim = Some (ref_eth_claim ''A'')\<rparr>])"
  by (rule bridge_pays_once [OF ref.lib_laws_axioms ref_bridge_ok])

definition ref_blacklist :: msg_set_blacklist where
  "ref_blacklist = \<lparr>mbl_From = ''sif1admin'', mbl_Addresses = [''0xab'', ''0xcd'']\<rparr>"

lemma ref_blacklist_runs: "\<exists>c'. SetBlacklist ref_lib ref_bridge_ctx ref_blacklist = Inr c'"
  by (simp add: SetBlacklist_def ref_blacklist_def bridge_eval oracle_eval ref_eval Let_def list_ex_iff
      cong: bindE_cong_weak)

theorem SetBlacklist_exact_witness:
  "\<exists>c'. SetBlacklist ref_lib ref_bridge_ctx ref_blacklist = Inr c' \<and> IsBlacklisted c' ''0xab'' \<and> \<not> IsBlacklisted c' ''0xef''"
proof -
  obtain c' where run: "SetBlacklist ref_lib ref_bridge_ctx ref_blacklist = Inr c'" using ref_blacklist_runs ..
  have "kv_ok (bridge_store ref_bridge_ctx)"
    by (simp add: bridge_eval oracle_eval ref_eval kv_ok_def)
  from SetBlacklist_exact [OF this run] run show ?thesis
    by (intro exI [of _ c']) (simp add: ref_blacklist_def)
qed

theorem bridge_admin_only_witness:
  "\<exists>c'. bridge_NewHandler ref_lib DefaultConsensusNeeded ref_bridge_ctx (MsgSetBlacklist ref_blacklist) = Inr c' \<and>
     oracle_GetAdminAccount c' = ''admin''"
proof -
  have "\<exists>c'. bridge_NewHandler ref_lib DefaultConsensusNeeded ref_bridge_ctx (MsgSetBlacklist ref_blacklist) = Inr c'"
    by (simp add: bridge_NewHandler_def msg_SetBlacklist_def SetBlacklist_def ref_blacklist_def bridge_eval
        oracle_eval ref_eval Let_def list_ex_iff cong: bindE_cong_weak)
  then obtain c' where run: "bridge_NewHandler ref_lib DefaultConsensusNeeded ref_bridge_ctx (MsgSetBlacklist ref_blacklist) = Inr c'" ..
  have "oracle_GetAdminAccount ref_bridge_ctx = ''admin''"
    by (simp add: bridge_eval oracle_eval ref_eval)
  with bridge_admin_only [OF ref.lib_laws_axioms ref_bridge_ok run] run show ?thesis by auto
qed


end
