(* ===== verification/DispensationInvariants.thy ===== *)
theory DispensationInvariants
  imports Dispensation Balances
begin

section \<open>Invariants and effects of the dispensation module\<close>

text \<open>
  The store holds every value under the key that its fields determine. On such a store the effect
  of each message is computed: what it moves, which records it settles, and what remains owed.
\<close>

subsection \<open>A store that holds what its keys say\<close>

definition status_byte :: "distribution_status \<Rightarrow> char" where
  "status_byte st =
     (case st of
        DISTRIBUTION_STATUS_PENDING \<Rightarrow> CHR 0x00
      | DISTRIBUTION_STATUS_FAILED \<Rightarrow> CHR 0x12
      | _ \<Rightarrow> CHR 0x11)"

definition record_id :: "distribution_record \<Rightarrow> string" where
  "record_id r = dr_DistributionName r @ ''_'' @ nat_string (distribution_type_nr (dr_DistributionType r))
     @ ''_'' @ dr_RecipientAddress r"

definition key_as :: "distribution_status \<Rightarrow> distribution_record \<Rightarrow> key" where
  "key_as st r = GetDistributionRecordKey st (dr_DistributionName r) (dr_RecipientAddress r) (dr_DistributionType r)"

definition value_key :: "dispensation_value \<Rightarrow> key" where
  "value_key v =
     (case v of
        DV_Record r \<Rightarrow> key_as (dr_DistributionStatus r) r
      | DV_Distribution d \<Rightarrow> GetDistributionsKey (d_DistributionName d) (d_DistributionType d) (d_Runner d)
      | DV_Claim u \<Rightarrow> GetUserClaimKey (UserAddress u) (UserClaimType u))"

definition value_ok :: "'x lib \<Rightarrow> dispensation_value \<Rightarrow> bool" where
  "value_ok L v =
     (case v of
        DV_Record r \<Rightarrow> DistributionRecord_Validate L r
      | DV_Distribution d \<Rightarrow> Distribution_Validate d
      | DV_Claim u \<Rightarrow> UserClaim_Validate u)"

definition store_wf :: "'x lib \<Rightarrow> dispensation_value kv \<Rightarrow> bool" where
  "store_wf L st \<longleftrightarrow> kv_ok st \<and> list_all (\<lambda>e. value_key (snd e) = fst e \<and> value_ok L (snd e)) st"

definition put :: "dispensation_value \<Rightarrow> dispensation_value kv \<Rightarrow> dispensation_value kv" where
  "put v st = kv_set (value_key v) v st"

lemmas disp_prefixes = DistributionRecordPrefixPending_def DistributionRecordPrefixCompleted_def
  DistributionRecordPrefixFailed_def DistributionsPrefix_def UserClaimPrefix_def

lemma key_as_eq: "key_as st r = status_byte st # record_id r"
  by (cases st) (simp_all add: key_as_def record_id_def GetDistributionRecordKey_def status_byte_def disp_prefixes)

lemma hd_key_as [simp]: "hd (key_as st r) = status_byte st"
  by (simp add: key_as_eq)

lemma record_id_update [simp]:
  "record_id (r\<lparr>dr_DistributionStatus := st\<rparr>) = record_id r"
  "record_id (r\<lparr>dr_DistributionCompletedHeight := h\<rparr>) = record_id r"
  "record_id (r\<lparr>dr_Coins := cs\<rparr>) = record_id r"
  by (simp_all add: record_id_def)

lemma status_byte_pending [simp]: "status_byte st = CHR 0x00 \<longleftrightarrow> st = DISTRIBUTION_STATUS_PENDING"
  by (cases st) (simp_all add: status_byte_def)

lemma status_byte_failed [simp]: "status_byte st = CHR 0x12 \<longleftrightarrow> st = DISTRIBUTION_STATUS_FAILED"
  by (cases st) (simp_all add: status_byte_def)

lemma status_byte_neq [simp]: "status_byte st \<noteq> CHR 0x01" "status_byte st \<noteq> CHR 0x02"
  by (cases st; simp add: status_byte_def)+

lemma hd_keys [simp]: "hd (GetDistributionsKey n t a) = CHR 0x01" "hd (GetUserClaimKey u t) = CHR 0x02"
  by (simp_all add: GetDistributionsKey_def GetUserClaimKey_def disp_prefixes)

lemma store_wf_kv: "store_wf L st \<Longrightarrow> kv_ok st"
  by (simp add: store_wf_def)

lemma store_wf_get: "store_wf L st \<Longrightarrow> kv_get st k = Some v \<Longrightarrow> value_key v = k \<and> value_ok L v"
  by (auto simp: store_wf_def list_all_iff kvs.entries_get [symmetric])

lemma store_wf_iff:
  "store_wf L st \<longleftrightarrow> kv_ok st \<and> (\<forall>k v. kv_get st k = Some v \<longrightarrow> value_key v = k \<and> value_ok L v)"
  (is "_ \<longleftrightarrow> ?R")
proof
  show "store_wf L st \<Longrightarrow> ?R" using store_wf_kv store_wf_get by blast
  show "?R \<Longrightarrow> store_wf L st" by (auto simp: store_wf_def list_all_iff kvs.entries_get)
qed

lemma store_wf_put: "store_wf L st \<Longrightarrow> value_ok L v \<Longrightarrow> store_wf L (put v st)"
  by (auto simp: store_wf_iff put_def kv_ok_set kv_get_set)

lemma store_wf_delete: "store_wf L st \<Longrightarrow> store_wf L (kv_delete k st)"
  by (auto simp: store_wf_iff kv_ok_delete kv_get_delete)

text \<open>What is stored under a key's first byte.\<close>

lemma store_wf_record:
  assumes "store_wf L st" and "kv_get st k = Some v" and "k \<noteq> []" and "hd k \<noteq> CHR 0x01" and "hd k \<noteq> CHR 0x02"
  obtains r where "v = DV_Record r" and "k = key_as (dr_DistributionStatus r) r" and "DistributionRecord_Validate L r"
  using store_wf_get [OF assms(1,2)] assms(3-5)
  by (cases v) (auto simp: value_key_def value_ok_def)

lemma SetDistributionRecord_Inr:
  "SetDistributionRecord L c r = Inr c' \<longleftrightarrow>
     DistributionRecord_Validate L r \<and> c' = c\<lparr>dispensation_store := put (DV_Record r) (dispensation_store c)\<rparr>"
  by (auto simp: SetDistributionRecord_def Let_def put_def value_key_def key_as_def)

lemma SetDistribution_Inr:
  "SetDistribution c d = Inr c' \<longleftrightarrow>
     Distribution_Validate d \<and> c' = c\<lparr>dispensation_store := put (DV_Distribution d) (dispensation_store c)\<rparr>"
  by (auto simp: SetDistribution_def put_def value_key_def)

lemma SetClaim_Inr:
  "SetClaim c u = Inr c' \<longleftrightarrow>
     UserClaim_Validate u \<and> c' = c\<lparr>dispensation_store := put (DV_Claim u) (dispensation_store c)\<rparr>"
  by (auto simp: SetClaim_def put_def value_key_def)

subsection \<open>What is owed\<close>

text \<open>A record is unpaid while it is pending, and for good once it has failed.\<close>

definition unpaid :: "string \<Rightarrow> dispensation_value \<Rightarrow> int" where
  "unpaid d v =
     (case v of
        DV_Record r \<Rightarrow>
          amount_if (dr_DistributionStatus r = DISTRIBUTION_STATUS_PENDING \<or>
            dr_DistributionStatus r = DISTRIBUTION_STATUS_FAILED) (AmountOf (dr_Coins r) d)
      | _ \<Rightarrow> 0)"

definition disp_owed :: "'x ctx \<Rightarrow> string \<Rightarrow> int" where
  "disp_owed c d = kv_sum (unpaid d) (dispensation_store c)"

definition disp_solvent :: "'x lib \<Rightarrow> 'x ctx \<Rightarrow> bool" where
  "disp_solvent L c \<longleftrightarrow> (\<forall>d. disp_owed c d \<le> bal L c (GetDistributionModuleAddress L) d)"

definition disp_wf :: "'x lib \<Rightarrow> 'x ctx \<Rightarrow> bool" where
  "disp_wf L c \<longleftrightarrow> store_wf L (dispensation_store c)"

lemma unpaid_simps [simp]: "unpaid d (DV_Distribution x) = 0" "unpaid d (DV_Claim u) = 0"
  by (simp_all add: unpaid_def)

lemma unpaid_claim_key:
  assumes "store_wf L st"
  shows "(case kv_get st (GetUserClaimKey a t) of None \<Rightarrow> 0 | Some w \<Rightarrow> unpaid d w) = 0"
    and "(case kv_get st (GetDistributionsKey n t a) of None \<Rightarrow> 0 | Some w \<Rightarrow> unpaid d w) = 0"
proof -
  have "unpaid d w = 0" if "kv_get st k = Some w" and "hd k = CHR 0x01 \<or> hd k = CHR 0x02" for k w
    using store_wf_get [OF assms that(1)] that(2)
    by (cases w) (auto simp: value_key_def unpaid_def)
  then show "(case kv_get st (GetUserClaimKey a t) of None \<Rightarrow> 0 | Some w \<Rightarrow> unpaid d w) = 0"
    and "(case kv_get st (GetDistributionsKey n t a) of None \<Rightarrow> 0 | Some w \<Rightarrow> unpaid d w) = 0"
    by (simp_all split: option.split)
qed

context lib_laws
begin

lemma validate_amount: "DistributionRecord_Validate L r \<Longrightarrow> 0 \<le> AmountOf (dr_Coins r) d"
  by (rule positive_amount) (simp add: DistributionRecord_Validate_def split: if_splits)

lemma unpaid_nonneg: "value_ok L v \<Longrightarrow> 0 \<le> unpaid d v"
  by (auto simp: unpaid_def value_ok_def amount_if_def validate_amount split: dispensation_value.splits)

lemma owed_nonneg: "store_wf L st \<Longrightarrow> 0 \<le> kv_sum (unpaid d) st"
  unfolding kv_sum_def store_wf_def
  by (rule sum_list_nonneg) (auto simp: list_all_iff unpaid_nonneg)

lemma owed_covers:
  assumes "store_wf L st" and "kv_get st k = Some v"
  shows "unpaid d v \<le> kv_sum (unpaid d) st"
  using kv_sum_delete [OF store_wf_kv [OF assms(1)], of "unpaid d" k] assms(2)
    owed_nonneg [OF store_wf_delete [OF assms(1)], of d k] by simp

end

subsection \<open>One record\<close>

definition finished :: "int \<Rightarrow> distribution_status \<Rightarrow> distribution_record \<Rightarrow> distribution_record" where
  "finished h st r = r\<lparr>dr_DistributionStatus := st, dr_DistributionCompletedHeight := h\<rparr>"

definition finish ::
  "int \<Rightarrow> distribution_status \<Rightarrow> distribution_record \<Rightarrow> dispensation_value kv \<Rightarrow> dispensation_value kv" where
  "finish h st r s = kv_delete (key_as DISTRIBUTION_STATUS_PENDING r) (put (DV_Record (finished h st r)) s)"

definition stored :: "dispensation_value kv \<Rightarrow> distribution_record \<Rightarrow> bool" where
  "stored s r \<longleftrightarrow> dr_DistributionStatus r = DISTRIBUTION_STATUS_PENDING \<and>
     kv_get s (key_as DISTRIBUTION_STATUS_PENDING r) = Some (DV_Record r)"

definition ends :: "distribution_status \<Rightarrow> bool" where
  "ends st \<longleftrightarrow> st = DISTRIBUTION_STATUS_COMPLETED \<or> st = DISTRIBUTION_STATUS_FAILED"

lemma key_as_finished [simp]: "key_as st (finished h st' r) = key_as st r"
  by (simp add: key_as_eq finished_def)

lemma finished_simps [simp]:
  "dr_DistributionStatus (finished h st r) = st" "dr_Coins (finished h st r) = dr_Coins r"
  "DistributionRecord_Validate L (finished h st r) = DistributionRecord_Validate L r"
  by (simp_all add: finished_def DistributionRecord_Validate_def)

lemma key_as_ends: "ends st \<Longrightarrow> key_as st r \<noteq> key_as DISTRIBUTION_STATUS_PENDING r'"
  by (auto simp: ends_def key_as_eq status_byte_def)

lemma value_key_finished [simp]: "value_key (DV_Record (finished h st r)) = key_as st r"
  by (simp add: value_key_def)

lemma stored_ok: "store_wf L s \<Longrightarrow> stored s r \<Longrightarrow> DistributionRecord_Validate L r"
  by (auto simp: stored_def value_ok_def dest: store_wf_get)

lemma ChangeRecordStatus_stored:
  assumes "store_wf L (dispensation_store c)" and "stored (dispensation_store c) r" and "ends st"
  shows "ChangeRecordStatus L c r h st
    = (c\<lparr>dispensation_store := finish h st r (dispensation_store c)\<rparr>, None)"
proof -
  let ?k = "key_as DISTRIBUTION_STATUS_PENDING r"
  let ?s = "put (DV_Record (finished h st r)) (dispensation_store c)"
  have set: "SetDistributionRecord L c (finished h st r) = Inr (c\<lparr>dispensation_store := ?s\<rparr>)"
    using stored_ok [OF assms(1,2)] by (simp add: SetDistributionRecord_Inr)
  have has: "kv_has ?s ?k"
    using assms(2) by (auto simp: put_def kv_simps stored_def kv_has_def kv_get_set)
  have del: "DeleteDistributionRecord (c\<lparr>dispensation_store := ?s\<rparr>) (dr_DistributionName r) (dr_RecipientAddress r)
      DISTRIBUTION_STATUS_PENDING (dr_DistributionType r)
    = Inr (c\<lparr>dispensation_store := kv_delete ?k ?s\<rparr>)"
    using has by (simp add: DeleteDistributionRecord_def key_as_def)
  show ?thesis
    using set del assms(2) unfolding ChangeRecordStatus_def stored_def
    by (simp add: Let_def finished_def finish_def)
qed

text \<open>Finishing a record, as the store sees it.\<close>

lemma finish_get:
  assumes "ends st"
  shows "kv_get (finish h st r s) k =
    (if k = key_as DISTRIBUTION_STATUS_PENDING r then None
     else if k = key_as st r then Some (DV_Record (finished h st r)) else kv_get s k)"
  by (simp add: finish_def put_def kv_get_delete kv_get_set)

lemma finish_wf: "store_wf L s \<Longrightarrow> stored s r \<Longrightarrow> store_wf L (finish h st r s)"
  unfolding finish_def
  by (intro store_wf_delete store_wf_put) (simp_all add: value_ok_def stored_ok)

lemma claim_key_neq [simp]: "GetUserClaimKey a t \<noteq> key_as st r" "key_as st r \<noteq> GetUserClaimKey a t"
  by (metis hd_key_as hd_keys(2) status_byte_neq(2))+

context lib_laws
begin

text \<open>A record that is paid leaves the debts, and a refused one may only replace an older one.\<close>

lemma finish_owed:
  assumes "store_wf L s" and "stored s r" and "ends st"
  shows "kv_sum (unpaid d) (finish h st r s)
    \<le> kv_sum (unpaid d) s - amount_if (st = DISTRIBUTION_STATUS_COMPLETED) (AmountOf (dr_Coins r) d)"
proof -
  let ?v = "DV_Record (finished h st r)"
  have old: "0 \<le> (case kv_get s (key_as st r) of None \<Rightarrow> 0 | Some w \<Rightarrow> unpaid d w)"
    by (auto split: option.split intro: unpaid_nonneg dest: store_wf_get [OF assms(1)])
  have gone: "kv_get (put ?v s) (key_as DISTRIBUTION_STATUS_PENDING r) = Some (DV_Record r)"
    using assms(2) key_as_ends [OF assms(3), of r r] by (simp add: put_def kv_get_set stored_def)
  have "kv_sum (unpaid d) (finish h st r s) = kv_sum (unpaid d) s + unpaid d ?v
      - (case kv_get s (key_as st r) of None \<Rightarrow> 0 | Some w \<Rightarrow> unpaid d w) - unpaid d (DV_Record r)"
    using kv_sum_delete [OF kv_ok_set [OF store_wf_kv [OF assms(1)]], of "unpaid d"]
      kv_sum_set [OF store_wf_kv [OF assms(1)], of "unpaid d"] gone
    by (simp add: finish_def put_def)
  then show ?thesis
    using old assms(2,3) by (auto simp: unpaid_def ends_def stored_def amount_if_def)
qed

end

definition payee :: "'x lib \<Rightarrow> distribution_record \<Rightarrow> addr option" where
  "payee L r = (case AccAddressFromBech32 L (dr_RecipientAddress r) of Inr a \<Rightarrow> Some a | Inl _ \<Rightarrow> None)"

definition claim_key :: "distribution_record \<Rightarrow> key" where
  "claim_key r = GetUserClaimKey (dr_RecipientAddress r) (dr_DistributionType r)"

definition claim_done :: "distribution_record \<Rightarrow> dispensation_value kv \<Rightarrow> dispensation_value kv" where
  "claim_done r s = (if DoesTypeSupportClaim r then kv_delete (claim_key r) s else s)"

text \<open>A record is skipped, refused by the bank, or paid.\<close>

inductive drop_step :: "'x lib \<Rightarrow> int \<Rightarrow> 'x ctx \<Rightarrow> distribution_record \<Rightarrow> bool \<Rightarrow> 'x ctx \<Rightarrow> bool"
  for L h c r where
  drop_skip: "payee L r = None \<Longrightarrow> drop_step L h c r ok c"
| drop_refuse: "payee L r = Some a \<Longrightarrow>
    drop_step L h c r False (c\<lparr>dispensation_store := finish h DISTRIBUTION_STATUS_FAILED r (dispensation_store c)\<rparr>)"
| drop_pay: "payee L r = Some a \<Longrightarrow>
    SendCoinsFromModuleToAccount L (ext c) dispensation_ModuleName a (dr_Coins r) = (x, None) \<Longrightarrow>
    drop_step L h c r True (c\<lparr>ext := x, dispensation_store :=
      claim_done r (finish h DISTRIBUTION_STATUS_COMPLETED r (dispensation_store c))\<rparr>)"

context lib_laws
begin

lemma stored_covered:
  assumes "disp_wf L c" and "disp_solvent L c" and "stored (dispensation_store c) r"
  shows "AmountOf (dr_Coins r) d \<le> GetBalance L (ext c) (NewModuleAddress L dispensation_ModuleName) d"
proof -
  have "unpaid d (DV_Record r) \<le> disp_owed c d"
    using owed_covers [of "dispensation_store c" "key_as DISTRIBUTION_STATUS_PENDING r" "DV_Record r" d] assms(1,3)
    by (simp add: disp_wf_def stored_def disp_owed_def)
  moreover have "disp_owed c d \<le> GetBalance L (ext c) (NewModuleAddress L dispensation_ModuleName) d"
    using assms(2) by (simp add: disp_solvent_def bal_def GetDistributionModuleAddress_def)
  ultimately show ?thesis
    using assms(3) by (simp add: unpaid_def stored_def amount_if_def)
qed

lemma distribute_drop_step:
  assumes "disp_wf L c" and "disp_solvent L c" and "stored (dispensation_store c) r"
    and "distribute_drop L h c r = Inr c'"
  shows "\<exists>ok. drop_step L h c r ok c'"
proof (cases "AccAddressFromBech32 L (dr_RecipientAddress r)")
  case (Inl e)
  then have "c' = c" and "payee L r = None"
    using assms(4) by (simp_all add: distribute_drop_def attempt_def payee_def split: if_splits)
  then show ?thesis by (blast intro: drop_skip)
next
  case (Inr a)
  then have a: "payee L r = Some a" by (simp add: payee_def)
  obtain x e where send: "SendCoinsFromModuleToAccount L (ext c) dispensation_ModuleName a (dr_Coins r) = (x, e)"
    by (cases "SendCoinsFromModuleToAccount L (ext c) dispensation_ModuleName a (dr_Coins r)")
  have change: "ChangeRecordStatus L (c\<lparr>ext := x\<rparr>) r h st
      = (c\<lparr>ext := x, dispensation_store := finish h st r (dispensation_store c)\<rparr>, None)" if "ends st" for st
    using ChangeRecordStatus_stored [of L "c\<lparr>ext := x\<rparr>" r st h] assms(1,3) that by (simp add: disp_wf_def)
  show ?thesis
  proof (cases e)
    case None
    then have "c' = c\<lparr>ext := x, dispensation_store :=
        claim_done r (finish h DISTRIBUTION_STATUS_COMPLETED r (dispensation_store c))\<rparr>"
      using assms(4) Inr send change [of DISTRIBUTION_STATUS_COMPLETED]
      by (simp add: distribute_drop_def ends_def claim_done_def claim_key_def DeleteClaim_def split: if_splits)
    then show ?thesis using a send None by (blast intro: drop_pay)
  next
    case (Some err)
    have "x = ext c"
      by (rule send_refused [of "dr_Coins r" "ext c" dispensation_ModuleName])
        (use stored_covered [OF assms(1-3)] send Some in auto)
    then have "c' = c\<lparr>dispensation_store := finish h DISTRIBUTION_STATUS_FAILED r (dispensation_store c)\<rparr>"
      using assms(4) Inr send change [of DISTRIBUTION_STATUS_FAILED] Some
      by (simp add: distribute_drop_def ends_def split: if_splits)
    then show ?thesis using a by (blast intro: drop_refuse)
  qed
qed

lemma claim_done_wf: "store_wf L s \<Longrightarrow> store_wf L (claim_done r s)"
  by (simp add: claim_done_def store_wf_delete)

lemma claim_done_owed: "store_wf L s \<Longrightarrow> kv_sum (unpaid d) (claim_done r s) = kv_sum (unpaid d) s"
  by (simp add: claim_done_def claim_key_def kv_sum_delete [OF store_wf_kv] unpaid_claim_key)

lemma drop_step_inv:
  assumes "drop_step L h c r ok c'" and "disp_wf L c" and "disp_solvent L c" and "stored (dispensation_store c) r"
  shows "disp_wf L c' \<and> disp_solvent L c'"
  using assms(1)
proof cases
  case drop_skip
  then show ?thesis using assms by simp
next
  case (drop_refuse a)
  then show ?thesis
    using assms(2-4) finish_owed [of "dispensation_store c" r DISTRIBUTION_STATUS_FAILED]
    by (fastforce simp: disp_wf_def disp_solvent_def disp_owed_def finish_wf bal_def ends_def amount_if_def intro: order_trans)
next
  case (drop_pay a x)
  let ?s = "finish h DISTRIBUTION_STATUS_COMPLETED r (dispensation_store c)"
  have wf: "store_wf L ?s" using assms(2,4) by (simp add: disp_wf_def finish_wf)
  have "disp_owed c' d \<le> bal L c' (GetDistributionModuleAddress L) d" for d
    using finish_owed [of "dispensation_store c" r DISTRIBUTION_STATUS_COMPLETED d h] assms(2-4)
      send_from_module [OF drop_pay(4), of "GetDistributionModuleAddress L" d] drop_pay(2) validate_amount [OF stored_ok, of _ r d]
      claim_done_owed [OF wf, of d r]
    by (fastforce simp: disp_wf_def disp_solvent_def disp_owed_def bal_def ends_def amount_if_def moved_def
        GetDistributionModuleAddress_def split: if_splits dest: spec [of _ d])
  then show ?thesis
    using drop_pay(2) wf by (simp add: disp_wf_def disp_solvent_def claim_done_wf)
qed

end

subsection \<open>A run\<close>

definition outcome :: "bool \<Rightarrow> distribution_status" where
  "outcome ok = (if ok then DISTRIBUTION_STATUS_COMPLETED else DISTRIBUTION_STATUS_FAILED)"

definition touched :: "'x lib \<Rightarrow> (distribution_record \<Rightarrow> bool) \<Rightarrow> distribution_record \<Rightarrow> key set" where
  "touched L ok r =
     (if payee L r = None then {}
      else {key_as DISTRIBUTION_STATUS_PENDING r, key_as (outcome (ok r)) r}
        \<union> (if ok r \<and> DoesTypeSupportClaim r then {claim_key r} else {}))"

definition paid :: "'x lib \<Rightarrow> distribution_record \<Rightarrow> addr \<Rightarrow> string \<Rightarrow> int" where
  "paid L r a d =
     (case payee L r of None \<Rightarrow> 0 | Some t \<Rightarrow> moved (dr_Coins r) (GetDistributionModuleAddress L) t a d)"

text \<open>What a run leaves behind, given which records the bank paid.\<close>

definition run_effect ::
  "'x lib \<Rightarrow> int \<Rightarrow> (distribution_record \<Rightarrow> bool) \<Rightarrow> 'x ctx \<Rightarrow> distribution_record list \<Rightarrow> 'x ctx \<Rightarrow> bool" where
  "run_effect L h ok c rs c' \<longleftrightarrow>
     (\<forall>a d. bal L c' a d = bal L c a d + (\<Sum>r\<leftarrow>filter ok rs. paid L r a d)) \<and>
     (\<forall>k. k \<notin> (\<Union>r\<in>set rs. touched L ok r) \<longrightarrow> kv_get (dispensation_store c') k = kv_get (dispensation_store c) k) \<and>
     (\<forall>r\<in>set rs. payee L r \<noteq> None \<longrightarrow>
        kv_get (dispensation_store c') (key_as DISTRIBUTION_STATUS_PENDING r) = None \<and>
        kv_get (dispensation_store c') (key_as (outcome (ok r)) r) = Some (DV_Record (finished h (outcome (ok r)) r)) \<and>
        (ok r \<and> DoesTypeSupportClaim r \<longrightarrow> \<not> kv_has (dispensation_store c') (claim_key r)))"

lemma outcome_ends [simp]: "ends (outcome b)"
  by (simp add: outcome_def ends_def)

lemma claim_key_neq' [simp]: "claim_key r \<noteq> key_as st r'" "key_as st r' \<noteq> claim_key r"
  by (simp_all add: claim_key_def)

lemma claim_done_get:
  "kv_get (claim_done r s) k = (if k = claim_key r \<and> DoesTypeSupportClaim r then None else kv_get s k)"
  by (simp add: claim_done_def kv_get_delete)

lemma key_as_record: "key_as st r = key_as st' r' \<Longrightarrow> record_id r = record_id r'"
  by (simp add: key_as_eq)

lemma touched_record:
  "key_as st r \<in> touched L ok r' \<Longrightarrow> record_id r = record_id r'"
  by (auto simp: touched_def dest: key_as_record split: if_splits)

lemma run_effect_cong:
  "run_effect L h ok c rs c' \<Longrightarrow> (\<And>r. r \<in> set rs \<Longrightarrow> ok r = ok' r) \<Longrightarrow> run_effect L h ok' c rs c'"
  unfolding run_effect_def touched_def by (simp cong: filter_cong)

lemma run_effect_append:
  assumes "run_effect L h ok c rs c1" and "run_effect L h ok c1 rs' c'"
    and "record_id ` set rs \<inter> record_id ` set rs' = {}"
  shows "run_effect L h ok c (rs @ rs') c'"
proof -
  have keep: "kv_get (dispensation_store c') (key_as st r) = kv_get (dispensation_store c1) (key_as st r)"
    if "r \<in> set rs" for st r
  proof -
    have "key_as st r \<notin> (\<Union>r\<in>set rs'. touched L ok r)"
      using assms(3) that by (auto dest!: touched_record)
    then show ?thesis using assms(2) unfolding run_effect_def by blast
  qed
  have gone: "\<not> kv_has (dispensation_store c') (claim_key r)" if "\<not> kv_has (dispensation_store c1) (claim_key r)" for r
  proof (cases "claim_key r \<in> (\<Union>r\<in>set rs'. touched L ok r)")
    case True
    then obtain r' where r': "r' \<in> set rs'" "payee L r' \<noteq> None" "ok r'" "DoesTypeSupportClaim r'" "claim_key r = claim_key r'"
      by (auto simp: touched_def split: if_splits)
    then show ?thesis using assms(2) by (simp add: run_effect_def)
  next
    case False
    then have "kv_get (dispensation_store c') (claim_key r) = kv_get (dispensation_store c1) (claim_key r)"
      using assms(2) unfolding run_effect_def by blast
    then show ?thesis using that by (simp add: kv_has_def)
  qed
  show ?thesis
    unfolding run_effect_def
  proof (intro conjI allI impI ballI)
    fix a d
    show "bal L c' a d = bal L c a d + (\<Sum>r\<leftarrow>filter ok (rs @ rs'). paid L r a d)"
      using assms(1,2) by (simp add: run_effect_def)
  next
    fix k assume "k \<notin> (\<Union>r\<in>set (rs @ rs'). touched L ok r)"
    then show "kv_get (dispensation_store c') k = kv_get (dispensation_store c) k"
      using assms(1,2) by (simp add: run_effect_def)
  next
    fix r assume r: "r \<in> set (rs @ rs')" "payee L r \<noteq> None"
    show "kv_get (dispensation_store c') (key_as DISTRIBUTION_STATUS_PENDING r) = None"
      and "kv_get (dispensation_store c') (key_as (outcome (ok r)) r) = Some (DV_Record (finished h (outcome (ok r)) r))"
      using r keep [of r] assms(1,2) by (auto simp: run_effect_def)
    show "ok r \<and> DoesTypeSupportClaim r \<Longrightarrow> \<not> kv_has (dispensation_store c') (claim_key r)"
      using r gone [of r] assms(1,2) by (auto simp: run_effect_def)
  qed
qed

context lib_laws
begin

lemma drop_step_effect:
  assumes "drop_step L h c r ok c'"
  shows "run_effect L h (\<lambda>_. ok) c [r] c'"
  using assms
proof cases
  case drop_skip
  then show ?thesis by (simp add: run_effect_def touched_def paid_def)
next
  case (drop_refuse a)
  then show ?thesis
    by (auto simp: run_effect_def touched_def bal_def finish_get ends_def outcome_def key_as_ends)
next
  case (drop_pay a x)
  then show ?thesis
    using send_from_module [OF drop_pay(4)]
    by (auto simp: run_effect_def touched_def bal_def finish_get ends_def outcome_def key_as_ends claim_done_get
        paid_def GetDistributionModuleAddress_def kv_has_def)
qed

lemma drops_effect:
  assumes "foldE (distribute_drop L h) c rs = Inr c'" and "disp_wf L c" and "disp_solvent L c"
    and "\<forall>r\<in>set rs. stored (dispensation_store c) r" and "distinct (map record_id rs)"
  shows "disp_wf L c' \<and> disp_solvent L c' \<and> (\<exists>ok. run_effect L h ok c rs c')"
  using assms
proof (induction rs arbitrary: c)
  case Nil
  then show ?case by (simp add: run_effect_def)
next
  case (Cons r rs)
  from Cons.prems(1) obtain c1 where drop: "distribute_drop L h c r = Inr c1"
    and rest: "foldE (distribute_drop L h) c1 rs = Inr c'"
    by (auto simp: res_simps)
  obtain b where step: "drop_step L h c r b c1"
    using distribute_drop_step [OF Cons.prems(2,3) _ drop] Cons.prems(4) by auto
  have inv: "disp_wf L c1 \<and> disp_solvent L c1"
    using drop_step_inv [OF step Cons.prems(2,3)] Cons.prems(4) by simp
  have eff: "run_effect L h (\<lambda>_. b) c [r] c1"
    by (rule drop_step_effect [OF step])
  have "stored (dispensation_store c1) r'" if "r' \<in> set rs" for r'
  proof -
    have "key_as DISTRIBUTION_STATUS_PENDING r' \<notin> (\<Union>r\<in>set [r]. touched L (\<lambda>_. b) r)"
      using Cons.prems(5) that by (auto dest!: touched_record) (metis image_eqI)
    then have "kv_get (dispensation_store c1) (key_as DISTRIBUTION_STATUS_PENDING r')
        = kv_get (dispensation_store c) (key_as DISTRIBUTION_STATUS_PENDING r')"
      using eff unfolding run_effect_def by blast
    then show ?thesis using Cons.prems(4) that by (simp add: stored_def)
  qed
  with Cons.IH [OF rest] inv Cons.prems(5)
  obtain ok where fin: "disp_wf L c'" "disp_solvent L c'" and ok: "run_effect L h ok c1 rs c'"
    by auto
  have new: "r \<notin> set rs" using Cons.prems(5) by auto
  have "run_effect L h (ok(r := b)) c [r] c1"
    by (rule run_effect_cong [OF eff]) simp
  moreover have "run_effect L h (ok(r := b)) c1 rs c'"
    by (rule run_effect_cong [OF ok]) (use new in auto)
  ultimately have "run_effect L h (ok(r := b)) c ([r] @ rs) c'"
    by (rule run_effect_append) (use Cons.prems(5) in auto)
  then show ?case using fin by auto
qed

end

subsection \<open>Which records a run takes\<close>

definition records_of :: "dispensation_value kv \<Rightarrow> distribution_record list" where
  "records_of es = concat (map (\<lambda>e. case snd e of DV_Record r \<Rightarrow> [r] | _ \<Rightarrow> []) es)"

definition runs :: "msg_run_distribution \<Rightarrow> distribution_record \<Rightarrow> bool" where
  "runs m r \<longleftrightarrow> dr_DistributionName r = mrd_DistributionName m \<and>
     dr_DistributionStatus r = DISTRIBUTION_STATUS_PENDING \<and>
     dr_AuthorizedRunner r = mrd_AuthorizedRunner m \<and> dr_DistributionType r = mrd_DistributionType m"

text \<open>The pending records that a runner may still run, in the order of their keys.\<close>

definition runnable :: "'x ctx \<Rightarrow> msg_run_distribution \<Rightarrow> distribution_record list" where
  "runnable c m = filter (runs m) (records_of (kv_prefix DistributionRecordPrefixPending (dispensation_store c)))"

lemma records_of_simps [simp]:
  "records_of [] = []"
  "records_of (e # es) = (case snd e of DV_Record r \<Rightarrow> r # records_of es | _ \<Rightarrow> records_of es)"
  by (simp_all add: records_of_def split: dispensation_value.split)

lemma in_records_of: "r \<in> set (records_of es) \<longleftrightarrow> (\<exists>k. (k, DV_Record r) \<in> set es)"
proof (induction es)
  case (Cons e es)
  then show ?case by (cases e; cases "snd e") auto
qed simp

lemma record_of_Inr: "record_of v = Inr r \<longleftrightarrow> v = DV_Record r"
  by (simp add: record_of_def split: dispensation_value.split)

lemma limited_records_take:
  "limited_records n P es = Inr rs \<Longrightarrow> rs = take n (filter P (records_of es))"
  by (induction n P es arbitrary: rs rule: limited_records.induct)
    (auto simp: res_simps record_of_Inr split: if_splits)

lemma GetLimitedRecordsForRunner_take:
  "GetLimitedRecordsForRunner c (mrd_DistributionName m) (mrd_AuthorizedRunner m) (mrd_DistributionType m)
     DISTRIBUTION_STATUS_PENDING = Inr rs \<Longrightarrow> rs = take MaxRecordsPerBlock (runnable c m)"
  by (auto simp: GetLimitedRecordsForRunner_def GetDistributionRecordsIterator_def runnable_def runs_def [abs_def]
      dest!: limited_records_take)

text \<open>Below the prefix of pending records there are pending records only, one for each key.\<close>

lemma pending_entry:
  assumes "store_wf L s" and "(k, v) \<in> set (kv_prefix DistributionRecordPrefixPending s)"
  obtains r where "v = DV_Record r" and "stored s r" and "k = key_as DISTRIBUTION_STATUS_PENDING r"
proof -
  have k: "HasPrefix k [CHR 0x00]" and get: "kv_get s k = Some v"
    using assms by (simp_all add: in_kv_prefix store_wf_kv DistributionRecordPrefixPending_def)
  have "k \<noteq> []" and hd: "hd k = CHR 0x00"
    using k by (cases k; simp add: HasPrefix_def)+
  then obtain r where r: "v = DV_Record r" "k = key_as (dr_DistributionStatus r) r"
    using store_wf_record [OF assms(1) get] by auto
  then have "dr_DistributionStatus r = DISTRIBUTION_STATUS_PENDING"
    using hd by simp
  then show thesis
    using that r get by (simp add: stored_def)
qed

lemma pending_stored: "store_wf L s \<Longrightarrow> stored s r \<Longrightarrow> r \<in> set (records_of (kv_prefix DistributionRecordPrefixPending s))"
  by (auto simp: in_records_of in_kv_prefix store_wf_kv stored_def DistributionRecordPrefixPending_def key_as_eq
      HasPrefix_def status_byte_def intro!: exI [of _ "key_as DISTRIBUTION_STATUS_PENDING r"])

lemma pending_keys:
  assumes "store_wf L s"
  shows "map (key_as DISTRIBUTION_STATUS_PENDING) (records_of (kv_prefix DistributionRecordPrefixPending s))
    = map fst (kv_prefix DistributionRecordPrefixPending s)"
proof -
  have "map (key_as DISTRIBUTION_STATUS_PENDING) (records_of es) = map fst es"
    if "\<forall>e\<in>set es. \<exists>r. snd e = DV_Record r \<and> fst e = key_as DISTRIBUTION_STATUS_PENDING r" for es
    using that by (induction es) auto
  then show ?thesis using pending_entry [OF assms] by (metis prod.collapse)
qed

lemma runnable_stored: "store_wf L (dispensation_store c) \<Longrightarrow> r \<in> set (runnable c m) \<Longrightarrow> stored (dispensation_store c) r"
  by (auto simp: runnable_def in_records_of elim!: pending_entry)

lemma runnable_distinct:
  assumes "store_wf L (dispensation_store c)"
  shows "distinct (map record_id (runnable c m))"
proof -
  let ?es = "kv_prefix DistributionRecordPrefixPending (dispensation_store c)"
  have "distinct (map fst ?es)"
    using kvs.entries_distinct [OF store_wf_kv [OF assms]] by (simp add: kv_prefix_def distinct_map_filter)
  then have "distinct (map (key_as DISTRIBUTION_STATUS_PENDING) (records_of ?es))"
    by (simp only: pending_keys [OF assms])
  moreover have "map (key_as DISTRIBUTION_STATUS_PENDING) rs = map ((#) (CHR 0x00)) (map record_id rs)" for rs
    by (simp add: key_as_eq status_byte_def)
  ultimately have "distinct (map record_id (records_of ?es))"
    by (metis distinct_map)
  then show ?thesis by (simp add: runnable_def distinct_map_filter)
qed

context lib_laws
begin

lemma DistributeDrops_effect:
  assumes "DistributeDrops L c h (mrd_DistributionName m) (mrd_AuthorizedRunner m) (mrd_DistributionType m) = Inr (rs, c')"
    and "disp_wf L c" and "disp_solvent L c"
  shows "rs = take MaxRecordsPerBlock (runnable c m)"
    and "disp_wf L c' \<and> disp_solvent L c' \<and> (\<exists>ok. run_effect L h ok c rs c')"
proof -
  show rs: "rs = take MaxRecordsPerBlock (runnable c m)"
    using assms(1) by (auto simp: DistributeDrops_def res_simps dest: GetLimitedRecordsForRunner_take)
  have wf: "store_wf L (dispensation_store c)" using assms(2) by (simp add: disp_wf_def)
  have fold: "foldE (distribute_drop L h) c rs = Inr c'"
    using assms(1) by (auto simp: DistributeDrops_def res_simps)
  show "disp_wf L c' \<and> disp_solvent L c' \<and> (\<exists>ok. run_effect L h ok c rs c')"
  proof (rule drops_effect [OF fold assms(2,3)])
    show "\<forall>r\<in>set rs. stored (dispensation_store c) r"
      using rs by (auto dest!: in_set_takeD intro: runnable_stored [OF wf])
    show "distinct (map record_id rs)"
      using runnable_distinct [OF wf, of m] rs by (simp flip: take_map)
  qed
qed

lemma RunDistribution_effect:
  assumes "msg_RunDistribution L c m = Inr c'" and "disp_wf L c" and "disp_solvent L c"
  shows "disp_wf L c' \<and> disp_solvent L c' \<and>
    (\<exists>ok. run_effect L (BlockHeight c) ok c (take MaxRecordsPerBlock (runnable c m)) c')"
proof -
  obtain rs c1 es where run: "DistributeDrops L c (BlockHeight c) (mrd_DistributionName m) (mrd_AuthorizedRunner m)
      (mrd_DistributionType m) = Inr (rs, c1)" and c': "c' = EmitEvents es c1"
    using assms(1) unfolding msg_RunDistribution_def by (auto simp: res_simps)
  show ?thesis
    using DistributeDrops_effect [OF run assms(2,3)] c'
    by (auto simp: disp_wf_def disp_solvent_def disp_owed_def run_effect_def)
qed

end

subsection \<open>Creating a distribution\<close>

definition outs_amount :: "bank_output list \<Rightarrow> string \<Rightarrow> int" where
  "outs_amount outs d = (\<Sum>out\<leftarrow>outs. AmountOf (out_Coins out) d)"

text \<open>What a pending record promises to a recipient.\<close>

definition promised :: "'x ctx \<Rightarrow> string \<Rightarrow> distribution_type \<Rightarrow> string \<Rightarrow> string \<Rightarrow> int" where
  "promised c name t recipient d =
     (case kv_get (dispensation_store c) (GetDistributionRecordKey DISTRIBUTION_STATUS_PENDING name recipient t) of
        Some (DV_Record r) \<Rightarrow> AmountOf (dr_Coins r) d
      | _ \<Rightarrow> 0)"

lemma pending_key_inj:
  "GetDistributionRecordKey st n a t = GetDistributionRecordKey st n b t \<longleftrightarrow> a = b"
  by (cases st) (simp_all add: GetDistributionRecordKey_def)

lemma hd_pending_key [simp]: "hd (GetDistributionRecordKey st n a t) = status_byte st" "GetDistributionRecordKey st n a t \<noteq> []"
  by (cases st; simp add: GetDistributionRecordKey_def status_byte_def disp_prefixes)+

context lib_laws
begin

lemma total_rest_amount: "total_rest L t outs = Inr t' \<Longrightarrow> AmountOf t' d = AmountOf t d + outs_amount outs d"
  by (induction outs arbitrary: t) (auto simp: res_simps outs_amount_def dest: coins_add_amount [where d = d])

lemma TotalOutput_amount: "TotalOutput L outs = Inr t \<Longrightarrow> AmountOf t d = outs_amount outs d"
  by (auto simp: TotalOutput_def outs_amount_def dest!: total_rest_amount [where d = d] split: list.splits)

lemma create_drop_effect:
  assumes "create_drop L n t run c out = Inr c'" and "disp_wf L c"
  shows "disp_wf L c'" and "ext c' = ext c"
    and "disp_owed c' d = disp_owed c d + AmountOf (out_Coins out) d"
    and "promised c' n t a d = promised c n t a d + amount_if (out_Address out = a) (AmountOf (out_Coins out) d)"
proof -
  let ?s = "dispensation_store c"
  let ?k = "GetDistributionRecordKey DISTRIBUTION_STATUS_PENDING n (out_Address out) t"
  let ?new = "NewDistributionRecord DISTRIBUTION_STATUS_PENDING t n (out_Address out) (out_Coins out) (BlockHeight c) (- 1) run"
  have wf: "store_wf L ?s" using assms(2) by (simp add: disp_wf_def)
  have "\<exists>cs. DistributionRecord_Validate L (?new\<lparr>dr_Coins := cs\<rparr>) \<and>
      c' = c\<lparr>dispensation_store := put (DV_Record (?new\<lparr>dr_Coins := cs\<rparr>)) ?s\<rparr> \<and>
      (\<forall>d. AmountOf cs d = AmountOf (out_Coins out) d + promised c n t (out_Address out) d) \<and>
      (case kv_get ?s ?k of None \<Rightarrow> 0 | Some w \<Rightarrow> unpaid d w) = promised c n t (out_Address out) d"
  proof (cases "kv_get ?s ?k")
    case None
    then show ?thesis
      using assms(1)
      by (intro exI [of _ "out_Coins out"])
        (auto simp: create_drop_def Let_def ExistsDistributionRecord_def kv_has_def NewDistributionRecord_def
          res_simps SetDistributionRecord_Inr promised_def)
  next
    case (Some v)
    obtain old where v: "v = DV_Record old" and old: "?k = key_as (dr_DistributionStatus old) old"
      using store_wf_record [OF wf Some] by auto
    have pend: "dr_DistributionStatus old = DISTRIBUTION_STATUS_PENDING"
      using arg_cong [OF old, of hd] by (simp add: status_byte_def split: distribution_status.splits)
    obtain cs where "Coins_Add L (out_Coins out) (dr_Coins old) = Inr cs"
      and "SetDistributionRecord L c (?new\<lparr>dr_Coins := cs\<rparr>) = Inr c'"
      using assms(1) Some v
      by (auto simp: create_drop_def Let_def ExistsDistributionRecord_def GetDistributionRecord_def kv_has_def
          res_simps record_of_def DistributionRecord_Add_def NewDistributionRecord_def)
    then show ?thesis
      using Some v pend coins_add_amount
      by (intro exI [of _ cs]) (auto simp: SetDistributionRecord_Inr promised_def unpaid_def amount_if_def)
  qed
  then obtain cs where ok: "DistributionRecord_Validate L (?new\<lparr>dr_Coins := cs\<rparr>)"
    and c': "c' = c\<lparr>dispensation_store := put (DV_Record (?new\<lparr>dr_Coins := cs\<rparr>)) ?s\<rparr>"
    and cs: "\<And>d. AmountOf cs d = AmountOf (out_Coins out) d + promised c n t (out_Address out) d"
    and was: "(case kv_get ?s ?k of None \<Rightarrow> 0 | Some w \<Rightarrow> unpaid d w) = promised c n t (out_Address out) d"
    by blast
  have key: "value_key (DV_Record (?new\<lparr>dr_Coins := cs\<rparr>)) = ?k"
    by (simp add: value_key_def key_as_def NewDistributionRecord_def)
  show "disp_wf L c'" using c' wf ok by (simp add: disp_wf_def store_wf_put value_ok_def)
  show "ext c' = ext c" using c' by simp
  show "disp_owed c' d = disp_owed c d + AmountOf (out_Coins out) d"
    using c' cs [of d] was kv_sum_set [OF store_wf_kv [OF wf], of "unpaid d" ?k "DV_Record (?new\<lparr>dr_Coins := cs\<rparr>)"]
    by (simp add: disp_owed_def put_def key) (simp add: unpaid_def NewDistributionRecord_def amount_if_def)
  show "promised c' n t a d = promised c n t a d + amount_if (out_Address out = a) (AmountOf (out_Coins out) d)"
    using c' cs [of d]
    by (auto simp: promised_def put_def key kv_get_set pending_key_inj amount_if_def)
qed

lemma CreateDrops_effect:
  assumes "CreateDrops L c outs n t run = Inr c'" and "disp_wf L c"
  shows "disp_wf L c' \<and> ext c' = ext c \<and> disp_owed c' d = disp_owed c d + outs_amount outs d \<and>
    promised c' n t a d = promised c n t a d + outs_amount (filter (\<lambda>out. out_Address out = a) outs) d"
  using assms
proof (induction outs arbitrary: c)
  case Nil
  then show ?case by (simp add: CreateDrops_def outs_amount_def)
next
  case (Cons out outs)
  then obtain c1 where one: "create_drop L n t run c out = Inr c1" and rest: "CreateDrops L c1 outs n t run = Inr c'"
    by (auto simp: CreateDrops_def res_simps)
  note step = create_drop_effect [OF one Cons.prems(2)]
  show ?case
    using Cons.IH [OF rest step(1)] step(2) step(3) [of d] step(4) [of a d]
    by (auto simp: outs_amount_def amount_if_def)
qed

lemma VerifyAndSetDistribution_effect:
  assumes "VerifyAndSetDistribution c n t run = Inr c'" and "disp_wf L c"
  shows "\<not> ExistsDistribution c n t run \<and> ExistsDistribution c' n t run \<and> disp_wf L c' \<and> ext c' = ext c \<and>
    disp_owed c' d = disp_owed c d \<and> promised c' n t a d = promised c n t a d"
proof -
  let ?d = "NewDistribution t n run"
  have new: "\<not> ExistsDistribution c n t run" and ok: "Distribution_Validate ?d"
    and c': "c' = c\<lparr>dispensation_store := put (DV_Distribution ?d) (dispensation_store c)\<rparr>"
    using assms(1) by (auto simp: VerifyAndSetDistribution_def res_simps SetDistribution_Inr)
  have key: "value_key (DV_Distribution ?d) = GetDistributionsKey n t run"
    by (simp add: value_key_def NewDistribution_def)
  have "GetDistributionRecordKey DISTRIBUTION_STATUS_PENDING n a t \<noteq> GetDistributionsKey n t run"
    using hd_keys(1) [of n t run] hd_pending_key(1) status_byte_neq(1) by metis
  then show ?thesis
    using new ok c' assms(2) kv_sum_set [OF store_wf_kv, of L "dispensation_store c" "unpaid d"]
      unpaid_claim_key(2) [where st = "dispensation_store c" and L = L]
      store_wf_put [of L "dispensation_store c" "DV_Distribution ?d"]
    by (auto simp: disp_wf_def disp_owed_def value_ok_def put_def key promised_def kv_get_set
        ExistsDistribution_def kv_has_def)
qed

lemma CreateDistribution_effect:
  assumes "msg_CreateDistribution L c m = Inr c'" and "disp_wf L c"
  shows "\<exists>dist. AccAddressFromBech32 L (mcd_Distributor m) = Inr dist \<and>
    disp_wf L c' \<and> disp_owed c' d = disp_owed c d + outs_amount (mcd_Output m) d \<and>
    bal L c' a d = bal L c a d + amount_if (a = GetDistributionModuleAddress L) (outs_amount (mcd_Output m) d)
      - amount_if (a = dist) (outs_amount (mcd_Output m) d) \<and>
    promised c' (distribution_name c (mcd_Distributor m)) (mcd_DistributionType m) s d
      = promised c (distribution_name c (mcd_Distributor m)) (mcd_DistributionType m) s d
        + outs_amount (filter (\<lambda>out. out_Address out = s) (mcd_Output m)) d"
proof -
  let ?n = "distribution_name c (mcd_Distributor m)" and ?t = "mcd_DistributionType m"
  obtain c1 tot c2 dist c3 es where ver: "VerifyAndSetDistribution c ?n ?t (mcd_AuthorizedRunner m) = Inr c1"
    and tot: "TotalOutput L (mcd_Output m) = Inr tot" and dist: "AccAddressFromBech32 L (mcd_Distributor m) = Inr dist"
    and acc: "bank (\<lambda>x. SendCoinsFromAccountToModule L x dist dispensation_ModuleName tot) c1 = Inr c2"
    and drops: "CreateDrops L c2 (mcd_Output m) ?n ?t (mcd_AuthorizedRunner m) = Inr c3" and c': "c' = EmitEvents es c3"
    using assms(1) unfolding msg_CreateDistribution_def AccumulateDrops_def
    by (auto simp: Let_def bindE_eq_Inr wrapE_eq_Inr)
  note v = VerifyAndSetDistribution_effect [OF ver assms(2), of d s]
  have c2: "disp_wf L c2" "disp_owed c2 d = disp_owed c1 d" "promised c2 ?n ?t s d = promised c1 ?n ?t s d"
    using acc v by (auto simp: res_simps disp_wf_def disp_owed_def promised_def)
  note dr = CreateDrops_effect [OF drops c2(1), of d s]
  have "bal L c3 a d = bal L c2 a d" "bal L c1 a d = bal L c a d"
    using dr v by (simp_all add: bal_def)
  then show ?thesis
    using dist v c2 dr c' bal_to_module [OF acc, of a d] TotalOutput_amount [OF tot, of d]
    by (auto simp: moved_def amount_if_def GetDistributionModuleAddress_def disp_wf_def disp_owed_def promised_def)
qed

lemma CreateUserClaim_effect:
  assumes "msg_CreateUserClaim L c m = Inr c'" and "disp_wf L c"
  shows "disp_wf L c' \<and> ext c' = ext c \<and> disp_owed c' d = disp_owed c d \<and>
    \<not> ExistsClaim c (muc_UserClaimAddress m) (muc_UserClaimType m) \<and>
    ExistsClaim c' (muc_UserClaimAddress m) (muc_UserClaimType m)"
proof -
  let ?k = "GetUserClaimKey (muc_UserClaimAddress m) (muc_UserClaimType m)"
  obtain u es where new: "\<not> ExistsClaim c (muc_UserClaimAddress m) (muc_UserClaimType m)"
    and ok: "UserClaim_Validate u" and u: "UserAddress u = muc_UserClaimAddress m" "UserClaimType u = muc_UserClaimType m"
    and c': "c' = EmitEvents es (c\<lparr>dispensation_store := put (DV_Claim u) (dispensation_store c)\<rparr>)"
    using assms(1) unfolding msg_CreateUserClaim_def NewUserClaim_def
    by (auto simp: bindE_eq_Inr guardE_eq_Inr SetClaim_Inr)
  have "value_key (DV_Claim u) = ?k" using u by (simp add: value_key_def)
  then show ?thesis
    using new ok c' assms(2) kv_sum_set [OF store_wf_kv, of L "dispensation_store c" "unpaid d" ?k]
      unpaid_claim_key(1) [of L "dispensation_store c"] store_wf_put [of L "dispensation_store c" "DV_Claim u"]
    by (auto simp: disp_wf_def disp_owed_def value_ok_def put_def kv_get_set ExistsClaim_def kv_has_def)
qed

end

subsection \<open>Histories\<close>

definition disp_allowed :: "'x lib \<Rightarrow> dispensation_msg \<Rightarrow> bool" where
  "disp_allowed L msg \<longleftrightarrow>
     (case msg of
        MsgCreateDistribution m \<Rightarrow> AccAddressFromBech32 L (mcd_Distributor m) \<noteq> Inr (GetDistributionModuleAddress L)
      | _ \<Rightarrow> True)"

lemma disp_wf_events [simp]: "disp_wf L (c\<lparr>events := es\<rparr>) = disp_wf L c"
  by (simp add: disp_wf_def)

lemma disp_solvent_events [simp]: "disp_solvent L (c\<lparr>events := es\<rparr>) = disp_solvent L c"
  by (simp add: disp_solvent_def disp_owed_def bal_def)

context lib_laws
begin

lemma CreateDistribution_solvent:
  assumes "disp_wf L c" and "disp_solvent L c" and "disp_allowed L (MsgCreateDistribution m)"
    and "msg_CreateDistribution L c m = Inr c'"
  shows "disp_wf L c' \<and> disp_solvent L c'"
proof -
  have "disp_owed c' d \<le> bal L c' (GetDistributionModuleAddress L) d" for d
    using CreateDistribution_effect [OF assms(4,1), of d "GetDistributionModuleAddress L" "[]"] assms(2,3)
      spec [of _ d] by (auto simp: disp_allowed_def amount_if_def disp_solvent_def split: if_splits)
  then show ?thesis
    using CreateDistribution_effect [OF assms(4,1)] by (auto simp: disp_solvent_def)
qed

lemma CreateUserClaim_solvent:
  assumes "disp_wf L c" and "disp_solvent L c" and "msg_CreateUserClaim L c m = Inr c'"
  shows "disp_wf L c' \<and> disp_solvent L c'"
  using CreateUserClaim_effect [OF assms(3,1)] assms(2) by (simp add: disp_solvent_def bal_def)

lemma disp_step_solvent:
  assumes "disp_wf L c \<and> disp_solvent L c" and "disp_allowed L msg" and "dispensation_NewHandler L c msg = Inr c'"
  shows "disp_wf L c' \<and> disp_solvent L c'"
proof (cases msg)
  case (MsgCreateDistribution m)
  then show ?thesis
    using assms CreateDistribution_solvent [of "c\<lparr>events := []\<rparr>" m c'] by (simp add: dispensation_NewHandler_def Let_def)
next
  case (MsgCreateUserClaim m)
  then show ?thesis
    using assms CreateUserClaim_solvent [of "c\<lparr>events := []\<rparr>" m c'] by (simp add: dispensation_NewHandler_def Let_def)
next
  case (MsgRunDistribution m)
  then show ?thesis
    using assms RunDistribution_effect [of "c\<lparr>events := []\<rparr>" m c'] by (simp add: dispensation_NewHandler_def Let_def)
qed

end

sublocale lib_laws \<subseteq> drops: machine "dispensation_NewHandler L" "\<lambda>c. disp_wf L c \<and> disp_solvent L c" "disp_allowed L"
  by unfold_locales (rule disp_step_solvent)

context lib_laws
begin

lemma disp_run_solvent:
  "disp_wf L c \<Longrightarrow> disp_solvent L c \<Longrightarrow> list_all (disp_allowed L) msgs \<Longrightarrow>
     disp_solvent L (foldl (deliver (dispensation_NewHandler L)) c msgs)"
  using drops.run_inv by blast

end

subsection \<open>Every record is settled\<close>

text \<open>
  The documented panics of the calls that a run makes do not occur: an address is decoded or
  refused, and the module's account is registered.
\<close>

definition no_panics :: "'x lib \<Rightarrow> bool" where
  "no_panics L \<longleftrightarrow> (\<forall>s. AccAddressFromBech32 L s \<noteq> Inl Panic) \<and>
     (\<forall>x a cs. snd (SendCoinsFromModuleToAccount L x dispensation_ModuleName a cs) \<noteq> Some Panic)"

lemma limited_records_total:
  "\<forall>e\<in>set es. \<exists>r. snd e = DV_Record r \<Longrightarrow> \<exists>rs. limited_records n P es = Inr rs"
proof (induction n P es rule: limited_records.induct)
  case (3 n P e es)
  then obtain r where "snd e = DV_Record r" by auto
  then show ?case using 3 by (cases "P r") (auto simp: record_of_def bindE_eq_Inr)
qed simp_all

context lib_laws
begin

lemma distribute_drop_total:
  assumes "no_panics L" and "disp_wf L c" and "stored (dispensation_store c) r"
  shows "\<exists>c'. distribute_drop L h c r = Inr c'"
proof (cases "AccAddressFromBech32 L (dr_RecipientAddress r)")
  case (Inl e)
  then show ?thesis using assms(1) by (auto simp: distribute_drop_def attempt_def no_panics_def)
next
  case (Inr a)
  obtain x e where send: "SendCoinsFromModuleToAccount L (ext c) dispensation_ModuleName a (dr_Coins r) = (x, e)"
    by (cases "SendCoinsFromModuleToAccount L (ext c) dispensation_ModuleName a (dr_Coins r)")
  have "e \<noteq> Some Panic" using assms(1) send unfolding no_panics_def by (metis snd_conv)
  then show ?thesis
    using Inr send ChangeRecordStatus_stored [of L "c\<lparr>ext := x\<rparr>" r _ h] assms(2,3)
    by (cases e) (auto simp: distribute_drop_def disp_wf_def ends_def)
qed

lemma drops_total:
  assumes "no_panics L" and "disp_wf L c" and "disp_solvent L c"
    and "\<forall>r\<in>set rs. stored (dispensation_store c) r" and "distinct (map record_id rs)"
  shows "\<exists>c'. foldE (distribute_drop L h) c rs = Inr c'"
  using assms(4,5)
proof (induction rs rule: rev_induct)
  case Nil
  then show ?case by simp
next
  case (snoc r rs)
  then obtain c1 where fold: "foldE (distribute_drop L h) c rs = Inr c1" by auto
  then obtain ok where wf: "disp_wf L c1" and eff: "run_effect L h ok c rs c1"
    using drops_effect [OF fold assms(2,3)] snoc.prems by auto
  have "key_as DISTRIBUTION_STATUS_PENDING r \<notin> (\<Union>r\<in>set rs. touched L ok r)"
    using snoc.prems(2) by (auto dest!: touched_record)
  then have "kv_get (dispensation_store c1) (key_as DISTRIBUTION_STATUS_PENDING r)
      = kv_get (dispensation_store c) (key_as DISTRIBUTION_STATUS_PENDING r)"
    using eff unfolding run_effect_def by blast
  then have "stored (dispensation_store c1) r"
    using snoc.prems(1) by (simp add: stored_def)
  then show ?case
    using distribute_drop_total [OF assms(1) wf, of r h] fold by (simp add: bindE_eq_Inr)
qed

lemma RunDistribution_total:
  assumes "no_panics L" and "disp_wf L c" and "disp_solvent L c"
  shows "\<exists>c'. msg_RunDistribution L c m = Inr c'"
proof -
  let ?P = "\<lambda>dr. dr_DistributionName dr = mrd_DistributionName m \<and>
         dr_DistributionStatus dr = DISTRIBUTION_STATUS_PENDING \<and>
         dr_AuthorizedRunner dr = mrd_AuthorizedRunner m \<and> dr_DistributionType dr = mrd_DistributionType m"
  have wf: "store_wf L (dispensation_store c)" using assms(2) by (simp add: disp_wf_def)
  then have "\<exists>rs. limited_records MaxRecordsPerBlock ?P
      (kv_prefix DistributionRecordPrefixPending (dispensation_store c)) = Inr rs"
    by (intro limited_records_total) (auto elim: pending_entry)
  then obtain rs where get: "GetLimitedRecordsForRunner c (mrd_DistributionName m) (mrd_AuthorizedRunner m)
      (mrd_DistributionType m) DISTRIBUTION_STATUS_PENDING = Inr rs"
    by (auto simp: GetLimitedRecordsForRunner_def GetDistributionRecordsIterator_def)
  then have rs: "rs = take MaxRecordsPerBlock (runnable c m)" by (rule GetLimitedRecordsForRunner_take)
  have "\<exists>c'. foldE (distribute_drop L (BlockHeight c)) c rs = Inr c'"
  proof (rule drops_total [OF assms])
    show "\<forall>r\<in>set rs. stored (dispensation_store c) r"
      using rs by (auto dest!: in_set_takeD intro: runnable_stored [OF wf])
    show "distinct (map record_id rs)"
      using runnable_distinct [OF wf, of m] rs by (simp flip: take_map)
  qed
  then show ?thesis
    using get by (auto simp: msg_RunDistribution_def DistributeDrops_def)
qed

end

lemma filter_not_taken: "distinct xs \<Longrightarrow> filter (\<lambda>x. x \<notin> set (take n xs)) xs = drop n xs"
proof -
  assume "distinct xs"
  then have "filter (\<lambda>x. x \<notin> set (take n xs)) (drop n xs) = drop n xs"
    using set_take_disj_set_drop_if_distinct [of xs n n] by (auto simp: filter_id_conv)
  then have "filter (\<lambda>x. x \<notin> set (take n xs)) (take n xs @ drop n xs) = drop n xs"
    by (simp only: filter_append) (simp add: filter_empty_conv)
  then show ?thesis by simp
qed

text \<open>A run takes its records out of those that are pending and leaves the others.\<close>

lemma run_effect_pending:
  assumes "run_effect L h ok c rs c'" and wf: "disp_wf L c" and wf': "disp_wf L c'"
    and rs: "\<forall>r\<in>set rs. stored (dispensation_store c) r \<and> payee L r \<noteq> None"
  shows "kv_prefix DistributionRecordPrefixPending (dispensation_store c')
    = filter (\<lambda>e. fst e \<notin> key_as DISTRIBUTION_STATUS_PENDING ` set rs)
        (kv_prefix DistributionRecordPrefixPending (dispensation_store c))"
proof (rule kv_eqI)
  let ?s = "dispensation_store c" and ?s' = "dispensation_store c'" and ?p = DistributionRecordPrefixPending
  let ?K = "key_as DISTRIBUTION_STATUS_PENDING ` set rs"
  have ok: "kv_ok ?s" "kv_ok ?s'" using wf wf' by (simp_all add: disp_wf_def store_wf_kv)
  then show "kv_ok (kv_prefix ?p ?s')" and "kv_ok (filter (\<lambda>e. fst e \<notin> ?K) (kv_prefix ?p ?s))"
    by (simp_all add: kv_prefix_def kv_ok_filter)
  have "kv_get ?s' k = (if k \<in> ?K then None else kv_get ?s k)" if "HasPrefix k ?p" for k
  proof (cases "k \<in> ?K")
    case True
    then show ?thesis using assms(1) rs by (auto simp: run_effect_def)
  next
    case False
    have "hd k = CHR 0x00" using that by (cases k) (simp_all add: HasPrefix_def DistributionRecordPrefixPending_def)
    then have "k \<noteq> key_as (outcome b) r" and "k \<noteq> claim_key r" for b r
      by (auto simp: outcome_def claim_key_def split: if_splits)
    then have "k \<notin> (\<Union>r\<in>set rs. touched L ok r)"
      using False by (auto simp: touched_def split: if_splits)
    then show ?thesis using assms(1) False unfolding run_effect_def by auto
  qed
  then show "set (kv_prefix ?p ?s') = set (filter (\<lambda>e. fst e \<notin> ?K) (kv_prefix ?p ?s))"
    using ok by (auto simp: in_kv_prefix split: if_splits)
qed

lemma records_of_filter:
  "\<forall>e\<in>set es. \<exists>r. snd e = DV_Record r \<and> (P e \<longleftrightarrow> Q r) \<Longrightarrow> records_of (filter P es) = filter Q (records_of es)"
  by (induction es) auto

lemma runnable_after:
  assumes "run_effect L h ok c (take n (runnable c m)) c'" and wf: "disp_wf L c" and "disp_wf L c'"
    and "\<forall>r\<in>set (runnable c m). payee L r \<noteq> None"
  shows "runnable c' m = drop n (runnable c m)"
proof -
  let ?s = "dispensation_store c" and ?p = DistributionRecordPrefixPending
  let ?rs = "take n (runnable c m)" and ?K = "key_as DISTRIBUTION_STATUS_PENDING ` set (take n (runnable c m))"
  have swf: "store_wf L ?s" using wf by (simp add: disp_wf_def)
  have st: "stored ?s r" if "r \<in> set ?rs" for r
    by (rule runnable_stored [OF swf, of _ m]) (rule in_set_takeD [OF that])
  have pend: "kv_prefix ?p (dispensation_store c') = filter (\<lambda>e. fst e \<notin> ?K) (kv_prefix ?p ?s)"
    by (rule run_effect_pending [OF assms(1-3)]) (use st assms(4) in \<open>auto dest: in_set_takeD\<close>)
  have "\<forall>e\<in>set (kv_prefix ?p ?s). \<exists>r. snd e = DV_Record r \<and> (fst e \<notin> ?K \<longleftrightarrow> r \<notin> set ?rs)"
  proof
    fix e assume "e \<in> set (kv_prefix ?p ?s)"
    then obtain r where r: "snd e = DV_Record r" "stored ?s r" "fst e = key_as DISTRIBUTION_STATUS_PENDING r"
      using pending_entry [OF swf, of "fst e" "snd e"] by auto
    have "r' = r" if "r' \<in> set ?rs" and "key_as DISTRIBUTION_STATUS_PENDING r = key_as DISTRIBUTION_STATUS_PENDING r'" for r'
      using st [OF that(1)] r(2) that(2) by (simp add: stored_def)
    then show "\<exists>r. snd e = DV_Record r \<and> (fst e \<notin> ?K \<longleftrightarrow> r \<notin> set ?rs)"
      using r by auto
  qed
  then have "runnable c' m = filter (runs m) (filter (\<lambda>r. r \<notin> set ?rs) (records_of (kv_prefix ?p ?s)))"
    unfolding runnable_def pend by (simp only: records_of_filter)
  also have "\<dots> = filter (\<lambda>r. r \<notin> set ?rs) (runnable c m)"
    unfolding runnable_def by (simp add: conj_commute)
  also have "\<dots> = drop n (runnable c m)"
    using runnable_distinct [OF swf, of m] by (simp add: filter_not_taken distinct_map)
  finally show ?thesis .
qed

context lib_laws
begin

lemma runs_drain:
  assumes "no_panics L" and "disp_wf L c" and "disp_solvent L c" and "\<forall>r\<in>set (runnable c m). payee L r \<noteq> None"
  shows "runnable (foldl (deliver (dispensation_NewHandler L)) c (replicate k (MsgRunDistribution m))) m
    = drop (k * MaxRecordsPerBlock) (runnable c m)"
  using assms(2-4)
proof (induction k arbitrary: c)
  case 0
  then show ?case by simp
next
  case (Suc k)
  let ?c = "c\<lparr>events := []\<rparr>"
  have same: "runnable ?c m = runnable c m" by (simp add: runnable_def)
  have pre: "disp_wf L ?c" "disp_solvent L ?c" using Suc.prems by simp_all
  obtain c' where run: "msg_RunDistribution L ?c m = Inr c'"
    using RunDistribution_total [OF assms(1) pre] by blast
  note eff = RunDistribution_effect [OF run pre]
  have after: "runnable c' m = drop MaxRecordsPerBlock (runnable c m)"
    using eff runnable_after [of L _ _ ?c MaxRecordsPerBlock m c'] pre Suc.prems(3) same by auto
  have step: "deliver (dispensation_NewHandler L) c (MsgRunDistribution m) = c'"
    using run by (simp add: deliver_def dispensation_NewHandler_def)
  have "\<forall>r\<in>set (runnable c' m). payee L r \<noteq> None"
    using Suc.prems(3) after by (auto dest: in_set_dropD)
  with Suc.IH [of c'] eff show ?case
    by (simp add: step after add.commute)
qed

end

subsection \<open>Export and import\<close>

lemma puts_restore:
  assumes "store_wf L s" and "set vs = snd ` set s"
  shows "kv_puts value_key [] vs = s"
  using store_wf_get [OF assms(1)] by (intro kv_puts_restore [OF store_wf_kv [OF assms(1)] _ assms(2)]) blast

lemma records_in_all: "\<forall>e\<in>set es. \<exists>r. snd e = DV_Record r \<Longrightarrow> records_in P es = Inr (filter P (records_of es))"
  by (induction es) (auto simp: record_of_def)

lemma prefix_records:
  assumes "store_wf L s" and "b \<noteq> CHR 0x01" and "b \<noteq> CHR 0x02"
  shows "\<forall>e\<in>set (kv_prefix [b] s). \<exists>r. snd e = DV_Record r"
proof
  fix e assume "e \<in> set (kv_prefix [b] s)"
  then have p: "HasPrefix (fst e) [b]" and get: "kv_get s (fst e) = Some (snd e)"
    using in_kv_prefix [OF store_wf_kv [OF assms(1)], of "fst e" "snd e"] by simp_all
  have "fst e \<noteq> []" "hd (fst e) = b" using p by (cases "fst e"; simp add: HasPrefix_def)+
  then show "\<exists>r. snd e = DV_Record r"
    using store_wf_record [OF assms(1) get] assms(2,3) by metis
qed

definition distributions_of :: "dispensation_value kv \<Rightarrow> distribution list" where
  "distributions_of es = concat (map (\<lambda>e. case snd e of DV_Distribution d \<Rightarrow> [d] | _ \<Rightarrow> []) es)"

definition claims_of :: "dispensation_value kv \<Rightarrow> user_claim list" where
  "claims_of es = concat (map (\<lambda>e. case snd e of DV_Claim u \<Rightarrow> [u] | _ \<Rightarrow> []) es)"

lemma in_distributions_of: "d \<in> set (distributions_of es) \<longleftrightarrow> DV_Distribution d \<in> snd ` set es"
  by (induction es) (auto simp: distributions_of_def split: dispensation_value.splits)

lemma in_claims_of: "u \<in> set (claims_of es) \<longleftrightarrow> DV_Claim u \<in> snd ` set es"
  by (induction es) (auto simp: claims_of_def split: dispensation_value.splits)

text \<open>The exported values, in the order in which they are imported.\<close>

definition exported_records :: "dispensation_value kv \<Rightarrow> distribution_record list" where
  "exported_records s = records_of (kv_prefix DistributionRecordPrefixPending s)
     @ records_of (kv_prefix DistributionRecordPrefixCompleted s) @ records_of (kv_prefix DistributionRecordPrefixFailed s)"

definition exported :: "dispensation_value kv \<Rightarrow> dispensation_value list" where
  "exported s = map DV_Record (exported_records s) @ map DV_Distribution (distributions_of (kv_prefix DistributionsPrefix s))
     @ map DV_Claim (claims_of (kv_prefix UserClaimPrefix s))"

lemma ExportGenesis_eq:
  assumes "disp_wf L c"
  shows "dispensation_ExportGenesis c = Inr \<lparr>dg_DistributionRecords = Some (exported_records (dispensation_store c)),
    dg_Distributions = Some (distributions_of (kv_prefix DistributionsPrefix (dispensation_store c))),
    dg_Claims = Some (claims_of (kv_prefix UserClaimPrefix (dispensation_store c)))\<rparr>"
proof -
  have wf: "store_wf L (dispensation_store c)" using assms by (simp add: disp_wf_def)
  have "records_in (\<lambda>_. True) (kv_prefix [b] (dispensation_store c)) = Inr (records_of (kv_prefix [b] (dispensation_store c)))"
    if "b = CHR 0x11 \<or> b = CHR 0x12" for b
    using records_in_all [OF prefix_records [OF wf, of b], of "\<lambda>_. True"] that by auto
  then show ?thesis
    by (simp add: dispensation_ExportGenesis_def GetRecords_def GetDistributionRecordsIterator_def Let_def
        exported_records_def records_of_def [symmetric] GetDistributions_def distributions_of_def GetClaims_def claims_of_def
        DistributionRecordPrefixCompleted_def DistributionRecordPrefixFailed_def)
qed

lemma exported_values:
  assumes "store_wf L s"
  shows "set (exported s) = snd ` set s"
proof
  show "set (exported s) \<subseteq> snd ` set s"
    by (force simp: exported_def exported_records_def in_records_of in_distributions_of in_claims_of kv_prefix_def)
  show "snd ` set s \<subseteq> set (exported s)"
  proof
    fix v assume "v \<in> snd ` set s"
    then obtain k where kv: "(k, v) \<in> set s" by force
    then have key: "k = value_key v"
      using store_wf_get [OF assms] by (simp add: kvs.entries_get [OF store_wf_kv [OF assms]])
    show "v \<in> set (exported s)"
    proof (cases v)
      case (DV_Record r)
      then have "r \<in> set (records_of (kv_prefix [status_byte (dr_DistributionStatus r)] s))"
        using kv key by (auto simp: in_records_of kv_prefix_def value_key_def key_as_eq)
      then show ?thesis
        using DV_Record by (cases "dr_DistributionStatus r")
          (simp_all add: exported_def exported_records_def status_byte_def disp_prefixes)
    next
      case (DV_Distribution d)
      then show ?thesis
        using kv key by (force simp: exported_def in_distributions_of kv_prefix_def value_key_def GetDistributionsKey_def)
    next
      case (DV_Claim u)
      then show ?thesis
        using kv key by (force simp: exported_def in_claims_of kv_prefix_def value_key_def GetUserClaimKey_def)
    qed
  qed
qed

lemma import_values:
  assumes "\<forall>x\<in>set xs. \<forall>c. f c x = Inr (c\<lparr>dispensation_store := put (V x) (dispensation_store c)\<rparr>)"
  shows "foldE (\<lambda>c x. wrapE Panic (f c x)) c xs
    = Inr (c\<lparr>dispensation_store := kv_puts value_key (dispensation_store c) (map V xs)\<rparr>)"
  using assms by (induction xs arbitrary: c) (simp_all add: put_def)

lemma genesis_restores:
  assumes "disp_wf L c"
  shows "\<exists>g. dispensation_ExportGenesis c = Inr g \<and> dispensation_ValidateGenesis L g = Inr () \<and>
    dispensation_InitGenesis L (c\<lparr>dispensation_store := []\<rparr>) g = Inr c"
proof -
  let ?s = "dispensation_store c"
  let ?rs = "exported_records ?s" and ?ds = "distributions_of (kv_prefix DistributionsPrefix ?s)"
    and ?us = "claims_of (kv_prefix UserClaimPrefix ?s)"
  have wf: "store_wf L ?s" using assms by (simp add: disp_wf_def)
  have "value_ok L v" if "v \<in> set (exported ?s)" for v
    using that store_wf_get [OF wf] by (force simp: exported_values [OF wf] kvs.entries_get [OF store_wf_kv [OF wf]])
  then have ok: "\<forall>r\<in>set ?rs. DistributionRecord_Validate L r" "\<forall>d\<in>set ?ds. Distribution_Validate d"
    "\<forall>u\<in>set ?us. UserClaim_Validate u"
    by (force simp: exported_def value_ok_def)+
  have init: "foldE (\<lambda>c r. wrapE Panic (SetDistributionRecord L c r)) c' ?rs
        = Inr (c'\<lparr>dispensation_store := kv_puts value_key (dispensation_store c') (map DV_Record ?rs)\<rparr>)"
      "foldE (\<lambda>c d. wrapE Panic (SetDistribution c d)) c' ?ds
        = Inr (c'\<lparr>dispensation_store := kv_puts value_key (dispensation_store c') (map DV_Distribution ?ds)\<rparr>)"
      "foldE (\<lambda>c u. wrapE Panic (SetClaim c u)) c' ?us
        = Inr (c'\<lparr>dispensation_store := kv_puts value_key (dispensation_store c') (map DV_Claim ?us)\<rparr>)" for c'
    using ok by (auto intro!: import_values simp: SetDistributionRecord_Inr SetDistribution_Inr SetClaim_Inr)
  have "kv_puts value_key [] (exported ?s) = ?s"
    by (rule puts_restore [OF wf exported_values [OF wf]])
  then show ?thesis
    using init ok ExportGenesis_eq [OF assms]
    by (simp add: dispensation_InitGenesis_def dispensation_ValidateGenesis_def exported_def list_all_iff)
qed

subsection \<open>The records of a distribution\<close>

lemma query_by_name:
  assumes "disp_wf L c" and "st \<noteq> DISTRIBUTION_STATUS_UNSPECIFIED"
  shows "\<exists>rs. Query_RecordsByDistributionName c name st = Inr rs \<and>
    set rs = {r. dr_DistributionName r = name \<and> status_byte (dr_DistributionStatus r) = status_byte st \<and>
      kv_get (dispensation_store c) (key_as (dr_DistributionStatus r) r) = Some (DV_Record r)}"
proof -
  let ?s = "dispensation_store c" and ?b = "status_byte st"
  have wf: "store_wf L ?s" using assms(1) by (simp add: disp_wf_def)
  have iter: "GetDistributionRecordsIterator c st = Inr (kv_prefix [?b] ?s)"
    using assms(2) by (cases st) (simp_all add: GetDistributionRecordsIterator_def status_byte_def disp_prefixes)
  have "Query_RecordsByDistributionName c name st
      = Inr (filter (\<lambda>dr. dr_DistributionName dr = name) (records_of (kv_prefix [?b] ?s)))"
    using assms(2) iter records_in_all [OF prefix_records [OF wf, of ?b]]
    by (simp add: Query_RecordsByDistributionName_def GetRecordsForNameAndStatus_def)
  moreover have key: "k = status_byte (dr_DistributionStatus r) # record_id r"
    if "kv_get ?s k = Some (DV_Record r)" for k r
    using store_wf_get [OF wf that] by (simp add: value_key_def key_as_eq)
  moreover have "r \<in> set (records_of (kv_prefix [?b] ?s)) \<longleftrightarrow>
      status_byte (dr_DistributionStatus r) = ?b \<and> kv_get ?s (key_as (dr_DistributionStatus r) r) = Some (DV_Record r)" for r
    unfolding in_records_of in_kv_prefix [OF store_wf_kv [OF wf]] key_as_eq by (metis key HasPrefix_Cons)
  ultimately show ?thesis by auto
qed

end
