(* ===== verification/AppFrame.thy ===== *)
theory AppFrame
  imports App ClpInvariants EthBridgeProperties DispensationInvariants
begin

section \<open>What a message may touch\<close>

text \<open>
  The footprint of a handler: the stores that it may write and the accounts that it may debit.
  \<open>confined\<close> is a preorder, so the footprint of a handler follows from those of its parts. Every
  module writes its own store only (the bridge also the oracle's), and debits only its own
  account and the account of the message's sender.
\<close>

datatype part = RegistryPart | ClpPart | OraclePart | BridgePart | DispensationPart

definition confined :: "'x lib \<Rightarrow> part set \<Rightarrow> addr set \<Rightarrow> 'x ctx \<Rightarrow> 'x ctx \<Rightarrow> bool" where
  "confined L W A c c' \<longleftrightarrow>
     (registry_store c' = registry_store c \<or> RegistryPart \<in> W) \<and>
     (clp_store c' = clp_store c \<or> ClpPart \<in> W) \<and>
     (oracle_store c' = oracle_store c \<or> OraclePart \<in> W) \<and>
     (bridge_store c' = bridge_store c \<or> BridgePart \<in> W) \<and>
     (dispensation_store c' = dispensation_store c \<or> DispensationPart \<in> W) \<and>
     (\<forall>a d. a \<in> A \<or> bal L c a d \<le> bal L c' a d)"

lemma confined_refl [simp]: "confined L W A c c"
  by (simp add: confined_def)

lemma confined_trans [trans]: "confined L W A c c1 \<Longrightarrow> confined L W A c1 c2 \<Longrightarrow> confined L W A c c2"
  unfolding confined_def by (metis order_trans)

lemma confined_mono: "confined L W A c c' \<Longrightarrow> W \<subseteq> W' \<Longrightarrow> A \<subseteq> A' \<Longrightarrow> confined L W' A' c c'"
  unfolding confined_def by blast

lemma confined_events [simp]:
  "confined L W A c (EmitEvents es c') = confined L W A c c'"
  "confined L W A (c\<lparr>events := es\<rparr>) c' = confined L W A c c'"
  "confined L W A c (c'\<lparr>events := es\<rparr>) = confined L W A c c'"
  by (simp_all add: confined_def)

lemma confined_store [simp]:
  "ClpPart \<in> W \<Longrightarrow> confined L W A c (c'\<lparr>clp_store := s\<rparr>) = confined L W A c c'"
  "RegistryPart \<in> W \<Longrightarrow> confined L W A c (c'\<lparr>registry_store := r\<rparr>) = confined L W A c c'"
  "OraclePart \<in> W \<Longrightarrow> confined L W A c (c'\<lparr>oracle_store := t\<rparr>) = confined L W A c c'"
  "BridgePart \<in> W \<Longrightarrow> confined L W A c (c'\<lparr>bridge_store := b\<rparr>) = confined L W A c c'"
  "DispensationPart \<in> W \<Longrightarrow> confined L W A c (c'\<lparr>dispensation_store := e\<rparr>) = confined L W A c c'"
  by (simp_all add: confined_def bal_def)

lemma confined_foldE:
  assumes "foldE f c xs = Inr c'" and "\<And>c x c'. x \<in> set xs \<Longrightarrow> f c x = Inr c' \<Longrightarrow> confined L W A c c'"
  shows "confined L W A c c'"
  using assms
proof (induction xs arbitrary: c)
  case (Cons x xs)
  then obtain c1 where "f c x = Inr c1" and "foldE f c1 xs = Inr c'" by (auto simp: res_simps)
  with Cons.prems(2) Cons.IH [of c1] have "confined L W A c c1" and "confined L W A c1 c'" by auto
  then show ?case by (rule confined_trans)
qed simp

text \<open>Stores and balances may be treated apart.\<close>

lemma confined_balances:
  "confined L W UNIV c c' \<Longrightarrow> (\<And>a d. a \<notin> A \<Longrightarrow> bal L c a d \<le> bal L c' a d) \<Longrightarrow> confined L W A c c'"
  by (auto simp: confined_def)

context lib_laws
begin

lemma confined_send:
  "bank (\<lambda>x. SendCoins L x f t cs) c = Inr c' \<Longrightarrow> (\<And>d. 0 \<le> AmountOf cs d) \<Longrightarrow> f \<in> A \<Longrightarrow> confined L W A c c'"
  using bal_send [of f t cs c c'] by (auto simp: confined_def moved_def dest: bank_frame) (auto simp: res_simps)

lemma confined_from_module:
  "bank (\<lambda>x. SendCoinsFromModuleToAccount L x m t cs) c = Inr c' \<Longrightarrow> (\<And>d. 0 \<le> AmountOf cs d) \<Longrightarrow>
     NewModuleAddress L m \<in> A \<Longrightarrow> confined L W A c c'"
  using bal_from_module [of m t cs c c'] by (auto simp: confined_def moved_def) (auto simp: res_simps)

lemma confined_to_module:
  "bank (\<lambda>x. SendCoinsFromAccountToModule L x f m cs) c = Inr c' \<Longrightarrow> f \<in> A \<Longrightarrow>
     NewModuleAddress L m \<in> A \<Longrightarrow> confined L W A c c'"
  using bal_to_module [of f m cs c c'] by (auto simp: confined_def moved_def) (auto simp: res_simps)

lemma confined_mint:
  "bank (\<lambda>x. MintCoins L x m cs) c = Inr c' \<Longrightarrow> NewModuleAddress L m \<in> A \<Longrightarrow> confined L W A c c'"
  using bal_mint [of m cs c c'] by (auto simp: confined_def amount_if_def) (auto simp: res_simps)

lemma confined_burn:
  "bank (\<lambda>x. BurnCoins L x m cs) c = Inr c' \<Longrightarrow> NewModuleAddress L m \<in> A \<Longrightarrow> confined L W A c c'"
  using bal_burn [of m cs c c'] by (auto simp: confined_def amount_if_def) (auto simp: res_simps)

lemma coin_list_nonneg: "coin_list L s n = Inr cs \<Longrightarrow> 0 \<le> AmountOf cs d"
  using coin_list_amount by (auto simp: amount_if_def)

subsection \<open>Liquidity pools\<close>

lemma SetPool_confined: "SetPool L c p = Inr c' \<Longrightarrow> confined L {ClpPart} A c c'"
  by (auto simp: SetPool_def res_simps)

lemma SetLiquidityProvider_confined: "SetLiquidityProvider L c lp = Inr c' \<Longrightarrow> confined L {ClpPart} A c c'"
  by (auto simp: SetLiquidityProvider_def res_simps split: if_splits)

lemma DestroyLiquidityProvider_confined: "confined L {ClpPart} A c (DestroyLiquidityProvider c s a)"
  by (simp add: DestroyLiquidityProvider_def Let_def)

lemma CreateLiquidityProvider_confined:
  "CreateLiquidityProvider L c asset u a = Inr (lp, c') \<Longrightarrow> confined L {ClpPart} A c c'"
  by (auto simp: CreateLiquidityProvider_def Let_def res_simps dest: SetLiquidityProvider_confined)

lemma InitiateSwap_confined:
  "InitiateSwap L c coin a = Inr c' \<Longrightarrow> {a, GetCLPModuleAddress L} \<subseteq> A \<Longrightarrow> confined L {ClpPart} A c c'"
  by (auto simp: InitiateSwap_def bindE_eq_Inr GetCLPModuleAddress_def intro: confined_to_module)

lemma FinalizeSwap_confined:
  assumes "FinalizeSwap L c s p msg = Inr c'" and "GetCLPModuleAddress L \<in> A"
  shows "confined L {ClpPart} A c c'"
proof -
  obtain c1 n r coin coins addr where set: "SetPool L c p = Inr c1" and coin: "NewCoin L r n = Inr coin"
    and coins: "NewCoins L [coin] = Inr coins"
    and pay: "bank (\<lambda>x. SendCoinsFromModuleToAccount L x clp_ModuleName addr coins) c1 = Inr c'"
    using assms(1) unfolding FinalizeSwap_def by (auto simp only: bindE_eq_Inr wrapE_eq_Inr)
  have "0 \<le> AmountOf coins d" for d
    using new_coins_amount [OF coins, of d] coin by (auto simp: res_simps)
  then have "confined L {ClpPart} A c1 c'"
    using confined_from_module [OF pay] assms(2) by (simp add: GetCLPModuleAddress_def)
  then show ?thesis by (rule confined_trans [OF SetPool_confined [OF set]])
qed

lemma swap_first_leg_confined:
  "swap_first_leg L c sA sent received n p = Inr (c', r) \<Longrightarrow> confined L {ClpPart} A c c'"
  by (auto simp: swap_first_leg_def Let_def bindE_eq_Inr wrapE_eq_Inr case_prod_eq_Inr
      dest: SetPool_confined split: if_splits)

lemma msg_Swap_confined:
  assumes "msg_Swap L c msg = Inr c'" and "GetCLPModuleAddress L \<in> A"
    and "\<And>a. AccAddressFromBech32 L (ms_Signer msg) = Inr a \<Longrightarrow> a \<in> A"
  shows "confined L {ClpPart} A c c'"
proof -
  obtain coin addr c1 sA sent received n inPool c2 r y finalPool c3 es
    where addr: "AccAddressFromBech32 L (ms_Signer msg) = Inr addr" and init: "InitiateSwap L c coin addr = Inr c1"
      and leg: "swap_first_leg L c1 sA sent received n inPool = Inr (c2, r)"
      and fin: "FinalizeSwap L c2 y finalPool msg = Inr c3" and c': "c' = EmitEvents es c3"
    using assms(1) unfolding msg_Swap_def
    by (simp only: bindE_eq_Inr wrapE_eq_Inr case_prod_eq_Inr sum.inject prod.inject) blast
  have "confined L {ClpPart} A c c1"
    using InitiateSwap_confined [OF init] assms(2) assms(3) [OF addr] by simp
  also have "confined L {ClpPart} A c1 c2" by (rule swap_first_leg_confined [OF leg])
  also have "confined L {ClpPart} A c2 c3" by (rule FinalizeSwap_confined [OF fin assms(2)])
  finally show ?thesis by (simp add: c')
qed

lemma clp_CreatePool_confined:
  assumes "clp_CreatePool L c u msg = Inr (p, c')" and "GetCLPModuleAddress L \<in> A"
    and "\<And>a. AccAddressFromBech32 L (mcp_Signer msg) = Inr a \<Longrightarrow> a \<in> A"
  shows "confined L {ClpPart} A c c'"
proof -
  obtain addr coins c1 q where addr: "AccAddressFromBech32 L (mcp_Signer msg) = Inr addr"
    and send: "bank (\<lambda>x. SendCoinsFromAccountToModule L x addr clp_ModuleName coins) c = Inr c1"
    and set: "SetPool L c1 q = Inr c'"
    using assms(1) unfolding clp_CreatePool_def Let_def
    by (simp only: bindE_eq_Inr wrapE_eq_Inr sum.inject prod.inject) blast
  have "confined L {ClpPart} A c c1"
    using assms(2) by (intro confined_to_module [OF send assms(3) [OF addr]]) (simp add: GetCLPModuleAddress_def)
  also have "confined L {ClpPart} A c1 c'" by (rule SetPool_confined [OF set])
  finally show ?thesis .
qed

lemma msg_CreatePool_confined:
  assumes "msg_CreatePool L c msg = Inr c'" and "GetCLPModuleAddress L \<in> A"
    and "\<And>a. AccAddressFromBech32 L (mcp_Signer msg) = Inr a \<Longrightarrow> a \<in> A"
  shows "confined L {ClpPart} A c c'"
proof -
  obtain u p c1 asset n addr lp c2 es where pool: "clp_CreatePool L c u msg = Inr (p, c1)"
    and prov: "CreateLiquidityProvider L c1 asset n addr = Inr (lp, c2)" and c': "c' = EmitEvents es c2"
    using assms(1) unfolding msg_CreatePool_def
    by (simp only: bindE_eq_Inr wrapE_eq_Inr case_prod_eq_Inr sum.inject prod.inject) blast
  show ?thesis
    using confined_trans [OF clp_CreatePool_confined [OF pool assms(2,3)] CreateLiquidityProvider_confined [OF prov]]
    by (simp add: c')
qed

lemma clp_AddLiquidity_confined:
  assumes "clp_AddLiquidity L c msg p n u = Inr (lp, c')" and "GetCLPModuleAddress L \<in> A"
    and "\<And>a. AccAddressFromBech32 L (mal_Signer msg) = Inr a \<Longrightarrow> a \<in> A"
  shows "confined L {ClpPart} A c c'"
proof -
  obtain addr coins c1 found lp1 u1 c2 q c3 lp2 where addr: "AccAddressFromBech32 L (mal_Signer msg) = Inr addr"
    and send: "bank (\<lambda>x. SendCoinsFromAccountToModule L x addr clp_ModuleName coins) c = Inr c1"
    and found: "(case found of Some lp \<Rightarrow> Inr (lp, u, c1)
            | None \<Rightarrow>
                bindE (CreateLiquidityProvider L c1 (mal_ExternalAsset msg) u addr) (\<lambda>(lp, c).
                Inr (lp, 0, EmitEvents [Event ''created_new_liquidity_provider''
                  [(''liquidity_provider'', LiquidityProvider_String L lp), height_attr c]] c))) = Inr (lp1, u1, c2)"
    and set: "SetPool L c2 q = Inr c3" and setlp: "SetLiquidityProvider L c3 lp2 = Inr c'"
    using assms(1) unfolding clp_AddLiquidity_def Let_def
    by (simp only: bindE_eq_Inr wrapE_eq_Inr case_prod_eq_Inr sum.inject prod.inject) blast
  have "confined L {ClpPart} A c c1"
    using assms(2) by (intro confined_to_module [OF send assms(3) [OF addr]]) (simp add: GetCLPModuleAddress_def)
  also have "confined L {ClpPart} A c1 c2"
    using found by (auto simp: bindE_eq_Inr case_prod_eq_Inr split: option.splits dest: CreateLiquidityProvider_confined)
  also have "confined L {ClpPart} A c2 c3" by (rule SetPool_confined [OF set])
  also have "confined L {ClpPart} A c3 c'" by (rule SetLiquidityProvider_confined [OF setlp])
  finally show ?thesis .
qed

lemma msg_AddLiquidity_confined:
  assumes "msg_AddLiquidity L c msg = Inr c'" and "GetCLPModuleAddress L \<in> A"
    and "\<And>a. AccAddressFromBech32 L (mal_Signer msg) = Inr a \<Longrightarrow> a \<in> A"
  shows "confined L {ClpPart} A c c'"
proof -
  obtain p n u lp c1 es where "clp_AddLiquidity L c msg p n u = Inr (lp, c1)" and "c' = EmitEvents es c1"
    using assms(1) unfolding msg_AddLiquidity_def
    by (simp only: bindE_eq_Inr wrapE_eq_Inr case_prod_eq_Inr sum.inject) blast
  then show ?thesis using clp_AddLiquidity_confined assms(2,3) by simp
qed

text \<open>A withdrawal, symmetric or not, debits the module's account only.\<close>

lemma clp_RemoveLiquidity_confined:
  assumes "clp_RemoveLiquidity L c p e n lp left eb nb = Inr c'" and "GetCLPModuleAddress L \<in> A"
  shows "confined L {ClpPart} A c c'"
proof -
  from assms(1) obtain addr cs0 cs1 cs2 c1 c2 where
    cs0: "NewCoins L [] = Inr cs0"
    and cs1: "(if coin_amount e \<noteq> 0 \<and> \<not> coin_amount e < 0 then Coins_Add L cs0 [e] else Inr cs0) = Inr cs1"
    and cs2: "(if coin_amount n \<noteq> 0 \<and> \<not> coin_amount n < 0 then Coins_Add L cs1 [n] else Inr cs1) = Inr cs2"
    and set: "SetPool L c p = Inr c1"
    and send: "(if cs2 \<noteq> [] then
              bindE (guardE (list_all (HasBalance L (ext c1) (GetCLPModuleAddress L)) cs2) (Clp ErrNotEnoughLiquidity)) (\<lambda>_.
              bank (\<lambda>x. SendCoinsFromModuleToAccount L x clp_ModuleName addr cs2) c1)
            else Inr c1) = Inr c2"
    and fin: "(if left = 0 then
       bindE (deref (lp_Asset lp)) (\<lambda>asset.
       Inr (DestroyLiquidityProvider c2 (Symbol asset) (LiquidityProviderAddress lp)))
     else SetLiquidityProvider L c2 (lp\<lparr>LiquidityProviderUnits := left\<rparr>)) = Inr c'"
    unfolding clp_RemoveLiquidity_def by (simp only: res_simps) blast
  have pos: "0 \<le> AmountOf cs2 d" for d
    using cs1 cs2 new_coins_amount [OF cs0, of d]
    by (auto dest!: coins_add_amount [where d = d] split: if_splits)
  note pay = confined_from_module [OF _ pos, where m = clp_ModuleName]
  have "confined L {ClpPart} A c c1" by (rule SetPool_confined [OF set])
  also have "confined L {ClpPart} A c1 c2"
    using send pay [of addr c1 c2 A] assms(2)
    by (auto simp: GetCLPModuleAddress_def bindE_eq_Inr split: if_splits)
  also have "confined L {ClpPart} A c2 c'"
    using fin SetLiquidityProvider_confined DestroyLiquidityProvider_confined
    by (auto simp: bindE_eq_Inr split: if_splits)
  finally show ?thesis .
qed

lemma msg_RemoveLiquidity_confined:
  assumes "msg_RemoveLiquidity L c msg = Inr c'" and "GetCLPModuleAddress L \<in> A"
  shows "confined L {ClpPart} A c c'"
proof -
  obtain p e n lp u eb nb c1 es where "clp_RemoveLiquidity L c p e n lp u eb nb = Inr c1" and "c' = EmitEvents es c1"
    using assms(1) unfolding msg_RemoveLiquidity_def Let_def
    by (simp only: bindE_eq_Inr wrapE_eq_Inr case_prod_eq_Inr sum.inject) blast
  then show ?thesis using clp_RemoveLiquidity_confined assms(2) by simp
qed

lemma refund_providers_confined:
  assumes "refund_providers L s p lps u nb eb c = Inr c'" and "GetCLPModuleAddress L \<in> A"
  shows "confined L {ClpPart} A c c'"
  using assms(1)
proof (induction lps arbitrary: u nb eb c)
  case (Cons lp lps)
  from Cons.prems(1) obtain d1 n1 k1 d2 n2 k2 coins c1 u' nb' eb' where
    k: "NewCoin L d1 n1 = Inr k1" "NewCoin L d2 n2 = Inr k2" and coins: "NewCoins L [k1, k2] = Inr coins"
    and rem: "RemoveLiquidityProvider L c coins lp = Inr c1"
    and rest: "refund_providers L s p lps u' nb' eb' c1 = Inr c'"
    by (simp only: refund_providers.simps bindE_eq_Inr wrapE_eq_Inr case_prod_eq_Inr) blast
  have pos: "0 \<le> AmountOf coins d" for d
    using new_coins_amount [OF coins, of d] k by (auto simp: res_simps)
  have "confined L {ClpPart} A c c1"
    using rem assms(2) confined_trans [OF confined_from_module [OF _ pos] DestroyLiquidityProvider_confined]
    by (auto simp: RemoveLiquidityProvider_def bindE_eq_Inr wrapE_eq_Inr GetCLPModuleAddress_def)
  also have "confined L {ClpPart} A c1 c'" by (rule Cons.IH [OF rest])
  finally show ?case .
qed simp

lemma msg_DecommissionPool_confined:
  assumes "msg_DecommissionPool L c msg = Inr c'" and "GetCLPModuleAddress L \<in> A"
  shows "confined L {ClpPart} A c c'"
proof -
  obtain s p lps u nb eb c1 c2 es t where refund: "refund_providers L s p lps u nb eb c = Inr c1"
    and destroy: "DestroyPool c1 t = Inr c2" and c': "c' = EmitEvents es c2"
    using assms(1) unfolding msg_DecommissionPool_def clp_DecommissionPool_def
    by (simp only: bindE_eq_Inr wrapE_eq_Inr case_prod_eq_Inr sum.inject) blast
  have "confined L {ClpPart} A c c1" by (rule refund_providers_confined [OF refund assms(2)])
  also have "confined L {ClpPart} A c1 c2" using destroy by (auto simp: DestroyPool_def res_simps Let_def)
  finally show ?thesis by (simp add: c')
qed

lemma clp_confined:
  assumes "clp_NewHandler L c msg = Inr c'"
  shows "confined L {ClpPart} ({a. AccAddressFromBech32 L (clp_signer msg) = Inr a} \<union> {GetCLPModuleAddress L}) c c'"
  using assms
    msg_CreatePool_confined [of "c\<lparr>events := []\<rparr>" _ c'] msg_AddLiquidity_confined [of "c\<lparr>events := []\<rparr>" _ c']
    msg_RemoveLiquidity_confined [of "c\<lparr>events := []\<rparr>" _ c'] msg_Swap_confined [of "c\<lparr>events := []\<rparr>" _ c']
    msg_DecommissionPool_confined [of "c\<lparr>events := []\<rparr>" _ c']
  by (simp add: clp_NewHandler_def clp_signer_def Let_def split: clp_msg.splits)

subsection \<open>The bridge\<close>

lemma settle_direct_confined:
  assumes "coin_list L CethSymbol fee = Inr cs1"
    and send: "bank (\<lambda>x. SendCoins L x sender r cs1) c = Inr c1"
    and dep: "bank (\<lambda>x. SendCoinsFromAccountToModule L x sender bridge_ModuleName cs2) c1 = Inr c2"
    and burn: "bank (\<lambda>x. BurnCoins L x bridge_ModuleName cs3) c2 = Inr c'"
  shows "confined L W {sender, NewModuleAddress L bridge_ModuleName} c c'"
proof -
  have "confined L W {sender, NewModuleAddress L bridge_ModuleName} c c1"
    by (rule confined_send [OF send coin_list_nonneg [OF assms(1)]]) simp
  also have "confined L W {sender, NewModuleAddress L bridge_ModuleName} c1 c2"
    by (rule confined_to_module [OF dep]) simp_all
  also have "confined L W {sender, NewModuleAddress L bridge_ModuleName} c2 c'"
    by (rule confined_burn [OF burn]) simp
  finally show ?thesis .
qed

lemma settle_module_confined:
  assumes dep: "bank (\<lambda>x. SendCoinsFromAccountToModule L x sender bridge_ModuleName cs1) c = Inr c1"
    and burn: "bank (\<lambda>x. BurnCoins L x bridge_ModuleName cs2) c1 = Inr c'"
  shows "confined L W {sender, NewModuleAddress L bridge_ModuleName} c c'"
  by (rule confined_trans [OF confined_to_module [OF dep] confined_burn [OF burn]]) simp_all

lemma ProcessLock_confined:
  assumes "ProcessLock L c sender msg = Inr c'"
  shows "confined L W {sender, NewModuleAddress L bridge_ModuleName} c c'"
  using assms unfolding ProcessLock_def
  by (cases "IsCethReceiverAccountSet L c")
    (simp only: bindE_eq_Inr guardE_eq_Inr case_prod_eq_Inr if_True if_False sum.inject prod.inject, clarify,
      (rule settle_direct_confined settle_module_confined; assumption))+

lemma ProcessBurn_confined:
  assumes "ProcessBurn L c sender msg = Inr c'"
  shows "confined L W {sender, NewModuleAddress L bridge_ModuleName} c c'"
  using assms unfolding ProcessBurn_def
  by (cases "IsCethReceiverAccountSet L c"; cases "mb_Symbol msg = CethSymbol")
    (simp only: bindE_eq_Inr guardE_eq_Inr case_prod_eq_Inr if_True if_False simp_thms(6) sum.inject prod.inject, clarify,
      (rule settle_direct_confined settle_module_confined; assumption))+

lemma ProcessRescueCeth_confined:
  assumes "ProcessRescueCeth L c msg = Inr c'" and "NewModuleAddress L bridge_ModuleName \<in> A"
  shows "confined L W A c c'"
  using assms(1) confined_from_module [OF _ coin_list_nonneg assms(2)]
  by (auto simp: ProcessRescueCeth_def bindE_eq_Inr)

lemma ProcessSuccessfulClaim_confined:
  assumes "ProcessSuccessfulClaim L c s = Inr c'" and "NewModuleAddress L bridge_ModuleName \<in> A"
  shows "confined L {OraclePart, BridgePart} A c c'"
proof -
  have add: "confined L {OraclePart, BridgePart} A c (AddPeggyToken c t)" for t
    by (simp add: AddPeggyToken_def)
  obtain k where k: "CreateOracleClaimFromOracleString L s = Inr k"
    using assms(1) by (auto simp: ProcessSuccessfulClaim_def bindE_eq_Inr)
  obtain sym n r coins c0 c1 where coins: "coin_list L sym n = Inr coins"
    and c0: "confined L {OraclePart, BridgePart} A c c0"
    and mint: "bank (\<lambda>x. MintCoins L x bridge_ModuleName coins) c0 = Inr c1"
    and pay: "bank (\<lambda>x. SendCoinsFromModuleToAccount L x bridge_ModuleName r coins) c1 = Inr c'"
    using assms(1) k add confined_refl [of L "{OraclePart, BridgePart}" A c] unfolding ProcessSuccessfulClaim_def Let_def
    by (cases "occ_ClaimType k")
      (simp_all add: bindE_eq_Inr wrapE_eq_Inr case_prod_eq_Inr del: confined_refl, blast+)
  note c0
  also have "confined L {OraclePart, BridgePart} A c0 c1" by (rule confined_mint [OF mint assms(2)])
  also have "confined L {OraclePart, BridgePart} A c1 c'"
    by (rule confined_from_module [OF pay coin_list_nonneg [OF coins] assms(2)])
  finally show ?thesis .
qed

lemma bridge_ProcessClaim_confined:
  "bridge_ProcessClaim L ord needed c cl = Inr (st, c') \<Longrightarrow> confined L {OraclePart, BridgePart} A c c'"
  unfolding bridge_ProcessClaim_def oracle_ProcessClaim_def SetProphecy_def SetDBProphecy_def Let_def
  by (auto simp only: bindE_eq_Inr sum.inject prod.inject) simp

lemma msg_CreateEthBridgeClaim_confined:
  assumes "msg_CreateEthBridgeClaim L ord needed c msg = Inr c'" and "NewModuleAddress L bridge_ModuleName \<in> A"
  shows "confined L {OraclePart, BridgePart} A c c'"
proof -
  obtain cl st c1 c2 where claim: "bridge_ProcessClaim L ord needed c cl = Inr (st, c1)"
    and pay: "(if Text st = STATUS_TEXT_SUCCESS then ProcessSuccessfulClaim L c1 (FinalClaim st) else Inr c1) = Inr c2"
    and c': "c' = EmitEvents (claim_events cl st) c2"
    using CreateEthBridgeClaim_parts [OF assms(1)] by metis
  have "confined L {OraclePart, BridgePart} A c c1" by (rule bridge_ProcessClaim_confined [OF claim])
  also have "confined L {OraclePart, BridgePart} A c1 c2"
    using pay ProcessSuccessfulClaim_confined [OF _ assms(2)] by (auto split: if_splits)
  finally show ?thesis by (simp add: c')
qed

lemma bridge_confined:
  assumes "bridge_NewHandler L needed c msg = Inr c'"
  shows "confined L {OraclePart, BridgePart}
    ({a. bridge_GetSigners L msg = Inr [a]} \<union> {NewModuleAddress L bridge_ModuleName}) c c'"
proof (cases msg)
  case (MsgCreateEthBridgeClaim ord m)
  then show ?thesis
    using assms msg_CreateEthBridgeClaim_confined [of ord needed "c\<lparr>events := []\<rparr>"] by (simp add: bridge_NewHandler_def)
next
  case (MsgBurn m)
  then obtain a c1 es where "AccAddressFromBech32 L (mb_CosmosSender m) = Inr a"
    "ProcessBurn L (c\<lparr>events := []\<rparr>) a m = Inr c1" "c' = EmitEvents es c1"
    using assms by (auto simp: bridge_NewHandler_def msg_Burn_def bindE_eq_Inr Let_def)
  then show ?thesis
    using MsgBurn ProcessBurn_confined [of "c\<lparr>events := []\<rparr>" a m c1]
    by (auto simp: bridge_GetSigners_def MsgBurn_GetSigners_def bindE_def wrapE_def intro: confined_mono)
next
  case (MsgLock m)
  then obtain a c1 es where "AccAddressFromBech32 L (ml_CosmosSender m) = Inr a"
    "ProcessLock L (c\<lparr>events := []\<rparr>) a m = Inr c1" "c' = EmitEvents es c1"
    using assms by (auto simp: bridge_NewHandler_def msg_Lock_def bindE_eq_Inr Let_def)
  then show ?thesis
    using MsgLock ProcessLock_confined [of "c\<lparr>events := []\<rparr>" a m c1]
    by (auto simp: bridge_GetSigners_def MsgLock_GetSigners_def bindE_def wrapE_def intro: confined_mono)
next
  case (MsgRescueCeth m)
  then show ?thesis
    using assms ProcessRescueCeth_confined [of "c\<lparr>events := []\<rparr>"]
    by (auto simp: bridge_NewHandler_def msg_RescueCeth_def bindE_eq_Inr Let_def)
qed (use assms in \<open>auto simp: bridge_NewHandler_def msg_UpdateWhiteListValidator_def msg_SetBlacklist_def Let_def
  bridge_ProcessUpdateWhiteListValidator_def ProcessUpdateWhiteListValidator_def AddOracleWhiteList_def
  RemoveOracleWhiteList_def SetOracleWhiteList_def msg_UpdateCethReceiverAccount_def SetBlacklist_def
  ProcessUpdateCethReceiverAccount_def SetCethReceiverAccount_def res_simps split: if_splits\<close>)

subsection \<open>Distributions\<close>

lemma ChangeRecordStatus_confined:
  "ChangeRecordStatus L c r h st = (c', e) \<Longrightarrow> confined L {DispensationPart} A c c'"
  by (auto simp: ChangeRecordStatus_def SetDistributionRecord_def DeleteDistributionRecord_def Let_def
      split: sum.splits if_splits)

lemma distribute_drop_stores:
  assumes "distribute_drop L h c r = Inr c'"
  shows "confined L {DispensationPart} UNIV c c'"
proof -
  have send: "confined L {DispensationPart} UNIV c (c\<lparr>ext := x\<rparr>)" for c x
    by (simp add: confined_def)
  have status: "confined L {DispensationPart} UNIV c c1"
    if "ChangeRecordStatus L (c\<lparr>ext := x\<rparr>) r h st = (c1, e)" for x st c1 e
    by (rule confined_trans [OF send ChangeRecordStatus_confined [OF that]])
  have undo: "confined L {DispensationPart} UNIV c c2"
    if "ChangeRecordStatus L (c\<lparr>ext := x\<rparr>) r h st = (c1, e)" and "bank f c1 = Inr c2" for x st c1 e f c2
    using confined_trans [OF status [OF that(1)] send] that(2) by (auto simp: bank_eq_Inr)
  obtain found where found: "attempt (AccAddressFromBech32 L (dr_RecipientAddress r)) = Inr found"
    using assms by (auto simp: distribute_drop_def bindE_eq_Inr)
  show ?thesis
  proof (cases found)
    case None
    then show ?thesis using assms found by (simp add: distribute_drop_def bindE_def)
  next
    case (Some a)
    obtain x e where pay: "SendCoinsFromModuleToAccount L (ext c) dispensation_ModuleName a (dr_Coins r) = (x, e)"
      by fastforce
    obtain c1 e1 where st: "ChangeRecordStatus L (c\<lparr>ext := x\<rparr>) r h
        (if e = None then DISTRIBUTION_STATUS_COMPLETED else DISTRIBUTION_STATUS_FAILED) = (c1, e1)"
      by fastforce
    show ?thesis
      using assms found Some pay st status [OF st] undo [OF st] unfolding distribute_drop_def
      by (cases e; cases e1) (auto simp: bindE_eq_Inr wrapE_eq_Inr DeleteClaim_def split: if_splits)
  qed
qed

lemma RunDistribution_stores:
  assumes "msg_RunDistribution L c m = Inr c'"
  shows "confined L {DispensationPart} UNIV c c'"
proof -
  obtain rs c1 es where "foldE (distribute_drop L (BlockHeight c)) c rs = Inr c1" and "c' = EmitEvents es c1"
    using assms unfolding msg_RunDistribution_def DistributeDrops_def by (auto simp: bindE_eq_Inr)
  then show ?thesis
    using confined_foldE distribute_drop_stores by (metis confined_events(1))
qed

lemma RunDistribution_confined:
  assumes "msg_RunDistribution L c m = Inr c'" and "disp_wf L c" and "disp_solvent L c"
  shows "confined L {DispensationPart} {GetDistributionModuleAddress L} c c'"
proof (rule confined_balances [OF RunDistribution_stores [OF assms(1)]])
  fix a d assume a: "a \<notin> {GetDistributionModuleAddress L}"
  obtain ok where "run_effect L (BlockHeight c) ok c (take MaxRecordsPerBlock (runnable c m)) c'"
    using RunDistribution_effect [OF assms] by blast
  then have "bal L c' a d = bal L c a d
      + (\<Sum>r\<leftarrow>filter ok (take MaxRecordsPerBlock (runnable c m)). paid L r a d)"
    by (simp add: run_effect_def)
  moreover have "0 \<le> paid L r a d" if "r \<in> set (runnable c m)" for r
  proof -
    have "store_wf L (dispensation_store c)" using assms(2) by (simp add: disp_wf_def)
    then have "DistributionRecord_Validate L r"
      using runnable_stored [OF _ that] stored_ok by blast
    then show ?thesis
      using a validate_amount by (auto simp: paid_def moved_def split: option.splits)
  qed
  ultimately show "bal L c a d \<le> bal L c' a d"
    by (auto intro!: sum_list_nonneg dest!: in_set_takeD)
qed

lemma CreateDistribution_confined:
  assumes "msg_CreateDistribution L c m = Inr c'" and "GetDistributionModuleAddress L \<in> A"
    and "\<And>a. AccAddressFromBech32 L (mcd_Distributor m) = Inr a \<Longrightarrow> a \<in> A"
  shows "confined L {DispensationPart} A c c'"
proof -
  obtain c1 tot dist c2 n t run c3 es where ver: "VerifyAndSetDistribution c n t run = Inr c1"
    and dist: "AccAddressFromBech32 L (mcd_Distributor m) = Inr dist"
    and acc: "bank (\<lambda>x. SendCoinsFromAccountToModule L x dist dispensation_ModuleName tot) c1 = Inr c2"
    and drops: "CreateDrops L c2 (mcd_Output m) n t run = Inr c3" and c': "c' = EmitEvents es c3"
    using assms(1) unfolding msg_CreateDistribution_def AccumulateDrops_def
    by (auto simp: Let_def bindE_eq_Inr wrapE_eq_Inr)
  have "confined L {DispensationPart} A c c1"
    using ver by (auto simp: VerifyAndSetDistribution_def SetDistribution_Inr res_simps)
  also have "confined L {DispensationPart} A c1 c2"
    using assms(2) by (intro confined_to_module [OF acc assms(3) [OF dist]]) (simp add: GetDistributionModuleAddress_def)
  also have "confined L {DispensationPart} A c2 c3"
    using drops unfolding CreateDrops_def
    by (rule confined_foldE) (auto simp: create_drop_def Let_def bindE_eq_Inr wrapE_eq_Inr SetDistributionRecord_Inr)
  finally show ?thesis by (simp add: c')
qed

text \<open>What a run may touch is known of a solvent module only; the other messages need no invariant.\<close>

lemma dispensation_confined:
  assumes "dispensation_NewHandler L c msg = Inr c'"
  shows "confined L {DispensationPart} UNIV c c'"
    and "disp_wf L c \<Longrightarrow> disp_solvent L c \<Longrightarrow> confined L {DispensationPart}
      ({a. dispensation_GetSigners L msg = Inr [a]} \<union> {GetDistributionModuleAddress L}) c c'"
proof -
  let ?c = "c\<lparr>events := []\<rparr>"
  have claim: "confined L {DispensationPart} A c c'" if "msg_CreateUserClaim L ?c m = Inr c'" for m A
    using that by (auto simp: msg_CreateUserClaim_def bindE_eq_Inr SetClaim_Inr)
  show "confined L {DispensationPart} UNIV c c'"
    using assms claim CreateDistribution_confined [of ?c _ c' UNIV] RunDistribution_stores [of ?c _ c']
    by (simp add: dispensation_NewHandler_def Let_def split: dispensation_msg.splits)
  show "confined L {DispensationPart}
      ({a. dispensation_GetSigners L msg = Inr [a]} \<union> {GetDistributionModuleAddress L}) c c'"
    if "disp_wf L c" and "disp_solvent L c"
    using assms claim CreateDistribution_confined [of ?c _ c'] that
      confined_mono [OF RunDistribution_confined [of ?c _ c'] subset_refl, of _ "insert (GetDistributionModuleAddress L) _"]
    by (simp add: dispensation_NewHandler_def Let_def dispensation_GetSigners_def
        MsgCreateDistribution_GetSigners_def bindE_def wrapE_def split: dispensation_msg.splits)
qed

subsection \<open>The token registry\<close>

lemma registry_confined: "registry_NewHandler L c msg = Inr c' \<Longrightarrow> confined L {RegistryPart} {} c c'"
  by (auto simp: registry_NewHandler_def msg_Register_def msg_SetRegistry_def msg_Deregister_def SetToken_def
      RemoveToken_def SetRegistry_def Let_def res_simps split: registry_msg.splits)

end

subsection \<open>The application\<close>

definition module_accounts :: "'x lib \<Rightarrow> addr list" where
  "module_accounts L =
     [GetCLPModuleAddress L, NewModuleAddress L bridge_ModuleName, GetDistributionModuleAddress L]"

definition signed_by :: "'x lib \<Rightarrow> app_msg \<Rightarrow> addr \<Rightarrow> bool" where
  "signed_by L msg a = (case app_GetSigners L msg of Inl _ \<Rightarrow> False | Inr signers \<Rightarrow> a \<in> set signers)"

definition parts_of :: "app_msg \<Rightarrow> part set" where
  "parts_of msg =
     (case msg of
        RegistryMsg _ \<Rightarrow> {RegistryPart}
      | ClpMsg _ \<Rightarrow> {ClpPart}
      | BridgeMsg _ \<Rightarrow> {OraclePart, BridgePart}
      | DispensationMsg _ \<Rightarrow> {DispensationPart})"

text \<open>The account of the module that a message belongs to.\<close>

definition home_of :: "'x lib \<Rightarrow> app_msg \<Rightarrow> addr set" where
  "home_of L msg =
     (case msg of
        RegistryMsg _ \<Rightarrow> {}
      | ClpMsg _ \<Rightarrow> {GetCLPModuleAddress L}
      | BridgeMsg _ \<Rightarrow> {NewModuleAddress L bridge_ModuleName}
      | DispensationMsg _ \<Rightarrow> {GetDistributionModuleAddress L})"

text \<open>A module's account has no key, so no message carries its signature.\<close>

definition app_allowed :: "'x lib \<Rightarrow> app_msg \<Rightarrow> bool" where
  "app_allowed L msg \<longleftrightarrow> list_all (\<lambda>a. \<not> signed_by L msg a) (module_accounts L) \<and>
     (case msg of ClpMsg (MsgRemoveLiquidity m) \<Rightarrow> mrl_Asymmetry m = 0 | _ \<Rightarrow> True)"

lemma clp_signed_by: "signed_by L (ClpMsg m) a \<longleftrightarrow> AccAddressFromBech32 L (clp_signer m) = Inr a"
  by (cases m) (auto simp: signed_by_def app_GetSigners_def clp_GetSigners_def clp_signer_def
      MsgCreatePool_GetSigners_def MsgAddLiquidity_GetSigners_def MsgRemoveLiquidity_GetSigners_def
      MsgSwap_GetSigners_def MsgDecommissionPool_GetSigners_def bindE_def wrapE_def split: sum.splits)

lemma signers_signed:
  "{a. bridge_GetSigners L m = Inr [a]} \<subseteq> {a. signed_by L (BridgeMsg m) a}"
  "{a. dispensation_GetSigners L k = Inr [a]} \<subseteq> {a. signed_by L (DispensationMsg k) a}"
  by (auto simp: signed_by_def app_GetSigners_def)

context lib_laws
begin

lemma app_stores: "app_handler L c msg = Inr c' \<Longrightarrow> confined L (parts_of msg) UNIV c c'"
  using confined_mono [OF registry_confined subset_refl, of c _ c' UNIV]
    confined_mono [OF clp_confined subset_refl, of c _ c' UNIV]
    confined_mono [OF bridge_confined subset_refl, of DefaultConsensusNeeded c _ c' UNIV] dispensation_confined(1)
  by (simp add: app_handler_def parts_of_def split: app_msg.splits)

lemma app_confined:
  assumes "app_handler L c msg = Inr c'" and "disp_wf L c" and "disp_solvent L c"
  shows "confined L (parts_of msg) ({a. signed_by L msg a} \<union> home_of L msg) c c'"
proof (cases msg)
  case (RegistryMsg m)
  then show ?thesis
    using assms(1) registry_confined by (auto simp: app_handler_def parts_of_def intro: confined_mono)
next
  case (ClpMsg m)
  then show ?thesis
    using assms(1) clp_confined by (simp add: app_handler_def parts_of_def home_of_def clp_signed_by)
next
  case (BridgeMsg m)
  then show ?thesis
    using assms(1) confined_mono [OF bridge_confined [of DefaultConsensusNeeded c m c'] subset_refl Un_mono [OF signers_signed(1) subset_refl]]
    by (simp add: app_handler_def parts_of_def home_of_def)
next
  case (DispensationMsg m)
  then show ?thesis
    using assms confined_mono [OF dispensation_confined(2) [of c m c'] subset_refl Un_mono [OF signers_signed(2) subset_refl]]
    by (simp add: app_handler_def parts_of_def home_of_def)
qed

text \<open>A message of another module leaves a module's books, and its account pays nothing.\<close>

lemma clp_untouched:
  assumes "confined L W A c c'" and "ClpPart \<notin> W" and "GetCLPModuleAddress L \<notin> A" and "clp_wf c \<and> clp_solvent L c"
  shows "clp_wf c' \<and> clp_solvent L c'"
proof -
  have store: "clp_store c' = clp_store c"
    and more: "\<And>d. bal L c (GetCLPModuleAddress L) d \<le> bal L c' (GetCLPModuleAddress L) d"
    using assms(1-3) by (auto simp: confined_def)
  show ?thesis
    using assms(4) order_trans [OF _ more [unfolded bal_def]]
    by (simp add: clp_wf_def clp_solvent_def clp_owed_def store)
qed

lemma disp_untouched:
  assumes "confined L W A c c'" and "DispensationPart \<notin> W" and "GetDistributionModuleAddress L \<notin> A"
    and "disp_wf L c \<and> disp_solvent L c"
  shows "disp_wf L c' \<and> disp_solvent L c'"
proof -
  have store: "dispensation_store c' = dispensation_store c"
    and more: "\<And>d. bal L c (GetDistributionModuleAddress L) d \<le> bal L c' (GetDistributionModuleAddress L) d"
    using assms(1-3) by (auto simp: confined_def)
  show ?thesis
    using assms(4) order_trans [OF _ more] by (simp add: disp_wf_def disp_solvent_def disp_owed_def store)
qed

end

text \<open>
  The module accounts of the SDK are hashes of the modules' names; different modules have
  different accounts.
\<close>

locale app_laws = lib_laws L for L :: "'x lib" +
  assumes module_accounts_distinct: "distinct (module_accounts L)"
begin

lemma clp_foreign:
  assumes "\<And>m. msg \<noteq> ClpMsg m" and "list_all (\<lambda>a. \<not> signed_by L msg a) (module_accounts L)"
  shows "ClpPart \<notin> parts_of msg" and "GetCLPModuleAddress L \<notin> {a. signed_by L msg a} \<union> home_of L msg"
  using assms module_accounts_distinct
  by (simp_all add: parts_of_def home_of_def module_accounts_def split: app_msg.splits)

lemma disp_foreign:
  assumes "\<And>m. msg \<noteq> DispensationMsg m" and "list_all (\<lambda>a. \<not> signed_by L msg a) (module_accounts L)"
  shows "DispensationPart \<notin> parts_of msg"
    and "GetDistributionModuleAddress L \<notin> {a. signed_by L msg a} \<union> home_of L msg"
  using assms module_accounts_distinct
  by (auto simp add: parts_of_def home_of_def module_accounts_def split: app_msg.splits)

lemma app_step_disp:
  assumes "disp_wf L c \<and> disp_solvent L c" and "list_all (\<lambda>a. \<not> signed_by L msg a) (module_accounts L)"
    and run: "app_handler L c msg = Inr c'"
  shows "disp_wf L c' \<and> disp_solvent L c'"
proof (cases "\<exists>m. msg = DispensationMsg m")
  case True
  then obtain m where m: "msg = DispensationMsg m" ..
  have "disp_allowed L m"
    using assms(2) unfolding m disp_allowed_def
    by (auto simp: module_accounts_def signed_by_def app_GetSigners_def dispensation_GetSigners_def
        MsgCreateDistribution_GetSigners_def bindE_def wrapE_def split: dispensation_msg.splits)
  then show ?thesis
    using disp_step_solvent [OF assms(1)] run by (simp add: m app_handler_def)
next
  case False
  then show ?thesis
    using disp_untouched [OF app_confined [OF run]] disp_foreign [OF _ assms(2)] assms(1) by blast
qed

lemma app_step_clp:
  assumes "disp_wf L c \<and> disp_solvent L c" and "clp_wf c \<and> clp_solvent L c" and "app_allowed L msg"
    and run: "app_handler L c msg = Inr c'"
  shows "clp_wf c' \<and> clp_solvent L c'"
proof (cases "\<exists>m. msg = ClpMsg m")
  case True
  then obtain m where m: "msg = ClpMsg m" ..
  have "clp_allowed L m"
    using assms(3) unfolding m clp_allowed_def app_allowed_def
    by (auto simp: module_accounts_def clp_signed_by split: clp_msg.splits)
  then show ?thesis
    using clp_step_solvent [OF assms(2)] run by (simp add: m app_handler_def)
next
  case False
  have "list_all (\<lambda>a. \<not> signed_by L msg a) (module_accounts L)" using assms(3) by (simp add: app_allowed_def)
  then show ?thesis
    using clp_untouched [OF app_confined [OF run]] clp_foreign assms(1,2) False by blast
qed

end

sublocale app_laws \<subseteq> books: machine "app_handler L"
    "\<lambda>c. (disp_wf L c \<and> disp_solvent L c) \<and> (clp_wf c \<and> clp_solvent L c)" "app_allowed L"
proof
  fix c msg c'
  assume inv: "(disp_wf L c \<and> disp_solvent L c) \<and> (clp_wf c \<and> clp_solvent L c)"
    and ok: "app_allowed L msg" and run: "app_handler L c msg = Inr c'"
  have "list_all (\<lambda>a. \<not> signed_by L msg a) (module_accounts L)" using ok by (simp add: app_allowed_def)
  then show "(disp_wf L c' \<and> disp_solvent L c') \<and> (clp_wf c' \<and> clp_solvent L c')"
    using app_step_disp [OF conjunct1 [OF inv] _ run] app_step_clp [OF conjunct1 [OF inv] conjunct2 [OF inv] ok run] by blast
qed

text \<open>Nobody pays for the messages of others.\<close>

sublocale app_laws \<subseteq> purse: machine "app_handler L"
    "\<lambda>c. (disp_wf L c \<and> disp_solvent L c) \<and> (a \<in> set (module_accounts L) \<or> n \<le> bal L c a d)"
    "\<lambda>msg. list_all (\<lambda>b. \<not> signed_by L msg b) (a # module_accounts L)"
  for a :: addr and d :: string and n :: int
proof
  fix c msg c'
  assume inv: "(disp_wf L c \<and> disp_solvent L c) \<and> (a \<in> set (module_accounts L) \<or> n \<le> bal L c a d)"
    and ok: "list_all (\<lambda>b. \<not> signed_by L msg b) (a # module_accounts L)" and run: "app_handler L c msg = Inr c'"
  have "a \<in> set (module_accounts L) \<or> bal L c a d \<le> bal L c' a d"
    using app_confined [OF run conjunct1 [OF conjunct1 [OF inv]] conjunct2 [OF conjunct1 [OF inv]]] ok
    by (cases msg) (auto simp: confined_def home_of_def module_accounts_def)
  moreover have "disp_wf L c' \<and> disp_solvent L c'"
    using ok by (intro app_step_disp [OF conjunct1 [OF inv] _ run]) simp
  ultimately show "(disp_wf L c' \<and> disp_solvent L c') \<and> (a \<in> set (module_accounts L) \<or> n \<le> bal L c' a d)"
    using inv by (meson order_trans)
qed

lemma ref_module_accounts: "module_accounts ref_lib = map ref_module [''clp'', ''ethbridge'', ''dispensation'']"
  by (simp add: module_accounts_def GetCLPModuleAddress_def GetDistributionModuleAddress_def clp_ModuleName_def
      bridge_ModuleName_def dispensation_ModuleName_def ref_eval)

interpretation ref_app: app_laws ref_lib
  by unfold_locales (simp add: ref_module_accounts ref_eval)

context app_laws
begin

lemma app_run_solvent:
  assumes "disp_wf L c" and "disp_solvent L c" and "clp_wf c" and "clp_solvent L c" and "list_all (app_allowed L) msgs"
  shows "clp_solvent L (foldl (deliver (app_handler L)) c msgs) \<and>
    disp_solvent L (foldl (deliver (app_handler L)) c msgs)"
  using books.run_inv [of c msgs] assms by blast

lemma app_run_purse:
  assumes "disp_wf L c" and "disp_solvent L c" and "a \<notin> set (module_accounts L)"
    and "list_all (\<lambda>msg. list_all (\<lambda>b. \<not> signed_by L msg b) (a # module_accounts L)) msgs"
  shows "bal L c a d \<le> bal L (foldl (deliver (app_handler L)) c msgs) a d"
  using purse.run_inv [of c a "bal L c a d" d msgs] assms by blast

end

end
