(* ===== verification/ClpQuery.thy ===== *)
theory ClpQuery
  imports ClpMsgServer
begin

section \<open>Genesis and queries of the liquidity pools\<close>

text \<open>
  \<open>x/clp/genesis.go\<close>, \<open>x/clp/keeper/params.go\<close> and \<open>x/clp/keeper/grpc_query.go\<close>. A request is an option (nil is
  refused), and so is its page; a response is the tuple of its fields.
\<close>

subsection \<open>Parameters and genesis\<close>

definition validateMinCreatePoolThreshold :: "nat \<Rightarrow> unit res" where
  "validateMinCreatePoolThreshold v =
     (if v = 0 then Inl (ErrGo ''min create pool threshold must be positive'') else Inr ())"

text \<open>\<open>SetParamSet\<close> panics on a value that its validation refuses.\<close>

definition clp_SetParams :: "'x ctx \<Rightarrow> nat \<Rightarrow> 'x ctx res" where
  "clp_SetParams c params =
     bindE (wrapE Panic (validateMinCreatePoolThreshold params)) (\<lambda>_. Inr (c\<lparr>clp_params := params\<rparr>))"

definition clp_GetParams :: "'x ctx \<Rightarrow> nat" where
  "clp_GetParams c = clp_params c"

record clp_genesis =
  gc_Params :: nat
  gc_AddressWhitelist :: "string list"
  gc_PoolList :: "pool list"
  gc_LiquidityProviders :: "liquidity_provider list"

definition clp_InitGenesis :: "'x lib \<Rightarrow> 'x ctx \<Rightarrow> clp_genesis \<Rightarrow> 'x ctx res" where
  "clp_InitGenesis L c data =
     bindE (clp_SetParams c (gc_Params data)) (\<lambda>c.
     bindE (guardE (gc_AddressWhitelist data \<noteq> []) Panic) (\<lambda>_.
     bindE (mustAddresses L (gc_AddressWhitelist data)) (\<lambda>wl.
     let c = SetClpWhiteList L c wl; c = SetClpWhiteList L c wl in
     bindE (foldE (\<lambda>c p. wrapE Panic (SetPool L c p)) c (gc_PoolList data)) (\<lambda>c.
     foldE (SetLiquidityProvider L) c (gc_LiquidityProviders data)))))"

definition all_page :: page_request where
  "all_page = \<lparr>page_key = [], page_offset = 0, page_limit = MaxUint64\<rparr>"

definition page_or_nil :: "('a list \<times> page_response) res \<Rightarrow> 'a list res" where
  "page_or_nil r = bindE (attempt r) (\<lambda>found. Inr (case found of None \<Rightarrow> [] | Some (xs, _) \<Rightarrow> xs))"

definition clp_ExportGenesis :: "'x lib \<Rightarrow> 'x ctx \<Rightarrow> clp_genesis res" where
  "clp_ExportGenesis L c =
     bindE (page_or_nil (GetPoolsPaginated L c all_page)) (\<lambda>poolList.
     bindE (page_or_nil (GetAllLiquidityProvidersPaginated L c all_page)) (\<lambda>liquidityProviders.
     bindE (GetClpWhiteList L c) (\<lambda>whiteList.
     Inr \<lparr>gc_Params = clp_GetParams c, gc_AddressWhitelist = map (AccAddress_String L) whiteList,
          gc_PoolList = poolList, gc_LiquidityProviders = liquidityProviders\<rparr>)))"

fun all_valid :: "('a \<Rightarrow> bool res) \<Rightarrow> 'a list \<Rightarrow> unit res" where
  "all_valid f [] = Inr ()"
| "all_valid f (x # xs) = bindE (f x) (\<lambda>ok. if \<not> ok then Inl (Clp ErrInvalid) else all_valid f xs)"

definition clp_ValidateGenesis :: "'x lib \<Rightarrow> clp_genesis \<Rightarrow> unit res" where
  "clp_ValidateGenesis L data =
     bindE (wrapE (Clp ErrInvalid) (validateMinCreatePoolThreshold (gc_Params data))) (\<lambda>_.
     bindE (all_valid (Pool_Validate L) (gc_PoolList data)) (\<lambda>_.
     all_valid (LiquidityProvider_Validate L) (gc_LiquidityProviders data)))"

subsection \<open>Queries\<close>

definition MaxPageLimit :: nat where
  "MaxPageLimit = 200"

definition query_page :: "page_request option \<Rightarrow> page_request res" where
  "query_page pagination =
     (let p = (case pagination of None \<Rightarrow> \<lparr>page_key = [], page_offset = 0, page_limit = MaxPageLimit\<rparr> | Some p \<Rightarrow> p) in
      if page_limit p > MaxPageLimit then Inl (ErrGo ''page size greater than max'') else Inr p)"

definition query_request :: "'a option \<Rightarrow> 'a res" where
  "query_request req = parseE (ErrGo ''empty request'') req"

definition Query_GetPool :: "'x lib \<Rightarrow> 'x ctx \<Rightarrow> string option \<Rightarrow> (pool \<times> int \<times> string) res" where
  "Query_GetPool L c req =
     bindE (query_request req) (\<lambda>symbol.
     bindE (wrapE (ErrGo ''not found'') (GetPool c symbol)) (\<lambda>p.
     Inr (p, BlockHeight c, AccAddress_String L (GetCLPModuleAddress L))))"

definition Query_GetPools ::
  "'x lib \<Rightarrow> 'x ctx \<Rightarrow> page_request option option \<Rightarrow> (pool list \<times> int \<times> string \<times> page_response) res" where
  "Query_GetPools L c req =
     bindE (query_request req) (\<lambda>pagination.
     bindE (query_page pagination) (\<lambda>p.
     bindE (GetPoolsPaginated L c p) (\<lambda>(pools, pageRes).
     Inr (pools, BlockHeight c, AccAddress_String L (GetCLPModuleAddress L), pageRes))))"

definition Query_GetLiquidityProvider ::
  "'x lib \<Rightarrow> 'x ctx \<Rightarrow> (string \<times> string) option \<Rightarrow> (liquidity_provider \<times> int \<times> string \<times> string) res" where
  "Query_GetLiquidityProvider L c req =
     bindE (query_request req) (\<lambda>(symbol, lpAddress).
     bindE (GetLiquidityProvider c symbol lpAddress) (\<lambda>lp.
     bindE (GetPool c symbol) (\<lambda>p.
     bindE (CalculateAllAssetsForLP L p lp) (\<lambda>(native, external, _, _).
     Inr (lp, BlockHeight c, nat_string native, nat_string external)))))"

fun lp_data :: "'x lib \<Rightarrow> 'x ctx \<Rightarrow> string \<Rightarrow> asset list \<Rightarrow> (liquidity_provider \<times> string \<times> string) list res" where
  "lp_data L c lpAddress [] = Inr []"
| "lp_data L c lpAddress (asset # assets) =
     bindE (attempt (GetPool c (Symbol asset))) (\<lambda>p.
     case p of None \<Rightarrow> lp_data L c lpAddress assets
     | Some p \<Rightarrow>
         bindE (attempt (GetLiquidityProvider c (Symbol asset) lpAddress)) (\<lambda>lp.
         case lp of None \<Rightarrow> lp_data L c lpAddress assets
         | Some lp \<Rightarrow>
             bindE (CalculateAllAssetsForLP L p lp) (\<lambda>(native, external, _, _).
             bindE (lp_data L c lpAddress assets) (\<lambda>rest.
             Inr ((lp, nat_string native, nat_string external) # rest)))))"

definition Query_GetLiquidityProviderData ::
  "'x lib \<Rightarrow> 'x ctx \<Rightarrow> (string \<times> page_request option) option \<Rightarrow> ((liquidity_provider \<times> string \<times> string) list \<times> int) res" where
  "Query_GetLiquidityProviderData L c req =
     bindE (query_request req) (\<lambda>(lpAddress, pagination).
     bindE (query_page pagination) (\<lambda>p.
     bindE (AccAddressFromBech32 L lpAddress) (\<lambda>addr.
     bindE (GetAssetsForLiquidityProviderPaginated L c addr
       \<lparr>page_key = [], page_offset = 0, page_limit = page_limit p\<rparr>) (\<lambda>(assetList, _).
     bindE (lp_data L c lpAddress assetList) (\<lambda>lpDataList.
     Inr (lpDataList, BlockHeight c))))))"

definition Query_GetAssetList :: "'x lib \<Rightarrow> 'x ctx \<Rightarrow> (string \<times> page_request option) option \<Rightarrow> asset list res" where
  "Query_GetAssetList L c req =
     bindE (query_request req) (\<lambda>(lpAddress, pagination).
     bindE (query_page pagination) (\<lambda>p.
     bindE (AccAddressFromBech32 L lpAddress) (\<lambda>addr.
     bindE (GetAssetsForLiquidityProviderPaginated L c addr
       \<lparr>page_key = [], page_offset = 0, page_limit = MaxPageLimit\<rparr>) (\<lambda>(assetList, _).
     Inr assetList))))"

definition Query_GetLiquidityProviderList ::
  "'x lib \<Rightarrow> 'x ctx \<Rightarrow> (string \<times> page_request option) option \<Rightarrow> (liquidity_provider list \<times> int \<times> page_response) res" where
  "Query_GetLiquidityProviderList L c req =
     bindE (query_request req) (\<lambda>(symbol, pagination).
     bindE (query_page pagination) (\<lambda>p.
     bindE (GetLiquidityProvidersForAssetPaginated L c \<lparr>Symbol = symbol\<rparr> p) (\<lambda>(lpList, pageRes).
     Inr (lpList, BlockHeight c, pageRes))))"

definition Query_GetLiquidityProviders ::
  "'x lib \<Rightarrow> 'x ctx \<Rightarrow> page_request option option \<Rightarrow> (liquidity_provider list \<times> int \<times> page_response) res" where
  "Query_GetLiquidityProviders L c req =
     bindE (query_request req) (\<lambda>pagination.
     bindE (query_page pagination) (\<lambda>p.
     bindE (GetAllLiquidityProvidersPaginated L c p) (\<lambda>(lpList, pageRes).
     Inr (lpList, BlockHeight c, pageRes))))"

end
