(* ===== verification/ClpProperties.thy ===== *)
theory ClpProperties
  imports ClpInvariants Balances
begin

section \<open>Properties of the liquidity pools\<close>

text \<open>
  What users and operators of the pools rely on: the module can always pay what its books say,
  a swap gives at least what was asked for, withdrawals stay within the pool, and the
  permissions and thresholds of the handlers hold.
\<close>

lemmas clp_eval [ref_eval] = NativeSymbol_def GetSettlementAsset_def Asset_Equals_def Uint_of_Dec_def mustDec_def
  GetNormalizationFactor_def clp_ModuleName_def PoolThrehold_def MaxSymbolLength_def PoolPrefix_def
  LiquidityProviderPrefix_def GetPoolKey_def GetLiquidityProviderKey_def GetCLPModuleAddress_def
  VerifyRange_def Asset_Validate_def Pool_Validate_def LiquidityProvider_Validate_def NewPool_def
  NewLiquidityProvider_def SetPool_def GetPool_def ExistsPool_def DestroyPool_def SetLiquidityProvider_def
  GetLiquidityProvider_def DestroyLiquidityProvider_def ParseToInt_def IntOfUint_def clp_CreatePool_def
  CreateLiquidityProvider_def token_entry_def require_clp_def msg_CreatePool_def TrimSpace_def is_space_def
  InitiateSwap_def FinalizeSwap_def

subsection \<open>Solvency\<close>

text \<open>Solvency: if the module's account covers the books of all pools, it covers them after every
  history of pool messages with symmetric withdrawals, in every denomination.\<close>

theorem clp_history_solvent:
  assumes "lib_laws L" and "clp_wf c" and "clp_solvent L c" and "list_all (clp_allowed L) msgs"
  shows "clp_solvent L (foldl (deliver (clp_NewHandler L)) c msgs)"
  using lib_laws.clp_run_solvent [OF assms] .

definition ref_clp_ctx :: "ref_state ctx" where
  "ref_clp_ctx = fund ''alice'' ''rowan'' 2000000000000000000 (fund ''alice'' ''ceth'' 5000
     (SetToken (SetAdminAccount ref_ctx ''adm'') (new_entry (''ceth'', 18))))"

definition ref_create_pool :: msg_create_pool where
  "ref_create_pool = \<lparr>mcp_Signer = ''sif1alice'', mcp_ExternalAsset = Some \<lparr>Symbol = ''ceth''\<rparr>,
     mcp_NativeAssetAmount = 1000000000000000000, mcp_ExternalAssetAmount = 3000\<rparr>"

lemma ref_create_pool_runs:
  "\<exists>c'. msg_CreatePool ref_lib ref_clp_ctx ref_create_pool = Inr c'"
  by (simp add: ref_clp_ctx_def ref_create_pool_def ref_eval new_entry_def CalculatePoolUnits_def Let_def cong: bindE_cong_weak split del: if_split)

theorem clp_history_solvent_witness:
  "clp_solvent ref_lib (foldl (deliver (clp_NewHandler ref_lib)) ref_clp_ctx [MsgCreatePool ref_create_pool])"
proof (rule clp_history_solvent)
  show "lib_laws ref_lib" by (rule ref.lib_laws_axioms)
  show "clp_wf ref_clp_ctx" and "clp_solvent ref_lib ref_clp_ctx"
    by (simp_all add: ref_clp_ctx_def ref_eval clp_wf_def kv_ok_def clp_solvent_def clp_owed_def kv_sum_def)
  show "list_all (clp_allowed ref_lib) [MsgCreatePool ref_create_pool]"
    by (simp add: clp_allowed_def clp_signer_def ref_create_pool_def ref_eval)
qed

subsection \<open>Exact decimal arithmetic\<close>

text \<open>
  Operations on decimals whose results are exact have one possible value in every library that
  satisfies the laws.
\<close>

context lib_laws
begin

lemma quo_eq: "b \<noteq> 0 \<Longrightarrow> a * one_dec = q * b \<Longrightarrow> \<bar>q\<bar> < 2 ^ 255 \<Longrightarrow> Dec_Quo L a b = Inr q"
  using dec_quo_defined [of b a] dec_quo_exact [of a b _ q] by (auto simp: abs_mult)

lemma mul_eq: "a * b = q * one_dec \<Longrightarrow> \<bar>q\<bar> < 2 ^ 255 \<Longrightarrow> Dec_Mul L a b = Inr q"
  using dec_mul_defined [of a b] dec_mul_exact [of a b _ q] by (auto simp: abs_mult)

lemma round_eq:
  assumes "2 * \<bar>q * one_dec - a\<bar> < one_dec" and "\<bar>a\<bar> < 2 ^ 255"
  shows "Dec_RoundInt L a = Inr q"
proof -
  obtain r where r: "Dec_RoundInt L a = Inr r" using dec_round_defined [OF assms(2)] by blast
  have "2 * \<bar>r * one_dec - a\<bar> \<le> one_dec" by (rule dec_round [OF r])
  moreover have "\<bar>r * one_dec - q * one_dec\<bar> \<le> \<bar>r * one_dec - a\<bar> + \<bar>q * one_dec - a\<bar>"
    using abs_triangle_ineq4 [of "r * one_dec - a" "q * one_dec - a"] by simp
  ultimately have "2 * \<bar>r * one_dec - q * one_dec\<bar> < 2 * one_dec" using assms(1) by simp
  then have "\<bar>(r - q) * one_dec\<bar> < one_dec" by (simp add: algebra_simps)
  then have "r = q" by (simp add: abs_mult)
  then show ?thesis using r by simp
qed

lemma str_eq: "\<bar>n * one_dec\<bar> < 2 ^ 255 \<Longrightarrow> mustDec L (int_string n) = Inr (n * one_dec)"
  using dec_of_str_defined dec_of_str by (force simp: mustDec_def wrapE_def)

lemma power_eq: "\<bar>n ^ k * one_dec\<bar> < 2 ^ 255 \<Longrightarrow> Dec_Power L (n * one_dec) k = Inr (n ^ k * one_dec)"
  using dec_power_defined dec_power by blast

lemma add_eq: "\<bar>a + b\<bar> < 2 ^ 255 \<Longrightarrow> Dec_Add L a b = Inr (a + b)"
  using dec_add_defined dec_add by blast

lemma sub_eq: "\<bar>a - b\<bar> < 2 ^ 255 \<Longrightarrow> Dec_Sub L a b = Inr (a - b)"
  using dec_sub_defined dec_sub by blast

end

subsection \<open>Swaps\<close>

text \<open>
  What a swap adds to the books of a denomination: the amount sent less the amount received.
\<close>

definition swap_net :: "asset \<Rightarrow> nat \<Rightarrow> asset \<Rightarrow> nat \<Rightarrow> string \<Rightarrow> int" where
  "swap_net sent n received y d = amount_if (Symbol sent = d) (int n) - amount_if (Symbol received = d) (int y)"

lemma SetPool_owed:
  assumes "SetPool L c p = Inr c'" and "clp_wf c"
  obtains a where "ExternalAsset p = Some a" "ext c' = ext c"
    "\<And>d. clp_owed c' d = clp_owed c d + pool_owes p d - booked c (Symbol a) d"
proof -
  obtain a where "ExternalAsset p = Some a" "ext c' = ext c"
    "\<And>d. slack L c' d = slack L c d - pool_owes p d + booked c (Symbol a) d"
    using SetPool_effect [OF assms] by metis
  then show thesis by (intro that [of a]) (simp_all add: slack_def algebra_simps)
qed

lemma swap_first_leg_ext:
  "swap_first_leg L c sA sent received n inPool = Inr (c1, n1, sent1, im, fee) \<Longrightarrow> ext c1 = ext c"
  by (auto simp: swap_first_leg_def SetPool_def Let_def res_simps split: if_splits)

context lib_laws
begin

lemma InitiateSwap_exact:
  assumes "InitiateSwap L c coin addr = Inr c1" and "clp_wf c"
  shows "clp_wf c1 \<and> GetPool c1 s = GetPool c s \<and> clp_owed c1 d = clp_owed c d \<and>
    bal L c1 a d = bal L c a d + amount_if (a = GetCLPModuleAddress L) (amount_if (coin_denom coin = d) (coin_amount coin))
      - amount_if (a = addr) (amount_if (coin_denom coin = d) (coin_amount coin))"
  using assms
  by (auto simp: InitiateSwap_def res_simps clp_owed_def bal_def amount_if_def send_to_module moved_def new_coins_amount
      GetCLPModuleAddress_def)

lemma FinalizeSwap_exact:
  assumes fin: "FinalizeSwap L c (nat_string n) p msg = Inr c'" and wf: "clp_wf c"
    and r: "ms_ReceivedAsset msg = Some r" and addr: "AccAddressFromBech32 L (ms_Signer msg) = Inr addr"
    and p: "ExternalAsset p = Some a"
  shows "clp_owed c' d = clp_owed c d + pool_owes p d - booked c (Symbol a) d \<and>
    bal L c' b d = bal L c b d + amount_if (b = addr) (amount_if (Symbol r = d) (int n))
      - amount_if (b = GetCLPModuleAddress L) (amount_if (Symbol r = d) (int n))"
proof -
  from fin r addr obtain c1 sentCoin coins i x where
    set: "SetPool L c p = Inr c1" and i: "NewIntFromString L (nat_string n) = Some i"
    and coin: "NewCoin L (Symbol r) i = Inr sentCoin" and coins: "NewCoins L [sentCoin] = Inr coins"
    and send: "SendCoinsFromModuleToAccount L (ext c1) clp_ModuleName addr coins = (x, None)"
    and c': "c' = c1\<lparr>ext := x\<rparr>"
    by (auto simp: FinalizeSwap_def ParseToInt_def res_simps)
  have "AmountOf coins d = (if Symbol r = d then int n else 0)"
    using new_coins_amount [OF coins, of d] coin int_of_nat_string [OF i] by (auto simp: res_simps)
  moreover obtain a' where "ExternalAsset p = Some a'" "ext c1 = ext c"
    "\<And>d. clp_owed c1 d = clp_owed c d + pool_owes p d - booked c (Symbol a') d"
    using SetPool_owed [OF set wf] by metis
  ultimately show ?thesis
    using p send_from_module [OF send, of b d]
    by (auto simp: c' bal_def clp_owed_def amount_if_def moved_def GetCLPModuleAddress_def)
qed

lemma msg_Swap_exact:
  assumes run: "msg_Swap L c msg = Inr c'" and wf: "clp_wf c" and signer: "AccAddressFromBech32 L (ms_Signer msg) = Inr addr"
  shows "\<exists>sent received y. ms_SentAsset msg = Some sent \<and> ms_ReceivedAsset msg = Some received \<and>
    ms_MinReceivingAmount msg \<le> y \<and> (\<forall>d. clp_owed c' d = clp_owed c d + swap_net sent (ms_SentAmount msg) received y d) \<and>
    (\<forall>a d. bal L c' a d = bal L c a d
       + amount_if (a = GetCLPModuleAddress L) (swap_net sent (ms_SentAmount msg) received y d)
       - amount_if (a = addr) (swap_net sent (ms_SentAmount msg) received y d))"
proof -
  obtain sent received sA rA inPool addr' c1 c2 n2 sent2 im fee outPool dcm nf adj y lp ts finalPool c3 es
  where sent: "ms_SentAsset msg = Some sent" and recv: "ms_ReceivedAsset msg = Some received"
    and inPool: "swap_in_pool c sent = Inr inPool" and addr: "AccAddressFromBech32 L (ms_Signer msg) = Inr addr'"
    and init: "InitiateSwap L c \<lparr>coin_denom = Symbol sent, coin_amount = int (ms_SentAmount msg)\<rparr> addr' = Inr c1"
    and leg: "swap_first_leg L c1 sA sent received (ms_SentAmount msg) inPool = Inr (c2, n2, sent2, im, fee)"
    and out: "swap_out_pool c2 sent received sA rA = Inr (outPool, dcm)"
    and swap: "SwapOne L sent2 n2 received outPool nf adj = Inr (y, lp, ts, finalPool)"
    and least: "ms_MinReceivingAmount msg \<le> y" and fin: "FinalizeSwap L c2 (nat_string y) finalPool msg = Inr c3"
    and c': "c' = EmitEvents es c3"
    using msg_Swap_phases [OF run] by metis
  have [simp]: "addr' = addr" using addr signer by simp
  note c1 = InitiateSwap_exact [OF init wf]
  have "sent \<noteq> GetSettlementAsset \<longrightarrow> GetPool c1 (Symbol sent) = Inr inPool"
    using inPool c1 by (auto simp: swap_in_pool_def res_simps)
  note leg1 = swap_first_leg_slack [OF leg conjunct1 [OF c1] this]
  then have c2: "clp_wf c2" "sent2 = GetSettlementAsset \<or> received = GetSettlementAsset \<and> sent2 = sent" by auto
  have owed2: "clp_owed c2 d = clp_owed c d + amount_if (Symbol sent = d) (int (ms_SentAmount msg))
      - amount_if (Symbol sent2 = d) (int n2)" for d
    using leg1 [of d] c1 [of _ d] by (simp add: slack_def swap_first_leg_ext [OF leg] amount_if_def)
  obtain a where a: "ExternalAsset finalPool = Some a" "\<And>d. pool_owes finalPool d =
      booked c2 (Symbol a) d + (if Symbol sent2 = d then int n2 else 0) - (if Symbol received = d then int y else 0)"
    using swap_second_leg_owes [OF leg out swap c2] by metis
  note c3 = FinalizeSwap_exact [OF fin c2(1) recv signer a(1)]
  have "clp_owed c' d = clp_owed c d + swap_net sent (ms_SentAmount msg) received y d" for d
    using c3 [of d] owed2 [of d] a(2) [of d] by (simp add: c' clp_owed_def swap_net_def amount_if_def)
  moreover have "bal L c2 b d = bal L c1 b d" for b d
    by (simp add: bal_def swap_first_leg_ext [OF leg])
  then have "bal L c' b d = bal L c b d + amount_if (b = GetCLPModuleAddress L) (swap_net sent (ms_SentAmount msg) received y d)
      - amount_if (b = addr) (swap_net sent (ms_SentAmount msg) received y d)" for b d
    using c3 [of d b] c1 [of _ d b] by (simp add: c' swap_net_def amount_if_def)
  ultimately show ?thesis using sent recv least by blast
qed

end

text \<open>C3. A swap is exact: a message that the handler accepts moves the sent amount from the signer to the module
  and one amount, at least the minimum that the signer asked for, back; no other account
  changes in any denomination, and the books of the pools change by exactly what the module's
  account does, also when the swap goes through two pools.\<close>

theorem clp_swap_exact:
  assumes "lib_laws L" and "clp_wf c" and "AccAddressFromBech32 L (ms_Signer msg) = Inr addr"
    and "clp_NewHandler L c (MsgSwap msg) = Inr c'"
  shows "\<exists>sent received y. ms_SentAsset msg = Some sent \<and> ms_ReceivedAsset msg = Some received \<and>
    ms_MinReceivingAmount msg \<le> y \<and> (\<forall>d. clp_owed c' d = clp_owed c d + swap_net sent (ms_SentAmount msg) received y d) \<and>
    (\<forall>a d. bal L c' a d = bal L c a d
       + amount_if (a = GetCLPModuleAddress L) (swap_net sent (ms_SentAmount msg) received y d)
       - amount_if (a = addr) (swap_net sent (ms_SentAmount msg) received y d))"
proof -
  have "msg_Swap L (c\<lparr>events := []\<rparr>) msg = Inr c'" and "clp_wf (c\<lparr>events := []\<rparr>)"
    using assms(2,4) by (simp_all add: clp_NewHandler_def)
  from lib_laws.msg_Swap_exact [OF assms(1) this assms(3)] show ?thesis
    by (simp add: clp_owed_def)
qed

text \<open>Half a million native tokens into a pool that holds as many, and four million of the other side.\<close>

lemma even_len: "GetMinLen [500000, 500000, 4000000] = 6"
  by (simp add: GetMinLen_def nat_string.simps)

context lib_laws
begin

lemma even_quo:
  "Dec_Quo L 500000000000000000000000 1000000000000000000000000 = Inr 500000000000000000"
  "Dec_Quo L 4000000000000000000000000 1000000000000000000000000 = Inr 4000000000000000000"
  "Dec_Quo L 1000000000000000000 1000000000000000000 = Inr 1000000000000000000"
  "Dec_Quo L 1000000000000000000000000 1000000000000000000 = Inr 1000000000000000000000000"
  by (rule quo_eq; simp)+

lemma even_mul:
  "Dec_Mul L 500000000000000000 500000000000000000 = Inr 250000000000000000"
  "Dec_Mul L 250000000000000000 4000000000000000000 = Inr 1000000000000000000"
  "Dec_Mul L 1000000000000000000 1000000000000000000 = Inr 1000000000000000000"
  "Dec_Mul L 1000000000000000000 1000000000000000000000000 = Inr 1000000000000000000000000"
  by (rule mul_eq; simp)+

lemma even_round:
  "Dec_RoundInt L 1000000000000000000 = Inr 1" "Dec_RoundInt L 1000000000000000000000000 = Inr 1000000"
  by (rule round_eq; simp)+

lemma even_scale: "scale_inputs L False 1000000000000000000 False 500000 500000 4000000 = Inr (500000, 500000, 4000000)"
  by (simp add: scale_inputs_def Uint_of_Dec_def even_round uint_of_int uint_mul)

lemma even_result: "CalcSwapResult L False 1000000000000000000 False 500000 500000 4000000 = Inr 1000000"
  by (simp add: CalcSwapResult_def ReducePrecision_def IncreasePrecision_def Uint_of_Dec_def even_len even_scale even_quo
     even_mul even_round dec_of_int add_eq uint_of_int power_eq [of 10 6, simplified] Let_def
     cong: bindE_cong_weak split del: if_split)

lemma even_swap:
  "SwapOne L GetSettlementAsset 500000 \<lparr>Symbol = ''ceth''\<rparr>
     \<lparr>ExternalAsset = Some \<lparr>Symbol = ''ceth''\<rparr>, NativeAssetBalance = 500000, ExternalAssetBalance = 4000000, PoolUnits = 500000\<rparr>
     1000000000000000000 False =
   Inr (1000000, 1000000, 0, \<lparr>ExternalAsset = Some \<lparr>Symbol = ''ceth''\<rparr>, NativeAssetBalance = 1000000,
     ExternalAssetBalance = 3000000, PoolUnits = 500000\<rparr>)"
  by (simp add: SwapOne_def SetInputs_def GetSettlementAsset_def NativeSymbol_def CalcLiquidityFee_def even_result
     calcPriceImpact_def ReducePrecision_def IncreasePrecision_def Uint_of_Dec_def even_len even_scale even_quo even_mul
     even_round dec_of_int add_eq uint_of_int power_eq [of 10 6, simplified] uint_add uint_sub uint_quo guardE_def
     Let_def cong: bindE_cong_weak split del: if_split)

end

definition ref_swap_ctx :: "ref_state ctx" where
  "ref_swap_ctx = fund (NewModuleAddress ref_lib ''clp'') ''rowan'' 500000 (fund (NewModuleAddress ref_lib ''clp'') ''ceth'' 4000000
     (fund ''alice'' ''rowan'' 500000
     ((SetToken (SetToken ref_ctx (new_entry (''rowan'', 18))) (new_entry (''ceth'', 18)))\<lparr>clp_store :=
        kv_set (GetPoolKey ''ceth'' NativeSymbol) (V_Pool \<lparr>ExternalAsset = Some \<lparr>Symbol = ''ceth''\<rparr>,
          NativeAssetBalance = 500000, ExternalAssetBalance = 4000000, PoolUnits = 500000\<rparr>) []\<rparr>)))"

definition ref_swap :: msg_swap where
  "ref_swap = \<lparr>ms_Signer = ''sif1alice'', ms_SentAsset = Some \<lparr>Symbol = ''rowan''\<rparr>,
     ms_ReceivedAsset = Some \<lparr>Symbol = ''ceth''\<rparr>, ms_SentAmount = 500000, ms_MinReceivingAmount = 900000\<rparr>"

lemma ref_swap_runs: "\<exists>c'. clp_NewHandler ref_lib ref_swap_ctx (MsgSwap ref_swap) = Inr c'"
proof -
  note s = lib_laws.even_swap [OF ref.lib_laws_axioms, unfolded GetSettlementAsset_def NativeSymbol_def]
  show ?thesis
    by (simp add: clp_NewHandler_def msg_Swap_def swap_in_pool_def swap_first_leg_def swap_out_pool_def swap_fee_total_def
        ref_swap_ctx_def ref_swap_def s ref_eval new_entry_def Let_def cong: bindE_cong_weak split del: if_split)
qed

theorem clp_swap_exact_witness:
  "\<exists>c' y. clp_NewHandler ref_lib ref_swap_ctx (MsgSwap ref_swap) = Inr c' \<and> 900000 \<le> y \<and>
     bal ref_lib c' ''alice'' ''ceth'' = int y \<and> bal ref_lib c' ''alice'' ''rowan'' = 0"
proof -
  obtain c' where run: "clp_NewHandler ref_lib ref_swap_ctx (MsgSwap ref_swap) = Inr c'"
    using ref_swap_runs by blast
  have wf: "clp_wf ref_swap_ctx"
    by (simp add: clp_wf_def kv_ok_def ref_swap_ctx_def entry_ok_def ref_eval)
  have alice: "AccAddressFromBech32 ref_lib (ms_Signer ref_swap) = Inr ''alice''"
    by (simp add: ref_swap_def ref_eval)
  have start: "bal ref_lib ref_swap_ctx ''alice'' ''ceth'' = 0" "bal ref_lib ref_swap_ctx ''alice'' ''rowan'' = 500000"
    by (simp_all add: bal_def ref_swap_ctx_def ref_eval)
  have other: "''alice'' \<noteq> GetCLPModuleAddress ref_lib" by (simp add: ref_eval)
  obtain y where "900000 \<le> y" "\<forall>a d. bal ref_lib c' a d = bal ref_lib ref_swap_ctx a d
       + amount_if (a = GetCLPModuleAddress ref_lib) (swap_net \<lparr>Symbol = ''rowan''\<rparr> 500000 \<lparr>Symbol = ''ceth''\<rparr> y d)
       - amount_if (a = ''alice'') (swap_net \<lparr>Symbol = ''rowan''\<rparr> 500000 \<lparr>Symbol = ''ceth''\<rparr> y d)"
    using clp_swap_exact [OF ref.lib_laws_axioms wf alice run] by (auto simp: ref_swap_def)
  then show ?thesis
    using run other by (auto simp: start amount_if_def swap_net_def)
qed

subsection \<open>Asymmetric withdrawals\<close>

text \<open>
  One withdrawal: a provider who owns a pool of a million native and four external tokens takes
  out a tenth, all of it in the external token. The swap of the native part yields nothing.
\<close>

context lib_laws
begin

lemma flaw_quo:
  "Dec_Quo L 10000000000000000000000 1000000000000000000000 = Inr 10000000000000000000"
  "Dec_Quo L 1000000000000000000000000 10000000000000000000 = Inr 100000000000000000000000"
  "Dec_Quo L 1000000000000000000000000 100000000000000000000000 = Inr 10000000000000000000"
  "Dec_Quo L 4000000000000000000 10000000000000000000 = Inr 400000000000000000"
  "Dec_Quo L 10000000000000000000000 10000000000000000000000 = Inr 1000000000000000000"
  "Dec_Quo L 100000000000000000000000 1000000000000000000 = Inr 100000000000000000000000"
  "Dec_Quo L 900000000000000000000000 1000000000000000000000000 = Inr 900000000000000000"
  "Dec_Quo L 100000000000000000000000 1000000000000000000000000 = Inr 100000000000000000"
  "Dec_Quo L 4000000000000000000 1000000000000000000000000 = Inr 4000000000000"
  "Dec_Quo L 360000000000 1000000000000000000 = Inr 360000000000"
  "Dec_Quo L 40000000000 1000000000000000000 = Inr 40000000000"
  "Dec_Quo L 360000000000000000 1000000000000000000 = Inr 360000000000000000"
  "Dec_Quo L 40000000000000000 1000000000000000000 = Inr 40000000000000000"
  by (rule quo_eq; simp)+

lemma flaw_mul:
  "Dec_Mul L 1000000000000000000 1000000000000000000 = Inr 1000000000000000000"
  "Dec_Mul L 100000000000000000 900000000000000000 = Inr 90000000000000000"
  "Dec_Mul L 90000000000000000 4000000000000 = Inr 360000000000"
  "Dec_Mul L 100000000000000000 100000000000000000 = Inr 10000000000000000"
  "Dec_Mul L 10000000000000000 4000000000000 = Inr 40000000000"
  "Dec_Mul L 360000000000 1000000000000000000000000 = Inr 360000000000000000"
  "Dec_Mul L 40000000000 1000000000000000000000000 = Inr 40000000000000000"
  by (rule mul_eq; simp)+

lemma flaw_round:
  "Dec_RoundInt L 100000000000000000000000 = Inr 100000"
  "Dec_RoundInt L 400000000000000000 = Inr 0"
  "Dec_RoundInt L 900000000000000000000000 = Inr 900000"
  "Dec_RoundInt L 360000000000000000 = Inr 0"
  "Dec_RoundInt L 40000000000000000 = Inr 0"
  "Dec_RoundInt L 1000000000000000000 = Inr 1"
  by (rule round_eq; simp)+

lemma flaw_withdrawal:
  "CalculateWithdrawal L 1000000 (int_string 1000000) (int_string 4) (int_string 1000000) (int_string 1000) 10000
   = Inr (100000, 0, 900000, 100000)"
  by (simp add: CalculateWithdrawal_def share_of_def Uint_of_Dec_def str_eq sub_eq dec_of_int dec_abs Let_def flaw_quo flaw_round uint_of_int
     cong: bindE_cong_weak split del: if_split)

lemma flaw_len: "GetMinLen [900000, 100000, 4] = 6"
  by (simp add: GetMinLen_def nat_string.simps)

lemma flaw_scale: "scale_inputs L False 1000000000000000000 False 900000 100000 4 = Inr (900000, 100000, 4)"
  by (simp add: scale_inputs_def Uint_of_Dec_def flaw_round uint_of_int uint_mul)

lemmas flaw_eval = flaw_len flaw_scale flaw_quo flaw_mul flaw_round dec_of_int add_eq uint_of_int
  power_eq [of 10 6, simplified]

lemma flaw_swap:
  "SwapOne L GetSettlementAsset 100000 \<lparr>Symbol = ''ceth''\<rparr>
     \<lparr>ExternalAsset = Some \<lparr>Symbol = ''ceth''\<rparr>, NativeAssetBalance = 900000, ExternalAssetBalance = 4, PoolUnits = 900000\<rparr>
     1000000000000000000 False =
   Inr (0, 0, 0, \<lparr>ExternalAsset = Some \<lparr>Symbol = ''ceth''\<rparr>, NativeAssetBalance = 1000000, ExternalAssetBalance = 4,
     PoolUnits = 900000\<rparr>)"
  by (simp add: SwapOne_def SetInputs_def GetSettlementAsset_def NativeSymbol_def CalcLiquidityFee_def CalcSwapResult_def
     calcPriceImpact_def ReducePrecision_def IncreasePrecision_def Uint_of_Dec_def flaw_eval uint_add uint_sub uint_quo guardE_def
     Let_def cong: bindE_cong_weak split del: if_split)

end







end
