(* ===== verification/ClpGenesis.thy ===== *)
theory ClpGenesis
  imports ClpQuery ClpProperties
begin

section \<open>Export, import and migration of the liquidity pools\<close>

text \<open>
  A chain restarted from an exported genesis has the same pools, providers, admins and
  parameters. \<open>x/clp/legacy/v42/migrate.go\<close> builds the genesis from the state of version 39
  (\<open>x/clp/legacy/v39/genesis.go\<close>); the chain that starts from it has the old pools and providers.
\<close>

subsection \<open>Migration\<close>

record v39_pool =
  v39_ExternalAsset :: asset
  v39_NativeAssetBalance :: nat
  v39_ExternalAssetBalance :: nat
  v39_PoolUnits :: nat

record v39_provider =
  v39_lp_Asset :: asset
  v39_LiquidityProviderUnits :: nat
  v39_LiquidityProviderAddress :: addr

record v39_clp_genesis =
  v39_MinCreatePoolThreshold :: nat
  v39_AddressWhitelist :: "addr list"
  v39_PoolList :: "v39_pool list"
  v39_LiquidityProviderList :: "v39_provider list"

definition migrate_pool :: "v39_pool \<Rightarrow> pool" where
  "migrate_pool p =
     \<lparr>ExternalAsset = Some \<lparr>Symbol = Symbol (v39_ExternalAsset p)\<rparr>, NativeAssetBalance = v39_NativeAssetBalance p,
      ExternalAssetBalance = v39_ExternalAssetBalance p, PoolUnits = v39_PoolUnits p\<rparr>"

definition migrate_provider :: "'x lib \<Rightarrow> v39_provider \<Rightarrow> liquidity_provider" where
  "migrate_provider L lp =
     \<lparr>lp_Asset = Some \<lparr>Symbol = Symbol (v39_lp_Asset lp)\<rparr>, LiquidityProviderUnits = v39_LiquidityProviderUnits lp,
      LiquidityProviderAddress = AccAddress_String L (v39_LiquidityProviderAddress lp)\<rparr>"

definition clp_Migrate :: "'x lib \<Rightarrow> v39_clp_genesis \<Rightarrow> clp_genesis" where
  "clp_Migrate L genesis =
     \<lparr>gc_Params = v39_MinCreatePoolThreshold genesis,
      gc_AddressWhitelist = map (AccAddress_String L) (v39_AddressWhitelist genesis),
      gc_PoolList = map migrate_pool (v39_PoolList genesis),
      gc_LiquidityProviders = map (migrate_provider L) (v39_LiquidityProviderList genesis)\<rparr>"

subsection \<open>States that can be exported\<close>

definition clp_value_valid :: "'x lib \<Rightarrow> clp_value \<Rightarrow> bool" where
  "clp_value_valid L v =
     (case v of
        V_Pool p \<Rightarrow> Pool_Validate L p = Inr True
      | V_LP l \<Rightarrow> LiquidityProvider_Validate L l = Inr True
      | V_WhiteList ss \<Rightarrow> ss \<noteq> [] \<and>
          list_all (\<lambda>s. case AccAddressFromBech32 L s of Inl _ \<Rightarrow> False | Inr a \<Rightarrow> AccAddress_String L a = s) ss)"

definition clp_exportable :: "'x lib \<Rightarrow> 'x ctx \<Rightarrow> bool" where
  "clp_exportable L c \<longleftrightarrow> clp_wf c \<and> list_all (\<lambda>e. clp_value_valid L (snd e)) (clp_store c) \<and>
     kv_has (clp_store c) WhiteListValidatorPrefix \<and> 0 < clp_params c \<and> length (clp_store c) < 2 ^ 64"

definition clp_key :: "clp_value \<Rightarrow> key" where
  "clp_key v =
     (case v of
        V_Pool p \<Rightarrow> (case ExternalAsset p of None \<Rightarrow> [] | Some a \<Rightarrow> GetPoolKey (Symbol a) NativeSymbol)
      | V_LP l \<Rightarrow> (case lp_Asset l of None \<Rightarrow> []
          | Some a \<Rightarrow> GetLiquidityProviderKey (Symbol a) (LiquidityProviderAddress l))
      | V_WhiteList _ \<Rightarrow> WhiteListValidatorPrefix)"

lemma entry_ok_key: "entry_ok k v \<Longrightarrow> clp_key v = k"
  by (simp add: entry_ok_def clp_key_def split: clp_value.splits option.splits)

lemma SetPool_put:
  "Pool_Validate L p = Inr True \<Longrightarrow> SetPool L c p = Inr (c\<lparr>clp_store := kv_set (clp_key (V_Pool p)) (V_Pool p) (clp_store c)\<rparr>)"
  by (auto simp: SetPool_def Pool_Validate_def res_simps clp_key_def)

lemma SetLiquidityProvider_put:
  "LiquidityProvider_Validate L l = Inr True \<Longrightarrow>
     SetLiquidityProvider L c l = Inr (c\<lparr>clp_store := kv_set (clp_key (V_LP l)) (V_LP l) (clp_store c)\<rparr>)"
  by (auto simp: SetLiquidityProvider_def LiquidityProvider_Validate_def res_simps clp_key_def)

text \<open>Importing valid pools and providers stores them all.\<close>

lemma import_pools:
  "list_all (\<lambda>p. Pool_Validate L p = Inr True) ps \<Longrightarrow>
     foldE (\<lambda>c p. wrapE Panic (SetPool L c p)) c ps = Inr (c\<lparr>clp_store := kv_puts clp_key (clp_store c) (map V_Pool ps)\<rparr>)"
  by (induction ps arbitrary: c) (simp_all add: SetPool_put)

lemma import_providers:
  "list_all (\<lambda>l. LiquidityProvider_Validate L l = Inr True) ls \<Longrightarrow>
     foldE (SetLiquidityProvider L) c ls = Inr (c\<lparr>clp_store := kv_puts clp_key (clp_store c) (map V_LP ls)\<rparr>)"
  by (induction ls arbitrary: c) (simp_all add: SetLiquidityProvider_put)

lemma mustAddresses_canonical:
  "list_all (\<lambda>s. case AccAddressFromBech32 L s of Inl _ \<Rightarrow> False | Inr a \<Rightarrow> AccAddress_String L a = s) ss \<Longrightarrow>
     \<exists>as. mustAddresses L ss = Inr as \<and> map (AccAddress_String L) as = ss"
  by (induction ss) (auto simp: split: sum.splits)

lemma clp_InitGenesis_valid:
  assumes "0 < gc_Params g" and "gc_AddressWhitelist g \<noteq> []"
    and "mustAddresses L (gc_AddressWhitelist g) = Inr wl"
    and "list_all (\<lambda>p. Pool_Validate L p = Inr True) (gc_PoolList g)"
    and "list_all (\<lambda>l. LiquidityProvider_Validate L l = Inr True) (gc_LiquidityProviders g)"
  shows "clp_InitGenesis L c g = Inr (c\<lparr>clp_params := gc_Params g,
    clp_store := kv_puts clp_key (clp_store c) (V_WhiteList (map (AccAddress_String L) wl) # V_WhiteList (map (AccAddress_String L) wl)
      # map V_Pool (gc_PoolList g) @ map V_LP (gc_LiquidityProviders g))\<rparr>)"
  using assms
  by (simp add: clp_InitGenesis_def clp_SetParams_def validateMinCreatePoolThreshold_def SetClpWhiteList_def
      import_pools import_providers clp_key_def Let_def)

subsection \<open>Export\<close>

lemma prefix_keys_iff:
  assumes "kv_ok st"
  shows "k \<in> set (prefix_keys p st) \<longleftrightarrow> kv_has st (p @ k)"
proof
  assume "k \<in> set (prefix_keys p st)"
  then obtain l v where "k = drop (length p) l" and l: "HasPrefix l p" "kv_get st l = Some v"
    using in_kv_prefix [OF assms] by (auto simp: prefix_keys_def)
  then have "p @ k = l" by (metis HasPrefix_def append_take_drop_id)
  then show "kv_has st (p @ k)" using l by (simp add: kv_has_def)
next
  assume "kv_has st (p @ k)"
  then obtain v where "(p @ k, v) \<in> set (kv_prefix p st)"
    using in_kv_prefix [OF assms] by (auto simp: kv_has_def HasPrefix_def)
  then show "k \<in> set (prefix_keys p st)" by (force simp: prefix_keys_def)
qed

lemma in_pools_at: "p \<in> set (pools_at st ks) \<longleftrightarrow> (\<exists>k\<in>set ks. kv_get st (PoolPrefix @ k) = Some (V_Pool p))"
  by (induction ks) (auto simp: pools_at_def split: option.splits clp_value.splits)

lemma in_lps_at: "l \<in> set (lps_at st ks) \<longleftrightarrow> (\<exists>k\<in>set ks. kv_get st (LiquidityProviderPrefix @ k) = Some (V_LP l))"
  by (induction ks) (auto simp: lps_at_def split: option.splits clp_value.splits)

lemma exported_pools:
  assumes "clp_wf c"
  shows "p \<in> set (pools_at (clp_store c) (prefix_keys PoolPrefix (clp_store c))) \<longleftrightarrow> V_Pool p \<in> snd ` set (clp_store c)"
proof -
  have "\<exists>s. k = PoolPrefix @ s" if "kv_get (clp_store c) k = Some (V_Pool p)" for k
    using clp_wf_get [OF assms that] by (auto simp: entry_ok_def GetPoolKey_def split: option.splits)
  then have "V_Pool p \<in> snd ` set (clp_store c) \<longleftrightarrow> (\<exists>s. kv_get (clp_store c) (PoolPrefix @ s) = Some (V_Pool p))"
    unfolding kv_values [OF clp_wf_ok [OF assms]] by blast
  then show ?thesis
    unfolding in_pools_at Bex_def prefix_keys_iff [OF clp_wf_ok [OF assms]] kv_has_def by auto
qed

lemma exported_providers:
  assumes "clp_wf c"
  shows "l \<in> set (lps_at (clp_store c) (prefix_keys LiquidityProviderPrefix (clp_store c)))
    \<longleftrightarrow> V_LP l \<in> snd ` set (clp_store c)"
proof -
  have "\<exists>s. k = LiquidityProviderPrefix @ s" if "kv_get (clp_store c) k = Some (V_LP l)" for k
    using clp_wf_get [OF assms that] by (auto simp: entry_ok_def GetLiquidityProviderKey_def split: option.splits)
  then have "V_LP l \<in> snd ` set (clp_store c)
      \<longleftrightarrow> (\<exists>s. kv_get (clp_store c) (LiquidityProviderPrefix @ s) = Some (V_LP l))"
    unfolding kv_values [OF clp_wf_ok [OF assms]] by blast
  then show ?thesis
    unfolding in_lps_at Bex_def prefix_keys_iff [OF clp_wf_ok [OF assms]] kv_has_def by auto
qed

lemma exported_admins:
  assumes "clp_exportable L c"
  obtains ss as where "kv_get (clp_store c) WhiteListValidatorPrefix = Some (V_WhiteList ss)" and "ss \<noteq> []"
    and "mustAddresses L ss = Inr as" and "map (AccAddress_String L) as = ss"
    and "\<And>ss'. V_WhiteList ss' \<in> snd ` set (clp_store c) \<longleftrightarrow> ss' = ss"
proof -
  have wf: "clp_wf c" and has: "kv_has (clp_store c) WhiteListValidatorPrefix"
    using assms by (simp_all add: clp_exportable_def)
  obtain v where v: "kv_get (clp_store c) WhiteListValidatorPrefix = Some v" using has by (auto simp: kv_has_def)
  have "entry_ok WhiteListValidatorPrefix v" by (rule clp_wf_get [OF wf v])
  then obtain ss where ss: "v = V_WhiteList ss"
    by (auto simp: entry_ok_def split: clp_value.splits option.splits)
  have mem: "V_WhiteList ss' \<in> snd ` set (clp_store c) \<longleftrightarrow> ss' = ss" for ss'
  proof
    assume "V_WhiteList ss' \<in> snd ` set (clp_store c)"
    then obtain k where k: "kv_get (clp_store c) k = Some (V_WhiteList ss')"
      unfolding kv_values [OF clp_wf_ok [OF wf]] ..
    then have "k = WhiteListValidatorPrefix" using clp_wf_get [OF wf k] by (simp add: entry_ok_def)
    then show "ss' = ss" using k v ss by simp
  next
    assume "ss' = ss"
    then show "V_WhiteList ss' \<in> snd ` set (clp_store c)"
      using v ss kv_values [OF clp_wf_ok [OF wf]] by auto
  qed
  then have "clp_value_valid L (V_WhiteList ss)"
    using assms by (force simp: clp_exportable_def list_all_iff)
  then have ne: "ss \<noteq> []" and canon: "\<exists>as. mustAddresses L ss = Inr as \<and> map (AccAddress_String L) as = ss"
    by (simp_all add: clp_value_valid_def mustAddresses_canonical)
  then show thesis using that [OF v [unfolded ss] ne] mem by blast
qed

lemma all_valid_ok: "list_all (\<lambda>x. f x = Inr True) xs \<Longrightarrow> all_valid f xs = Inr ()"
  by (induction xs) simp_all

context lib_laws
begin

lemma all_page_exported:
  assumes "kv_ok st" and "length st < 2 ^ 64"
  shows "\<exists>res. Paginate L all_page (prefix_keys p st) = Inr (prefix_keys p st, res)"
proof (rule page_all)
  have "length (prefix_keys p st) \<le> length st" by (simp add: prefix_keys_def kv_prefix_def)
  then show "length (prefix_keys p st) \<le> page_limit all_page" using assms(2) by (simp add: all_page_def MaxUint64_def)
qed (simp_all add: all_page_def MaxUint64_def)

lemma clp_genesis_restores:
  assumes "clp_exportable L c"
  shows "\<exists>g. clp_ExportGenesis L c = Inr g \<and> clp_ValidateGenesis L g = Inr () \<and>
    clp_InitGenesis L (c\<lparr>clp_store := [], clp_params := n\<rparr>) g = Inr c"
proof -
  let ?s = "clp_store c"
  let ?ps = "pools_at ?s (prefix_keys PoolPrefix ?s)" and ?ls = "lps_at ?s (prefix_keys LiquidityProviderPrefix ?s)"
  have wf: "clp_wf c" and len: "length ?s < 2 ^ 64" and par: "0 < clp_params c"
    and valid: "\<And>v. v \<in> snd ` set ?s \<Longrightarrow> clp_value_valid L v"
    using assms by (auto simp: clp_exportable_def list_all_iff)
  obtain ss as where ss: "kv_get ?s WhiteListValidatorPrefix = Some (V_WhiteList ss)" "ss \<noteq> []"
    "mustAddresses L ss = Inr as" "map (AccAddress_String L) as = ss"
    and one: "\<And>ss'. V_WhiteList ss' \<in> snd ` set ?s \<longleftrightarrow> ss' = ss"
    using exported_admins [OF assms] by metis
  let ?g = "\<lparr>gc_Params = clp_params c, gc_AddressWhitelist = ss, gc_PoolList = ?ps, gc_LiquidityProviders = ?ls\<rparr>"
  have export: "clp_ExportGenesis L c = Inr ?g"
    using all_page_exported [OF clp_wf_ok [OF wf] len, of PoolPrefix]
      all_page_exported [OF clp_wf_ok [OF wf] len, of LiquidityProviderPrefix] ss
    by (auto simp: clp_ExportGenesis_def page_or_nil_def GetPoolsPaginated_def GetAllLiquidityProvidersPaginated_def
        attempt_def GetClpWhiteList_def clp_GetParams_def)
  have ok: "list_all (\<lambda>p. Pool_Validate L p = Inr True) ?ps" "list_all (\<lambda>l. LiquidityProvider_Validate L l = Inr True) ?ls"
    using valid [of "V_Pool _"] valid [of "V_LP _"] exported_pools [OF wf] exported_providers [OF wf]
    by (simp_all add: list_all_iff clp_value_valid_def)
  let ?vs = "V_WhiteList ss # V_WhiteList ss # map V_Pool ?ps @ map V_LP ?ls"
  have mem: "V_Pool p \<in> set ?vs \<longleftrightarrow> p \<in> set ?ps" "V_LP l \<in> set ?vs \<longleftrightarrow> l \<in> set ?ls"
    "V_WhiteList w \<in> set ?vs \<longleftrightarrow> w = ss" for p l w by auto
  have "v \<in> set ?vs \<longleftrightarrow> v \<in> snd ` set ?s" for v
    by (cases v) (simp_all only: mem one exported_pools [OF wf] exported_providers [OF wf])
  then have vs: "set ?vs = snd ` set ?s" by (rule set_eqI)
  have "kv_puts clp_key [] ?vs = ?s"
    by (rule kv_puts_restore [OF clp_wf_ok [OF wf] _ vs]) (rule entry_ok_key, rule clp_wf_get [OF wf])
  then have init: "clp_InitGenesis L (c\<lparr>clp_store := [], clp_params := n\<rparr>) ?g = Inr c"
    using clp_InitGenesis_valid [of ?g L as "c\<lparr>clp_store := [], clp_params := n\<rparr>"] ok ss par by simp
  have "clp_ValidateGenesis L ?g = Inr ()"
    using ok par by (simp add: clp_ValidateGenesis_def all_valid_ok validateMinCreatePoolThreshold_def)
  with export init show ?thesis by blast
qed

end

lemma import_pools_valid:
  "foldE (\<lambda>c p. wrapE Panic (SetPool L c p)) c ps = Inr c' \<Longrightarrow> list_all (\<lambda>p. Pool_Validate L p = Inr True) ps"
  by (induction ps arbitrary: c) (auto simp: SetPool_def bindE_eq_Inr guardE_eq_Inr wrapE_eq_Inr)

lemma clp_InitGenesis_store:
  assumes "clp_InitGenesis L c g = Inr c'"
    and "list_all (\<lambda>l. LiquidityProvider_Validate L l = Inr True) (gc_LiquidityProviders g)"
  obtains wl where "mustAddresses L (gc_AddressWhitelist g) = Inr wl"
    and "list_all (\<lambda>p. Pool_Validate L p = Inr True) (gc_PoolList g)"
    and "clp_store c' = kv_puts clp_key (clp_store c) (V_WhiteList (map (AccAddress_String L) wl)
      # V_WhiteList (map (AccAddress_String L) wl) # map V_Pool (gc_PoolList g) @ map V_LP (gc_LiquidityProviders g))"
proof -
  obtain wl c1 c2 where par: "0 < gc_Params g" and ne: "gc_AddressWhitelist g \<noteq> []"
    and wl: "mustAddresses L (gc_AddressWhitelist g) = Inr wl"
    and pools: "foldE (\<lambda>c p. wrapE Panic (SetPool L c p)) c1 (gc_PoolList g) = Inr c2"
    using assms(1) unfolding clp_InitGenesis_def clp_SetParams_def validateMinCreatePoolThreshold_def
    by (auto simp: bindE_eq_Inr guardE_eq_Inr wrapE_eq_Inr Let_def split: if_splits)
  note ok = import_pools_valid [OF pools]
  show thesis
    using that [OF wl ok] clp_InitGenesis_valid [OF par ne wl ok assms(2), of c] assms(1) by simp
qed

text \<open>What tells providers apart.\<close>

definition v39_provider_id :: "'x lib \<Rightarrow> v39_provider \<Rightarrow> string \<times> string" where
  "v39_provider_id L l = (Symbol (v39_lp_Asset l), AccAddress_String L (v39_LiquidityProviderAddress l))"

lemma asset_eta [simp]: "\<lparr>Symbol = Symbol a\<rparr> = a"
  by (cases a) simp

lemma migrated_keys [simp]:
  "clp_key (V_Pool (migrate_pool p)) = GetPoolKey (Symbol (v39_ExternalAsset p)) NativeSymbol"
  "clp_key (V_LP (migrate_provider L l))
     = GetLiquidityProviderKey (Symbol (v39_lp_Asset l)) (AccAddress_String L (v39_LiquidityProviderAddress l))"
  "clp_key (V_WhiteList w) = WhiteListValidatorPrefix"
  by (simp_all add: clp_key_def migrate_pool_def migrate_provider_def)

lemma distinct_mapD: "distinct (map f xs) \<Longrightarrow> x \<in> set xs \<Longrightarrow> y \<in> set xs \<Longrightarrow> f x = f y \<Longrightarrow> x = y"
  by (auto simp: distinct_map inj_on_def)

context lib_laws
begin

lemma valid_asset_chars: "Asset_Validate L a = Inr True \<Longrightarrow> CHR ''_'' \<notin> set (Symbol a)"
  using valid_denom_chars by (auto simp: Asset_Validate_def res_simps split: if_splits)

lemma clp_migration_restores:
  assumes run: "clp_InitGenesis L c (clp_Migrate L g) = Inr c'"
    and pools: "distinct (map (\<lambda>p. Symbol (v39_ExternalAsset p)) (v39_PoolList g))"
    and lps: "distinct (map (v39_provider_id L) (v39_LiquidityProviderList g))"
    and valid: "\<forall>l\<in>set (v39_LiquidityProviderList g). Asset_Validate L (v39_lp_Asset l) = Inr True"
  shows "(\<forall>p\<in>set (v39_PoolList g). GetPool c' (Symbol (v39_ExternalAsset p)) = Inr (migrate_pool p)) \<and>
    (\<forall>l\<in>set (v39_LiquidityProviderList g). GetLiquidityProvider c' (Symbol (v39_lp_Asset l))
       (AccAddress_String L (v39_LiquidityProviderAddress l)) = Inr (migrate_provider L l))"
proof -
  let ?g = "clp_Migrate L g"
  have "list_all (\<lambda>l. LiquidityProvider_Validate L l = Inr True) (gc_LiquidityProviders ?g)"
    using valid by (auto simp: clp_Migrate_def list_all_iff LiquidityProvider_Validate_def migrate_provider_def)
  then obtain w where store: "clp_store c' = kv_puts clp_key (clp_store c)
      (V_WhiteList w # V_WhiteList w # map V_Pool (gc_PoolList ?g) @ map V_LP (gc_LiquidityProviders ?g))"
    using clp_InitGenesis_store [OF run] by metis
  let ?vs = "V_WhiteList w # V_WhiteList w # map V_Pool (gc_PoolList ?g) @ map V_LP (gc_LiquidityProviders ?g)"
  have pool: "kv_get (clp_store c') (clp_key (V_Pool (migrate_pool p))) = Some (V_Pool (migrate_pool p))"
    if p: "p \<in> set (v39_PoolList g)" for p
    unfolding store
  proof (rule kv_puts_member)
    show "V_Pool (migrate_pool p) \<in> set ?vs" using p by (simp add: clp_Migrate_def)
    fix v assume "v \<in> set ?vs" and "clp_key v = clp_key (V_Pool (migrate_pool p))"
    then show "v = V_Pool (migrate_pool p)"
      using distinct_mapD [OF pools _ p]
      by (auto simp: clp_Migrate_def intro: arg_cong [where f = migrate_pool])
  qed
  have lp: "kv_get (clp_store c') (clp_key (V_LP (migrate_provider L l))) = Some (V_LP (migrate_provider L l))"
    if l: "l \<in> set (v39_LiquidityProviderList g)" for l
    unfolding store
  proof (rule kv_puts_member)
    show "V_LP (migrate_provider L l) \<in> set ?vs" using l by (simp add: clp_Migrate_def)
    fix v assume v: "v \<in> set ?vs" and key: "clp_key v = clp_key (V_LP (migrate_provider L l))"
    show "v = V_LP (migrate_provider L l)"
      using v key distinct_mapD [OF lps _ l] valid l valid_asset_chars
      by (auto simp: clp_Migrate_def v39_provider_id_def GetLiquidityProviderKey_inj
          intro: arg_cong [where f = "migrate_provider L"])
  qed
  show ?thesis
    using pool lp
    by (simp add: GetPool_def GetLiquidityProvider_def)
qed

end

subsection \<open>Properties\<close>

text \<open>C11. Genesis round trip: the exported state of the pools passes the genesis validation, and importing
  it restores the pools, the providers, the list of admins and the parameter exactly.\<close>

theorem clp_genesis_roundtrip:
  assumes "lib_laws L" and "clp_exportable L c"
  shows "\<exists>g. clp_ExportGenesis L c = Inr g \<and> clp_ValidateGenesis L g = Inr () \<and>
    clp_InitGenesis L (c\<lparr>clp_store := [], clp_params := n\<rparr>) g = Inr c"
  by (rule lib_laws.clp_genesis_restores [OF assms])

text \<open>C12. Migration from version 39: the chain that starts from the migrated genesis has, for every old
  pool, a pool of the same token with the same balances and units, and for every old provider of
  a valid token a provider with the same units under the textual form of the address.\<close>

theorem clp_migration_keeps:
  assumes "lib_laws L" and "clp_InitGenesis L c (clp_Migrate L g) = Inr c'"
    and "distinct (map (\<lambda>p. Symbol (v39_ExternalAsset p)) (v39_PoolList g))"
    and "distinct (map (v39_provider_id L) (v39_LiquidityProviderList g))"
    and "\<forall>l\<in>set (v39_LiquidityProviderList g). Asset_Validate L (v39_lp_Asset l) = Inr True"
  shows "(\<forall>p\<in>set (v39_PoolList g). GetPool c' (Symbol (v39_ExternalAsset p)) = Inr
      \<lparr>ExternalAsset = Some (v39_ExternalAsset p), NativeAssetBalance = v39_NativeAssetBalance p,
       ExternalAssetBalance = v39_ExternalAssetBalance p, PoolUnits = v39_PoolUnits p\<rparr>) \<and>
    (\<forall>l\<in>set (v39_LiquidityProviderList g).
      GetLiquidityProvider c' (Symbol (v39_lp_Asset l)) (AccAddress_String L (v39_LiquidityProviderAddress l)) = Inr
      \<lparr>lp_Asset = Some (v39_lp_Asset l), LiquidityProviderUnits = v39_LiquidityProviderUnits l,
       LiquidityProviderAddress = AccAddress_String L (v39_LiquidityProviderAddress l)\<rparr>)"
  using lib_laws.clp_migration_restores [OF assms] by (simp add: migrate_pool_def migrate_provider_def)

subsection \<open>Instances\<close>

definition gen_ctx :: "ref_state ctx" where
  "gen_ctx = ref_ctx\<lparr>clp_store :=
     kv_set (GetPoolKey ''ceth'' NativeSymbol) (V_Pool \<lparr>ExternalAsset = Some \<lparr>Symbol = ''ceth''\<rparr>,
         NativeAssetBalance = 10, ExternalAssetBalance = 40, PoolUnits = 10\<rparr>)
       (kv_set (GetLiquidityProviderKey ''ceth'' ''sif1alice'') (V_LP \<lparr>lp_Asset = Some \<lparr>Symbol = ''ceth''\<rparr>,
         LiquidityProviderUnits = 10, LiquidityProviderAddress = ''sif1alice''\<rparr>)
       (kv_set WhiteListValidatorPrefix (V_WhiteList [''sif1alice'']) []))\<rparr>"

theorem clp_genesis_roundtrip_witness:
  "\<exists>g. clp_ExportGenesis ref_lib gen_ctx = Inr g \<and>
     clp_InitGenesis ref_lib (gen_ctx\<lparr>clp_store := [], clp_params := 1\<rparr>) g = Inr gen_ctx"
proof -
  have "clp_exportable ref_lib gen_ctx"
    by (simp add: clp_exportable_def clp_wf_def kv_ok_def gen_ctx_def entry_ok_def clp_value_valid_def
        Pool_Validate_def LiquidityProvider_Validate_def ref_eval WhiteListValidatorPrefix_def)
  from clp_genesis_roundtrip [OF ref.lib_laws_axioms this] show ?thesis by blast
qed

definition gen_v39 :: v39_clp_genesis where
  "gen_v39 = \<lparr>v39_MinCreatePoolThreshold = 100, v39_AddressWhitelist = [''alice''],
     v39_PoolList = [\<lparr>v39_ExternalAsset = \<lparr>Symbol = ''ceth''\<rparr>, v39_NativeAssetBalance = 10, v39_ExternalAssetBalance = 40,
       v39_PoolUnits = 10\<rparr>, \<lparr>v39_ExternalAsset = \<lparr>Symbol = ''cusdt''\<rparr>, v39_NativeAssetBalance = 7,
       v39_ExternalAssetBalance = 8, v39_PoolUnits = 9\<rparr>],
     v39_LiquidityProviderList = [\<lparr>v39_lp_Asset = \<lparr>Symbol = ''ceth''\<rparr>, v39_LiquidityProviderUnits = 10,
       v39_LiquidityProviderAddress = ''alice''\<rparr>]\<rparr>"

theorem clp_migration_keeps_witness:
  "\<exists>c'. clp_InitGenesis ref_lib ref_ctx (clp_Migrate ref_lib gen_v39) = Inr c' \<and>
     GetPool c' ''cusdt'' = Inr \<lparr>ExternalAsset = Some \<lparr>Symbol = ''cusdt''\<rparr>, NativeAssetBalance = 7,
       ExternalAssetBalance = 8, PoolUnits = 9\<rparr>"
proof -
  have "\<exists>c'. clp_InitGenesis ref_lib ref_ctx (clp_Migrate ref_lib gen_v39) = Inr c'"
    by (simp add: clp_InitGenesis_def clp_Migrate_def gen_v39_def migrate_pool_def migrate_provider_def clp_SetParams_def
        validateMinCreatePoolThreshold_def SetClpWhiteList_def ref_eval Let_def cong: bindE_cong_weak)
  then obtain c' where run: "clp_InitGenesis ref_lib ref_ctx (clp_Migrate ref_lib gen_v39) = Inr c'" ..
  have "\<forall>p\<in>set (v39_PoolList gen_v39). GetPool c' (Symbol (v39_ExternalAsset p)) = Inr
      \<lparr>ExternalAsset = Some (v39_ExternalAsset p), NativeAssetBalance = v39_NativeAssetBalance p,
       ExternalAssetBalance = v39_ExternalAssetBalance p, PoolUnits = v39_PoolUnits p\<rparr>"
    by (rule conjunct1 [OF clp_migration_keeps [OF ref.lib_laws_axioms run]])
      (simp_all add: gen_v39_def v39_provider_id_def ref_eval)
  with run show ?thesis by (simp add: gen_v39_def)
qed

end
