(* ===== verification/Genesis.thy ===== *)
theory Genesis
  imports ClpGenesis EthBridgeProperties DispensationInvariants
begin

section \<open>The genesis of the chain\<close>

text \<open>
  The genesis file holds one JSON value per module. \<open>cmd/sifnoded/cmd\<close> has commands that edit it
  before the chain starts and one that migrates it from version 39, with the help of
  \<open>x/*/legacy/v42\<close>; \<open>app/app.go\<close> starts the modules from it. Reading and writing the file, the
  keyring and the JSON codecs are the SDK's: a command is given the state that was read, the
  lookup of key names and the codecs, and returns the state that is written back.
\<close>

type_synonym 'j app_state = "string \<rightharpoonup> 'j"

record v39_status =
  v39_Text :: int
  v39_FinalClaim :: string

record v39_db_prophecy =
  v39_ID :: string
  v39_Status :: v39_status
  v39_ClaimValidators :: string
  v39_ValidatorClaims :: string

record v39_oracle_genesis =
  v39_og_AddressWhitelist :: "addr list"
  v39_AdminAddress :: addr
  v39_Prophecies :: "v39_db_prophecy list"

record v39_bridge_genesis =
  v39_PeggyTokens :: "string list"
  v39_CethReceiverAccount :: addr

text \<open>The codecs: \<open>v39_\<close> is the amino codec of version 39, \<open>cdc_\<close> the chain's own, \<open>json_\<close> is \<open>encoding/json\<close>.\<close>

record 'j codec =
  v39_UnmarshalClp :: "'j \<Rightarrow> v39_clp_genesis res"
  v39_UnmarshalBridge :: "'j \<Rightarrow> v39_bridge_genesis res"
  v39_UnmarshalOracle :: "'j \<Rightarrow> v39_oracle_genesis res"
  v39_UnmarshalDispensation :: "'j \<Rightarrow> v39_genesis res"
  cdc_MarshalClp :: "clp_genesis \<Rightarrow> 'j res"
  cdc_MarshalBridge :: "bridge_genesis \<Rightarrow> 'j res"
  cdc_MarshalOracle :: "oracle_genesis \<Rightarrow> 'j res"
  cdc_MarshalDispensation :: "dispensation_genesis \<Rightarrow> 'j res"
  cdc_MarshalEvidence :: "'j res"
  cdc_UnmarshalClp :: "'j \<Rightarrow> clp_genesis res"
  cdc_UnmarshalOracle :: "'j \<Rightarrow> oracle_genesis res"
  cdc_UnmarshalBridge :: "'j \<Rightarrow> bridge_genesis res"
  cdc_UnmarshalDispensation :: "'j \<Rightarrow> dispensation_genesis res"
  cdc_UnmarshalRegistry :: "'j \<Rightarrow> registry_genesis res"
  json_MarshalClp :: "clp_genesis \<Rightarrow> 'j res"
  json_MarshalOracle :: "oracle_genesis \<Rightarrow> 'j res"
  json_MarshalRegistry :: "registry_genesis \<Rightarrow> 'j res"

subsection \<open>Migration from version 39\<close>

definition migrate_status_text :: "int \<Rightarrow> status_text" where
  "migrate_status_text t =
     (if t = 0 then STATUS_TEXT_PENDING
      else if t = 2 then STATUS_TEXT_FAILED
      else if t = 1 then STATUS_TEXT_SUCCESS
      else STATUS_TEXT_UNSPECIFIED)"

definition oracle_Migrate :: "'x lib \<Rightarrow> v39_oracle_genesis \<Rightarrow> oracle_genesis" where
  "oracle_Migrate L genesis =
     \<lparr>og_AddressWhitelist = Some (map (ValAddress_String L) (v39_og_AddressWhitelist genesis)),
      og_AdminAddress = AccAddress_String L (v39_AdminAddress genesis),
      og_Prophecies = map (\<lambda>legacy.
        \<lparr>db_Id = v39_ID legacy,
         db_Status = \<lparr>Text = migrate_status_text (v39_Text (v39_Status legacy)),
                      FinalClaim = v39_FinalClaim (v39_Status legacy)\<rparr>,
         db_ClaimValidators = v39_ClaimValidators legacy,
         db_ValidatorClaims = v39_ValidatorClaims legacy\<rparr>) (v39_Prophecies genesis)\<rparr>"

definition bridge_Migrate :: "'x lib \<Rightarrow> v39_bridge_genesis \<Rightarrow> bridge_genesis" where
  "bridge_Migrate L state =
     \<lparr>bg_CethReceiveAccount = AccAddress_String L (v39_CethReceiverAccount state),
      bg_PeggyTokens = v39_PeggyTokens state\<rparr>"

text \<open>The step that is the same for each module: decode, migrate, encode.\<close>

definition migrate_module ::
  "string \<Rightarrow> ('j \<Rightarrow> 'g res) \<Rightarrow> ('g \<Rightarrow> 'h res) \<Rightarrow> ('h \<Rightarrow> 'j res) \<Rightarrow> 'j app_state \<Rightarrow> 'j app_state res" where
  "migrate_module name unmarshal migrate marshal appState =
     (case appState name of
        None \<Rightarrow> Inr appState
      | Some raw \<Rightarrow>
          bindE (wrapE Panic (unmarshal raw)) (\<lambda>genesis.
          bindE (migrate genesis) (\<lambda>newGenesis.
          bindE (wrapE Panic (marshal newGenesis)) (\<lambda>bz.
          Inr (appState(name \<mapsto> bz))))))"

definition oracle_ModuleName :: string where
  "oracle_ModuleName = ''oracle''"

definition Migrate :: "'x lib \<Rightarrow> 'j codec \<Rightarrow> 'j app_state \<Rightarrow> 'j app_state res" where
  "Migrate L cdc appState =
     bindE (migrate_module clp_ModuleName (v39_UnmarshalClp cdc) (\<lambda>g. Inr (clp_Migrate L g)) (cdc_MarshalClp cdc) appState) (\<lambda>appState.
     bindE (migrate_module bridge_ModuleName (v39_UnmarshalBridge cdc) (\<lambda>g. Inr (bridge_Migrate L g)) (cdc_MarshalBridge cdc) appState) (\<lambda>appState.
     bindE (migrate_module oracle_ModuleName (v39_UnmarshalOracle cdc) (\<lambda>g. Inr (oracle_Migrate L g)) (cdc_MarshalOracle cdc) appState) (\<lambda>appState.
     bindE (migrate_module dispensation_ModuleName (v39_UnmarshalDispensation cdc) (dispensation_Migrate L) (cdc_MarshalDispensation cdc) appState) (\<lambda>appState.
     if appState ''evidence'' = None
     then bindE (wrapE Panic (cdc_MarshalEvidence cdc)) (\<lambda>bz. Inr (appState(''evidence'' \<mapsto> bz)))
     else Inr appState))))"

definition GetMigrationCallback :: "'x lib \<Rightarrow> 'j codec \<Rightarrow> string \<Rightarrow> ('j app_state \<Rightarrow> 'j app_state res) option" where
  "GetMigrationCallback L cdc version = (if version = ''v0.9'' then Some (Migrate L cdc) else None)"

text \<open>The command: an unknown target version is refused.\<close>

definition MigrateGenesisDataCmd :: "'x lib \<Rightarrow> 'j codec \<Rightarrow> string \<Rightarrow> 'j app_state \<Rightarrow> 'j app_state res" where
  "MigrateGenesisDataCmd L cdc target initialState =
     (case GetMigrationCallback L cdc target of
        None \<Rightarrow> Inl (ErrGo (''unknown migration function for version: '' @ target))
      | Some migrationFunc \<Rightarrow> migrationFunc initialState)"

subsection \<open>Editing the genesis\<close>

definition clp_GetGenesisStateFromAppState :: "'j codec \<Rightarrow> 'j app_state \<Rightarrow> clp_genesis res" where
  "clp_GetGenesisStateFromAppState cdc appState =
     (case appState clp_ModuleName of
        None \<Rightarrow> Inr \<lparr>gc_Params = 0, gc_AddressWhitelist = [], gc_PoolList = [], gc_LiquidityProviders = []\<rparr>
      | Some raw \<Rightarrow> wrapE Panic (cdc_UnmarshalClp cdc raw))"

definition oracle_GetGenesisStateFromAppState :: "'j codec \<Rightarrow> 'j app_state \<Rightarrow> oracle_genesis res" where
  "oracle_GetGenesisStateFromAppState cdc appState =
     (case appState oracle_ModuleName of
        None \<Rightarrow> Inr \<lparr>og_AddressWhitelist = None, og_AdminAddress = [], og_Prophecies = []\<rparr>
      | Some raw \<Rightarrow> wrapE Panic (cdc_UnmarshalOracle cdc raw))"

definition registry_UnmarshalGenesis :: "'j codec \<Rightarrow> 'j option \<Rightarrow> registry_genesis res" where
  "registry_UnmarshalGenesis cdc state =
     (case state of
        None \<Rightarrow> Inr \<lparr>gen_AdminAccount = [], gen_Registry = None\<rparr>
      | Some raw \<Rightarrow> wrapE Panic (cdc_UnmarshalRegistry cdc raw))"

definition registry_ModuleName :: string where
  "registry_ModuleName = ''tokenregistry''"

definition registry_GetGenesisStateFromAppState :: "'j codec \<Rightarrow> 'j app_state \<Rightarrow> registry_genesis res" where
  "registry_GetGenesisStateFromAppState cdc appState =
     (case appState registry_ModuleName of
        None \<Rightarrow> Inr \<lparr>gen_AdminAccount = [], gen_Registry = None\<rparr>
      | Some raw \<Rightarrow> wrapE Panic (cdc_UnmarshalRegistry cdc raw))"

text \<open>An argument is an address or the name of a key.\<close>

definition address_or_key :: "'x lib \<Rightarrow> (string \<Rightarrow> addr res) \<Rightarrow> string \<Rightarrow> addr res" where
  "address_or_key L keyring arg =
     bindE (attempt (AccAddressFromBech32 L arg)) (\<lambda>found.
     case found of
       Some addr \<Rightarrow> Inr addr
     | None \<Rightarrow> wrapE (ErrGo ''failed to get address from Keybase'') (keyring arg))"

definition store_module :: "string \<Rightarrow> 'j res \<Rightarrow> 'j app_state \<Rightarrow> 'j app_state res" where
  "store_module name marshalled appState =
     bindE (wrapE (ErrGo ''failed to marshal auth genesis state'') marshalled) (\<lambda>bz. Inr (appState(name \<mapsto> bz)))"

definition AddGenesisCLPAdminCmd ::
  "'x lib \<Rightarrow> 'j codec \<Rightarrow> (string \<Rightarrow> addr res) \<Rightarrow> string \<Rightarrow> 'j app_state \<Rightarrow> 'j app_state res" where
  "AddGenesisCLPAdminCmd L cdc keyring arg appState =
     bindE (address_or_key L keyring arg) (\<lambda>addr.
     bindE (clp_GetGenesisStateFromAppState cdc appState) (\<lambda>clpGenState.
     store_module clp_ModuleName (json_MarshalClp cdc
       (clpGenState\<lparr>gc_AddressWhitelist := gc_AddressWhitelist clpGenState @ [AccAddress_String L addr]\<rparr>)) appState))"

definition SetGenesisOracleAdminCmd ::
  "'x lib \<Rightarrow> 'j codec \<Rightarrow> (string \<Rightarrow> addr res) \<Rightarrow> string \<Rightarrow> 'j app_state \<Rightarrow> 'j app_state res" where
  "SetGenesisOracleAdminCmd L cdc keyring arg appState =
     bindE (address_or_key L keyring arg) (\<lambda>addr.
     bindE (oracle_GetGenesisStateFromAppState cdc appState) (\<lambda>oracleGenState.
     store_module oracle_ModuleName (json_MarshalOracle cdc
       (oracleGenState\<lparr>og_AdminAddress := AccAddress_String L addr\<rparr>)) appState))"

definition SetGenesisWhitelisterAdminCmd ::
  "'x lib \<Rightarrow> 'j codec \<Rightarrow> (string \<Rightarrow> addr res) \<Rightarrow> string \<Rightarrow> 'j app_state \<Rightarrow> 'j app_state res" where
  "SetGenesisWhitelisterAdminCmd L cdc keyring arg appState =
     bindE (address_or_key L keyring arg) (\<lambda>addr.
     bindE (registry_UnmarshalGenesis cdc (appState registry_ModuleName)) (\<lambda>state.
     store_module registry_ModuleName (json_MarshalRegistry cdc
       (state\<lparr>gen_AdminAccount := AccAddress_String L addr\<rparr>)) appState))"

text \<open>The list of tokens replaces the registry; it is what \<open>ParseDenoms\<close> read from the named file.\<close>

definition SetGenesisDenomWhitelist :: "'j codec \<Rightarrow> registry res \<Rightarrow> 'j app_state \<Rightarrow> 'j app_state res" where
  "SetGenesisDenomWhitelist cdc parsed appState =
     bindE parsed (\<lambda>whitelist.
     bindE (registry_GetGenesisStateFromAppState cdc appState) (\<lambda>whitelistGenState.
     store_module registry_ModuleName (json_MarshalRegistry cdc
       (whitelistGenState\<lparr>gen_Registry := Some whitelist\<rparr>)) appState))"

definition AddGenesisValidatorCmd :: "'x lib \<Rightarrow> 'j codec \<Rightarrow> string \<Rightarrow> 'j app_state \<Rightarrow> 'j app_state res" where
  "AddGenesisValidatorCmd L cdc arg appState =
     bindE (wrapE (ErrGo ''failed to get validator address'') (ValAddressFromBech32 L arg)) (\<lambda>addr.
     bindE (oracle_GetGenesisStateFromAppState cdc appState) (\<lambda>oracleGenState.
     let whitelist = (case og_AddressWhitelist oracleGenState of None \<Rightarrow> [] | Some ss \<Rightarrow> ss) in
     bindE (guardE (\<not> list_ex (\<lambda>item. item = ValAddress_String L addr) whitelist)
       (ErrGo (''address '' @ ValAddress_String L addr @ '' already in white list''))) (\<lambda>_.
     store_module oracle_ModuleName (json_MarshalOracle cdc
       (oracleGenState\<lparr>og_AddressWhitelist := Some (whitelist @ [ValAddress_String L addr])\<rparr>)) appState)))"

subsection \<open>Starting the chain\<close>

text \<open>
  The module manager starts the modules that have a genesis, in the order of
  \<open>SetOrderInitGenesis\<close>. The bridge registers its module account first (\<open>set_account\<close>, a call of
  the SDK).
\<close>

definition init_module ::
  "string \<Rightarrow> ('j \<Rightarrow> 'g res) \<Rightarrow> ('x ctx \<Rightarrow> 'g \<Rightarrow> 'x ctx res) \<Rightarrow> 'j app_state \<Rightarrow> 'x ctx \<Rightarrow> 'x ctx res" where
  "init_module name unmarshal init genesisData c =
     (case genesisData name of
        None \<Rightarrow> Inr c
      | Some data \<Rightarrow> bindE (wrapE Panic (unmarshal data)) (\<lambda>genesisState. init c genesisState))"

definition app_InitGenesis :: "'x lib \<Rightarrow> 'j codec \<Rightarrow> ('x \<Rightarrow> 'x) \<Rightarrow> 'j app_state \<Rightarrow> 'x ctx \<Rightarrow> 'x ctx res" where
  "app_InitGenesis L cdc set_account genesisData c =
     bindE (init_module clp_ModuleName (cdc_UnmarshalClp cdc) (clp_InitGenesis L) genesisData c) (\<lambda>c.
     bindE (init_module oracle_ModuleName (cdc_UnmarshalOracle cdc) (oracle_InitGenesis L) genesisData c) (\<lambda>c.
     bindE (init_module bridge_ModuleName (cdc_UnmarshalBridge cdc)
       (\<lambda>c. bridge_InitGenesis L (c\<lparr>ext := set_account (ext c)\<rparr>)) genesisData c) (\<lambda>c.
     bindE (init_module dispensation_ModuleName (cdc_UnmarshalDispensation cdc) (dispensation_InitGenesis L) genesisData c) (\<lambda>c.
     init_module registry_ModuleName (cdc_UnmarshalRegistry cdc) (registry_InitGenesis L) genesisData c))))"

subsection \<open>Who administrates the chain\<close>

text \<open>A module's genesis writes the module's own store only.\<close>

lemma SetPool_keeps:
  "SetPool L c p = Inr c' \<Longrightarrow> (\<exists>st. c' = c\<lparr>clp_store := st\<rparr>) \<and>
     kv_get (clp_store c') WhiteListValidatorPrefix = kv_get (clp_store c) WhiteListValidatorPrefix"
  by (auto simp: SetPool_def res_simps kv_get_set)

lemma SetLiquidityProvider_keeps:
  "SetLiquidityProvider L c l = Inr c' \<Longrightarrow> (\<exists>st. c' = c\<lparr>clp_store := st\<rparr>) \<and>
     kv_get (clp_store c') WhiteListValidatorPrefix = kv_get (clp_store c) WhiteListValidatorPrefix"
  by (auto simp: SetLiquidityProvider_def res_simps kv_get_set intro: exI [of _ "clp_store c"] split: if_splits)

lemma clp_InitGenesis_admins:
  assumes "clp_InitGenesis L c g = Inr c'"
  obtains wl st where "mustAddresses L (gc_AddressWhitelist g) = Inr wl"
    and "kv_get (clp_store c') WhiteListValidatorPrefix = Some (V_WhiteList (map (AccAddress_String L) wl))"
    and "c' = c\<lparr>clp_params := gc_Params g, clp_store := st\<rparr>"
proof -
  obtain wl c1 c2 where wl: "mustAddresses L (gc_AddressWhitelist g) = Inr wl"
    and c1: "c1 = SetClpWhiteList L (SetClpWhiteList L (c\<lparr>clp_params := gc_Params g\<rparr>) wl) wl"
    and pools: "foldE (\<lambda>c p. wrapE Panic (SetPool L c p)) c1 (gc_PoolList g) = Inr c2"
    and lps: "foldE (SetLiquidityProvider L) c2 (gc_LiquidityProviders g) = Inr c'"
    using assms unfolding clp_InitGenesis_def clp_SetParams_def
    by (auto simp: bindE_eq_Inr guardE_eq_Inr wrapE_eq_Inr Let_def)
  let ?P = "\<lambda>d. (\<exists>st. d = c1\<lparr>clp_store := st\<rparr>) \<and>
    kv_get (clp_store d) WhiteListValidatorPrefix = kv_get (clp_store c1) WhiteListValidatorPrefix"
  have "?P c2"
    by (rule foldE_inv [OF pools]) (auto simp: wrapE_eq_Inr dest!: SetPool_keeps intro: exI [of _ "clp_store c1"])
  then have "?P c'"
    by (intro foldE_inv [OF lps, of ?P]) (auto dest!: SetLiquidityProvider_keeps)
  then show thesis
    using that [OF wl] by (auto simp: c1 SetClpWhiteList_def kv_get_set)
qed

definition oracle_key :: "oracle_value \<Rightarrow> key" where
  "oracle_key v = (case v of
       OV_Prophecy db \<Rightarrow> prophecy_key (db_Id db)
     | OV_WhiteList _ \<Rightarrow> oracle_WhiteListValidatorPrefix
     | OV_Admin _ \<Rightarrow> oracle_AdminAccountPrefix)"

lemma SetDBProphecy_puts:
  "foldl SetDBProphecy c dbs = c\<lparr>oracle_store := kv_puts oracle_key (oracle_store c) (map OV_Prophecy dbs)\<rparr>"
  by (induction dbs arbitrary: c) (simp_all add: SetDBProphecy_def oracle_key_def)

lemma prophecies_keep:
  "k = oracle_WhiteListValidatorPrefix \<or> k = oracle_AdminAccountPrefix \<Longrightarrow>
     kv_get (kv_puts oracle_key st (map OV_Prophecy dbs)) k = kv_get st k"
  by (rule kv_puts_other) (auto simp: oracle_key_def)

lemma oracle_InitGenesis_admins:
  assumes "oracle_InitGenesis L c g = Inr c'"
  shows "clp_store c' = clp_store c"
    and "TrimSpace (og_AdminAddress g) \<noteq> [] \<Longrightarrow>
      AccAddressFromBech32 L (og_AdminAddress g) = Inr (oracle_GetAdminAccount c')"
    and "og_AddressWhitelist g = Some ss \<Longrightarrow> \<exists>wl. mustValAddresses L (filter (\<lambda>s. length (TrimSpace s) \<noteq> 0) ss) = Inr wl \<and>
      kv_get (oracle_store c') oracle_WhiteListValidatorPrefix = Some (OV_WhiteList (map (ValAddress_String L) wl))"
proof -
  obtain c1 c2 where wl: "(case og_AddressWhitelist g of None \<Rightarrow> Inr c
            | Some ss \<Rightarrow> bindE (mustValAddresses L (filter (\<lambda>s. length (TrimSpace s) \<noteq> 0) ss)) (\<lambda>wl.
                Inr (SetOracleWhiteList L c wl))) = Inr c1"
    and adm: "(if length (TrimSpace (og_AdminAddress g)) \<noteq> 0
            then bindE (wrapE Panic (AccAddressFromBech32 L (og_AdminAddress g))) (\<lambda>a. Inr (oracle_SetAdminAccount c1 a))
            else Inr c1) = Inr c2"
    and c': "c' = c2\<lparr>oracle_store := kv_puts oracle_key (oracle_store c2) (map OV_Prophecy (og_Prophecies g))\<rparr>"
    using assms unfolding oracle_InitGenesis_def SetDBProphecy_puts by (simp only: bindE_eq_Inr sum.inject) blast
  have "clp_store c1 = clp_store c"
    using wl by (auto simp: SetOracleWhiteList_def bindE_eq_Inr split: option.splits)
  moreover have "clp_store c2 = clp_store c1"
    using adm by (auto simp: oracle_SetAdminAccount_def bindE_eq_Inr split: if_splits)
  ultimately show "clp_store c' = clp_store c" by (simp add: c')
  show "AccAddressFromBech32 L (og_AdminAddress g) = Inr (oracle_GetAdminAccount c')"
    if "TrimSpace (og_AdminAddress g) \<noteq> []"
    using adm that by (auto simp: c' oracle_GetAdminAccount_def prophecies_keep oracle_SetAdminAccount_def kv_get_set
        bindE_eq_Inr wrapE_eq_Inr)
  have keep: "kv_get (oracle_store c2) oracle_WhiteListValidatorPrefix = kv_get (oracle_store c1) oracle_WhiteListValidatorPrefix"
    using adm by (auto simp: oracle_SetAdminAccount_def kv_get_set bindE_eq_Inr split: if_splits)
  show "\<exists>wl. mustValAddresses L (filter (\<lambda>s. length (TrimSpace s) \<noteq> 0) ss) = Inr wl \<and>
      kv_get (oracle_store c') oracle_WhiteListValidatorPrefix = Some (OV_WhiteList (map (ValAddress_String L) wl))"
    if "og_AddressWhitelist g = Some ss"
    using wl that by (auto simp: c' keep prophecies_keep SetOracleWhiteList_def kv_get_set bindE_eq_Inr)
qed

lemma bridge_InitGenesis_keeps:
  assumes "bridge_InitGenesis L c g = Inr c'"
  shows "clp_store c' = clp_store c" and "oracle_store c' = oracle_store c"
proof -
  have tokens: "clp_store (foldl AddPeggyToken d ts) = clp_store d \<and> oracle_store (foldl AddPeggyToken d ts) = oracle_store d"
    for d :: "'a ctx" and ts
    by (induction ts rule: rev_induct) (simp_all add: AddPeggyToken_def)
  show "clp_store c' = clp_store c" and "oracle_store c' = oracle_store c"
    using assms by (auto simp: bridge_InitGenesis_def SetCethReceiverAccount_def bindE_eq_Inr tokens split: if_splits)
qed

lemma restore_keeps:
  assumes "(case xs of None \<Rightarrow> Inr c | Some ys \<Rightarrow> foldE (\<lambda>c y. wrapE Panic (g c y)) c ys) = Inr c'"
    and "\<And>c y c'. g c y = Inr c' \<Longrightarrow> f c' = f c"
  shows "f c' = f c"
proof (cases xs)
  case (Some ys)
  then have "foldE (\<lambda>c y. wrapE Panic (g c y)) c ys = Inr c'" using assms(1) by simp
  then show ?thesis by (rule foldE_inv [where I = "\<lambda>d. f d = f c"]) (simp_all add: wrapE_eq_Inr assms(2))
qed (use assms(1) in simp)

lemma dispensation_InitGenesis_keeps:
  assumes "dispensation_InitGenesis L c g = Inr c'"
  shows "clp_store c' = clp_store c" and "oracle_store c' = oracle_store c"
proof -
  let ?f = "\<lambda>c. (clp_store c, oracle_store c)"
  obtain c1 c2 where
    rs: "(case dg_DistributionRecords g of None \<Rightarrow> Inr c
       | Some rs \<Rightarrow> foldE (\<lambda>c r. wrapE Panic (SetDistributionRecord L c r)) c rs) = Inr c1"
    and ds: "(case dg_Distributions g of None \<Rightarrow> Inr c1
       | Some ds \<Rightarrow> foldE (\<lambda>c d. wrapE Panic (SetDistribution c d)) c1 ds) = Inr c2"
    and us: "(case dg_Claims g of None \<Rightarrow> Inr c2 | Some us \<Rightarrow> foldE (\<lambda>c u. wrapE Panic (SetClaim c u)) c2 us) = Inr c'"
    using assms unfolding dispensation_InitGenesis_def by (simp only: bindE_eq_Inr) blast
  have "?f c1 = ?f c" using rs by (rule restore_keeps) (auto simp: SetDistributionRecord_def res_simps Let_def)
  moreover have "?f c2 = ?f c1" using ds by (rule restore_keeps) (auto simp: SetDistribution_def res_simps Let_def)
  moreover have "?f c' = ?f c2" using us by (rule restore_keeps) (auto simp: SetClaim_def res_simps Let_def)
  ultimately show "clp_store c' = clp_store c" and "oracle_store c' = oracle_store c" by simp_all
qed

lemma registry_InitGenesis_admin:
  assumes "registry_InitGenesis L c g = Inr c'"
  shows "clp_store c' = clp_store c" and "oracle_store c' = oracle_store c"
    and "gen_AdminAccount g \<noteq> [] \<Longrightarrow> AccAddressFromBech32 L (gen_AdminAccount g) = Inr (GetAdminAccount c')"
  using assms by (auto simp: registry_InitGenesis_def SetAdminAccount_def SetRegistry_def GetAdminAccount_def kv_get_set
      bindE_eq_Inr wrapE_eq_Inr split: if_splits option.splits)

text \<open>
  What the codecs promise of the fields that name the administrators: what \<open>encoding/json\<close> wrote
  the chain's codec reads back, provided it is text, and what it reads is text. An empty list may
  come back as no list.
\<close>

definition whitelist_of :: "oracle_genesis \<Rightarrow> string list" where
  "whitelist_of g = (case og_AddressWhitelist g of None \<Rightarrow> [] | Some ss \<Rightarrow> ss)"

locale codec_laws =
  fixes cdc :: "'j codec"
  assumes clp_json: "json_MarshalClp cdc g = Inr j \<Longrightarrow> cdc_UnmarshalClp cdc j = Inr g' \<Longrightarrow>
      list_all valid_utf8 (gc_AddressWhitelist g) \<Longrightarrow> gc_AddressWhitelist g' = gc_AddressWhitelist g"
    and clp_text: "cdc_UnmarshalClp cdc j = Inr g \<Longrightarrow> list_all valid_utf8 (gc_AddressWhitelist g)"
    and oracle_json: "json_MarshalOracle cdc o1 = Inr j \<Longrightarrow> cdc_UnmarshalOracle cdc j = Inr o2 \<Longrightarrow>
      list_all valid_utf8 (og_AdminAddress o1 # whitelist_of o1) \<Longrightarrow>
      og_AdminAddress o2 = og_AdminAddress o1 \<and> whitelist_of o2 = whitelist_of o1"
    and oracle_text: "cdc_UnmarshalOracle cdc j = Inr o1 \<Longrightarrow> list_all valid_utf8 (og_AdminAddress o1 # whitelist_of o1)"
    and registry_json: "json_MarshalRegistry cdc r = Inr j \<Longrightarrow> cdc_UnmarshalRegistry cdc j = Inr r' \<Longrightarrow>
      valid_utf8 (gen_AdminAccount r) \<Longrightarrow> gen_AdminAccount r' = gen_AdminAccount r"

text \<open>The accounts of the keyring are addresses.\<close>

locale genesis_laws = addr_laws L + codec_laws cdc for L :: "'x lib" and cdc :: "'j codec" +
  fixes keyring :: "string \<Rightarrow> addr res"
  assumes keyring_acc: "keyring name = Inr a \<Longrightarrow> AccAddressFromBech32 L (AccAddress_String L a) = Inr a"
begin

lemma address_or_key_acc:
  assumes "address_or_key L keyring arg = Inr a"
  shows "AccAddressFromBech32 L (AccAddress_String L a) = Inr a" and "valid_utf8 (AccAddress_String L a)"
proof -
  show acc: "AccAddressFromBech32 L (AccAddress_String L a) = Inr a"
    using assms by (auto simp: address_or_key_def res_simps dest: keyring_acc acc_of_string)
  show "valid_utf8 (AccAddress_String L a)" by (rule acc_string_ascii [OF acc])
qed

lemma clp_state_text:
  "clp_GetGenesisStateFromAppState cdc st = Inr g \<Longrightarrow> list_all valid_utf8 (gc_AddressWhitelist g)"
  by (auto simp: clp_GetGenesisStateFromAppState_def wrapE_eq_Inr dest: clp_text split: option.splits)

lemma oracle_state_text:
  "oracle_GetGenesisStateFromAppState cdc st = Inr g \<Longrightarrow> list_all valid_utf8 (og_AdminAddress g # whitelist_of g)"
  by (auto simp: oracle_GetGenesisStateFromAppState_def wrapE_eq_Inr whitelist_of_def ascii_valid_utf8
      dest: oracle_text split: option.splits)

text \<open>The genesis as the commands leave it, as the chain's codec will read it.\<close>

definition clp_named :: "addr \<Rightarrow> 'j app_state \<Rightarrow> bool" where
  "clp_named a st \<longleftrightarrow> (\<exists>j. st clp_ModuleName = Some j \<and>
     (\<forall>g. cdc_UnmarshalClp cdc j = Inr g \<longrightarrow> AccAddress_String L a \<in> set (gc_AddressWhitelist g)))"

definition oracle_named :: "addr \<Rightarrow> 'j app_state \<Rightarrow> bool" where
  "oracle_named a st \<longleftrightarrow> (\<exists>j. st oracle_ModuleName = Some j \<and>
     (\<forall>g. cdc_UnmarshalOracle cdc j = Inr g \<longrightarrow> og_AdminAddress g = AccAddress_String L a))"

definition validator_named :: "addr \<Rightarrow> 'j app_state \<Rightarrow> bool" where
  "validator_named v st \<longleftrightarrow> (\<exists>j. st oracle_ModuleName = Some j \<and>
     (\<forall>g. cdc_UnmarshalOracle cdc j = Inr g \<longrightarrow> ValAddress_String L v \<in> set (whitelist_of g)))"

definition registry_named :: "addr \<Rightarrow> 'j app_state \<Rightarrow> bool" where
  "registry_named a st \<longleftrightarrow> (\<exists>j. st registry_ModuleName = Some j \<and>
     (\<forall>g. cdc_UnmarshalRegistry cdc j = Inr g \<longrightarrow> gen_AdminAccount g = AccAddress_String L a))"

lemma clp_admin_names:
  assumes "AddGenesisCLPAdminCmd L cdc keyring arg st = Inr st'" and a: "address_or_key L keyring arg = Inr a"
  shows "clp_named a st'"
proof -
  obtain g j where g: "clp_GetGenesisStateFromAppState cdc st = Inr g" and st': "st' = st(clp_ModuleName \<mapsto> j)"
    and j: "json_MarshalClp cdc (g\<lparr>gc_AddressWhitelist := gc_AddressWhitelist g @ [AccAddress_String L a]\<rparr>) = Inr j"
    using assms by (auto simp: AddGenesisCLPAdminCmd_def store_module_def bindE_eq_Inr wrapE_eq_Inr)
  show ?thesis
    using clp_json [OF j] clp_state_text [OF g] address_or_key_acc(2) [OF a] by (auto simp: clp_named_def st')
qed

lemma oracle_admin_names:
  assumes "SetGenesisOracleAdminCmd L cdc keyring arg st = Inr st'" and a: "address_or_key L keyring arg = Inr a"
  shows "oracle_named a st'" and "clp_named b st \<Longrightarrow> clp_named b st'"
proof -
  obtain g j where g: "oracle_GetGenesisStateFromAppState cdc st = Inr g" and st': "st' = st(oracle_ModuleName \<mapsto> j)"
    and j: "json_MarshalOracle cdc (g\<lparr>og_AdminAddress := AccAddress_String L a\<rparr>) = Inr j"
    using assms by (auto simp: SetGenesisOracleAdminCmd_def store_module_def bindE_eq_Inr wrapE_eq_Inr)
  show "oracle_named a st'"
    using oracle_json [OF j] oracle_state_text [OF g] address_or_key_acc(2) [OF a]
    by (auto simp: oracle_named_def st' whitelist_of_def)
  show "clp_named b st \<Longrightarrow> clp_named b st'" by (simp add: clp_named_def st' clp_ModuleName_def oracle_ModuleName_def)
qed

lemma registry_admin_names:
  assumes "SetGenesisWhitelisterAdminCmd L cdc keyring arg st = Inr st'" and a: "address_or_key L keyring arg = Inr a"
  shows "registry_named a st'" and "clp_named b st \<Longrightarrow> clp_named b st'" and "oracle_named b st \<Longrightarrow> oracle_named b st'"
proof -
  obtain g j where st': "st' = st(registry_ModuleName \<mapsto> j)"
    and j: "json_MarshalRegistry cdc (g\<lparr>gen_AdminAccount := AccAddress_String L a\<rparr>) = Inr j"
    using assms by (auto simp: SetGenesisWhitelisterAdminCmd_def store_module_def bindE_eq_Inr wrapE_eq_Inr)
  show "registry_named a st'"
    using registry_json [OF j] address_or_key_acc(2) [OF a] by (auto simp: registry_named_def st')
  show "clp_named b st \<Longrightarrow> clp_named b st'" and "oracle_named b st \<Longrightarrow> oracle_named b st'"
    by (simp_all add: clp_named_def oracle_named_def st' clp_ModuleName_def oracle_ModuleName_def registry_ModuleName_def)
qed

lemma validator_names:
  assumes "AddGenesisValidatorCmd L cdc arg st = Inr st'" and v: "ValAddressFromBech32 L arg = Inr v"
  shows "validator_named v st'" and "clp_named b st \<Longrightarrow> clp_named b st'" and "oracle_named b st \<Longrightarrow> oracle_named b st'"
    and "registry_named b st \<Longrightarrow> registry_named b st'"
proof -
  obtain g j where g: "oracle_GetGenesisStateFromAppState cdc st = Inr g" and st': "st' = st(oracle_ModuleName \<mapsto> j)"
    and j: "json_MarshalOracle cdc (g\<lparr>og_AddressWhitelist := Some (whitelist_of g @ [ValAddress_String L v])\<rparr>) = Inr j"
    using assms by (auto simp: AddGenesisValidatorCmd_def store_module_def bindE_eq_Inr wrapE_eq_Inr Let_def whitelist_of_def)
  have read: "cdc_UnmarshalOracle cdc j = Inr g' \<Longrightarrow> og_AdminAddress g' = og_AdminAddress g \<and>
      whitelist_of g' = whitelist_of g @ [ValAddress_String L v]" for g'
    using oracle_json [OF j] oracle_state_text [OF g] val_string_ascii [OF v] by (auto simp: whitelist_of_def)
  show "validator_named v st'" by (auto simp: validator_named_def st' dest: read)
  show "oracle_named b st \<Longrightarrow> oracle_named b st'"
    using g by (auto simp: oracle_named_def st' oracle_GetGenesisStateFromAppState_def wrapE_eq_Inr dest: read)
  show "clp_named b st \<Longrightarrow> clp_named b st'" and "registry_named b st \<Longrightarrow> registry_named b st'"
    by (simp_all add: clp_named_def registry_named_def st' clp_ModuleName_def oracle_ModuleName_def registry_ModuleName_def)
qed

lemma mustAddresses_strings:
  "mustAddresses L ss = Inr as \<Longrightarrow> mustAddresses L (map (AccAddress_String L) as) = Inr as"
proof (induction ss arbitrary: as)
  case (Cons s ss)
  then show ?case using acc_of_string [of s] by (auto simp: res_simps)
qed simp

lemma mustAddresses_member:
  "mustAddresses L ss = Inr as \<Longrightarrow> s \<in> set ss \<Longrightarrow> AccAddressFromBech32 L s = Inr a \<Longrightarrow> a \<in> set as"
  by (induction ss arbitrary: as) (auto simp: res_simps)

lemma mustValAddresses_strings:
  "mustValAddresses L ss = Inr as \<Longrightarrow> mustValAddresses L (map (ValAddress_String L) as) = Inr as"
proof (induction ss arbitrary: as)
  case (Cons s ss)
  then show ?case using val_of_string [of s] by (auto simp: res_simps)
qed simp

lemma mustValAddresses_member:
  "mustValAddresses L ss = Inr as \<Longrightarrow> s \<in> set ss \<Longrightarrow> ValAddressFromBech32 L s = Inr a \<Longrightarrow> a \<in> set as"
  by (induction ss arbitrary: as) (auto simp: res_simps)

lemma clp_whitelisted:
  assumes "clp_InitGenesis L c g = Inr c'" and "AccAddress_String L a \<in> set (gc_AddressWhitelist g)"
    and "AccAddressFromBech32 L (AccAddress_String L a) = Inr a" and "clp_store d = clp_store c'"
  shows "ValidateAddress L d a = Inr True"
proof -
  obtain wl where wl: "mustAddresses L (gc_AddressWhitelist g) = Inr wl"
    and st: "kv_get (clp_store d) WhiteListValidatorPrefix = Some (V_WhiteList (map (AccAddress_String L) wl))"
    using clp_InitGenesis_admins [OF assms(1)] assms(4) by metis
  then show ?thesis
    using mustAddresses_member [OF wl assms(2,3)]
    by (auto simp: ValidateAddress_def ExistsClpWhiteList_def kv_has_def GetClpWhiteList_def mustAddresses_strings list_ex_iff)
qed

lemma oracle_whitelisted:
  assumes "oracle_InitGenesis L c g = Inr c'" and "ValAddress_String L v \<in> set (whitelist_of g)"
    and v: "ValAddressFromBech32 L (ValAddress_String L v) = Inr v" and "oracle_store d = oracle_store c'"
  shows "oracle_ValidateAddress L d v = Inr True"
proof -
  obtain ss where ss: "og_AddressWhitelist g = Some ss" "ValAddress_String L v \<in> set ss"
    using assms(2) by (cases "og_AddressWhitelist g") (auto simp: whitelist_of_def)
  obtain wl where wl: "mustValAddresses L (filter (\<lambda>s. length (TrimSpace s) \<noteq> 0) ss) = Inr wl"
    and st: "kv_get (oracle_store d) oracle_WhiteListValidatorPrefix = Some (OV_WhiteList (map (ValAddress_String L) wl))"
    using oracle_InitGenesis_admins(3) [OF assms(1) ss(1)] assms(4) by metis
  have "v \<in> set wl"
    using val_blank [of "ValAddress_String L v" v] ss(2) v by (intro mustValAddresses_member [OF wl _ v]) auto
  then show ?thesis
    using st mustValAddresses_strings [OF wl]
    by (auto simp: oracle_ValidateAddress_def ExistsOracleWhiteList_def kv_has_def GetOracleWhiteList_def list_ex_iff)
qed

lemma init_module_Some:
  "st name = Some j \<Longrightarrow> init_module name u f st c = Inr c' \<longleftrightarrow> (\<exists>g. u j = Inr g \<and> f c g = Inr c')"
  by (auto simp: init_module_def bindE_eq_Inr wrapE_eq_Inr)

lemma init_module_keeps:
  "init_module name u f st c = Inr c' \<Longrightarrow> (\<And>g. f c g = Inr c' \<Longrightarrow> r c' = r c) \<Longrightarrow> r c' = r c"
  by (auto simp: init_module_def bindE_eq_Inr wrapE_eq_Inr split: option.splits)

lemma started_from:
  assumes init: "app_InitGenesis L cdc set_account st c = Inr c'"
    and clp: "clp_named a st" "AccAddressFromBech32 L (AccAddress_String L a) = Inr a"
    and orc: "oracle_named b st" "AccAddressFromBech32 L (AccAddress_String L b) = Inr b"
    and reg: "registry_named d st" "AccAddressFromBech32 L (AccAddress_String L d) = Inr d"
    and val: "validator_named v st" "ValAddressFromBech32 L (ValAddress_String L v) = Inr v"
  shows "ValidateAddress L c' a = Inr True \<and> oracle_IsAdminAccount c' b \<and> IsAdminAccount c' d \<and>
    oracle_ValidateAddress L c' v = Inr True"
proof -
  obtain c1 c2 c3 c4 where c1: "init_module clp_ModuleName (cdc_UnmarshalClp cdc) (clp_InitGenesis L) st c = Inr c1"
    and c2: "init_module oracle_ModuleName (cdc_UnmarshalOracle cdc) (oracle_InitGenesis L) st c1 = Inr c2"
    and c3: "init_module bridge_ModuleName (cdc_UnmarshalBridge cdc)
       (\<lambda>c. bridge_InitGenesis L (c\<lparr>ext := set_account (ext c)\<rparr>)) st c2 = Inr c3"
    and c4: "init_module dispensation_ModuleName (cdc_UnmarshalDispensation cdc) (dispensation_InitGenesis L) st c3 = Inr c4"
    and c': "init_module registry_ModuleName (cdc_UnmarshalRegistry cdc) (registry_InitGenesis L) st c4 = Inr c'"
    using init unfolding app_InitGenesis_def by (simp only: bindE_eq_Inr) blast
  obtain g1 where g1: "clp_InitGenesis L c g1 = Inr c1" "AccAddress_String L a \<in> set (gc_AddressWhitelist g1)"
    using clp(1) c1 by (auto simp: clp_named_def init_module_Some)
  obtain g2 where g2: "oracle_InitGenesis L c1 g2 = Inr c2" "og_AdminAddress g2 = AccAddress_String L b"
      "ValAddress_String L v \<in> set (whitelist_of g2)"
    using orc(1) val(1) c2 by (auto simp: oracle_named_def validator_named_def init_module_Some)
  obtain g5 where g5: "registry_InitGenesis L c4 g5 = Inr c'" "gen_AdminAccount g5 = AccAddress_String L d"
    using reg(1) c' by (auto simp: registry_named_def init_module_Some)
  let ?r = "\<lambda>c. (clp_store c, oracle_store c)"
  have "?r c3 = ?r c2" by (rule init_module_keeps [OF c3]) (auto dest: bridge_InitGenesis_keeps)
  moreover have "?r c4 = ?r c3" by (rule init_module_keeps [OF c4]) (auto dest: dispensation_InitGenesis_keeps)
  moreover have "?r c' = ?r c4" by (rule init_module_keeps [OF c']) (auto dest: registry_InitGenesis_admin(1,2))
  ultimately have oracle_kept: "oracle_store c' = oracle_store c2" and clp_kept: "clp_store c' = clp_store c1"
    using oracle_InitGenesis_admins(1) [OF g2(1)] by simp_all
  have "oracle_GetAdminAccount c2 = b"
    using oracle_InitGenesis_admins(2) [OF g2(1)] acc_blank [of "AccAddress_String L b" b] orc(2) g2(2) by auto
  then have "oracle_IsAdminAccount c' b"
    using acc_of_string [OF orc(2)] by (simp add: oracle_IsAdminAccount_def oracle_GetAdminAccount_def oracle_kept Let_def)
  moreover have "GetAdminAccount c' = d"
    using registry_InitGenesis_admin(3) [OF g5(1)] acc_blank [of "AccAddress_String L d" d] reg(2) g5(2)
    by (cases "AccAddress_String L d = []") (auto simp: TrimSpace_Nil)
  ultimately show ?thesis
    using acc_of_string [OF reg(2)] clp_whitelisted [OF g1 clp(2) clp_kept] oracle_whitelisted [OF g2(1,3) val(2) oracle_kept]
    by (simp add: IsAdminAccount_def)
qed

end

text \<open>A codec and a keyring of the kind the laws ask for: a tree of the values, text only.\<close>

datatype ref_json = J_Clp clp_genesis | J_Oracle oracle_genesis | J_Registry registry_genesis | J_Other

definition ref_clp_text :: "clp_genesis \<Rightarrow> bool" where
  "ref_clp_text g = list_all valid_utf8 (gc_AddressWhitelist g)"

definition ref_oracle_text :: "oracle_genesis \<Rightarrow> bool" where
  "ref_oracle_text g = list_all valid_utf8 (og_AdminAddress g # whitelist_of g)"

definition ref_codec :: "ref_json codec" where
  "ref_codec =
     \<lparr>v39_UnmarshalClp = (\<lambda>_. Inl (ErrGo ''not version 39'')), v39_UnmarshalBridge = (\<lambda>_. Inl (ErrGo ''not version 39'')),
      v39_UnmarshalOracle = (\<lambda>_. Inl (ErrGo ''not version 39'')), v39_UnmarshalDispensation = (\<lambda>_. Inl (ErrGo ''not version 39'')),
      cdc_MarshalClp = (\<lambda>g. Inr (J_Clp g)), cdc_MarshalBridge = (\<lambda>_. Inr J_Other),
      cdc_MarshalOracle = (\<lambda>g. Inr (J_Oracle g)), cdc_MarshalDispensation = (\<lambda>_. Inr J_Other), cdc_MarshalEvidence = Inr J_Other,
      cdc_UnmarshalClp = (\<lambda>j. case j of J_Clp g \<Rightarrow> if ref_clp_text g then Inr g else Inl (ErrGo ''no text'') | _ \<Rightarrow> Inl (ErrGo ''no clp'')),
      cdc_UnmarshalOracle = (\<lambda>j. case j of J_Oracle g \<Rightarrow> if ref_oracle_text g then Inr g else Inl (ErrGo ''no text'')
        | _ \<Rightarrow> Inl (ErrGo ''no oracle'')),
      cdc_UnmarshalBridge = (\<lambda>_. Inl (ErrGo ''no bridge'')), cdc_UnmarshalDispensation = (\<lambda>_. Inl (ErrGo ''no dispensation'')),
      cdc_UnmarshalRegistry = (\<lambda>j. case j of J_Registry g \<Rightarrow> Inr g | _ \<Rightarrow> Inl (ErrGo ''no registry'')),
      json_MarshalClp = (\<lambda>g. Inr (J_Clp g)), json_MarshalOracle = (\<lambda>g. Inr (J_Oracle g)),
      json_MarshalRegistry = (\<lambda>g. Inr (J_Registry g))\<rparr>"

definition ref_keyring :: "string \<Rightarrow> addr res" where
  "ref_keyring name = (if name = ''admin'' then Inr ''K'' else Inl (ErrGo ''key not found''))"

interpretation ref_genesis: genesis_laws ref_lib ref_codec ref_keyring
  by unfold_locales
    (auto simp: ref_codec_def ref_keyring_def ref_clp_text_def ref_oracle_text_def ref_eval split: ref_json.splits if_splits)

text \<open>
  C10. The people named while the genesis is prepared run the chain that starts from it. When
  the four commands of \<open>sifnoded\<close> have run (\<open>add-genesis-clp-admin\<close>, \<open>set-genesis-oracle-admin\<close>,
  \<open>set-genesis-whitelister-admin\<close> and \<open>add-genesis-validators\<close>, each given an address or the
  name of a key) and the chain has started, the pools accept the first account's decommissions, the
  oracle knows the second as its administrator and the registry the third, and the validator is
  on the oracle's white list. Each command edits its module only, so none undoes what another
  wrote, also where two write the same module.
\<close>

theorem genesis_names_the_admins:
  assumes "genesis_laws L cdc keyring"
    and "address_or_key L keyring clp_arg = Inr a" and "address_or_key L keyring oracle_arg = Inr b"
    and "address_or_key L keyring registry_arg = Inr d" and "ValAddressFromBech32 L validator_arg = Inr v"
    and "AddGenesisCLPAdminCmd L cdc keyring clp_arg st = Inr st1"
    and "SetGenesisOracleAdminCmd L cdc keyring oracle_arg st1 = Inr st2"
    and "SetGenesisWhitelisterAdminCmd L cdc keyring registry_arg st2 = Inr st3"
    and "AddGenesisValidatorCmd L cdc validator_arg st3 = Inr st4"
    and "app_InitGenesis L cdc set_account st4 c = Inr c'"
  shows "ValidateAddress L c' a = Inr True \<and> oracle_IsAdminAccount c' b \<and> IsAdminAccount c' d \<and>
    oracle_ValidateAddress L c' v = Inr True"
proof (rule genesis_laws.started_from [OF assms(1,10)])
  note laws = assms(1)
  note named1 = genesis_laws.clp_admin_names [OF laws assms(6,2)]
  note named2 = genesis_laws.oracle_admin_names [OF laws assms(7,3)]
  note named3 = genesis_laws.registry_admin_names [OF laws assms(8,4)]
  note named4 = genesis_laws.validator_names [OF laws assms(9,5)]
  show "genesis_laws.clp_named L cdc a st4" by (rule named4(2) [OF named3(2) [OF named2(2) [OF named1]]])
  show "genesis_laws.oracle_named L cdc b st4" by (rule named4(3) [OF named3(3) [OF named2(1)]])
  show "genesis_laws.registry_named L cdc d st4" by (rule named4(4) [OF named3(1)])
  show "genesis_laws.validator_named L cdc v st4" by (rule named4(1))
  show "ValAddressFromBech32 L (ValAddress_String L v) = Inr v"
    using addr_laws.val_of_string [OF genesis_laws.axioms(1) [OF laws] assms(5)] by simp
qed (rule genesis_laws.address_or_key_acc(1) [OF assms(1)], fact)+

definition gen_state :: "string list \<Rightarrow> ref_json app_state" where
  "gen_state admins = [clp_ModuleName \<mapsto> J_Clp
     \<lparr>gc_Params = 100, gc_AddressWhitelist = admins, gc_PoolList = [], gc_LiquidityProviders = []\<rparr>]"

definition gen_oracle :: "string list option \<Rightarrow> ref_json" where
  "gen_oracle vs = J_Oracle \<lparr>og_AddressWhitelist = vs, og_AdminAddress = ''sif1B'', og_Prophecies = []\<rparr>"

definition gen_registry :: ref_json where
  "gen_registry = J_Registry \<lparr>gen_AdminAccount = ''sif1K'', gen_Registry = None\<rparr>"

lemmas gen_eval = ref_codec_def ref_keyring_def ref_clp_text_def ref_oracle_text_def whitelist_of_def gen_state_def
  gen_oracle_def gen_registry_def clp_ModuleName_def oracle_ModuleName_def registry_ModuleName_def bridge_ModuleName_def
  dispensation_ModuleName_def address_or_key_def store_module_def clp_GetGenesisStateFromAppState_def
  oracle_GetGenesisStateFromAppState_def registry_UnmarshalGenesis_def ascii_valid_utf8 ref_eval

theorem genesis_names_the_admins_witness:
  "\<exists>st1 st2 st3 st4 c'.
     AddGenesisCLPAdminCmd ref_lib ref_codec ref_keyring ''sif1A'' (gen_state []) = Inr st1 \<and>
     SetGenesisOracleAdminCmd ref_lib ref_codec ref_keyring ''sif1B'' st1 = Inr st2 \<and>
     SetGenesisWhitelisterAdminCmd ref_lib ref_codec ref_keyring ''admin'' st2 = Inr st3 \<and>
     AddGenesisValidatorCmd ref_lib ref_codec ''sifvaloper1V'' st3 = Inr st4 \<and>
     app_InitGenesis ref_lib ref_codec id st4 ref_ctx = Inr c' \<and>
     ValidateAddress ref_lib c' ''A'' = Inr True \<and> oracle_IsAdminAccount c' ''B'' \<and> IsAdminAccount c' ''K'' \<and>
     oracle_ValidateAddress ref_lib c' ''V'' = Inr True"
proof -
  let ?s1 = "gen_state [''sif1A'']"
  let ?s2 = "?s1(oracle_ModuleName \<mapsto> gen_oracle None)"
  let ?s3 = "?s2(registry_ModuleName \<mapsto> gen_registry)"
  let ?s4 = "?s3(oracle_ModuleName \<mapsto> gen_oracle (Some [''sifvaloper1V'']))"
  have k: "address_or_key ref_lib ref_keyring ''sif1A'' = Inr ''A''" "address_or_key ref_lib ref_keyring ''sif1B'' = Inr ''B''"
    "address_or_key ref_lib ref_keyring ''admin'' = Inr ''K''" "ValAddressFromBech32 ref_lib ''sifvaloper1V'' = Inr ''V''"
    by (simp_all add: gen_eval)
  have s1: "AddGenesisCLPAdminCmd ref_lib ref_codec ref_keyring ''sif1A'' (gen_state []) = Inr ?s1"
    by (simp add: AddGenesisCLPAdminCmd_def k) (simp add: gen_eval)
  have s2: "SetGenesisOracleAdminCmd ref_lib ref_codec ref_keyring ''sif1B'' ?s1 = Inr ?s2"
    by (simp add: SetGenesisOracleAdminCmd_def k) (simp add: gen_eval)
  have s3: "SetGenesisWhitelisterAdminCmd ref_lib ref_codec ref_keyring ''admin'' ?s2 = Inr ?s3"
    by (simp add: SetGenesisWhitelisterAdminCmd_def k) (simp add: gen_eval)
  have s4: "AddGenesisValidatorCmd ref_lib ref_codec ''sifvaloper1V'' ?s3 = Inr ?s4"
    by (simp add: AddGenesisValidatorCmd_def k) (simp add: gen_eval)
  have "\<exists>c'. app_InitGenesis ref_lib ref_codec id ?s4 ref_ctx = Inr c'"
    by (simp add: app_InitGenesis_def init_module_def clp_InitGenesis_def clp_SetParams_def validateMinCreatePoolThreshold_def
        SetClpWhiteList_def oracle_InitGenesis_def registry_InitGenesis_def TrimSpace_Nil gen_eval Let_def cong: bindE_cong_weak)
  then obtain c' where c': "app_InitGenesis ref_lib ref_codec id ?s4 ref_ctx = Inr c'" ..
  from genesis_names_the_admins [OF ref_genesis.genesis_laws_axioms k s1 s2 s3 s4 c'] s1 s2 s3 s4 c'
  show ?thesis by blast
qed

subsection \<open>Restarting the bridge\<close>

lemma AddPeggyToken_get:
  "GetPeggyToken (AddPeggyToken c t) = (if t \<in> set (GetPeggyToken c) then GetPeggyToken c else GetPeggyToken c @ [t])"
proof -
  have "ExistsPeggyToken c t \<longleftrightarrow> t \<in> set (GetPeggyToken c)" by (auto simp: ExistsPeggyToken_def list_ex_iff)
  moreover have "GetPeggyToken (c\<lparr>bridge_store := kv_set PeggyTokenKeyPrefix (BV_PeggyTokens ts) st\<rparr>) = ts" for ts st
    by (simp add: GetPeggyToken_def kv_get_set)
  ultimately show ?thesis by (simp add: AddPeggyToken_def)
qed

lemma AddPeggyTokens_get:
  "distinct (GetPeggyToken c @ ts) \<Longrightarrow> GetPeggyToken (foldl AddPeggyToken c ts) = GetPeggyToken c @ ts"
  by (induction ts rule: rev_induct) (auto simp: AddPeggyToken_get)

lemma receiver_canonical:
  assumes "addr_laws L" and a: "GetCethReceiverAccount L c \<noteq> []"
  shows "AccAddressFromBech32 L (AccAddress_String L (GetCethReceiverAccount L c)) = Inr (GetCethReceiverAccount L c)"
    and "AccAddress_String L (GetCethReceiverAccount L c) \<noteq> []"
proof -
  obtain s where "AccAddressFromBech32 L s = Inr (GetCethReceiverAccount L c)"
    using a unfolding GetCethReceiverAccount_def
    by (cases "kv_get (bridge_store c) CethReceiverAccountPrefix") (auto split: bridge_value.splits sum.splits if_splits)
  from addr_laws.acc_of_string [OF assms(1) this]
  show acc: "AccAddressFromBech32 L (AccAddress_String L (GetCethReceiverAccount L c)) = Inr (GetCethReceiverAccount L c)"
    by simp
  show "AccAddress_String L (GetCethReceiverAccount L c) \<noteq> []"
    using addr_laws.acc_blank [OF assms(1), of "[]"] acc by (auto simp: TrimSpace_Nil)
qed

lemma AddPeggyTokens_other:
  "k \<noteq> PeggyTokenKeyPrefix \<Longrightarrow> kv_get (bridge_store (foldl AddPeggyToken c ts)) k = kv_get (bridge_store c) k"
  by (induction ts rule: rev_induct) (auto simp: AddPeggyToken_def kv_get_set)

text \<open>
  C27. A bridge that is stopped and started from its own export knows the pegged tokens and the
  account that receives the fees in ceth as before, but blocks no one: the export leaves the
  black list of Ethereum addresses out.
\<close>

theorem bridge_genesis_restart:
  assumes "addr_laws L" and "distinct (GetPeggyToken c)"
  shows "\<exists>c'. bridge_InitGenesis L (c\<lparr>bridge_store := []\<rparr>) (bridge_ExportGenesis L c) = Inr c' \<and>
    GetPeggyToken c' = GetPeggyToken c \<and> GetCethReceiverAccount L c' = GetCethReceiverAccount L c \<and>
    (\<forall>a. \<not> IsBlacklisted c' a)"
proof -
  let ?a = "GetCethReceiverAccount L c" and ?c0 = "c\<lparr>bridge_store := []\<rparr>"
  note a = receiver_canonical [OF assms(1), of c]
  define c1 where "c1 = (if ?a = [] then ?c0 else SetCethReceiverAccount L ?c0 ?a)"
  have "bridge_InitGenesis L ?c0 (bridge_ExportGenesis L c) = Inr (foldl AddPeggyToken c1 (GetPeggyToken c))"
    using a addr_laws.acc_string_empty [OF assms(1)]
    by (auto simp: bridge_InitGenesis_def bridge_ExportGenesis_def c1_def)
  moreover have "GetPeggyToken c1 = []"
    by (simp add: c1_def SetCethReceiverAccount_def GetPeggyToken_def kv_get_set kv_get_def)
  moreover have "GetCethReceiverAccount L c1 = ?a"
  proof (cases "?a = []")
    case True
    then show ?thesis by (simp add: c1_def) (simp add: GetCethReceiverAccount_def kv_get_def)
  next
    case False
    then have "c1 = SetCethReceiverAccount L ?c0 ?a" by (simp add: c1_def)
    moreover have "GetCethReceiverAccount L (SetCethReceiverAccount L ?c0 b) = b"
      if "AccAddressFromBech32 L (AccAddress_String L b) = Inr b" "AccAddress_String L b \<noteq> []" for b
      using that by (simp add: SetCethReceiverAccount_def GetCethReceiverAccount_def kv_get_def)
    ultimately show ?thesis using a [OF False] by simp
  qed
  moreover have "kv_get (bridge_store c1) (BlacklistPrefix @ e) = None" for e
    by (simp add: c1_def SetCethReceiverAccount_def kv_get_set kv_get_def BlacklistPrefix_def CethReceiverAccountPrefix_def)
  moreover have "GetCethReceiverAccount L (foldl AddPeggyToken c1 ts) = GetCethReceiverAccount L c1" for ts
    by (simp add: GetCethReceiverAccount_def AddPeggyTokens_other CethReceiverAccountPrefix_def PeggyTokenKeyPrefix_def)
  moreover have "IsBlacklisted (foldl AddPeggyToken c1 ts) e \<longleftrightarrow> kv_get (bridge_store c1) (BlacklistPrefix @ e) \<noteq> None" for ts e
    by (simp add: IsBlacklisted_def kv_has_def AddPeggyTokens_other BlacklistPrefix_def PeggyTokenKeyPrefix_def)
  ultimately show ?thesis
    using AddPeggyTokens_get [of c1 "GetPeggyToken c"] assms(2) by simp
qed

definition gen_bridge :: "ref_state ctx" where
  "gen_bridge = AddPeggyToken (ref_ctx\<lparr>bridge_store := [(BlacklistPrefix @ ''0xab'', BV_Blacklisted)]\<rparr>) ''ceth''"

theorem bridge_genesis_restart_witness:
  "\<exists>c'. IsBlacklisted gen_bridge ''0xab'' \<and>
     bridge_InitGenesis ref_lib (gen_bridge\<lparr>bridge_store := []\<rparr>) (bridge_ExportGenesis ref_lib gen_bridge) = Inr c' \<and>
     GetPeggyToken c' = [''ceth''] \<and> \<not> IsBlacklisted c' ''0xab''"
proof -
  have "GetPeggyToken gen_bridge = [''ceth'']" and "IsBlacklisted gen_bridge ''0xab''"
    by (simp_all add: gen_bridge_def bridge_eval ref_eval)
  then show ?thesis using bridge_genesis_restart [OF ref.addr_laws_axioms, of gen_bridge] by auto
qed

end
