(* ===== verification/ClpPricing.thy ===== *)
theory ClpPricing
  imports Complex_Main ClpProperties
begin

section \<open>How far the pools' arithmetic is from the exact formulas\<close>

text \<open>
  The calculations of \<open>x/clp/keeper/calculations.go\<close> round every product and quotient to eighteen decimals
  and their results to integers. The lemmas below carry these errors through the formulas, for
  every library whose decimals round within the documented bound, and compare the result with
  the real number that the formula denotes.
\<close>

subsection \<open>The rounding of withdrawals\<close>

text \<open>
  Three quotients, each off by less than \<open>\<eta>\<close>, and a rounding lie between the exact share
  \<open>R U / (P d)\<close> and the amount that is paid.
\<close>

lemma quotient_shift:
  fixes a b c \<eta> :: real
  assumes "\<bar>b - c\<bar> \<le> \<eta>" and "0 \<le> a" and "0 < k" and "k \<le> b * c"
  shows "\<bar>a / b - a / c\<bar> \<le> 1 / k * (a * \<eta>)"
proof -
  have "b * c \<noteq> 0" using assms(3,4) by linarith
  then have "a / b - a / c = a * (c - b) / (b * c)" by (simp add: divide_simps) (simp add: algebra_simps)
  then have "\<bar>a / b - a / c\<bar> = a * \<bar>b - c\<bar> / (b * c)"
    using assms abs_of_pos [of "b * c"] by (simp add: abs_mult abs_minus_commute)
  also have "\<dots> \<le> a * \<eta> / k"
    using assms by (intro frac_le mult_left_mono mult_nonneg_nonneg) auto
  finally show ?thesis by simp
qed

lemma claimed_units_error:
  fixes U d dh uh \<eta> :: real
  assumes "0 < \<eta>" "\<eta> \<le> 1 / 100" "1 \<le> U" "1 \<le> d" "\<bar>dh - d\<bar> \<le> \<eta>" "\<bar>uh - U / dh\<bar> \<le> \<eta>"
  shows "\<bar>uh - U / d\<bar> \<le> 21 / 10 * (U * \<eta>)"
proof -
  have "99 / 100 * 1 \<le> dh * d" using assms by (intro mult_mono) auto
  then have "\<bar>U / dh - U / d\<bar> \<le> 100 / 99 * (U * \<eta>)"
    using assms quotient_shift [of dh d \<eta> U "99 / 100"] by simp
  moreover have "\<eta> \<le> U * \<eta>" using assms by simp
  ultimately show ?thesis using assms(1,6) by linarith
qed

lemma share_error:
  fixes R P U d dh uh rh nh \<eta> :: real
  assumes eta: "0 < \<eta>" "\<eta> \<le> 1 / 100" and U: "1 \<le> U" "U \<le> P" and d: "1 \<le> d" and R: "0 \<le> R"
    and dh: "\<bar>dh - d\<bar> \<le> \<eta>" and uh: "\<bar>uh - U / dh\<bar> \<le> \<eta>" "0 < uh"
    and rh: "\<bar>rh - P / uh\<bar> \<le> \<eta>" and nh: "\<bar>nh - R / rh\<bar> \<le> \<eta>"
  shows "\<bar>nh - R * U / (P * d)\<bar> \<le> \<eta> + 4 * (R * \<eta>)"
proof -
  note units = claimed_units_error [OF eta U(1) d dh uh(1)]
  have "U / d \<le> U" using U d by (simp add: divide_le_eq)
  moreover have "U * \<eta> \<le> U * (1 / 100)" using U eta by (intro mult_left_mono) auto
  ultimately have "uh \<le> 103 / 100 * P" using units U by linarith
  then have "100 / 103 \<le> P / uh" using uh(2) by (simp add: le_divide_eq)
  moreover from this have "100 / 105 \<le> rh" using rh eta by linarith
  ultimately have "100 / 105 * (100 / 103) \<le> rh * (P / uh)" by (intro mult_mono) auto
  then have ratio: "\<bar>R / rh - R / (P / uh)\<bar> \<le> 10815 / 10000 * (R * \<eta>)"
    using R rh quotient_shift [of rh "P / uh" \<eta> R "10000 / 10815"] by simp
  have P: "0 < P" using U by linarith
  have "R * uh / P - R * U / (P * d) = R / P * (uh - U / d)" using P d by (simp add: field_simps)
  then have "\<bar>R * uh / P - R * U / (P * d)\<bar> = R / P * \<bar>uh - U / d\<bar>" using R P by (simp add: abs_mult)
  also have "\<dots> \<le> R / P * (21 / 10 * (P * \<eta>))"
    using R P U eta by (intro mult_left_mono order_trans [OF units] mult_right_mono) auto
  also have "\<dots> = 21 / 10 * (R * \<eta>)" using P by simp
  finally have "\<bar>R * uh / P - R * U / (P * d)\<bar> \<le> 21 / 10 * (R * \<eta>)" .
  moreover have "0 \<le> R * \<eta>" using R eta by simp
  moreover have "R / (P / uh) = R * uh / P" by simp
  ultimately show ?thesis using ratio nh by linarith
qed

definition dec_value :: "dec \<Rightarrow> real" where
  "dec_value a = of_int a / 10 ^ 18"

lemma dec_value_simps [simp]:
  "dec_value (n * one_dec) = of_int n" "dec_value (a - b) = dec_value a - dec_value b" "dec_value (a + b) = dec_value a + dec_value b"
  by (simp_all add: dec_value_def diff_divide_distrib add_divide_distrib)

context lib_laws
begin

lemma quo_value:
  assumes "Dec_Quo L a b = Inr c"
  shows "b \<noteq> 0" and "\<bar>dec_value c - dec_value a / dec_value b\<bar> \<le> 1 / 10 ^ 18"
proof -
  show b: "b \<noteq> 0" using assms dec_quo_zero [of a] by auto
  have "\<bar>of_int (c * b - a * one_dec) :: real\<bar> \<le> of_int \<bar>b\<bar>"
    using dec_quo [OF assms] by (simp only: of_int_abs [symmetric] of_int_le_iff)
  then have "\<bar>(of_int c * of_int b - of_int a * 10 ^ 18 :: real)\<bar> \<le> \<bar>of_int b\<bar>" by simp
  moreover have "of_int c * of_int b - of_int a * 10 ^ 18
      = (dec_value c - dec_value a / dec_value b) * 10 ^ 18 * (of_int b :: real)"
    using b by (simp add: dec_value_def field_simps)
  ultimately have "\<bar>dec_value c - dec_value a / dec_value b\<bar> * 10 ^ 18 * \<bar>of_int b\<bar> \<le> 1 * \<bar>of_int b :: real\<bar>"
    by (simp only: abs_mult) simp
  then show "\<bar>dec_value c - dec_value a / dec_value b\<bar> \<le> 1 / 10 ^ 18"
    using b by (subst (asm) mult_le_cancel_right_pos) simp_all
qed

lemma round_value:
  assumes "Uint_of_Dec L a = Inr n"
  shows "\<bar>real n - dec_value a\<bar> \<le> 1 / 2"
proof -
  from assms obtain r where r: "Dec_RoundInt L a = Inr r" "0 \<le> r" "n = nat r"
    by (auto simp: Uint_of_Dec_def res_simps)
  have "of_int (2 * \<bar>r * one_dec - a\<bar>) \<le> (of_int one_dec :: real)"
    using dec_round [OF r(1)] by (simp only: of_int_le_iff)
  moreover have "of_int (r * one_dec - a) = (real n - dec_value a) * 10 ^ 18"
    using r by (simp add: dec_value_def field_simps)
  ultimately have "2 * (\<bar>real n - dec_value a\<bar> * 10 ^ 18) \<le> 10 ^ 18"
    by (simp only: of_int_mult of_int_abs abs_mult) simp
  then show ?thesis by simp
qed

lemma mustDec_int: "mustDec L (int_string n) = Inr d \<Longrightarrow> dec_value d = of_int n"
  using dec_of_str [of n d] dec_value_simps(1) [of n] by (simp only: mustDec_def res_simps)

lemma mustDec_nat: "mustDec L (nat_string n) = Inr d \<Longrightarrow> dec_value d = real n"
  using mustDec_int [of "int n" d] by (simp add: int_string_def)

lemma share_value:
  assumes "share_of L bd pu units = Inr s" and "Uint_of_Dec L s = Inr n"
    and d: "0 < w" "w \<le> 10000" "\<bar>dh - 10000 / w\<bar> \<le> 1 / 10 ^ 18" and U: "1 \<le> U" "U \<le> dec_value pu"
    and uh: "\<bar>dec_value units - U / dh\<bar> \<le> 1 / 10 ^ 18" "0 < dec_value units" and R: "0 \<le> dec_value bd"
  shows "\<bar>real n - dec_value bd * U * w / (10000 * dec_value pu)\<bar> \<le> 1 + 4 * dec_value bd / 10 ^ 18"
proof -
  from assms(1) obtain ratio where quo: "Dec_Quo L pu units = Inr ratio" "Dec_Quo L bd ratio = Inr s"
    by (auto simp: share_of_def res_simps)
  have "1 \<le> 10000 / w" using d by simp
  from share_error [of "1 / 10 ^ 18" U "dec_value pu" "10000 / w" "dec_value bd" dh "dec_value units" "dec_value ratio" "dec_value s",
      OF _ _ U this R d(3) uh quo_value(2) [OF quo(1)] quo_value(2) [OF quo(2)]]
  have "\<bar>dec_value s - dec_value bd * U / (dec_value pu * (10000 / w))\<bar> \<le> 1 / 10 ^ 18 + 4 * (dec_value bd * (1 / 10 ^ 18))"
    by simp
  moreover have "dec_value bd * U / (dec_value pu * (10000 / w)) = dec_value bd * U * w / (10000 * dec_value pu)"
    by simp
  moreover have "4 * dec_value bd / 10 ^ 18 = 4 * (dec_value bd * (1 / 10 ^ 18))" "1 / 10 ^ 18 \<le> (1 / 2 :: real)" by simp_all
  ultimately show ?thesis using round_value [OF assms(2)] by linarith
qed

lemma CalculateWithdrawal_fair:
  assumes run: "CalculateWithdrawal L P (nat_string R) (nat_string A) (nat_string U) (int_string w) asymmetry = Inr (n, e, left, sw)"
    and w: "0 < w" "w \<le> 10000" and U: "0 < U" "U \<le> P"
  shows "\<bar>real n - real R * real U * of_int w / (10000 * real P)\<bar> \<le> 1 + 4 * real R / 10 ^ 18"
    and "\<bar>real e - real A * real U * of_int w / (10000 * real P)\<bar> \<le> 1 + 4 * real A / 10 ^ 18"
    and "\<bar>real left - real U * (10000 - of_int w) / 10000\<bar> \<le> 1 + 4 * real U / 10 ^ 18"
proof -
  from run obtain Rd Ad Ud wd dh uh es ns lf where
    dec: "mustDec L (nat_string R) = Inr Rd" "mustDec L (nat_string A) = Inr Ad" "mustDec L (nat_string U) = Inr Ud"
      "mustDec L (int_string w) = Inr wd"
    and quo: "Dec_Quo L (NewDec L 10000) wd = Inr dh" "Dec_Quo L Ud dh = Inr uh"
    and share: "share_of L Ad (NewDec L (int P)) uh = Inr es" "share_of L Rd (NewDec L (int P)) uh = Inr ns"
    and left: "Dec_Sub L Ud uh = Inr lf"
    and round: "Uint_of_Dec L ns = Inr n" "Uint_of_Dec L es = Inr e" "Uint_of_Dec L lf = Inr left"
    unfolding CalculateWithdrawal_def Let_def by (simp only: res_simps sum.inject prod.inject) blast
  note val = mustDec_nat [OF dec(1)] mustDec_nat [OF dec(2)] mustDec_nat [OF dec(3)] mustDec_int [OF dec(4)]
  have P: "dec_value (NewDec L (int P)) = real P" by (simp only: dec_of_int dec_value_simps of_int_of_nat_eq)
  have dh: "\<bar>dec_value dh - 10000 / of_int w\<bar> \<le> 1 / 10 ^ 18"
    using quo_value(2) [OF quo(1)] by (simp only: dec_of_int dec_value_simps val of_int_numeral)
  have uh: "\<bar>dec_value uh - real U / dec_value dh\<bar> \<le> 1 / 10 ^ 18"
    using quo_value(2) [OF quo(2)] by (simp only: val)
  have w': "0 < real_of_int w" "real_of_int w \<le> 10000" "1 \<le> 10000 / real_of_int w" "10000 / real_of_int w \<le> 10000"
    using w by (simp_all add: divide_le_eq)
  have U': "1 \<le> real U" "real U \<le> dec_value (NewDec L (int P))" using U by (simp_all add: P)
  have eta: "1 / 10 ^ 18 \<le> (1 / 100000 :: real)" by simp
  then have "dec_value dh \<le> 10001" "0 < dec_value dh" using dh w' by linarith+
  then have "1 / 10001 \<le> real U / dec_value dh" using U'(1) by (intro frac_le) auto
  then have pos: "0 < dec_value uh" using uh eta by linarith
  note fair = share_value [OF _ _ w'(1,2) dh U' uh pos]
  show "\<bar>real n - real R * real U * of_int w / (10000 * real P)\<bar> \<le> 1 + 4 * real R / 10 ^ 18"
    using fair [OF share(2) round(1)] by (simp only: val P)
  show "\<bar>real e - real A * real U * of_int w / (10000 * real P)\<bar> \<le> 1 + 4 * real A / 10 ^ 18"
    using fair [OF share(1) round(2)] by (simp only: val P)
  have "\<bar>dec_value uh - real U / (10000 / of_int w)\<bar> \<le> 21 / 10 * (real U * (1 / 10 ^ 18))"
    by (rule claimed_units_error [OF _ _ U'(1) w'(3) dh uh]) simp_all
  moreover have "real U * (10000 - of_int w) / 10000 = real U - real U / (10000 / of_int w)"
    using w' by (simp add: field_simps)
  moreover have "dec_value lf = real U - dec_value uh"
    using dec_sub [OF left] val by simp
  moreover have "4 * real U / 10 ^ 18 = 4 * (real U * (1 / 10 ^ 18))" "0 \<le> real U * (1 / 10 ^ 18)" by simp_all
  ultimately show "\<bar>real left - real U * (10000 - of_int w) / 10000\<bar> \<le> 1 + 4 * real U / 10 ^ 18"
    using round_value [OF round(3)] by linarith
qed

end

subsection \<open>The rounding of swaps\<close>

text \<open>
  The products and the quotient of the swap formula, each off by at most \<open>\<eta>\<close>, on inputs whose
  relative error is at most \<open>\<eta>\<close>.
\<close>

lemma product_error:
  fixes a b a' b' \<eta> \<theta> :: real
  assumes "0 \<le> a" "0 \<le> b" "0 \<le> \<eta>" "0 \<le> \<theta>" "\<theta> \<le> 1" "\<bar>a' - a\<bar> \<le> \<eta> * a" "\<bar>b' - b\<bar> \<le> \<theta> * b"
  shows "\<bar>a' * b' - a * b\<bar> \<le> (2 * \<eta> + \<theta>) * (a * b)"
proof -
  have "a' * b' - a * b = (a' - a) * b' + a * (b' - b)" by (simp add: algebra_simps)
  moreover have "\<bar>b'\<bar> \<le> 2 * b" using assms mult_right_mono [of \<theta> 1 b] by linarith
  then have "\<bar>(a' - a) * b'\<bar> \<le> (\<eta> * a) * (2 * b)"
    using assms by (simp only: abs_mult) (intro mult_mono; simp)
  moreover have "\<bar>a * (b' - b)\<bar> \<le> a * (\<theta> * b)"
    using assms by (simp only: abs_mult) (intro mult_mono; simp)
  ultimately show ?thesis by (simp add: algebra_simps)
qed

lemma quotient_error:
  fixes N S c d' n' \<eta> :: real
  assumes "0 < \<eta>" "0 \<le> N" "0 < c" "1 \<le> S" "4 * N \<le> S * c" "\<bar>d' - S\<bar> \<le> 4 * (\<eta> * S)" "96 / 100 * S \<le> d'"
    and n: "\<bar>n' - N\<bar> \<le> 403 / 100 * (\<eta> * N) + 101 / 100 * (\<eta> * c) + \<eta>"
  shows "\<bar>n' / d' - N / S\<bar> \<le> 19 / 6 * (\<eta> * c) + 10 / 9 * \<eta>"
proof -
  have pos: "0 < S" "0 < d'" using assms by linarith+
  have "4 * (\<eta> * N) \<le> \<eta> * c * S" using mult_left_mono [of "4 * N" "S * c" \<eta>] assms by (simp add: mult_ac)
  moreover have "\<eta> * c * 1 \<le> \<eta> * c * S" "\<eta> * 1 \<le> \<eta> * S" using assms by (intro mult_left_mono; simp)+
  moreover have "0 \<le> \<eta> * c * S" using assms by simp
  ultimately have "\<bar>n' - N\<bar> \<le> 202 / 100 * (\<eta> * c * S) + \<eta> * S" using n by linarith
  also have "\<dots> = (202 / 100 * (\<eta> * c) + \<eta>) * S" by (simp add: algebra_simps)
  finally have "\<bar>n' - N\<bar> \<le> (202 / 100 * (\<eta> * c) + \<eta>) * S" .
  then have "\<bar>n' - N\<bar> / d' \<le> (202 / 100 * (\<eta> * c) + \<eta>) * S / (96 / 100 * S)"
    using assms pos by (intro frac_le) auto
  also have "\<dots> = (202 / 100 * (\<eta> * c) + \<eta>) / (96 / 100)" using pos by simp
  also have "\<dots> = 202 / 96 * (\<eta> * c) + 100 / 96 * \<eta>" by simp
  finally have first: "\<bar>(n' - N) / d'\<bar> \<le> 202 / 96 * (\<eta> * c) + 100 / 96 * \<eta>" using pos by simp
  have "96 / 100 * S * S \<le> d' * S" using assms pos by (intro mult_right_mono) auto
  then have "\<bar>N / d' - N / S\<bar> \<le> 1 / (96 / 100 * S * S) * (N * (4 * (\<eta> * S)))"
    using assms pos by (intro quotient_shift) auto
  also have "\<dots> = 100 / 96 * \<eta> * (4 * N / S)" using pos by simp
  also have "\<dots> \<le> 100 / 96 * \<eta> * c"
    using assms pos by (intro mult_left_mono) (auto simp: divide_le_eq mult.commute)
  finally have "\<bar>N / d' - N / S\<bar> \<le> 100 / 96 * (\<eta> * c)" by simp
  moreover have "n' / d' - N / S = (n' - N) / d' + (N / d' - N / S)" by (simp add: diff_divide_distrib)
  moreover have "0 < \<eta> * c" using assms by simp
  ultimately show ?thesis using first assms(1) by linarith
qed

lemma swap_error:
  fixes a b c a' b' c' d' m' n' q' \<eta> :: real
  assumes eta: "0 < \<eta>" "\<eta> \<le> 1 / 100" and pos: "0 < a" "0 < b" "0 < c" "1 \<le> a + b"
    and rel: "\<bar>a' - a\<bar> \<le> \<eta> * a" "\<bar>b' - b\<bar> \<le> \<eta> * b" "\<bar>c' - c\<bar> \<le> \<eta> * c"
    and d: "\<bar>d' - (b' + a') * (b' + a')\<bar> \<le> \<eta>" and m: "\<bar>m' - b' * a'\<bar> \<le> \<eta>" and n: "\<bar>n' - m' * c'\<bar> \<le> \<eta>"
    and q: "\<bar>q' - n' / d'\<bar> \<le> \<eta>"
  shows "\<bar>q' - b * a * c / (b + a)\<^sup>2\<bar> \<le> 4 * (\<eta> * (c + 1))"
proof -
  define S where "S = (b + a) * (b + a)"
  define N where "N = b * a * c"
  have S: "1 \<le> S" using mult_mono [of 1 "b + a" 1 "b + a"] pos by (simp add: S_def)
  have "4 * (b * a) \<le> S" using zero_le_power2 [of "b - a"] by (simp add: S_def power2_eq_square algebra_simps)
  then have NS: "4 * N \<le> S * c" using mult_right_mono [of "4 * (b * a)" S c] pos by (simp add: N_def)
  have "\<bar>(b' + a') - (b + a)\<bar> \<le> \<eta> * (b + a)" using rel by (simp add: algebra_simps)
  from product_error [OF _ _ _ _ _ this this] have "\<bar>(b' + a') * (b' + a') - S\<bar> \<le> 3 * \<eta> * S"
    using pos eta by (simp add: S_def)
  moreover have "\<eta> \<le> \<eta> * S" using S eta by simp
  ultimately have d0: "\<bar>d' - S\<bar> \<le> 4 * \<eta> * S" using d by linarith
  moreover have "4 * \<eta> * S \<le> 4 / 100 * S" using eta S by (intro mult_right_mono) auto
  ultimately have d1: "96 / 100 * S \<le> d'" by linarith
  have "\<bar>b' * a' - b * a\<bar> \<le> 3 * \<eta> * (b * a)"
    using product_error [OF _ _ _ _ _ rel(2,1)] pos eta by simp
  then have m0: "\<bar>m' - b * a\<bar> \<le> 3 * \<eta> * (b * a) + \<eta>" using m by linarith
  have c0: "\<bar>c'\<bar> \<le> 101 / 100 * c" using rel(3) eta mult_right_mono [of \<eta> "1 / 100" c] pos by linarith
  have "\<bar>(m' - b * a) * c'\<bar> \<le> (3 * \<eta> * (b * a) + \<eta>) * (101 / 100 * c)"
    using m0 c0 by (simp only: abs_mult) (intro mult_mono; simp)
  moreover have "\<bar>b * a * (c' - c)\<bar> \<le> b * a * (\<eta> * c)"
    using rel(3) pos by (simp only: abs_mult) (intro mult_mono; simp)
  moreover have "m' * c' - N = (m' - b * a) * c' + b * a * (c' - c)" by (simp add: N_def algebra_simps)
  moreover have "(3 * \<eta> * (b * a) + \<eta>) * (101 / 100 * c) = 303 / 100 * (\<eta> * N) + 101 / 100 * (\<eta> * c)"
    "b * a * (\<eta> * c) = \<eta> * N" by (simp_all add: N_def algebra_simps)
  ultimately have n0: "\<bar>n' - N\<bar> \<le> 403 / 100 * (\<eta> * N) + 101 / 100 * (\<eta> * c) + \<eta>" using n by linarith
  have "\<bar>n' / d' - N / S\<bar> \<le> 19 / 6 * (\<eta> * c) + 10 / 9 * \<eta>"
    by (rule quotient_error [OF eta(1) _ pos(3) S NS _ d1 n0]) (use pos d0 in \<open>simp_all add: N_def\<close>)
  moreover have "0 < \<eta> * c" "4 * (\<eta> * (c + 1)) = 4 * (\<eta> * c) + 4 * \<eta>" using eta pos by (simp_all add: algebra_simps)
  ultimately have "\<bar>q' - N / S\<bar> \<le> 4 * (\<eta> * (c + 1))" using q eta by linarith
  then show ?thesis by (simp add: N_def S_def power2_eq_square)
qed

text \<open>The common scale of the inputs never exceeds one of them, unless it is the least one, a million.\<close>

lemma nat_string_length: "0 < n \<Longrightarrow> 10 ^ (length (nat_string n) - 1) \<le> n"
proof (induction n rule: nat_string.induct)
  case (1 n)
  show ?case
  proof (cases "n < 10")
    case False
    with 1 have "10 ^ (length (nat_string (n div 10)) - 1) \<le> n div 10" by simp
    then have "10 * 10 ^ (length (nat_string (n div 10)) - 1) \<le> n" by simp
    moreover have "0 < length (nat_string (n div 10))" by simp
    ultimately show ?thesis
      using False by (simp add: nat_string.simps [of n] power_eq_if [of 10 "length (nat_string (n div 10))"])
  qed (use 1 in \<open>simp add: nat_string.simps\<close>)
qed

lemma input_lens_start: "fst (input_lens vs lo hi) \<le> lo"
proof (induction vs arbitrary: lo hi)
  case (Cons u vs)
  show ?case
    by (auto simp: Let_def intro: order_trans [OF Cons.IH])
qed simp

lemma input_lens_le: "v \<in> set vs \<Longrightarrow> fst (input_lens vs lo hi) \<le> int (length (nat_string v))"
proof (induction vs arbitrary: lo hi)
  case (Cons u vs)
  then show ?case
    by (auto simp: Let_def not_less intro: order_trans [OF input_lens_start])
qed simp

lemma GetMinLen_fits:
  assumes "v \<in> set vs" and "0 < v"
  shows "nat (GetMinLen vs) = 6 \<or> 10 ^ nat (GetMinLen vs) \<le> v"
proof -
  obtain lo hi where lens: "input_lens vs (2 ^ 63 - 1) 1 = (lo, hi)" by fastforce
  have "lo \<le> int (length (nat_string v))" using input_lens_le [OF assms(1), of "2 ^ 63 - 1" 1] lens by simp
  moreover have "GetMinLen vs = 6 \<or> GetMinLen vs < lo" unfolding GetMinLen_def lens by auto
  ultimately have "nat (GetMinLen vs) = 6 \<or> nat (GetMinLen vs) \<le> length (nat_string v) - 1" by linarith
  then show ?thesis
    using nat_string_length [OF assms(2)] power_increasing [of "nat (GetMinLen vs)" _ "10 :: nat"]
    by (metis order_trans one_le_numeral)
qed

context lib_laws
begin

lemma mul_value:
  assumes "Dec_Mul L a b = Inr c"
  shows "\<bar>dec_value c - dec_value a * dec_value b\<bar> \<le> 1 / 10 ^ 18"
proof -
  have "of_int (2 * \<bar>c * one_dec - a * b\<bar>) \<le> (of_int one_dec :: real)"
    using dec_mul [OF assms] by (simp only: of_int_le_iff)
  moreover have "of_int (c * one_dec - a * b) = (dec_value c - dec_value a * dec_value b) * 10 ^ 36"
    by (simp add: dec_value_def field_simps)
  ultimately have "2 * (\<bar>dec_value c - dec_value a * dec_value b\<bar> * 10 ^ 36) \<le> 10 ^ 18"
    by (simp only: of_int_mult of_int_abs abs_mult) simp
  then show ?thesis by simp
qed

lemma power_value: "Dec_Power L (NewDec L 10) k = Inr p \<Longrightarrow> p = 10 ^ k * one_dec"
  using dec_power [of 10 k p] by (simp add: dec_of_int)

lemma reduce_value:
  assumes run: "ReducePrecision L (NewDec L (int n)) m = Inr c" and fits: "nat m = 6 \<or> 10 ^ nat m \<le> n"
  shows "\<bar>dec_value c - real n / 10 ^ nat m\<bar> \<le> 1 / 10 ^ 18 * (real n / 10 ^ nat m)"
proof -
  from run have quo: "Dec_Quo L (int n * one_dec) (10 ^ nat m * one_dec) = Inr c"
    unfolding ReducePrecision_def by (auto simp only: res_simps power_value dec_of_int [of "int n"] dest!: power_value)
  show ?thesis
  proof (cases "nat m = 6")
    case True
    then have "c = int n * 10 ^ 12" using dec_quo_exact [OF quo, of "int n * 10 ^ 12"] by simp
    then show ?thesis using True by (simp add: dec_value_def)
  next
    case False
    then have "10 ^ nat m \<le> real n" using fits of_nat_mono [of "10 ^ nat m" n] by simp
    then have "1 / 10 ^ 18 * 1 \<le> 1 / 10 ^ 18 * (real n / 10 ^ nat m)" by (intro mult_left_mono) simp_all
    moreover have "dec_value (int n * one_dec) / dec_value (10 ^ nat m * one_dec) = real n / 10 ^ nat m"
      by (simp only: dec_value_simps) simp
    ultimately show ?thesis using quo_value(2) [OF quo] by (simp only:)
  qed
qed

lemma increase_value:
  assumes "IncreasePrecision L d m = Inr c"
  shows "\<bar>dec_value c - dec_value d * 10 ^ nat m\<bar> \<le> 1 / 10 ^ 18"
proof -
  from assms have mul: "Dec_Mul L d (10 ^ nat m * one_dec) = Inr c"
    unfolding IncreasePrecision_def by (auto simp only: res_simps dest!: power_value)
  have "dec_value (10 ^ nat m * one_dec) = 10 ^ nat m" by (simp only: dec_value_simps) simp
  with mul_value [OF mul] show ?thesis by (simp only:)
qed

lemma scale_inputs_pos:
  assumes "scale_inputs L toRowan nf adjust X x Y = Inr (X', x', Y')" and "1 \<le> dec_value nf" and "0 < X" "0 < x" "0 < Y"
  shows "0 < X'" "0 < x'" "0 < Y'"
proof -
  from assms(1) obtain f where f: "Uint_of_Dec L nf = Inr f" and "X' \<in> {X, X * f}" "x' \<in> {x, x * f}" "Y' \<in> {Y, Y * f}"
    by (auto simp: scale_inputs_def res_simps split: if_splits)
  moreover have "0 < real f" using round_value [OF f] assms(2) by linarith
  ultimately show "0 < X'" "0 < x'" "0 < Y'" using assms(3-5) by auto
qed

lemma scaled_back:
  assumes "(if \<not> toRowan then Dec_Quo L y1 nf else Inr y1) = Inr y2" and "1 \<le> dec_value nf"
  shows "\<bar>dec_value y2 - E / (if toRowan then 1 else dec_value nf)\<bar> \<le> \<bar>dec_value y1 - E\<bar> + 1 / 10 ^ 18"
proof -
  define F where "F = (if toRowan then 1 else dec_value nf)"
  have F: "1 \<le> F" using assms(2) by (simp add: F_def)
  then have "\<bar>dec_value y1 - E\<bar> / F \<le> \<bar>dec_value y1 - E\<bar> / 1" by (intro divide_left_mono) auto
  moreover have "\<bar>dec_value y1 / F - E / F\<bar> = \<bar>dec_value y1 - E\<bar> / F"
    using F by (simp add: abs_divide flip: diff_divide_distrib)
  ultimately have "\<bar>dec_value y1 / F - E / F\<bar> \<le> \<bar>dec_value y1 - E\<bar>" by simp
  moreover have "\<bar>dec_value y2 - dec_value y1 / F\<bar> \<le> 1 / 10 ^ 18"
    using assms(1) quo_value(2) [of y1 nf y2] by (auto simp: F_def split: if_splits)
  ultimately have "\<bar>dec_value y2 - E / F\<bar> \<le> \<bar>dec_value y1 - E\<bar> + 1 / 10 ^ 18" by linarith
  then show ?thesis by (simp only: F_def)
qed

lemma CalcSwapResult_price:
  assumes run: "CalcSwapResult L toRowan nf adjust X x Y = Inr y" and pos: "0 < X" "0 < x" "0 < Y"
    and scale: "scale_inputs L toRowan nf adjust X x Y = Inr (X', x', Y')"
    and nf: "1 \<le> dec_value nf" and k: "nat (GetMinLen [X', x', Y']) = k" "10 ^ k \<le> X' + x'"
  shows "\<bar>real y - real x' * real X' * real Y' / (real x' + real X')\<^sup>2 / (if toRowan then 1 else dec_value nf)\<bar>
    \<le> 1 + 4 * (real Y' + 10 ^ k) / 10 ^ 18"
proof -
  note pos' = scale_inputs_pos [OF scale nf pos]
  let ?m = "GetMinLen [X', x', Y']"
  from run pos scale obtain Xd xd Yd s d xX n q y1 y2 where
    red: "ReducePrecision L (NewDec L (int X')) ?m = Inr Xd" "ReducePrecision L (NewDec L (int x')) ?m = Inr xd"
      "ReducePrecision L (NewDec L (int Y')) ?m = Inr Yd"
    and ops: "Dec_Add L xd Xd = Inr s" "Dec_Mul L s s = Inr d" "Dec_Mul L xd Xd = Inr xX" "Dec_Mul L xX Yd = Inr n"
      "Dec_Quo L n d = Inr q" "IncreasePrecision L q ?m = Inr y1"
    and fin: "(if \<not> toRowan then Dec_Quo L y1 nf else Inr y1) = Inr y2" "Uint_of_Dec L y2 = Inr y"
    unfolding CalcSwapResult_def Let_def by (auto simp: res_simps)
  define a b c where abc: "a = real X' / 10 ^ k" "b = real x' / 10 ^ k" "c = real Y' / 10 ^ k"
  define E where "E = real x' * real X' * real Y' / (real x' + real X')\<^sup>2"
  have fits: "nat ?m = 6 \<or> 10 ^ nat ?m \<le> v" if "v \<in> {X', x', Y'}" for v
    using GetMinLen_fits [of v "[X', x', Y']"] that pos' by auto
  have "10 ^ k \<le> real X' + real x'" using k(2) of_nat_mono [of "10 ^ k" "X' + x'"] by simp
  then have large: "1 \<le> a + b" by (simp add: abc flip: add_divide_distrib)
  have "dec_value s = dec_value xd + dec_value Xd" using dec_add [OF ops(1)] by simp
  note sq = mul_value [OF ops(2), unfolded this]
  have "\<bar>dec_value q - b * a * c / (b + a)\<^sup>2\<bar> \<le> 4 * (1 / 10 ^ 18 * (c + 1))"
    by (rule swap_error [OF _ _ _ _ _ large _ _ _ sq mul_value [OF ops(3)] mul_value [OF ops(4)] quo_value(2) [OF ops(5)]])
      (use reduce_value [OF red(1)] reduce_value [OF red(2)] reduce_value [OF red(3)] fits pos' k(1) in \<open>simp_all add: abc\<close>)
  moreover have "b * a * c / (b + a)\<^sup>2 = E / 10 ^ k"
    by (simp add: abc E_def power2_eq_square field_simps)
  ultimately have "\<bar>dec_value q - E / 10 ^ k\<bar> * 10 ^ k \<le> 4 * (1 / 10 ^ 18 * (c + 1)) * 10 ^ k"
    by (intro mult_right_mono) simp_all
  moreover have "\<bar>dec_value q - E / 10 ^ k\<bar> * 10 ^ k = \<bar>dec_value q * 10 ^ k - E\<bar>"
    "4 * (1 / 10 ^ 18 * (c + 1)) * 10 ^ k = 4 * (real Y' + 10 ^ k) / 10 ^ 18"
    by (simp_all add: abs_mult_pos' field_simps abc)
  ultimately have "\<bar>dec_value y1 - E\<bar> \<le> 1 / 10 ^ 18 + 4 * (real Y' + 10 ^ k) / 10 ^ 18"
    using increase_value [OF ops(6), unfolded k(1)] by linarith
  moreover have "1 / 10 ^ 18 \<le> (1 / 100 :: real)" by simp
  ultimately show ?thesis
    using scaled_back [OF fin(1) nf, of E] round_value [OF fin(2)] unfolding E_def by linarith
qed

end

subsection \<open>Properties\<close>

text \<open>C6. Withdrawals are fair: what a provider is paid of either side, and the units that are left, differ from the
  exact proportional share by at most one token and four parts in \<open>10 ^ 18\<close> of the pool's side.\<close>

theorem clp_withdrawal_fair:
  assumes "lib_laws L" and "0 < w" and "w \<le> 10000" and "0 < U" and "U \<le> P"
    and "CalculateWithdrawal L P (nat_string R) (nat_string A) (nat_string U) (int_string w) asymmetry = Inr (n, e, left, sw)"
  shows "\<bar>real n - real R * real U * of_int w / (10000 * real P)\<bar> \<le> 1 + 4 * real R / 10 ^ 18 \<and>
    \<bar>real e - real A * real U * of_int w / (10000 * real P)\<bar> \<le> 1 + 4 * real A / 10 ^ 18 \<and>
    \<bar>real left - real U * (10000 - of_int w) / 10000\<bar> \<le> 1 + 4 * real U / 10 ^ 18"
  using lib_laws.CalculateWithdrawal_fair [OF assms(1,6,2-5)] by blast

theorem clp_withdrawal_fair_witness:
  "CalculateWithdrawal ref_lib 1000000 (nat_string 1000000) (nat_string 4) (nat_string 1000000) (int_string 1000) 10000
     = Inr (100000, 0, 900000, 100000) \<and>
   \<bar>real 0 - real 4 * real 1000000 * of_int 1000 / (10000 * real 1000000)\<bar> \<le> 1 + 4 * real 4 / 10 ^ 18"
proof -
  have run: "CalculateWithdrawal ref_lib 1000000 (nat_string 1000000) (nat_string 4) (nat_string 1000000) (int_string 1000) 10000
     = Inr (100000, 0, 900000, 100000)"
    using lib_laws.flaw_withdrawal [OF ref.lib_laws_axioms] by (simp add: int_string_def)
  from clp_withdrawal_fair [OF ref.lib_laws_axioms _ _ _ _ run] run show ?thesis by simp
qed

text \<open>C4. Swaps follow the formula: the result differs from \<open>x X Y / (x + X)\<^sup>2\<close>, for the amount \<open>x\<close> sent, the pool's
  balances \<open>X\<close> and \<open>Y\<close> of the sent and the received side after the scaling to eighteen decimals, and scaled
  back, by at most one token and four parts in \<open>10 ^ 18\<close> of \<open>Y\<close> and of the common scale \<open>10 ^ k\<close>.\<close>

theorem clp_swap_price:
  assumes "lib_laws L" and "CalcSwapResult L toRowan nf adjust X x Y = Inr y" and "0 < X" and "0 < x" and "0 < Y"
    and "scale_inputs L toRowan nf adjust X x Y = Inr (X', x', Y')" and "1 \<le> dec_value nf"
    and "nat (GetMinLen [X', x', Y']) = k" and "10 ^ k \<le> X' + x'"
  shows "\<bar>real y - real x' * real X' * real Y' / (real x' + real X')\<^sup>2 / (if toRowan then 1 else dec_value nf)\<bar>
    \<le> 1 + 4 * (real Y' + 10 ^ k) / 10 ^ 18"
  using lib_laws.CalcSwapResult_price [OF assms] .

theorem clp_swap_price_witness:
  "CalcSwapResult ref_lib False 1000000000000000000 False 500000 500000 4000000 = Inr 1000000 \<and>
   \<bar>real 1000000 - real 500000 * real 500000 * real 4000000 / (real 500000 + real 500000)\<^sup>2 / 1\<bar>
     \<le> 1 + 4 * (real 4000000 + 10 ^ 6) / 10 ^ 18"
proof -
  have run: "CalcSwapResult ref_lib False 1000000000000000000 False 500000 500000 4000000 = Inr 1000000"
    by (rule lib_laws.even_result [OF ref.lib_laws_axioms])
  from clp_swap_price [OF ref.lib_laws_axioms run _ _ _ lib_laws.even_scale [OF ref.lib_laws_axioms], of 6] run
  show ?thesis by (simp add: dec_value_def even_len)
qed

end
