(* ===== verification/ClpLiquidity.thy ===== *)
theory ClpLiquidity
  imports ClpProperties
begin

section \<open>Effects of deposits, withdrawals and closing a pool\<close>

text \<open>
  What \<open>AddLiquidity\<close>, \<open>RemoveLiquidity\<close> (symmetric) and \<open>DecommissionPool\<close> of \<open>x/clp/keeper/msg_server.go\<close> do, exactly:
  the store after the handler as an update of the store before, and the balance of every account
  in every denomination.
\<close>

subsection \<open>Deposits and withdrawals\<close>

text \<open>
  What the two sides of a pool move: \<open>e\<close> of the external token and \<open>n\<close> of the native one. The
  provider's key is unambiguous when neither token nor address contains the separator, which
  no denomination and no Bech32 address does.
\<close>

definition two_sided :: "asset \<Rightarrow> nat \<Rightarrow> nat \<Rightarrow> string \<Rightarrow> int" where
  "two_sided asset e n d = amount_if (Symbol asset = d) (int e) + amount_if (NativeSymbol = d) (int n)"

lemma GetLiquidityProvider_ext [simp]: "GetLiquidityProvider (c\<lparr>ext := x\<rparr>) s a = GetLiquidityProvider c s a"
  by (simp add: GetLiquidityProvider_def)

lemma stored_provider:
  assumes "clp_wf c" and "GetLiquidityProvider c s a = Inr lp" and "CHR ''_'' \<notin> set s" and "CHR ''_'' \<notin> set a"
  obtains asset where "lp_Asset lp = Some asset" "Symbol asset = s" "LiquidityProviderAddress lp = a"
proof -
  have "kv_get (clp_store c) (GetLiquidityProviderKey s a) = Some (V_LP lp)"
    using assms(2) by (simp add: GetLiquidityProvider_def split: option.splits clp_value.splits)
  from clp_wf_get [OF assms(1) this] obtain asset where asset: "lp_Asset lp = Some asset"
    and "GetLiquidityProviderKey s a = GetLiquidityProviderKey (Symbol asset) (LiquidityProviderAddress lp)"
    by (auto simp: entry_ok_def split: option.splits)
  then have key: "s @ CHR ''_'' # a = Symbol asset @ CHR ''_'' # LiquidityProviderAddress lp"
    by (simp add: GetLiquidityProviderKey_def)
  have "CHR ''_'' \<notin> set (Symbol asset)"
    using arg_cong [where f = "\<lambda>x. count_list x CHR ''_''", OF key] assms(3,4)
    by (simp add: count_list_0_iff [symmetric])
  with key assms(3) have "Symbol asset = s \<and> LiquidityProviderAddress lp = a"
    by (auto dest: append_sep_inj)
  with asset that show thesis by blast
qed

lemma Asset_Validate_cong: "Symbol a = Symbol b \<Longrightarrow> Asset_Validate L a = Asset_Validate L b"
  by (simp add: Asset_Validate_def)

lemma SetPool_stores:
  assumes "SetPool L c p = Inr c'" and "ExternalAsset p = Some a"
  shows "kv_get (clp_store c') = (kv_get (clp_store c))(GetPoolKey (Symbol a) NativeSymbol \<mapsto> V_Pool p)"
    and "ext c' = ext c" and "Asset_Validate L a = Inr True"
  using assms by (auto simp: SetPool_def Pool_Validate_def res_simps kv_get_set fun_eq_iff)

lemma SetLiquidityProvider_stores:
  assumes "SetLiquidityProvider L c lp = Inr c'" and "lp_Asset lp = Some b" and "Asset_Validate L b = Inr True"
  shows "kv_get (clp_store c') = (kv_get (clp_store c))(GetLiquidityProviderKey (Symbol b) (LiquidityProviderAddress lp) \<mapsto> V_LP lp)"
    and "ext c' = ext c"
  using assms by (auto simp: SetLiquidityProvider_def LiquidityProvider_Validate_def res_simps kv_get_set fun_eq_iff)

context lib_laws
begin

lemma clp_RemoveLiquidity_exact:
  assumes run: "clp_RemoveLiquidity L c p e n lp left eb nb = Inr c'"
    and amounts: "0 \<le> coin_amount e" "0 \<le> coin_amount n"
    and p: "ExternalAsset p = Some a" and lp: "lp_Asset lp = Some b" "Symbol b = Symbol a"
    and addr: "AccAddressFromBech32 L (LiquidityProviderAddress lp) = Inr addr"
  shows "coin_amount e < int eb \<and> coin_amount n < int nb \<and>
    kv_get (clp_store c') = (kv_get (clp_store c))(GetPoolKey (Symbol a) NativeSymbol \<mapsto> V_Pool p,
      GetLiquidityProviderKey (Symbol a) (LiquidityProviderAddress lp) :=
        if left = 0 then None else Some (V_LP (lp\<lparr>LiquidityProviderUnits := left\<rparr>))) \<and>
    bal L c' x d = bal L c x d + moved [e, n] (GetCLPModuleAddress L) addr x d"
proof -
  from run addr obtain cs0 cs1 cs2 c1 c2 where
    cs0: "NewCoins L [] = Inr cs0"
    and cs1: "(if coin_amount e \<noteq> 0 \<and> \<not> coin_amount e < 0 then Coins_Add L cs0 [e] else Inr cs0) = Inr cs1"
    and cs2: "(if coin_amount n \<noteq> 0 \<and> \<not> coin_amount n < 0 then Coins_Add L cs1 [n] else Inr cs1) = Inr cs2"
    and deep: "\<not> (coin_amount e \<ge> int eb \<or> coin_amount n \<ge> int nb)"
    and set: "SetPool L c p = Inr c1"
    and send: "(if cs2 \<noteq> [] then
              bindE (guardE (list_all (HasBalance L (ext c1) (GetCLPModuleAddress L)) cs2) (Clp ErrNotEnoughLiquidity)) (\<lambda>_.
              bank (\<lambda>x. SendCoinsFromModuleToAccount L x clp_ModuleName addr cs2) c1)
            else Inr c1) = Inr c2"
    and fin: "(if left = 0 then
       bindE (deref (lp_Asset lp)) (\<lambda>asset.
       Inr (DestroyLiquidityProvider c2 (Symbol asset) (LiquidityProviderAddress lp)))
     else SetLiquidityProvider L c2 (lp\<lparr>LiquidityProviderUnits := left\<rparr>)) = Inr c'"
    unfolding clp_RemoveLiquidity_def by (simp only: res_simps sum.inject) blast
  have amt: "AmountOf cs2 d = AmountOf [e, n] d"
    using cs1 cs2 new_coins_amount [OF cs0, of d] amounts
    by (auto dest!: coins_add_amount [where d = d] split: if_splits)
  have c2: "clp_store c2 = clp_store c1" "bal L c2 x d = bal L c1 x d + moved cs2 (GetCLPModuleAddress L) addr x d"
    using send bal_from_module [of clp_ModuleName addr cs2 c1 c2 x d]
    by (auto simp: res_simps GetCLPModuleAddress_def moved_def split: if_splits)
  note set' = SetPool_stores [OF set p]
  have "Asset_Validate L b = Inr True" using set'(3) Asset_Validate_cong [OF lp(2), of L] by simp
  then have "kv_get (clp_store c') = (kv_get (clp_store c2))(GetLiquidityProviderKey (Symbol a) (LiquidityProviderAddress lp) :=
        if left = 0 then None else Some (V_LP (lp\<lparr>LiquidityProviderUnits := left\<rparr>))) \<and> ext c' = ext c2"
    using fin lp SetLiquidityProvider_stores [of L c2 "lp\<lparr>LiquidityProviderUnits := left\<rparr>" c' b]
    by (auto simp: res_simps DestroyLiquidityProvider_def Let_def kv_get_delete kv_has_def fun_eq_iff split: if_splits)
  with deep c2 set' amt show ?thesis by (auto simp: bal_def moved_def)
qed


lemma added_provider:
  assumes wf: "clp_wf c" and asset: "CHR ''_'' \<notin> set (Symbol asset)" "CHR ''_'' \<notin> set s"
    and addr: "AccAddress_String L addr = s" and valid: "Asset_Validate L asset = Inr True"
    and found: "(\<exists>e. GetLiquidityProvider c (Symbol asset) s = Inl e \<and> e \<noteq> Panic \<and> found = None) \<or>
      (\<exists>lp. GetLiquidityProvider c (Symbol asset) s = Inr lp \<and> found = Some lp)"
    and run: "(case found of Some lp \<Rightarrow> Inr (lp, lu, c)
      | None \<Rightarrow> bindE (CreateLiquidityProvider L c (Some asset) lu addr) (\<lambda>(lp, c). Inr (lp, 0, EmitEvents (es lp c) c)))
      = Inr (lp1, u1, c1)"
    and lp2: "lp2 = lp1\<lparr>LiquidityProviderUnits := LiquidityProviderUnits lp1 + u1\<rparr>"
  obtains b v where "lp_Asset lp2 = Some b" "Symbol b = Symbol asset" "LiquidityProviderAddress lp2 = s" "ext c1 = ext c"
    "lp2 = (case GetLiquidityProvider c (Symbol asset) s of
         Inr lp \<Rightarrow> lp\<lparr>LiquidityProviderUnits := LiquidityProviderUnits lp + lu\<rparr>
       | Inl _ \<Rightarrow> NewLiquidityProvider L (Some asset) lu addr)"
    "kv_get (clp_store c1) = (kv_get (clp_store c))(GetLiquidityProviderKey (Symbol asset) s := v)"
proof (cases found)
  case None
  with run obtain c0 where lp1: "lp1 = NewLiquidityProvider L (Some asset) lu addr" "u1 = 0"
    and set: "SetLiquidityProvider L c lp1 = Inr c0" and c1: "clp_store c1 = clp_store c0" "ext c1 = ext c0"
    by (auto simp: CreateLiquidityProvider_def Let_def res_simps)
  have "lp_Asset lp1 = Some asset" by (simp add: lp1 NewLiquidityProvider_def)
  from SetLiquidityProvider_stores [OF set this valid] None found show thesis
    by (intro that [of asset "Some (V_LP lp1)"]) (auto simp: c1 lp1 lp2 NewLiquidityProvider_def addr)
next
  case (Some lp)
  with found run have lp: "GetLiquidityProvider c (Symbol asset) s = Inr lp" "lp1 = lp" "u1 = lu" "c1 = c" by auto
  obtain b where "lp_Asset lp = Some b" "Symbol b = Symbol asset" "LiquidityProviderAddress lp = s"
    using stored_provider [OF wf lp(1) asset] by metis
  then show thesis
    by (intro that [of b "kv_get (clp_store c) (GetLiquidityProviderKey (Symbol asset) s)"]) (simp_all add: lp lp2)
qed

lemma clp_AddLiquidity_exact:
  assumes run: "clp_AddLiquidity L c msg p pu lu = Inr (lp', c')" and wf: "clp_wf c"
    and asset: "mal_ExternalAsset msg = Some asset" "CHR ''_'' \<notin> set (Symbol asset)" "CHR ''_'' \<notin> set (mal_Signer msg)"
    and p: "ExternalAsset p = Some a" "Symbol a = Symbol asset"
    and addr: "AccAddressFromBech32 L (mal_Signer msg) = Inr addr" "AccAddress_String L addr = mal_Signer msg"
  shows "kv_get (clp_store c') = (kv_get (clp_store c))(GetPoolKey (Symbol asset) NativeSymbol \<mapsto>
        V_Pool (p\<lparr>PoolUnits := pu, NativeAssetBalance := NativeAssetBalance p + mal_NativeAssetAmount msg,
          ExternalAssetBalance := ExternalAssetBalance p + mal_ExternalAssetAmount msg\<rparr>),
      GetLiquidityProviderKey (Symbol asset) (mal_Signer msg) \<mapsto> V_LP
        (case GetLiquidityProvider c (Symbol asset) (mal_Signer msg) of
           Inr lp \<Rightarrow> lp\<lparr>LiquidityProviderUnits := LiquidityProviderUnits lp + lu\<rparr>
         | Inl _ \<Rightarrow> NewLiquidityProvider L (Some asset) lu addr)) \<and>
    bal L c' x d = bal L c x d + amount_if (x = GetCLPModuleAddress L)
        (two_sided asset (mal_ExternalAssetAmount msg) (mal_NativeAssetAmount msg) d)
      - amount_if (x = addr) (two_sided asset (mal_ExternalAssetAmount msg) (mal_NativeAssetAmount msg) d)"
proof -
  from run asset addr obtain cs0 coins y found lp1 u1 lp2 c1 c2 p' where
    cs0: "Coins_Add L [] [\<lparr>coin_denom = Symbol asset, coin_amount = int (mal_ExternalAssetAmount msg)\<rparr>] = Inr cs0"
    and coins: "Coins_Add L cs0 [\<lparr>coin_denom = NativeSymbol, coin_amount = int (mal_NativeAssetAmount msg)\<rparr>] = Inr coins"
    and send: "SendCoinsFromAccountToModule L (ext c) addr clp_ModuleName coins = (y, None)"
    and p': "p' = p\<lparr>PoolUnits := pu, NativeAssetBalance := NativeAssetBalance p + mal_NativeAssetAmount msg,
               ExternalAssetBalance := ExternalAssetBalance p + mal_ExternalAssetAmount msg\<rparr>"
    and att: "(\<exists>e. GetLiquidityProvider (c\<lparr>ext := y\<rparr>) (Symbol asset) (mal_Signer msg) = Inl e \<and> e \<noteq> Panic \<and> found = None) \<or>
      (\<exists>lp. GetLiquidityProvider (c\<lparr>ext := y\<rparr>) (Symbol asset) (mal_Signer msg) = Inr lp \<and> found = Some lp)"
    and found: "(case found of Some lp \<Rightarrow> Inr (lp, lu, c\<lparr>ext := y\<rparr>)
            | None \<Rightarrow>
                bindE (CreateLiquidityProvider L (c\<lparr>ext := y\<rparr>) (Some asset) lu addr) (\<lambda>(lp, c).
                Inr (lp, 0, EmitEvents [Event ''created_new_liquidity_provider''
                  [(''liquidity_provider'', LiquidityProvider_String L lp), height_attr c]] c))) = Inr (lp1, u1, c1)"
    and set: "SetPool L c1 p' = Inr c2"
    and lp2: "lp2 = lp1\<lparr>LiquidityProviderUnits := LiquidityProviderUnits lp1 + u1\<rparr>"
    and setlp: "SetLiquidityProvider L c2 lp2 = Inr c'"
    unfolding clp_AddLiquidity_def
    by (simp only: Let_def res_simps GetSettlementAsset_def asset.simps option.inject sum.inject prod.inject) blast
  have "ExternalAsset p' = Some a" by (simp add: p' p)
  note set' = SetPool_stores [OF set this]
  have valid: "Asset_Validate L b = Inr True" if "Symbol b = Symbol asset" for b
    using set'(3) Asset_Validate_cong [of b a L] p(2) that by simp
  have amt: "AmountOf coins d = two_sided asset (mal_ExternalAssetAmount msg) (mal_NativeAssetAmount msg) d"
    using coins_add_amount [OF coins, of d] coins_add_amount [OF cs0, of d] by (simp add: two_sided_def amount_if_def)
  have "clp_wf (c\<lparr>ext := y\<rparr>)" using wf by simp
  then obtain b v where b: "lp_Asset lp2 = Some b" "Symbol b = Symbol asset" "LiquidityProviderAddress lp2 = mal_Signer msg"
    and lp2': "lp2 = (case GetLiquidityProvider c (Symbol asset) (mal_Signer msg) of
           Inr lp \<Rightarrow> lp\<lparr>LiquidityProviderUnits := LiquidityProviderUnits lp + lu\<rparr>
         | Inl _ \<Rightarrow> NewLiquidityProvider L (Some asset) lu addr)"
    and c1: "ext c1 = y"
      "kv_get (clp_store c1) = (kv_get (clp_store c))(GetLiquidityProviderKey (Symbol asset) (mal_Signer msg) := v)"
    by (rule added_provider [OF _ asset(2,3) addr(2) valid [OF refl] att found lp2]) simp
  note set2 = SetLiquidityProvider_stores [OF setlp b(1) valid [OF b(2)]]
  have "kv_get (clp_store c') = (kv_get (clp_store c))(GetPoolKey (Symbol asset) NativeSymbol \<mapsto> V_Pool p',
      GetLiquidityProviderKey (Symbol asset) (mal_Signer msg) \<mapsto> V_LP lp2)"
    using set2(1) set'(1) c1(2) by (simp add: b p(2) fun_upd_twist [of "GetPoolKey s n" "GetLiquidityProviderKey t u" for s n t u])
  then show ?thesis
    using set2(2) set'(2) c1(1) send_to_module [OF send, of x d]
    unfolding lp2' p' by (simp add: bal_def moved_def amt amount_if_def GetCLPModuleAddress_def)
qed

lemma msg_AddLiquidity_exact:
  assumes run: "msg_AddLiquidity L c msg = Inr c'" and wf: "clp_wf c"
    and asset: "mal_ExternalAsset msg = Some asset" "CHR ''_'' \<notin> set (Symbol asset)" "CHR ''_'' \<notin> set (mal_Signer msg)"
    and addr: "AccAddressFromBech32 L (mal_Signer msg) = Inr addr" "AccAddress_String L addr = mal_Signer msg"
  shows "\<exists>p entry nf adj pu lu. GetPool c (Symbol asset) = Inr p \<and> token_entry c (Symbol asset) = Inr entry \<and>
    GetNormalizationFactor L (Decimals entry) = Inr (nf, adj) \<and>
    CalculatePoolUnits L (PoolUnits p) (NativeAssetBalance p) (ExternalAssetBalance p)
      (mal_NativeAssetAmount msg) (mal_ExternalAssetAmount msg) nf adj = Inr (pu, lu) \<and>
    kv_get (clp_store c') = (kv_get (clp_store c))(GetPoolKey (Symbol asset) NativeSymbol \<mapsto>
        V_Pool (p\<lparr>PoolUnits := pu, NativeAssetBalance := NativeAssetBalance p + mal_NativeAssetAmount msg,
          ExternalAssetBalance := ExternalAssetBalance p + mal_ExternalAssetAmount msg\<rparr>),
      GetLiquidityProviderKey (Symbol asset) (mal_Signer msg) \<mapsto> V_LP
        (case GetLiquidityProvider c (Symbol asset) (mal_Signer msg) of
           Inr lp \<Rightarrow> lp\<lparr>LiquidityProviderUnits := LiquidityProviderUnits lp + lu\<rparr>
         | Inl _ \<Rightarrow> NewLiquidityProvider L (Some asset) lu addr)) \<and>
    (\<forall>x d. bal L c' x d = bal L c x d + amount_if (x = GetCLPModuleAddress L)
        (two_sided asset (mal_ExternalAssetAmount msg) (mal_NativeAssetAmount msg) d)
      - amount_if (x = addr) (two_sided asset (mal_ExternalAssetAmount msg) (mal_NativeAssetAmount msg) d))"
proof -
  from run asset(1) obtain p entry nf adj pu lu lp c1 es where p: "GetPool c (Symbol asset) = Inr p"
    and calc: "token_entry c (Symbol asset) = Inr entry" "GetNormalizationFactor L (Decimals entry) = Inr (nf, adj)"
      "CalculatePoolUnits L (PoolUnits p) (NativeAssetBalance p) (ExternalAssetBalance p)
        (mal_NativeAssetAmount msg) (mal_ExternalAssetAmount msg) nf adj = Inr (pu, lu)"
    and add: "clp_AddLiquidity L c msg p pu lu = Inr (lp, c1)" and c': "c' = EmitEvents es c1"
    unfolding msg_AddLiquidity_def by (auto simp only: res_simps option.inject sum.inject)
  obtain a where "ExternalAsset p = Some a" "Symbol a = Symbol asset" using GetPool_wf [OF wf p] by metis
  from clp_AddLiquidity_exact [OF add wf asset this addr] p calc show ?thesis
    unfolding c' by auto
qed

lemma msg_RemoveLiquidity_exact:
  assumes run: "msg_RemoveLiquidity L c msg = Inr c'" and sym: "mrl_Asymmetry msg = 0" and wf: "clp_wf c"
    and asset: "mrl_ExternalAsset msg = Some asset" "CHR ''_'' \<notin> set (Symbol asset)" "CHR ''_'' \<notin> set (mrl_Signer msg)"
    and addr: "AccAddressFromBech32 L (mrl_Signer msg) = Inr addr"
  shows "\<exists>p lp n e left sw. GetPool c (Symbol asset) = Inr p \<and> GetLiquidityProvider c (Symbol asset) (mrl_Signer msg) = Inr lp \<and>
    CalculateWithdrawal L (PoolUnits p) (nat_string (NativeAssetBalance p)) (nat_string (ExternalAssetBalance p))
      (nat_string (LiquidityProviderUnits lp)) (int_string (mrl_WBasisPoints msg)) 0 = Inr (n, e, left, sw) \<and>
    n < NativeAssetBalance p \<and> e < ExternalAssetBalance p \<and>
    kv_get (clp_store c') = (kv_get (clp_store c))(GetPoolKey (Symbol asset) NativeSymbol \<mapsto>
        V_Pool (p\<lparr>PoolUnits := PoolUnits p - LiquidityProviderUnits lp + left, NativeAssetBalance := NativeAssetBalance p - n,
          ExternalAssetBalance := ExternalAssetBalance p - e\<rparr>),
      GetLiquidityProviderKey (Symbol asset) (mrl_Signer msg) :=
        if left = 0 then None else Some (V_LP (lp\<lparr>LiquidityProviderUnits := left\<rparr>))) \<and>
    (\<forall>x d. bal L c' x d = bal L c x d + amount_if (x = addr) (two_sided asset e n d)
       - amount_if (x = GetCLPModuleAddress L) (two_sided asset e n d))"
proof -
  obtain p lp n e left sw c1 es where p: "GetPool c (Symbol asset) = Inr p"
    and lp: "GetLiquidityProvider c (Symbol asset) (mrl_Signer msg) = Inr lp"
    and calc: "CalculateWithdrawal L (PoolUnits p) (nat_string (NativeAssetBalance p)) (nat_string (ExternalAssetBalance p))
      (nat_string (LiquidityProviderUnits lp)) (int_string (mrl_WBasisPoints msg)) 0 = Inr (n, e, left, sw)"
    and rem: "clp_RemoveLiquidity L c (p\<lparr>PoolUnits := PoolUnits p - LiquidityProviderUnits lp + left,
        NativeAssetBalance := NativeAssetBalance p - n, ExternalAssetBalance := ExternalAssetBalance p - e\<rparr>)
      \<lparr>coin_denom = Symbol asset, coin_amount = int e\<rparr> \<lparr>coin_denom = NativeSymbol, coin_amount = int n\<rparr>
      lp left (ExternalAssetBalance p) (NativeAssetBalance p) = Inr c1"
    and c': "c' = EmitEvents es c1"
    using msg_RemoveLiquidity_symmetric [OF run sym] asset(1) by (metis option.inject)
  obtain a where a: "ExternalAsset p = Some a" "Symbol a = Symbol asset" using GetPool_wf [OF wf p] by metis
  obtain b where b: "lp_Asset lp = Some b" "Symbol b = Symbol asset" "LiquidityProviderAddress lp = mrl_Signer msg"
    using stored_provider [OF wf lp asset(2,3)] by metis
  have "AccAddressFromBech32 L (LiquidityProviderAddress lp) = Inr addr" using addr b(3) by simp
  note eff = clp_RemoveLiquidity_exact [OF rem, of a b addr, OF _ _ _ b(1) _ this]
  have "bal L c1 x d = bal L c x d + amount_if (x = addr) (two_sided asset e n d)
       - amount_if (x = GetCLPModuleAddress L) (two_sided asset e n d)" for x d
    using eff [of x d] a b by (auto simp: moved_def two_sided_def amount_if_def)
  with eff p lp calc a b show ?thesis unfolding c' by auto
qed

end

subsection \<open>Decommissioning\<close>

text \<open>What a provider is refunded, and the keys of the records that are removed.\<close>

definition refund_of :: "'x lib \<Rightarrow> pool \<Rightarrow> string \<Rightarrow> liquidity_provider \<Rightarrow> string \<Rightarrow> int" where
  "refund_of L p s lp d = (case CalculateAllAssetsForLP L p lp of
       Inr (n, e, _) \<Rightarrow> two_sided \<lparr>Symbol = s\<rparr> e n d | Inl _ \<Rightarrow> 0)"

definition lp_key :: "liquidity_provider \<Rightarrow> key option" where
  "lp_key lp = map_option (\<lambda>a. GetLiquidityProviderKey (Symbol a) (LiquidityProviderAddress lp)) (lp_Asset lp)"

definition paid_to :: "'x lib \<Rightarrow> pool \<Rightarrow> string \<Rightarrow> addr \<Rightarrow> string \<Rightarrow> liquidity_provider \<Rightarrow> int" where
  "paid_to L p s x d lp =
     amount_if (AccAddressFromBech32 L (LiquidityProviderAddress lp) = Inr x) (refund_of L p s lp d)
     - amount_if (x = GetCLPModuleAddress L) (refund_of L p s lp d)"

lemma lps_at_stored:
  assumes "lp \<in> set (lps_at st ks)"
  obtains k where "k \<in> set ks" "kv_get st (LiquidityProviderPrefix @ k) = Some (V_LP lp)"
  using assms by (auto simp: lps_at_def split: option.splits clp_value.splits)

lemma HasPrefix_append_drop: "HasPrefix s p \<Longrightarrow> p @ drop (length p) s = s"
  by (metis HasPrefix_def append_take_drop_id)

lemma lp_hits_true:
  assumes "(k, True) \<in> set (lp_hits hit st)" and "kv_ok st"
  shows "\<exists>lp. kv_get st (LiquidityProviderPrefix @ k) = Some (V_LP lp) \<and> hit lp"
  using assms
  by (auto simp: lp_hits_def in_kv_prefix HasPrefix_append_drop split: clp_value.splits)

context lib_laws
begin

lemma refund_providers_exact:
  assumes "refund_providers L s p lps u nb eb c = Inr c'"
  shows "kv_get (clp_store c') k = (if Some k \<in> lp_key ` set lps then None else kv_get (clp_store c) k) \<and>
    bal L c' x d = bal L c x d + sum_list (map (paid_to L p s x d) lps)"
  using assms
proof (induction lps arbitrary: u nb eb c)
  case (Cons lp lps)
  from Cons.prems obtain wn we wl ws u' nb' eb' coins c1 where
    calc: "CalculateAllAssetsForLP L p lp = Inr (wn, we, wl, ws)"
    and coins: "NewCoins L [\<lparr>coin_denom = s, coin_amount = int we\<rparr>, \<lparr>coin_denom = NativeSymbol, coin_amount = int wn\<rparr>] = Inr coins"
    and rem: "RemoveLiquidityProvider L c coins lp = Inr c1"
    and rest: "refund_providers L s p lps u' nb' eb' c1 = Inr c'"
    by (auto simp: res_simps GetSettlementAsset_def)
  have amt: "AmountOf coins d = refund_of L p s lp d"
    using new_coins_amount [OF coins, of d] by (simp add: refund_of_def calc two_sided_def amount_if_def)
  from rem obtain addr y and asset :: asset where addr: "AccAddressFromBech32 L (LiquidityProviderAddress lp) = Inr addr"
    and send: "SendCoinsFromModuleToAccount L (ext c) clp_ModuleName addr coins = (y, None)"
    and asset: "lp_Asset lp = Some asset"
    and c1: "c1 = DestroyLiquidityProvider (c\<lparr>ext := y\<rparr>) (Symbol asset) (LiquidityProviderAddress lp)"
    unfolding RemoveLiquidityProvider_def by (simp only: res_simps sum.inject) metis
  have "bal L c1 x d = bal L c x d + paid_to L p s x d lp"
    using send_from_module [OF send, of x d] addr
    by (auto simp: c1 bal_def DestroyLiquidityProvider_def Let_def paid_to_def amount_if_def moved_def amt GetCLPModuleAddress_def)
  moreover have "kv_get (clp_store c1) k = (if Some k = lp_key lp then None else kv_get (clp_store c) k)"
    by (auto simp: c1 DestroyLiquidityProvider_def Let_def kv_get_delete kv_has_def lp_key_def asset)
  ultimately show ?case using Cons.IH [OF rest] by auto
qed simp

lemma listed_provider:
  assumes lps: "GetLiquidityProvidersForAssetPaginated L c asset r = Inr (lps, res)" and wf: "clp_wf c" and lp: "lp \<in> set lps"
  shows "\<exists>a. lp_Asset lp = Some a \<and> Symbol a = Symbol asset \<and>
    kv_get (clp_store c) (GetLiquidityProviderKey (Symbol a) (LiquidityProviderAddress lp)) = Some (V_LP lp)"
proof -
  from lps obtain ks where ks: "lps = lps_at (clp_store c) ks" "set ks \<subseteq> {k. (k, True) \<in>
      set (lp_hits (\<lambda>l. case lp_Asset l of None \<Rightarrow> False | Some a \<Rightarrow> Asset_Equals a asset) (clp_store c))}"
    by (auto simp: GetLiquidityProvidersForAssetPaginated_def res_simps dest: filtered_subset)
  obtain k where k: "k \<in> set ks" "kv_get (clp_store c) (LiquidityProviderPrefix @ k) = Some (V_LP lp)"
    using lps_at_stored lp ks(1) by metis
  have "(k, True) \<in> set (lp_hits (\<lambda>l. case lp_Asset l of None \<Rightarrow> False | Some a \<Rightarrow> Asset_Equals a asset) (clp_store c))"
    using ks(2) k(1) by blast
  from lp_hits_true [OF this clp_wf_ok [OF wf]] k(2) obtain a where "lp_Asset lp = Some a" "Symbol a = Symbol asset"
    by (auto simp: Asset_Equals_def split: option.splits)
  moreover from this have "LiquidityProviderPrefix @ k = GetLiquidityProviderKey (Symbol a) (LiquidityProviderAddress lp)"
    using clp_wf_get [OF wf k(2)] by (simp add: entry_ok_def)
  ultimately show ?thesis using k(2) by auto
qed

lemma msg_DecommissionPool_exact:
  assumes run: "msg_DecommissionPool L c msg = Inr c'" and wf: "clp_wf c"
  shows "\<exists>p lps wl addr. GetPool c (mdp_Symbol msg) = Inr p \<and> NativeAssetBalance p < PoolThrehold \<and>
    AccAddressFromBech32 L (mdp_Signer msg) = Inr addr \<and> GetClpWhiteList L c = Inr wl \<and> addr \<in> set wl \<and>
    list_all (\<lambda>lp. \<exists>a. lp_Asset lp = Some a \<and> Symbol a = mdp_Symbol msg \<and>
      kv_get (clp_store c) (GetLiquidityProviderKey (Symbol a) (LiquidityProviderAddress lp)) = Some (V_LP lp)) lps \<and>
    (\<forall>k. kv_get (clp_store c') k = (if k = GetPoolKey (mdp_Symbol msg) NativeSymbol \<or> Some k \<in> lp_key ` set lps then None
       else kv_get (clp_store c) k)) \<and>
    (\<forall>x d. bal L c' x d = bal L c x d + sum_list (map (paid_to L p (mdp_Symbol msg) x d) lps))"
proof -
  from run obtain p addr asset lps res c1 c2 es where p: "GetPool c (mdp_Symbol msg) = Inr p"
    and addr: "AccAddressFromBech32 L (mdp_Signer msg) = Inr addr" "ValidateAddress L c addr = Inr True"
    and small: "NativeAssetBalance p < PoolThrehold" and asset: "ExternalAsset p = Some asset"
    and lps: "GetLiquidityProvidersForAssetPaginated L c asset \<lparr>page_key = [], page_offset = 0, page_limit = MaxUint64\<rparr> = Inr (lps, res)"
    and refund: "refund_providers L (mdp_Symbol msg) p lps (PoolUnits p) (NativeAssetBalance p) (ExternalAssetBalance p) c = Inr c1"
    and destroy: "DestroyPool c1 (Symbol asset) = Inr c2" and c': "c' = EmitEvents es c2"
    unfolding msg_DecommissionPool_def clp_DecommissionPool_def by (auto simp: res_simps)
  have sym: "Symbol asset = mdp_Symbol msg" using GetPool_wf [OF wf p] asset by auto
  obtain wl where wl: "GetClpWhiteList L c = Inr wl" "addr \<in> set wl"
    using addr(2) by (auto simp: ValidateAddress_def res_simps list_ex_iff split: if_splits)
  note stored = listed_provider [OF lps wf, unfolded sym]
  have "kv_get (clp_store c2) = (kv_get (clp_store c1))(GetPoolKey (mdp_Symbol msg) NativeSymbol := None)" "ext c2 = ext c1"
    using destroy by (auto simp: DestroyPool_def Let_def res_simps kv_get_delete sym)
  then have "kv_get (clp_store c') k = (if k = GetPoolKey (mdp_Symbol msg) NativeSymbol \<or> Some k \<in> lp_key ` set lps then None
       else kv_get (clp_store c) k)" and "bal L c' x d = bal L c x d + sum_list (map (paid_to L p (mdp_Symbol msg) x d) lps)" for k x d
    using refund_providers_exact [OF refund, of k x d] by (simp_all add: c' bal_def)
  then show ?thesis
    using p small addr(1) wl stored unfolding list_all_iff by blast
qed

end

subsection \<open>A pool with one provider\<close>

text \<open>
  A million native and four million external tokens, all owned by one provider: half as much again
  is added, a tenth is taken out, or the pool is closed.
\<close>

context lib_laws
begin

lemma str_eq_nat: "\<bar>int n * one_dec\<bar> < 2 ^ 255 \<Longrightarrow> mustDec L (nat_string n) = Inr (int n * one_dec)"
  using str_eq [of "int n"] by (simp add: int_string_def)

lemma liq_quo:
  "Dec_Quo L 10000000000000000000000 1000000000000000000000 = Inr 10000000000000000000"
  "Dec_Quo L 1000000000000000000000000 10000000000000000000 = Inr 100000000000000000000000"
  "Dec_Quo L 1000000000000000000000000 100000000000000000000000 = Inr 10000000000000000000"
  "Dec_Quo L 4000000000000000000000000 10000000000000000000 = Inr 400000000000000000000000"
  "Dec_Quo L 10000000000000000000000 10000000000000000000000 = Inr 1000000000000000000"
  "Dec_Quo L 1000000000000000000000000 1000000000000000000 = Inr 1000000000000000000000000"
  "Dec_Quo L 1000000000000000000000000 1000000000000000000000000 = Inr 1000000000000000000"
  "Dec_Quo L 4000000000000000000000000 1000000000000000000 = Inr 4000000000000000000000000"
  "Dec_Quo L 4000000000000000000000000 1000000000000000000000000 = Inr 4000000000000000000"
  "Dec_Quo L 0 16000000000000000000 = Inr 0"
  "Dec_Quo L 8000000000000000000 8000000000000000000 = Inr 1000000000000000000"
  by (rule quo_eq; simp)+

lemma liq_mul:
  "Dec_Mul L 1000000000000000000 1000000000000000000 = Inr 1000000000000000000"
  "Dec_Mul L 2000000000000000000 8000000000000000000 = Inr 16000000000000000000"
  "Dec_Mul L 1000000000000000000 4000000000000000000 = Inr 4000000000000000000"
  "Dec_Mul L 4000000000000000000 1000000000000000000 = Inr 4000000000000000000"
  "Dec_Mul L 1000000000000000000 8000000000000000000 = Inr 8000000000000000000"
  "Dec_Mul L 2000000000000000000 4000000000000000000 = Inr 8000000000000000000"
  "Dec_Mul L 8000000000000000000 1000000000000000000 = Inr 8000000000000000000"
  "Dec_Mul L 2000000000000000000 1000000000000000000000000 = Inr 2000000000000000000000000"
  "Dec_Mul L 1000000000000000000 1000000000000000000000000 = Inr 1000000000000000000000000"
  by (rule mul_eq; simp)+

lemma liq_round:
  "Dec_RoundInt L 0 = Inr 0"
  "Dec_RoundInt L 1000000000000000000 = Inr 1"
  "Dec_RoundInt L 100000000000000000000000 = Inr 100000"
  "Dec_RoundInt L 400000000000000000000000 = Inr 400000"
  "Dec_RoundInt L 900000000000000000000000 = Inr 900000"
  "Dec_RoundInt L 1000000000000000000000000 = Inr 1000000"
  "Dec_RoundInt L 2000000000000000000000000 = Inr 2000000"
  "Dec_RoundInt L 4000000000000000000000000 = Inr 4000000"
  by (rule round_eq; simp)+

lemma liq_withdrawal:
  "CalculateWithdrawal L 1000000 (nat_string 1000000) (nat_string 4000000) (nat_string 1000000) (int_string 1000) 0
   = Inr (100000, 400000, 900000, 0)"
  "CalculateWithdrawal L 1000000 (nat_string 1000000) (nat_string 4000000) (nat_string 1000000) (int_string 10000) 0
   = Inr (1000000, 4000000, 0, 0)"
  by (simp_all add: str_eq_nat str_eq CalculateWithdrawal_def share_of_def Uint_of_Dec_def sub_eq dec_of_int dec_abs Let_def liq_quo liq_round
     uint_of_int cong: bindE_cong_weak split del: if_split)

lemma liq_units:
  "CalculatePoolUnits L 1000000 1000000 4000000 1000000 4000000 1000000000000000000 False = Inr (2000000, 1000000)"
proof -
  have len: "GetMinLen [1000000, 1000000, 4000000, 1000000, 4000000] = 6"
    by (simp add: GetMinLen_def nat_string.simps)
  show ?thesis
    by (simp add: str_eq_nat CalculatePoolUnits_def stake_units_def slip_adjustment_def ReducePrecision_def IncreasePrecision_def
      Uint_of_Dec_def sub_eq add_eq dec_of_int Let_def liq_quo liq_mul liq_round uint_of_int uint_add uint_mul len guardE_def
      power_eq [of 10 6, simplified] cong: bindE_cong_weak split del: if_split)
qed

end

definition liq_pool :: pool where
  "liq_pool = \<lparr>ExternalAsset = Some \<lparr>Symbol = ''ceth''\<rparr>, NativeAssetBalance = 1000000, ExternalAssetBalance = 4000000,
     PoolUnits = 1000000\<rparr>"

definition liq_lp :: liquidity_provider where
  "liq_lp = \<lparr>lp_Asset = Some \<lparr>Symbol = ''ceth''\<rparr>, LiquidityProviderUnits = 1000000, LiquidityProviderAddress = ''sif1alice''\<rparr>"

definition liq_ctx :: "ref_state ctx" where
  "liq_ctx = fund (NewModuleAddress ref_lib ''clp'') ''rowan'' 1000000 (fund (NewModuleAddress ref_lib ''clp'') ''ceth'' 4000000
     (fund ''bob'' ''rowan'' 1000000 (fund ''bob'' ''ceth'' 4000000
     ((SetToken ref_ctx (new_entry (''ceth'', 18)))\<lparr>clp_store :=
        kv_set (GetPoolKey ''ceth'' NativeSymbol) (V_Pool liq_pool)
          (kv_set (GetLiquidityProviderKey ''ceth'' ''sif1alice'') (V_LP liq_lp)
          (kv_set WhiteListValidatorPrefix (V_WhiteList [''sif1alice'']) []))\<rparr>))))"

definition liq_add :: msg_add_liquidity where
  "liq_add = \<lparr>mal_Signer = ''sif1bob'', mal_ExternalAsset = Some \<lparr>Symbol = ''ceth''\<rparr>, mal_NativeAssetAmount = 1000000,
     mal_ExternalAssetAmount = 4000000\<rparr>"

definition liq_remove :: msg_remove_liquidity where
  "liq_remove = \<lparr>mrl_Signer = ''sif1alice'', mrl_ExternalAsset = Some \<lparr>Symbol = ''ceth''\<rparr>, mrl_WBasisPoints = 1000, mrl_Asymmetry = 0\<rparr>"


lemma liq_wf: "clp_wf liq_ctx"
  by (simp add: clp_wf_def kv_ok_def liq_ctx_def liq_pool_def liq_lp_def entry_ok_def ref_eval WhiteListValidatorPrefix_def)

lemma liq_add_runs: "\<exists>c'. clp_NewHandler ref_lib liq_ctx (MsgAddLiquidity liq_add) = Inr c'"
proof -
  note u = lib_laws.liq_units [OF ref.lib_laws_axioms]
  show ?thesis
    by (simp add: clp_NewHandler_def msg_AddLiquidity_def liq_ctx_def liq_add_def liq_pool_def liq_lp_def u WhiteListValidatorPrefix_def
        clp_AddLiquidity_def coin_at_def ref_eval new_entry_def Let_def cong: bindE_cong_weak split del: if_split)
qed

lemma liq_remove_runs: "\<exists>c'. clp_NewHandler ref_lib liq_ctx (MsgRemoveLiquidity liq_remove) = Inr c'"
proof -
  have str: "nat_string 1000000 = ''1000000''" "nat_string 4000000 = ''4000000''" "int_string 1000 = ''1000''"
    by (simp_all add: ref_eval)
  note w = lib_laws.liq_withdrawal(1) [OF ref.lib_laws_axioms, unfolded str]
  show ?thesis
    by (simp add: clp_NewHandler_def msg_RemoveLiquidity_def liq_ctx_def liq_remove_def liq_pool_def liq_lp_def w
        WhiteListValidatorPrefix_def clp_RemoveLiquidity_def ref_eval new_entry_def Let_def cong: bindE_cong_weak split del: if_split)
qed


subsection \<open>Properties\<close>

lemma NewHandler_start [simp]:
  "GetLiquidityProvider (c\<lparr>events := es\<rparr>) s a = GetLiquidityProvider c s a"
  "token_entry (c\<lparr>events := es\<rparr>) s = token_entry c s" "GetClpWhiteList L (c\<lparr>events := es\<rparr>) = GetClpWhiteList L c"
  by (simp_all add: GetLiquidityProvider_def token_entry_def GetRegistry_def GetClpWhiteList_def)

text \<open>C7. Deposits are exact: adding liquidity moves exactly the two amounts of the message from the signer to the module
  and changes no other balance; the pool's books grow by the same amounts, its units become those of
  the calculation, the provider's units grow by the provider's part of it, and no other record
  of the store changes.\<close>

theorem clp_deposit_exact:
  assumes "lib_laws L" and "clp_wf c" and "mal_ExternalAsset msg = Some asset"
    and "CHR ''_'' \<notin> set (Symbol asset)" and "CHR ''_'' \<notin> set (mal_Signer msg)"
    and "AccAddressFromBech32 L (mal_Signer msg) = Inr addr" and "AccAddress_String L addr = mal_Signer msg"
    and "clp_NewHandler L c (MsgAddLiquidity msg) = Inr c'"
  shows "\<exists>p entry nf adj pu lu. GetPool c (Symbol asset) = Inr p \<and> token_entry c (Symbol asset) = Inr entry \<and>
    GetNormalizationFactor L (Decimals entry) = Inr (nf, adj) \<and>
    CalculatePoolUnits L (PoolUnits p) (NativeAssetBalance p) (ExternalAssetBalance p)
      (mal_NativeAssetAmount msg) (mal_ExternalAssetAmount msg) nf adj = Inr (pu, lu) \<and>
    kv_get (clp_store c') = (kv_get (clp_store c))(GetPoolKey (Symbol asset) NativeSymbol \<mapsto>
        V_Pool (p\<lparr>PoolUnits := pu, NativeAssetBalance := NativeAssetBalance p + mal_NativeAssetAmount msg,
          ExternalAssetBalance := ExternalAssetBalance p + mal_ExternalAssetAmount msg\<rparr>),
      GetLiquidityProviderKey (Symbol asset) (mal_Signer msg) \<mapsto> V_LP
        (case GetLiquidityProvider c (Symbol asset) (mal_Signer msg) of
           Inr lp \<Rightarrow> lp\<lparr>LiquidityProviderUnits := LiquidityProviderUnits lp + lu\<rparr>
         | Inl _ \<Rightarrow> NewLiquidityProvider L (Some asset) lu addr)) \<and>
    (\<forall>x d. bal L c' x d = bal L c x d + amount_if (x = GetCLPModuleAddress L)
        (two_sided asset (mal_ExternalAssetAmount msg) (mal_NativeAssetAmount msg) d)
      - amount_if (x = addr) (two_sided asset (mal_ExternalAssetAmount msg) (mal_NativeAssetAmount msg) d))"
proof -
  have "msg_AddLiquidity L (c\<lparr>events := []\<rparr>) msg = Inr c'" and "clp_wf (c\<lparr>events := []\<rparr>)"
    using assms(2,8) by (simp_all add: clp_NewHandler_def)
  from lib_laws.msg_AddLiquidity_exact [OF assms(1) this assms(3-7)] show ?thesis by simp
qed

theorem clp_deposit_exact_witness:
  "\<exists>c'. clp_NewHandler ref_lib liq_ctx (MsgAddLiquidity liq_add) = Inr c' \<and> bal ref_lib c' ''bob'' ''rowan'' = 0 \<and>
     bal ref_lib c' ''bob'' ''ceth'' = 0"
proof -
  obtain c' where run: "clp_NewHandler ref_lib liq_ctx (MsgAddLiquidity liq_add) = Inr c'" using liq_add_runs by blast
  have msg: "mal_ExternalAsset liq_add = Some \<lparr>Symbol = ''ceth''\<rparr>" "CHR ''_'' \<notin> set (Symbol \<lparr>Symbol = ''ceth''\<rparr>)"
    "CHR ''_'' \<notin> set (mal_Signer liq_add)" "AccAddressFromBech32 ref_lib (mal_Signer liq_add) = Inr ''bob''"
    "AccAddress_String ref_lib ''bob'' = mal_Signer liq_add" by (simp_all add: liq_add_def ref_eval)
  have "bal ref_lib liq_ctx ''bob'' ''rowan'' = 1000000" "bal ref_lib liq_ctx ''bob'' ''ceth'' = 4000000"
    "''bob'' \<noteq> GetCLPModuleAddress ref_lib"
    by (simp_all add: bal_def liq_ctx_def ref_eval)
  with clp_deposit_exact [OF ref.lib_laws_axioms liq_wf msg run] run show ?thesis
    by (auto simp: amount_if_def two_sided_def NativeSymbol_def liq_add_def)
qed

text \<open>C5. Symmetric withdrawals are exact: the provider is paid exactly the calculated amounts, which are less than the pool
  holds of either side, and no other account changes; the pool's books shrink by the same
  amounts, the provider keeps the calculated units or is removed when none are left, and
  no other record of the store changes.\<close>

theorem clp_withdrawal_exact:
  assumes "lib_laws L" and "mrl_Asymmetry msg = 0" and "clp_wf c" and "mrl_ExternalAsset msg = Some asset"
    and "CHR ''_'' \<notin> set (Symbol asset)" and "CHR ''_'' \<notin> set (mrl_Signer msg)"
    and "AccAddressFromBech32 L (mrl_Signer msg) = Inr addr" and "clp_NewHandler L c (MsgRemoveLiquidity msg) = Inr c'"
  shows "\<exists>p lp n e left sw. GetPool c (Symbol asset) = Inr p \<and> GetLiquidityProvider c (Symbol asset) (mrl_Signer msg) = Inr lp \<and>
    CalculateWithdrawal L (PoolUnits p) (nat_string (NativeAssetBalance p)) (nat_string (ExternalAssetBalance p))
      (nat_string (LiquidityProviderUnits lp)) (int_string (mrl_WBasisPoints msg)) 0 = Inr (n, e, left, sw) \<and>
    n < NativeAssetBalance p \<and> e < ExternalAssetBalance p \<and>
    kv_get (clp_store c') = (kv_get (clp_store c))(GetPoolKey (Symbol asset) NativeSymbol \<mapsto>
        V_Pool (p\<lparr>PoolUnits := PoolUnits p - LiquidityProviderUnits lp + left, NativeAssetBalance := NativeAssetBalance p - n,
          ExternalAssetBalance := ExternalAssetBalance p - e\<rparr>),
      GetLiquidityProviderKey (Symbol asset) (mrl_Signer msg) :=
        if left = 0 then None else Some (V_LP (lp\<lparr>LiquidityProviderUnits := left\<rparr>))) \<and>
    (\<forall>x d. bal L c' x d = bal L c x d + amount_if (x = addr) (two_sided asset e n d)
       - amount_if (x = GetCLPModuleAddress L) (two_sided asset e n d))"
proof -
  have "msg_RemoveLiquidity L (c\<lparr>events := []\<rparr>) msg = Inr c'" and "clp_wf (c\<lparr>events := []\<rparr>)"
    using assms(3,8) by (simp_all add: clp_NewHandler_def)
  from lib_laws.msg_RemoveLiquidity_exact [OF assms(1) this(1) assms(2) this(2) assms(4-7)] show ?thesis by simp
qed

theorem clp_withdrawal_exact_witness:
  "\<exists>c' n. clp_NewHandler ref_lib liq_ctx (MsgRemoveLiquidity liq_remove) = Inr c' \<and> n < 1000000 \<and>
     bal ref_lib c' ''alice'' ''rowan'' = int n"
proof -
  obtain c' where run: "clp_NewHandler ref_lib liq_ctx (MsgRemoveLiquidity liq_remove) = Inr c'" using liq_remove_runs by blast
  have msg: "mrl_Asymmetry liq_remove = 0" "mrl_ExternalAsset liq_remove = Some \<lparr>Symbol = ''ceth''\<rparr>"
    "CHR ''_'' \<notin> set (Symbol \<lparr>Symbol = ''ceth''\<rparr>)" "CHR ''_'' \<notin> set (mrl_Signer liq_remove)"
    "AccAddressFromBech32 ref_lib (mrl_Signer liq_remove) = Inr ''alice''" by (simp_all add: liq_remove_def ref_eval)
  have start: "bal ref_lib liq_ctx ''alice'' ''rowan'' = 0" "''alice'' \<noteq> GetCLPModuleAddress ref_lib"
    by (simp_all add: bal_def liq_ctx_def ref_eval)
  have pool: "GetPool liq_ctx ''ceth'' = Inr liq_pool" by (simp add: liq_ctx_def WhiteListValidatorPrefix_def ref_eval)
  from clp_withdrawal_exact [OF ref.lib_laws_axioms msg(1) liq_wf msg(2-) run] obtain p n where
    "GetPool liq_ctx ''ceth'' = Inr p" "n < NativeAssetBalance p"
    "bal ref_lib c' ''alice'' ''rowan'' = bal ref_lib liq_ctx ''alice'' ''rowan'' + int n"
    using start(2) by (auto simp: amount_if_def two_sided_def NativeSymbol_def)
  with pool start(1) run show ?thesis by (auto simp: liq_pool_def)
qed



end
