(* ===== verification/DispensationProperties.thy ===== *)
theory DispensationProperties
  imports DispensationInvariants RefCtx
begin

section \<open>What the dispensation module guarantees\<close>

text \<open>
  The module's account always covers the records that were not paid; a run pays at most ten
  records, only those of its runner, each exactly and once; creating a distribution takes exactly
  the sum of its outputs; and the exported state restores the store.
\<close>

subsection \<open>Evaluation\<close>

lemma limited_records_pos:
  "0 < n \<Longrightarrow> limited_records n P [] = Inr []"
  "0 < n \<Longrightarrow> limited_records n P (e # es) = bindE (record_of (snd e)) (\<lambda>dr.
     if P dr then bindE (limited_records (n - 1) P es) (\<lambda>rs. Inr (dr # rs)) else limited_records n P es)"
  by (auto simp: gr0_conv_Suc cong: if_cong)

lemmas disp_eval = msg_CreateDistribution_def msg_RunDistribution_def VerifyAndSetDistribution_def
  SetDistribution_def Distribution_Validate_def NewDistribution_def ExistsDistribution_def GetDistributionsKey_def
  TotalOutput_def AccumulateDrops_def CreateDrops_def create_drop_def NewDistributionRecord_def
  ExistsDistributionRecord_def GetDistributionRecord_def record_of_def DistributionRecord_Add_def
  SetDistributionRecord_def DistributionRecord_Validate_def GetDistributionRecordKey_def disp_prefixes
  distribution_name_def distribution_type_nr_def distribution_type_String_def GetDistributionModuleAddress_def
  dispensation_ModuleName_def runnable_def records_of_def runs_def kv_prefix_def HasPrefix_def
  DistributeDrops_def GetLimitedRecordsForRunner_def GetDistributionRecordsIterator_def MaxRecordsPerBlock_def
  distribute_drop_def ChangeRecordStatus_def DeleteDistributionRecord_def DoesTypeSupportClaim_def DeleteClaim_def
  record_event_def limited_records_pos

subsection \<open>The migration\<close>

lemma migrate_claims:
  "foldE (\<lambda>cls cl. bindE (migrate_claim L cl) (\<lambda>cl. Inr (cls @ [cl]))) acc xs = Inr us \<Longrightarrow>
     map UserClaimType us = map UserClaimType acc @ map (\<lambda>cl. migrateDistributionType (v39_UserClaimType cl)) xs \<and>
     map UserAddress us = map UserAddress acc @ map (\<lambda>cl. AccAddress_String L (v39_UserAddress cl)) xs"
  by (induction xs arbitrary: acc) (auto simp: res_simps migrate_claim_def)

subsection \<open>Properties\<close>

text \<open>Solvency: the module's account covers every record that is pending or has failed, in every
  denomination, after every history of dispensation messages that the module's account did not
  sign itself.\<close>

theorem dispensation_history_solvent:
  assumes "lib_laws L" and "disp_wf L c" and "disp_solvent L c" and "list_all (disp_allowed L) msgs"
  shows "disp_solvent L (foldl (deliver (dispensation_NewHandler L)) c msgs)"
  by (rule lib_laws.disp_run_solvent [OF assms])

text \<open>C28. A run takes the first ten pending records of its distribution, type and runner. Each record
  with a decodable address is paid in full and marked completed, or, if the bank refuses, marked
  failed with nothing moved; either way it is no longer pending, and the claim of a paid record
  is gone. No other balance, record, distribution or claim changes, and the module stays solvent.\<close>

theorem dispensation_run_exact:
  assumes "lib_laws L" and "disp_wf L c" and "disp_solvent L c" and "msg_RunDistribution L c m = Inr c'"
  shows "disp_wf L c' \<and> disp_solvent L c' \<and>
    (\<exists>ok. run_effect L (BlockHeight c) ok c (take 10 (runnable c m)) c')"
  using lib_laws.RunDistribution_effect [OF assms(1,4,2,3)] by (simp add: MaxRecordsPerBlock_def)


text \<open>C30. Creating a distribution moves exactly the sum of its outputs from the distributor to the
  module and raises what is owed by the same sum; the pending record of each recipient grows by
  exactly the outputs to them. It is refused if the distributor already has a distribution of
  that type and runner in this block.\<close>

theorem dispensation_create_exact:
  assumes "lib_laws L" and "disp_wf L c" and "msg_CreateDistribution L c m = Inr c'"
  shows "\<exists>dist. AccAddressFromBech32 L (mcd_Distributor m) = Inr dist \<and>
    \<not> ExistsDistribution c (distribution_name c (mcd_Distributor m)) (mcd_DistributionType m) (mcd_AuthorizedRunner m) \<and>
    (\<forall>d. disp_owed c' d = disp_owed c d + outs_amount (mcd_Output m) d) \<and>
    (\<forall>a d. bal L c' a d = bal L c a d + amount_if (a = GetDistributionModuleAddress L) (outs_amount (mcd_Output m) d)
      - amount_if (a = dist) (outs_amount (mcd_Output m) d)) \<and>
    (\<forall>s d. promised c' (distribution_name c (mcd_Distributor m)) (mcd_DistributionType m) s d
      = promised c (distribution_name c (mcd_Distributor m)) (mcd_DistributionType m) s d
        + outs_amount (filter (\<lambda>out. out_Address out = s) (mcd_Output m)) d)"
proof -
  obtain dist where dist: "AccAddressFromBech32 L (mcd_Distributor m) = Inr dist"
    using lib_laws.CreateDistribution_effect [OF assms(1,3,2)] by blast
  have "\<not> ExistsDistribution c (distribution_name c (mcd_Distributor m)) (mcd_DistributionType m) (mcd_AuthorizedRunner m)"
    using assms(3) by (auto simp: msg_CreateDistribution_def VerifyAndSetDistribution_def Let_def bindE_eq_Inr guardE_eq_Inr)
  then show ?thesis
    using lib_laws.CreateDistribution_effect [OF assms(1,3,2)] dist by (intro exI [of _ dist]) auto
qed

text \<open>Two distributions of one distributor in one block share their name, and their records for a
  recipient are merged: the second message's runner replaces the first one's, who can then no
  longer run the records that the first message authorised them to run.\<close>

theorem dispensation_runner_replaced:
  "\<exists>c1 c2. msg_CreateDistribution ref_lib (fund ''A'' ''rowan'' 50 ref_ctx) \<lparr>mcd_Distributor = ''sif1A'',
       mcd_AuthorizedRunner = ''sif1R'', mcd_DistributionType = DISTRIBUTION_TYPE_AIRDROP,
       mcd_Output = [\<lparr>out_Address = ''sif1B'', out_Coins = [\<lparr>coin_denom = ''rowan'', coin_amount = 5\<rparr>]\<rparr>]\<rparr> = Inr c1 \<and>
     msg_CreateDistribution ref_lib c1 \<lparr>mcd_Distributor = ''sif1A'',
       mcd_AuthorizedRunner = ''sif1S'', mcd_DistributionType = DISTRIBUTION_TYPE_AIRDROP,
       mcd_Output = [\<lparr>out_Address = ''sif1B'', out_Coins = [\<lparr>coin_denom = ''rowan'', coin_amount = 7\<rparr>]\<rparr>]\<rparr> = Inr c2 \<and>
     map dr_Coins (runnable c1 \<lparr>mrd_AuthorizedRunner = ''sif1R'', mrd_DistributionName = ''1_sif1A'',
       mrd_DistributionType = DISTRIBUTION_TYPE_AIRDROP\<rparr>) = [[\<lparr>coin_denom = ''rowan'', coin_amount = 5\<rparr>]] \<and>
     runnable c2 \<lparr>mrd_AuthorizedRunner = ''sif1R'', mrd_DistributionName = ''1_sif1A'',
       mrd_DistributionType = DISTRIBUTION_TYPE_AIRDROP\<rparr> = [] \<and>
     map dr_Coins (runnable c2 \<lparr>mrd_AuthorizedRunner = ''sif1S'', mrd_DistributionName = ''1_sif1A'',
       mrd_DistributionType = DISTRIBUTION_TYPE_AIRDROP\<rparr>) = [[\<lparr>coin_denom = ''rowan'', coin_amount = 12\<rparr>]]"
  by (simp add: disp_eval ref_eval Let_def list_ex_iff cong: bindE_cong_weak)

text \<open>C31. The state that is exported passes the genesis validation, and importing it into an empty
  store gives the same state back.\<close>

theorem dispensation_genesis_roundtrip:
  assumes "disp_wf L c"
  shows "\<exists>g. dispensation_ExportGenesis c = Inr g \<and> dispensation_ValidateGenesis L g = Inr () \<and>
    dispensation_InitGenesis L (c\<lparr>dispensation_store := []\<rparr>) g = Inr c"
  by (rule genesis_restores [OF assms])

text \<open>C32. The query by distribution name finds all records of the name that are stored for the status
  and only those; with the unspecified status, for which it was to return the pending ones, it
  panics, because there is no iterator for that status.\<close>

theorem dispensation_query_exact:
  assumes "disp_wf L c"
  shows "Query_RecordsByDistributionName c name DISTRIBUTION_STATUS_UNSPECIFIED = Inl Panic \<and>
    (st \<noteq> DISTRIBUTION_STATUS_UNSPECIFIED \<longrightarrow>
      (\<exists>rs. Query_RecordsByDistributionName c name st = Inr rs \<and>
        set rs = {r. dr_DistributionName r = name \<and> status_byte (dr_DistributionStatus r) = status_byte st \<and>
          kv_get (dispensation_store c) (key_as (dr_DistributionStatus r) r) = Some (DV_Record r)}))"
  using query_by_name [OF assms]
  by (simp add: Query_RecordsByDistributionName_def GetRecordsForNameAndStatus_def GetDistributionRecordsIterator_def)

text \<open>The migration from version 39 keeps the number, names, coins and heights of the records, in
  their order, and gives each the type and the status whose short name is the one that version 39
  printed for its own code, although the codes of two types are exchanged; a code that version 39
  does not name becomes unspecified.\<close>

theorem dispensation_migration_keeps:
  assumes "dispensation_Migrate L s = Inr g"
  shows "\<exists>rs. dg_DistributionRecords g = Some rs \<and>
    map (\<lambda>r. (dr_DistributionName r, dr_Coins r, dr_DistributionStartHeight r, dr_DistributionCompletedHeight r)) rs
      = map (\<lambda>r. (v39_DistributionName r, v39_Coins r, v39_DistributionStartHeight r, v39_DistributionCompletedHeight r))
          (v39_DistributionRecords s) \<and>
    map (\<lambda>r. (dr_DistributionType r, dr_DistributionStatus r)) rs
      = map (\<lambda>r. (fst (GetDistributionTypeFromShortString (v39_type_String (v39_DistributionType r))),
          fst (GetDistributionStatus (v39_status_String (v39_DistributionStatus r))))) (v39_DistributionRecords s) \<and>
    (\<exists>us. dg_Claims g = Some us \<and> map UserClaimType us
      = map (\<lambda>cl. fst (GetDistributionTypeFromShortString (v39_type_String (v39_UserClaimType cl)))) (v39_Claims s))"
proof -
  have ty: "fst (GetDistributionTypeFromShortString (v39_type_String t)) = migrateDistributionType t" for t
    by (simp add: GetDistributionTypeFromShortString_def v39_type_String_def migrateDistributionType_def)
  have st: "fst (GetDistributionStatus (v39_status_String t)) = migrateDistributionRecordStatus t" for t
    by (simp add: GetDistributionStatus_def v39_status_String_def migrateDistributionRecordStatus_def)
  show ?thesis
    using assms by (auto simp: dispensation_Migrate_def Let_def res_simps migrate_record_def ty st dest!: migrate_claims)
qed

subsection \<open>The module on the reference instance\<close>

definition ref_record :: "string \<Rightarrow> int \<Rightarrow> distribution_record" where
  "ref_record a n = NewDistributionRecord DISTRIBUTION_STATUS_PENDING DISTRIBUTION_TYPE_LIQUIDITY_MINING ''1_sif1A'' a
     [\<lparr>coin_denom = ''rowan'', coin_amount = n\<rparr>] 1 (- 1) ''sif1R''"

definition ref_disp_ctx :: "ref_state ctx" where
  "ref_disp_ctx = fund ''A'' ''rowan'' 50 (fund ''module/dispensation'' ''rowan'' 12 (ref_ctx\<lparr>dispensation_store :=
     put (DV_Record (ref_record ''sif1B'' 5)) (put (DV_Record (ref_record ''sif1C'' 7)) [])\<rparr>))"

definition ref_create_distribution :: msg_create_distribution where
  "ref_create_distribution = \<lparr>mcd_Distributor = ''sif1A'', mcd_AuthorizedRunner = ''sif1R'',
     mcd_DistributionType = DISTRIBUTION_TYPE_AIRDROP,
     mcd_Output = [\<lparr>out_Address = ''sif1B'', out_Coins = [\<lparr>coin_denom = ''rowan'', coin_amount = 5\<rparr>]\<rparr>,
       \<lparr>out_Address = ''sif1B'', out_Coins = [\<lparr>coin_denom = ''rowan'', coin_amount = 6\<rparr>]\<rparr>]\<rparr>"

definition ref_run_distribution :: msg_run_distribution where
  "ref_run_distribution = \<lparr>mrd_AuthorizedRunner = ''sif1R'', mrd_DistributionName = ''1_sif1A'',
     mrd_DistributionType = DISTRIBUTION_TYPE_LIQUIDITY_MINING\<rparr>"

lemmas ref_disp_eval = ref_disp_ctx_def ref_record_def put_def value_key_def key_as_def disp_eval ref_eval

lemma ref_disp_wf: "disp_wf ref_lib ref_disp_ctx"
proof -
  have "store_wf ref_lib (put (DV_Record (ref_record ''sif1B'' 5)) (put (DV_Record (ref_record ''sif1C'' 7)) []))"
    by (intro store_wf_put) (simp_all add: value_ok_def store_wf_def ref_record_def NewDistributionRecord_def
      DistributionRecord_Validate_def ref_eval)
  then show ?thesis by (simp add: disp_wf_def ref_disp_ctx_def fund_def)
qed

lemma ref_disp_solvent: "disp_solvent ref_lib ref_disp_ctx"
  by (simp add: disp_solvent_def disp_owed_def kv_sum_def unpaid_def amount_if_def bal_def ref_disp_eval Let_def)

lemma ref_no_panics: "no_panics ref_lib"
  by (auto simp: no_panics_def ref_eval ref_unbech_def ref_send_def ref_outcome_def split: option.splits sum.splits prod.splits)

theorem dispensation_history_solvent_witness:
  "disp_solvent ref_lib (foldl (deliver (dispensation_NewHandler ref_lib)) ref_disp_ctx
     [MsgCreateDistribution ref_create_distribution, MsgRunDistribution ref_run_distribution])"
  by (rule dispensation_history_solvent [OF ref.lib_laws_axioms ref_disp_wf ref_disp_solvent])
    (simp add: disp_allowed_def ref_create_distribution_def GetDistributionModuleAddress_def ref_eval)

lemma ref_run_runs: "\<exists>c'. msg_RunDistribution ref_lib ref_disp_ctx ref_run_distribution = Inr c'"
  by (rule lib_laws.RunDistribution_total [OF ref.lib_laws_axioms ref_no_panics ref_disp_wf ref_disp_solvent])

lemma ref_runnable: "runnable ref_disp_ctx ref_run_distribution = [ref_record ''sif1B'' 5, ref_record ''sif1C'' 7]"
  by (simp add: ref_run_distribution_def ref_disp_eval Let_def)

theorem dispensation_run_exact_witness:
  "\<exists>c' ok. msg_RunDistribution ref_lib ref_disp_ctx ref_run_distribution = Inr c' \<and>
     run_effect ref_lib 1 ok ref_disp_ctx [ref_record ''sif1B'' 5, ref_record ''sif1C'' 7] c'"
proof -
  obtain c' where run: "msg_RunDistribution ref_lib ref_disp_ctx ref_run_distribution = Inr c'"
    using ref_run_runs ..
  have "BlockHeight ref_disp_ctx = 1" by (simp add: ref_disp_ctx_def ref_eval)
  then show ?thesis
    using dispensation_run_exact [OF ref.lib_laws_axioms ref_disp_wf ref_disp_solvent run] run
    by (auto simp: ref_runnable)
qed


theorem dispensation_create_exact_witness:
  "\<exists>c'. msg_CreateDistribution ref_lib ref_disp_ctx ref_create_distribution = Inr c' \<and>
     disp_owed c' ''rowan'' = disp_owed ref_disp_ctx ''rowan'' + 11"
proof -
  have "\<exists>c'. msg_CreateDistribution ref_lib ref_disp_ctx ref_create_distribution = Inr c'"
    by (simp add: ref_create_distribution_def ref_disp_eval Let_def list_ex_iff cong: bindE_cong_weak)
  then obtain c' where run: "msg_CreateDistribution ref_lib ref_disp_ctx ref_create_distribution = Inr c'" ..
  have "outs_amount (mcd_Output ref_create_distribution) ''rowan'' = 11"
    by (simp add: outs_amount_def ref_create_distribution_def)
  then show ?thesis
    using dispensation_create_exact [OF ref.lib_laws_axioms ref_disp_wf run] run by auto
qed

theorem dispensation_genesis_roundtrip_witness:
  "\<exists>g. dispensation_ExportGenesis ref_disp_ctx = Inr g \<and>
     dispensation_InitGenesis ref_lib (ref_disp_ctx\<lparr>dispensation_store := []\<rparr>) g = Inr ref_disp_ctx"
  using dispensation_genesis_roundtrip [OF ref_disp_wf] by blast

theorem dispensation_query_exact_witness:
  "\<exists>rs. Query_RecordsByDistributionName ref_disp_ctx ''1_sif1A'' DISTRIBUTION_STATUS_PENDING = Inr rs \<and>
     ref_record ''sif1B'' 5 \<in> set rs"
proof -
  have "dr_DistributionStatus (ref_record ''sif1B'' 5) = DISTRIBUTION_STATUS_PENDING"
    and "dr_DistributionName (ref_record ''sif1B'' 5) = ''1_sif1A''"
    and "kv_get (dispensation_store ref_disp_ctx) (key_as DISTRIBUTION_STATUS_PENDING (ref_record ''sif1B'' 5))
      = Some (DV_Record (ref_record ''sif1B'' 5))"
    by (simp_all add: ref_disp_eval Let_def)
  then show ?thesis
    using dispensation_query_exact [OF ref_disp_wf, of "''1_sif1A''" DISTRIBUTION_STATUS_PENDING] by auto
qed

theorem dispensation_migration_keeps_witness:
  "\<exists>g rs. dispensation_Migrate ref_lib \<lparr>v39_DistributionRecords = [\<lparr>v39_DistributionStatus = 2,
       v39_DistributionName = ''n'', v39_DistributionType = 3, v39_RecipientAddress = ''B'', v39_Coins = [],
       v39_DistributionStartHeight = 4, v39_DistributionCompletedHeight = 5, v39_AuthorizedRunner = ''R''\<rparr>],
       v39_Distributions = [], v39_Claims = []\<rparr> = Inr g \<and> dg_DistributionRecords g = Some rs \<and>
     map (\<lambda>r. (dr_DistributionType r, dr_DistributionStatus r)) rs
       = [(DISTRIBUTION_TYPE_VALIDATOR_SUBSIDY, DISTRIBUTION_STATUS_COMPLETED)]"
proof -
  let ?s = "\<lparr>v39_DistributionRecords = [\<lparr>v39_DistributionStatus = 2,
       v39_DistributionName = ''n'', v39_DistributionType = 3, v39_RecipientAddress = ''B'', v39_Coins = [],
       v39_DistributionStartHeight = 4, v39_DistributionCompletedHeight = 5, v39_AuthorizedRunner = ''R''\<rparr>],
       v39_Distributions = [], v39_Claims = []\<rparr>"
  obtain g where run: "dispensation_Migrate ref_lib ?s = Inr g"
    by (simp add: dispensation_Migrate_def)
  then show ?thesis
    using dispensation_migration_keeps [OF run]
    by (auto simp: GetDistributionTypeFromShortString_def v39_type_String_def GetDistributionStatus_def v39_status_String_def)
qed

end
