(* ===== verification/IbcTransfer.thy ===== *)
theory IbcTransfer
  imports TokenRegistry
begin

section \<open>Transfers over IBC\<close>

text \<open>
  \<open>x/ibctransfer\<close> wraps the transfer module of ibc-go: an outgoing transfer must pass the token
  registry, and an incoming one is accepted only for registered tokens and converted to the
  precision of the token's unit denomination. The module of ibc-go itself, its denomination
  traces and SHA-256 are parameters.
\<close>

subsection \<open>What ibc-go provides\<close>

record packet =
  SourcePort :: string
  SourceChannel :: string
  DestPort :: string
  DestChannel :: string
  PacketData :: string

record packet_data =
  pd_Denom :: string
  pd_Amount :: string
  pd_Sender :: string
  pd_Receiver :: string

record msg_transfer =
  mt_SourcePort :: string
  mt_SourceChannel :: string
  mt_Token :: coin
  mt_Sender :: string
  mt_Receiver :: string
  mt_TimeoutHeight :: "nat \<times> nat"
  mt_TimeoutTimestamp :: nat

record denom_trace =
  dt_Path :: string
  dt_BaseDenom :: string

datatype acknowledgement = ErrorAcknowledgement error | ResultAcknowledgement string

record 'x ibc =
  ReceiverChainIsSource :: "string \<Rightarrow> string \<Rightarrow> string \<Rightarrow> bool"
  GetDenomPrefix :: "string \<Rightarrow> string \<Rightarrow> string"
  ParseDenomTrace :: "string \<Rightarrow> denom_trace"
  IBCDenom :: "denom_trace \<Rightarrow> string"
  Sum256 :: "string \<Rightarrow> string"
  UnmarshalPacketData :: "string \<Rightarrow> packet_data res"
  sdk_OnRecvPacket :: "'x \<Rightarrow> packet \<Rightarrow> packet_data \<Rightarrow> 'x \<times> event list \<times> error option"
  sdk_Transfer :: "'x \<Rightarrow> msg_transfer \<Rightarrow> ('x \<times> event list) res"

subsection \<open>Steps that keep their writes\<close>

text \<open>
  Receiving a packet answers with an acknowledgement also when it fails halfway, so a step
  returns the state in either case.
\<close>

type_synonym 'x step = "'x ctx \<Rightarrow> 'x ctx \<times> error option"

definition thenS :: "'x step \<Rightarrow> 'x step \<Rightarrow> 'x step" where
  "thenS f g c = (case f c of (c', None) \<Rightarrow> g c' | (c', Some e) \<Rightarrow> (c', Some e))"

definition withS :: "'a res \<Rightarrow> ('a \<Rightarrow> 'x step) \<Rightarrow> 'x step" where
  "withS m f c = (case m of Inl e \<Rightarrow> (c, Some e) | Inr a \<Rightarrow> f a c)"

definition bankS :: "('x \<Rightarrow> 'x \<times> error option) \<Rightarrow> 'x step" where
  "bankS f c = (case f (ext c) of (x, e) \<Rightarrow> (c\<lparr>ext := x\<rparr>, e))"

definition emitS :: "event list \<Rightarrow> 'x step" where
  "emitS es c = (EmitEvents es c, None)"

subsection \<open>Conversion\<close>

definition ibc_ModuleName :: string where
  "ibc_ModuleName = ''scibctransfer''"

definition ibc_Version :: string where
  "ibc_Version = ''ics20-sc.1''"

definition GetEscrowAddress :: "'x ibc \<Rightarrow> string \<Rightarrow> string \<Rightarrow> addr" where
  "GetEscrowAddress I portID channelID =
     (let contents = portID @ ''/'' @ channelID;
          preImage = ibc_Version @ [CHR 0x00] @ contents;
          hash = Sum256 I preImage
      in take 20 hash)"

definition ibc_IncreasePrecision :: "'x lib \<Rightarrow> dec \<Rightarrow> nat \<Rightarrow> dec res" where
  "ibc_IncreasePrecision L d po =
     bindE (Dec_Power L (NewDec L 10) po) (\<lambda>p. Dec_MulTruncate L d p)"

definition ibc_ReducePrecision :: "'x lib \<Rightarrow> dec \<Rightarrow> nat \<Rightarrow> dec res" where
  "ibc_ReducePrecision L d po =
     bindE (Dec_Power L (NewDec L 10) po) (\<lambda>p. Dec_QuoTruncate L d p)"

definition ConvertCoinsForTransfer ::
  "'x lib \<Rightarrow> msg_transfer \<Rightarrow> registry_entry \<Rightarrow> registry_entry \<Rightarrow> (coin \<times> coin) res" where
  "ConvertCoinsForTransfer L msg sendRegistryEntry sendAsRegistryEntry =
     (let po = u64 (i64 (Decimals sendRegistryEntry - Decimals sendAsRegistryEntry));
          decAmount = NewDec L (coin_amount (mt_Token msg)) in
      bindE (ibc_ReducePrecision L decAmount po) (\<lambda>convAmountDec.
      bindE (Dec_TruncateInt L convAmountDec) (\<lambda>convAmount.
      bindE (NewCoin L (IbcCounterpartyDenom sendRegistryEntry) convAmount) (\<lambda>convToken.
      bindE (ibc_IncreasePrecision L (NewDec L convAmount) po) (\<lambda>tokenAmountDec.
      bindE (Dec_TruncateInt L tokenAmountDec) (\<lambda>tokenAmount.
      bindE (NewCoin L (coin_denom (mt_Token msg)) tokenAmount) (\<lambda>token.
      Inr (token, convToken))))))))"

definition PrepareToSendConvertedCoins ::
  "'x lib \<Rightarrow> 'x ibc \<Rightarrow> msg_transfer \<Rightarrow> coin \<Rightarrow> coin \<Rightarrow> 'x step" where
  "PrepareToSendConvertedCoins L I msg token convToken =
     withS (AccAddressFromBech32 L (mt_Sender msg)) (\<lambda>sender.
     let escrowAddress = GetEscrowAddress I (mt_SourcePort msg) (mt_SourceChannel msg) in
     withS (NewCoins L [token]) (\<lambda>coins.
     thenS (bankS (\<lambda>x. SendCoins L x sender escrowAddress coins)) (
     withS (NewCoins L [convToken]) (\<lambda>convCoins.
     thenS (bankS (\<lambda>x. MintCoins L x ibc_ModuleName convCoins)) (
     thenS (bankS (\<lambda>x. SendCoinsFromModuleToAccount L x ibc_ModuleName sender convCoins)) (
     emitS [Event ''converted_transfer'' [
       (''module'', ibc_ModuleName),
       (''sent_amount'', int_string (coin_amount token)),
       (''sent_denom'', coin_denom token),
       (''converted_amount'', int_string (coin_amount convToken)),
       (''converted_denom'', coin_denom convToken)]]))))))"

definition IsRecvPacketAllowed :: "'x ibc \<Rightarrow> packet \<Rightarrow> packet_data \<Rightarrow> registry_entry \<Rightarrow> bool" where
  "IsRecvPacketAllowed I pkt data mintedDenomEntry =
     (if ReceiverChainIsSource I (SourcePort pkt) (SourceChannel pkt) (pd_Denom data) then True
      else CheckEntryPermissions mintedDenomEntry [Permission_IBCIMPORT])"

definition GetMintedDenomFromPacket :: "'x ibc \<Rightarrow> packet \<Rightarrow> packet_data \<Rightarrow> string res" where
  "GetMintedDenomFromPacket I pkt data =
     (if ReceiverChainIsSource I (SourcePort pkt) (SourceChannel pkt) (pd_Denom data)
      then let n = length (GetDenomPrefix I (SourcePort pkt) (SourceChannel pkt)) in
        if length (pd_Denom data) < n then Inl Panic
        else let denom = drop n (pd_Denom data); denomTrace = ParseDenomTrace I denom in
          Inr (if dt_Path denomTrace \<noteq> [] then IBCDenom I denomTrace else denom)
      else Inr (IBCDenom I (ParseDenomTrace I (GetDenomPrefix I (DestPort pkt) (DestChannel pkt) @ pd_Denom data))))"

definition ConvertIncomingCoins :: "'x lib \<Rightarrow> string \<Rightarrow> nat \<Rightarrow> int res" where
  "ConvertIncomingCoins L amount diff =
     bindE (parseE (ErrGo ''Failed to convert to int from string'') (NewIntFromString L amount)) (\<lambda>intAmount.
     bindE (ibc_IncreasePrecision L (NewDec L intAmount) diff) (\<lambda>d.
     Dec_TruncateInt L d))"

definition one_coin :: "'x lib \<Rightarrow> string \<Rightarrow> int \<Rightarrow> coins res" where
  "one_coin L denom amount = bindE (NewCoin L denom amount) (\<lambda>coin. NewCoins L [coin])"

definition final_coins ::
  "'x lib \<Rightarrow> registry_entry \<Rightarrow> registry_entry \<Rightarrow> packet_data \<Rightarrow> int \<Rightarrow> (int \<times> coins) res" where
  "final_coins L mintedDenomEntry convertToDenomEntry data amount =
     bindE (one_coin L (Denom convertToDenomEntry) amount) (\<lambda>finalCoins.
     if Decimals mintedDenomEntry < Decimals convertToDenomEntry
     then let diff = u64 (i64 (Decimals convertToDenomEntry - Decimals mintedDenomEntry)) in
       bindE (ConvertIncomingCoins L (pd_Amount data) diff) (\<lambda>convAmount.
       bindE (one_coin L (Denom convertToDenomEntry) convAmount) (\<lambda>finalCoins.
       Inr (convAmount, finalCoins)))
     else Inr (amount, finalCoins))"

definition ExecConvForIncomingCoins ::
  "'x lib \<Rightarrow> 'x ibc \<Rightarrow> registry_entry \<Rightarrow> registry_entry \<Rightarrow> packet \<Rightarrow> packet_data \<Rightarrow> 'x step" where
  "ExecConvForIncomingCoins L I mintedDenomEntry convertToDenomEntry pkt data =
     withS (AccAddressFromBech32 L (pd_Receiver data)) (\<lambda>receiver.
     withS (parseE (ErrGo ''Unable to get string amount'') (NewIntFromString L (pd_Amount data))) (\<lambda>amount.
     withS (one_coin L (Denom mintedDenomEntry) amount) (\<lambda>incomingCoins.
     thenS (bankS (\<lambda>x. SendCoinsFromAccountToModule L x receiver ibc_ModuleName incomingCoins)) (
     thenS (bankS (\<lambda>x. BurnCoins L x ibc_ModuleName incomingCoins)) (
     withS (final_coins L mintedDenomEntry convertToDenomEntry data amount) (\<lambda>(convAmount, finalCoins).
     let escrowAddress = GetEscrowAddress I (DestPort pkt) (DestChannel pkt) in
     thenS (bankS (\<lambda>x. SendCoins L x escrowAddress receiver finalCoins)) (
     emitS [Event ''converted_received_packet'' [
       (''module'', ibc_ModuleName),
       (''packet_amount'', pd_Amount data),
       (''packet_denom'', Denom mintedDenomEntry),
       (''converted_amount'', int_string convAmount),
       (''converted_denom'', Denom convertToDenomEntry)]])))))))"

subsection \<open>Sending\<close>

definition msg_Transfer :: "'x ibc \<Rightarrow> 'x ctx \<Rightarrow> msg_transfer \<Rightarrow> 'x ctx res" where
  "msg_Transfer I c msg =
     bindE (wrapE (Registry ErrPermissionDenied) (GetEntry (GetRegistry c) (coin_denom (mt_Token msg)))) (\<lambda>registryEntry.
     bindE (guardE (\<not> (UnitDenom registryEntry \<noteq> [] \<and> UnitDenom registryEntry \<noteq> Denom registryEntry))
       (Registry ErrPermissionDenied)) (\<lambda>_.
     bindE (guardE (CheckEntryPermissions registryEntry [Permission_IBCEXPORT]) (Registry ErrPermissionDenied)) (\<lambda>_.
     bindE (guardE (\<not> coin_amount (mt_Token msg) \<le> 0) (Transfer ErrAmountTooLowToConvert)) (\<lambda>_.
     bindE (sdk_Transfer I (ext c) msg) (\<lambda>(x, es).
     Inr (EmitEvents es (c\<lparr>ext := x\<rparr>)))))))"

subsection \<open>Receiving\<close>

definition packet_event :: "packet_data \<Rightarrow> bool \<Rightarrow> event" where
  "packet_event data success = Event ''fungible_token_packet'' [
     (''module'', ''transfer''),
     (''receiver'', pd_Receiver data),
     (''denom'', pd_Denom data),
     (''amount'', pd_Amount data),
     (''success'', if success then ''true'' else ''false'')]"

definition recv_entry :: "'x ibc \<Rightarrow> packet \<Rightarrow> packet_data \<Rightarrow> registry \<Rightarrow> string \<Rightarrow> registry_entry option" where
  "recv_entry I pkt data registry mintedDenom =
     (case GetEntry registry mintedDenom of
        Inl _ \<Rightarrow> None
      | Inr e \<Rightarrow> if IsRecvPacketAllowed I pkt data e then Some e else None)"

definition OnRecvPacketWhitelistConvert ::
  "'x lib \<Rightarrow> 'x ibc \<Rightarrow> 'x ctx \<Rightarrow> packet \<Rightarrow> ('x ctx \<times> acknowledgement) res" where
  "OnRecvPacketWhitelistConvert L I c pkt =
     (case UnmarshalPacketData I (PacketData pkt) of
        Inl e \<Rightarrow> if e = Panic then Inl Panic else Inr (c, ErrorAcknowledgement e)
      | Inr data \<Rightarrow>
          (case sdk_OnRecvPacket I (ext c) pkt data of
             (x, es, Some e) \<Rightarrow>
               if e = Panic then Inl Panic else Inr (EmitEvents es (c\<lparr>ext := x\<rparr>), ErrorAcknowledgement e)
           | (x, es, None) \<Rightarrow>
               (let c = EmitEvents es (c\<lparr>ext := x\<rparr>) in
                bindE (GetMintedDenomFromPacket I pkt data) (\<lambda>mintedDenom.
                let registry = GetRegistry c in
                case recv_entry I pkt data registry mintedDenom of
                  None \<Rightarrow>
                    Inr (EmitEvents [packet_event data False] c, ErrorAcknowledgement (ErrGo ''invalid coins''))
                | Some mintedDenomEntry \<Rightarrow>
                    (case GetEntry registry (UnitDenom mintedDenomEntry) of
                       Inl _ \<Rightarrow>
                         Inr (EmitEvents [packet_event data False] c, ResultAcknowledgement [CHR 0x01])
                     | Inr convertToDenomEntry \<Rightarrow>
                         if 0 < Decimals convertToDenomEntry \<and> 0 < Decimals mintedDenomEntry \<and>
                            Decimals mintedDenomEntry < Decimals convertToDenomEntry
                         then (case ExecConvForIncomingCoins L I mintedDenomEntry convertToDenomEntry pkt data c of
                             (c, Some e) \<Rightarrow>
                               if e = Panic then Inl Panic
                               else Inr (c, ErrorAcknowledgement (Transfer ErrConvertingToUnitDenom))
                           | (c, None) \<Rightarrow>
                               Inr (EmitEvents [packet_event data True] c, ResultAcknowledgement [CHR 0x01]))
                         else Inr (EmitEvents [packet_event data True] c, ResultAcknowledgement [CHR 0x01]))))))"

end
