(* ===== verification/IbcProperties.thy ===== *)
theory IbcProperties
  imports IbcTransfer Balances RefCtx
begin

section \<open>What the IBC transfers guarantee\<close>

text \<open>
  A transfer leaves the chain only for a registered, exportable token; a packet is accepted only
  for a registered token and its conversion is exact; and converting to a coarser precision and
  back loses nothing that was taken.
\<close>

subsection \<open>Steps\<close>

lemma thenS_ok [res_simps]: "thenS f g c = (c', None) \<longleftrightarrow> (\<exists>c1. f c = (c1, None) \<and> g c1 = (c', None))"
  by (auto simp: thenS_def split: prod.splits option.splits)

lemma withS_ok [res_simps]: "withS m f c = (c', None) \<longleftrightarrow> (\<exists>a. m = Inr a \<and> f a c = (c', None))"
  by (auto simp: withS_def split: sum.splits)

lemma bankS_ok [res_simps]: "bankS f c = (c', None) \<longleftrightarrow> bank f c = Inr c'"
  by (auto simp: bankS_def bank_eq_Inr split: prod.splits)

lemma emitS_ok [res_simps]: "emitS es c = (c', None) \<longleftrightarrow> c' = EmitEvents es c"
  by (auto simp: emitS_def)

subsection \<open>Precision\<close>

lemma div_swap: "0 \<le> a \<Longrightarrow> 0 \<le> b \<Longrightarrow> x div a div b = x div b div (a :: int)"
  by (metis zdiv_zmult2_eq mult.commute)

context lib_laws
begin

lemma increase_exact:
  assumes "ibc_IncreasePrecision L (NewDec L n) k = Inr d" and "0 \<le> n"
  shows "d = n * 10 ^ k * one_dec"
proof -
  obtain p where p: "Dec_Power L (10 * one_dec) k = Inr p" and d: "Dec_MulTruncate L (n * one_dec) p = Inr d"
    using assms(1) by (auto simp: ibc_IncreasePrecision_def res_simps dec_of_int)
  have "p = 10 ^ k * one_dec" by (rule dec_power [OF p])
  then show ?thesis
    using dec_mul_trunc [OF _ _ d] assms(2) by (simp add: mult_ac)
qed

lemma reduce_exact:
  assumes "ibc_ReducePrecision L (NewDec L n) k = Inr d" and "0 \<le> n"
  shows "d = n * one_dec div 10 ^ k"
proof -
  obtain p where p: "Dec_Power L (10 * one_dec) k = Inr p" and d: "Dec_QuoTruncate L (n * one_dec) p = Inr d"
    using assms(1) by (auto simp: ibc_ReducePrecision_def res_simps dec_of_int)
  have "p = 10 ^ k * one_dec" by (rule dec_power [OF p])
  then show ?thesis
    using dec_quo_trunc [OF _ _ d] assms(2) by (simp add: mult.commute)
qed

lemma increase_trunc:
  assumes "ibc_IncreasePrecision L (NewDec L n) k = Inr d" and "Dec_TruncateInt L d = Inr r" and "0 \<le> n"
  shows "r = n * 10 ^ k"
  using increase_exact [OF assms(1,3)] dec_trunc [OF _ assms(2)] assms(3) by simp

lemma reduce_trunc:
  assumes "ibc_ReducePrecision L (NewDec L n) k = Inr d" and "Dec_TruncateInt L d = Inr r" and "0 \<le> n"
  shows "r = n div 10 ^ k"
proof -
  have d: "d = n * one_dec div 10 ^ k" by (rule reduce_exact [OF assms(1,3)])
  then have "r = n * one_dec div 10 ^ k div one_dec"
    using dec_trunc [OF _ assms(2)] assms(3) by (simp add: pos_imp_zdiv_nonneg_iff)
  also have "\<dots> = n * one_dec div one_dec div 10 ^ k"
    by (rule div_swap) simp_all
  finally show ?thesis by simp
qed

lemma ConvertIncoming_exact:
  assumes "ConvertIncomingCoins L s k = Inr r" and "NewIntFromString L s = Some n" and "0 \<le> n"
  shows "r = n * 10 ^ k"
  using assms increase_trunc by (auto simp: ConvertIncomingCoins_def res_simps)

end

definition ref_transfer :: msg_transfer where
  "ref_transfer = \<lparr>mt_SourcePort = ''transfer'', mt_SourceChannel = ''c0'',
     mt_Token = \<lparr>coin_denom = ''ceth'', coin_amount = 12345\<rparr>, mt_Sender = ''sif1B'', mt_Receiver = ''R'',
     mt_TimeoutHeight = (0, 0), mt_TimeoutTimestamp = 0\<rparr>"

text \<open>C35. Reducing an amount to the precision of the counterparty keeps the whole units: what is taken
  from the sender is what the converted amount is worth, at most what was asked for and short of
  it by less than one unit of the coarser token, and converting the amount that arrives back gives
  exactly what was taken.\<close>

theorem ibc_conversion_roundtrip:
  assumes "lib_laws L" and "ConvertCoinsForTransfer L msg e1 e2 = Inr (token, conv)"
    and "0 \<le> coin_amount (mt_Token msg)" and "coin_amount (mt_Token msg) < 2 ^ 255"
    and "0 \<le> Decimals e1 - Decimals e2" and "Decimals e1 - Decimals e2 < 2 ^ 63"
  shows "coin_amount conv = coin_amount (mt_Token msg) div 10 ^ nat (Decimals e1 - Decimals e2) \<and>
    coin_amount token = coin_amount conv * 10 ^ nat (Decimals e1 - Decimals e2) \<and>
    coin_amount token \<le> coin_amount (mt_Token msg) \<and>
    coin_amount (mt_Token msg) < coin_amount token + 10 ^ nat (Decimals e1 - Decimals e2) \<and>
    ConvertIncomingCoins L (int_string (coin_amount conv)) (nat (Decimals e1 - Decimals e2)) = Inr (coin_amount token)"
proof -
  let ?n = "coin_amount (mt_Token msg)" and ?k = "nat (Decimals e1 - Decimals e2)"
  have k: "u64 (i64 (Decimals e1 - Decimals e2)) = ?k" using assms(5,6) by (rule u64_i64)
  obtain d c1 d2 t1 where red: "ibc_ReducePrecision L (NewDec L ?n) ?k = Inr d" "Dec_TruncateInt L d = Inr c1"
    and inc: "ibc_IncreasePrecision L (NewDec L c1) ?k = Inr d2" "Dec_TruncateInt L d2 = Inr t1"
    and conv: "NewCoin L (IbcCounterpartyDenom e1) c1 = Inr conv" and tok: "NewCoin L (coin_denom (mt_Token msg)) t1 = Inr token"
    using assms(2) unfolding ConvertCoinsForTransfer_def Let_def k by (auto simp: bindE_eq_Inr)
  have c1: "c1 = ?n div 10 ^ ?k" by (rule lib_laws.reduce_trunc [OF assms(1) red assms(3)])
  have pos: "0 \<le> c1" using c1 assms(3) by (simp add: pos_imp_zdiv_nonneg_iff)
  have t1: "t1 = c1 * 10 ^ ?k" by (rule lib_laws.increase_trunc [OF assms(1) inc pos])
  have coins: "coin_amount conv = c1" "coin_amount token = t1"
    using conv tok coin_laws.new_coin_Inr [OF lib_laws.axioms(3) [OF assms(1)]] by auto
  have split: "?n = c1 * 10 ^ ?k + ?n mod 10 ^ ?k" "0 \<le> ?n mod 10 ^ ?k" "?n mod 10 ^ ?k < 10 ^ ?k"
    using c1 div_mult_mod_eq [of ?n "10 ^ ?k"] by simp_all
  have "c1 * 1 \<le> c1 * 10 ^ ?k" using pos by (intro mult_left_mono) simp_all
  then have "c1 \<le> ?n" using split by linarith
  then have "NewIntFromString L (int_string c1) = Some c1"
    using uint_laws.int_of_string [OF lib_laws.axioms(1) [OF assms(1)]] pos assms(4) by simp
  then have "ConvertIncomingCoins L (int_string c1) ?k = Inr t1"
    using inc by (simp add: ConvertIncomingCoins_def parseE_def)
  moreover have "t1 \<le> ?n" and "?n < t1 + 10 ^ ?k" using split t1 by linarith+
  ultimately show ?thesis unfolding coins using c1 t1 by blast
qed

theorem ibc_conversion_roundtrip_witness:
  "\<exists>token conv. ConvertCoinsForTransfer ref_lib ref_transfer
       ((new_entry (''ceth'', 12))\<lparr>IbcCounterpartyDenom := ''xeth''\<rparr>) (new_entry (''xeth'', 10)) = Inr (token, conv) \<and>
     coin_amount conv = 123 \<and> coin_amount token = 12300"
proof -
  let ?e1 = "(new_entry (''ceth'', 12))\<lparr>IbcCounterpartyDenom := ''xeth''\<rparr>" and ?e2 = "new_entry (''xeth'', 10)"
  obtain token conv where c: "ConvertCoinsForTransfer ref_lib ref_transfer ?e1 ?e2 = Inr (token, conv)"
    by (auto simp: ConvertCoinsForTransfer_def ibc_IncreasePrecision_def ibc_ReducePrecision_def new_entry_def
        ref_transfer_def ref_eval i64_def u64_def Let_def)
  then show ?thesis
    using ibc_conversion_roundtrip [OF ref.lib_laws_axioms c] by (simp add: ref_transfer_def new_entry_def)
qed

subsection \<open>Sending\<close>


subsection \<open>Receiving\<close>

text \<open>The conversion of a received token, and what it moves.\<close>

definition converts :: "registry_entry \<Rightarrow> registry_entry \<Rightarrow> bool" where
  "converts minted unit \<longleftrightarrow> 0 < Decimals minted \<and> Decimals minted < Decimals unit"

definition converted ::
  "'x ibc \<Rightarrow> packet \<Rightarrow> registry_entry \<Rightarrow> registry_entry \<Rightarrow> addr \<Rightarrow> int \<Rightarrow> addr \<Rightarrow> string \<Rightarrow> int" where
  "converted I pkt minted unit receiver amount a d =
     (let n = amount * 10 ^ nat (Decimals unit - Decimals minted) in
      amount_if (a = receiver \<and> d = Denom unit) n
      - amount_if (a = GetEscrowAddress I (DestPort pkt) (DestChannel pkt) \<and> d = Denom unit) n
      - amount_if (a = receiver \<and> d = Denom minted) amount)"

context lib_laws
begin

lemma one_coin_amount: "one_coin L d n = Inr cs \<Longrightarrow> AmountOf cs e = amount_if (e = d) n \<and> 0 \<le> n"
  by (auto simp: one_coin_def res_simps amount_if_def dest: new_coins_amount [where d = e])

lemma ExecConv_exact:
  assumes "ExecConvForIncomingCoins L I minted unit pkt data c = (c', None)"
    and "converts minted unit" and "Decimals unit < 2 ^ 63"
  shows "\<exists>receiver amount es. AccAddressFromBech32 L (pd_Receiver data) = Inr receiver \<and>
    NewIntFromString L (pd_Amount data) = Some amount \<and> 0 \<le> amount \<and>
    c'\<lparr>ext := ext c\<rparr> = EmitEvents es c \<and>
    (\<forall>a d. bal L c' a d = bal L c a d + converted I pkt minted unit receiver amount a d)"
proof -
  let ?k = "nat (Decimals unit - Decimals minted)"
  obtain receiver amount cs conv cs' fin c1 c2 c3 es
    where r: "AccAddressFromBech32 L (pd_Receiver data) = Inr receiver"
    and amt: "NewIntFromString L (pd_Amount data) = Some amount"
    and cs: "one_coin L (Denom minted) amount = Inr cs"
    and dep: "bank (\<lambda>x. SendCoinsFromAccountToModule L x receiver ibc_ModuleName cs) c = Inr c1"
    and burn: "bank (\<lambda>x. BurnCoins L x ibc_ModuleName cs) c1 = Inr c2"
    and fc: "final_coins L minted unit data amount = Inr (conv, fin)"
    and rel: "bank (\<lambda>x. SendCoins L x (GetEscrowAddress I (DestPort pkt) (DestChannel pkt)) receiver fin) c2 = Inr c3"
    and c': "c' = EmitEvents es c3"
    using assms(1) unfolding ExecConvForIncomingCoins_def Let_def
    by (simp only: withS_ok thenS_ok bankS_ok emitS_ok parseE_eq_Inr split_paired_Ex prod.case) blast
  have pos: "0 \<le> amount" using one_coin_amount [OF cs] by simp
  have "ConvertIncomingCoins L (pd_Amount data) (u64 (i64 (Decimals unit - Decimals minted))) = Inr conv"
    and fin: "one_coin L (Denom unit) conv = Inr fin"
    using fc assms(2) by (auto simp: final_coins_def Let_def res_simps converts_def)
  moreover have "u64 (i64 (Decimals unit - Decimals minted)) = ?k"
    using assms(2,3) by (intro u64_i64) (auto simp: converts_def)
  ultimately have conv: "conv = amount * 10 ^ ?k"
    using ConvertIncoming_exact amt pos by simp
  have "bal L c' a d = bal L c a d + converted I pkt minted unit receiver amount a d" for a d
    using bal_to_module [OF dep, of a d] bal_burn [OF burn, of a d] bal_send [OF rel, of a d] c'
      one_coin_amount [OF cs, of d] one_coin_amount [OF fin, of d] conv
    by (auto simp: converted_def moved_def amount_if_def Let_def)
  moreover have "c'\<lparr>ext := ext c\<rparr> = EmitEvents es c"
    using dep burn rel c' by (auto simp: bank_eq_Inr EmitEvents_def)
  ultimately show ?thesis using r amt pos by blast
qed

end

text \<open>What an accepted packet passed: it was decoded, the transfer module took it, and its token may be received.\<close>

lemma receive_accepts:
  assumes "OnRecvPacketWhitelistConvert L I c pkt = Inr (c', ResultAcknowledgement r)"
  obtains data x es m minted where "UnmarshalPacketData I (PacketData pkt) = Inr data"
    and "sdk_OnRecvPacket I (ext c) pkt data = (x, es, None)" and "GetMintedDenomFromPacket I pkt data = Inr m"
    and "recv_entry I pkt data (GetRegistry c) m = Some minted"
proof -
  obtain data where data: "UnmarshalPacketData I (PacketData pkt) = Inr data"
    using assms by (auto simp: OnRecvPacketWhitelistConvert_def split: sum.splits if_splits)
  obtain x es where sdk: "sdk_OnRecvPacket I (ext c) pkt data = (x, es, None)"
    using assms data by (cases "sdk_OnRecvPacket I (ext c) pkt data")
      (auto simp: OnRecvPacketWhitelistConvert_def split: option.splits if_splits)
  have reg: "GetRegistry (EmitEvents es (c\<lparr>ext := x\<rparr>)) = GetRegistry c" by (simp add: GetRegistry_def)
  obtain m where m: "GetMintedDenomFromPacket I pkt data = Inr m"
    using assms data sdk by (auto simp: OnRecvPacketWhitelistConvert_def Let_def bindE_eq_Inr)
  obtain minted where "recv_entry I pkt data (GetRegistry c) m = Some minted"
    using assms data sdk m reg by (auto simp: OnRecvPacketWhitelistConvert_def Let_def split: option.splits)
  with that data sdk m show thesis by blast
qed

lemma recv_entry_allowed:
  assumes "recv_entry I pkt data r m = Some minted"
  shows "GetEntry r m = Inr minted" and "ReceiverChainIsSource I (SourcePort pkt) (SourceChannel pkt) (pd_Denom data) \<or>
    Permission_IBCIMPORT \<in> set (Permissions minted)"
  using assms by (auto simp: recv_entry_def IsRecvPacketAllowed_def split: sum.splits if_splits)

text \<open>C33. A packet that is acknowledged with success was for a registered token, which came back to this
  chain or has the import permission. If the token's unit denomination is registered with more
  decimals, the received coins are burned and their exact worth is paid to the receiver from the
  escrow account; otherwise the balances are those that ibc-go left. No store of the chain's own
  modules changes.\<close>

theorem ibc_receive_exact:
  assumes "lib_laws L" and "list_all (\<lambda>e. Decimals e < 2 ^ 63) (GetRegistry c)"
    and "OnRecvPacketWhitelistConvert L I c pkt = Inr (c', ResultAcknowledgement r)"
  shows "\<exists>data x es m minted es'. UnmarshalPacketData I (PacketData pkt) = Inr data \<and>
    sdk_OnRecvPacket I (ext c) pkt data = (x, es, None) \<and>
    GetMintedDenomFromPacket I pkt data = Inr m \<and> GetEntry (GetRegistry c) m = Inr minted \<and>
    (ReceiverChainIsSource I (SourcePort pkt) (SourceChannel pkt) (pd_Denom data) \<or>
      Permission_IBCIMPORT \<in> set (Permissions minted)) \<and>
    c'\<lparr>ext := ext c\<rparr> = EmitEvents es' c \<and>
    (case GetEntry (GetRegistry c) (UnitDenom minted) of
       Inl _ \<Rightarrow> ext c' = x
     | Inr unit \<Rightarrow>
         if converts minted unit then
           \<exists>receiver amount. AccAddressFromBech32 L (pd_Receiver data) = Inr receiver \<and>
             NewIntFromString L (pd_Amount data) = Some amount \<and> 0 \<le> amount \<and>
             (\<forall>a d. bal L c' a d = GetBalance L x a d + converted I pkt minted unit receiver amount a d)
         else ext c' = x)"
proof -
  obtain data x es m minted where data: "UnmarshalPacketData I (PacketData pkt) = Inr data"
    and sdk: "sdk_OnRecvPacket I (ext c) pkt data = (x, es, None)" and m: "GetMintedDenomFromPacket I pkt data = Inr m"
    and minted: "recv_entry I pkt data (GetRegistry c) m = Some minted"
    by (rule receive_accepts [OF assms(3)])
  note facts = data sdk m recv_entry_allowed [OF minted]
  let ?c = "EmitEvents es (c\<lparr>ext := x\<rparr>)"
  have reg: "GetRegistry ?c = GetRegistry c" by (simp add: GetRegistry_def)
  note run = assms(3) [unfolded OnRecvPacketWhitelistConvert_def Let_def]
  have emitted: ?thesis if "c' = EmitEvents [e] ?c"
    and "case GetEntry (GetRegistry c) (UnitDenom minted) of Inl _ \<Rightarrow> True | Inr unit \<Rightarrow> \<not> converts minted unit" for e
    using facts that
    by (intro exI [of _ data] exI [of _ x] exI [of _ es] exI [of _ m] exI [of _ minted] exI [of _ "es @ [e]"])
      (simp add: EmitEvents_def split: sum.splits)
  show ?thesis
  proof (cases "GetEntry (GetRegistry c) (UnitDenom minted)")
    case (Inl e)
    then have "c' = EmitEvents [packet_event data False] ?c" using run data sdk m minted reg by simp
    then show ?thesis using Inl by (intro emitted) simp_all
  next
    case (Inr unit)
    show ?thesis
    proof (cases "converts minted unit")
      case True
      obtain c1 where conv: "ExecConvForIncomingCoins L I minted unit pkt data ?c = (c1, None)"
        and c': "c' = EmitEvents [packet_event data True] c1"
        using run data sdk m minted reg Inr True
        by (auto simp: converts_def split: prod.splits option.splits if_splits)
      have "Decimals unit < 2 ^ 63"
        using assms(2) GetEntry_member [OF Inr] by (simp add: list_all_iff)
      then obtain receiver amount es2 where "AccAddressFromBech32 L (pd_Receiver data) = Inr receiver"
        and "NewIntFromString L (pd_Amount data) = Some amount" and "0 \<le> amount"
        and fr: "c1\<lparr>ext := ext ?c\<rparr> = EmitEvents es2 ?c"
        and "\<forall>a d. bal L c1 a d = bal L ?c a d + converted I pkt minted unit receiver amount a d"
        using lib_laws.ExecConv_exact [OF assms(1) conv True] by blast
      moreover have "c'\<lparr>ext := ext c\<rparr> = EmitEvents (es @ es2 @ [packet_event data True]) c"
        using fr c' by (cases c1; cases c) (simp add: EmitEvents_def)
      ultimately show ?thesis using facts Inr True c' by (auto simp: bal_def)
    next
      case False
      then have "c' = EmitEvents [packet_event data True] ?c"
        using run data sdk m minted reg Inr by (auto simp: converts_def split: if_splits)
      then show ?thesis using Inr False by (intro emitted) simp_all
    qed
  qed
qed

text \<open>An instance of ibc-go's side: five of the coarser token come back to this chain.\<close>

definition ref_ibc :: "ref_state ibc" where
  "ref_ibc = \<lparr>ReceiverChainIsSource = (\<lambda>p ch d. HasPrefix d (p @ ''/'' @ ch @ ''/'')),
     GetDenomPrefix = (\<lambda>p ch. p @ ''/'' @ ch @ ''/''),
     ParseDenomTrace = (\<lambda>s. \<lparr>dt_Path = [], dt_BaseDenom = s\<rparr>),
     IBCDenom = (\<lambda>t. ''ibc/'' @ dt_BaseDenom t), Sum256 = (\<lambda>s. take 32 (s @ replicate 32 CHR 0x00)),
     UnmarshalPacketData = (\<lambda>s. Inr \<lparr>pd_Denom = ''transfer/c0/xeth'', pd_Amount = ''5'', pd_Sender = s,
       pd_Receiver = ''sif1B''\<rparr>),
     sdk_OnRecvPacket = (\<lambda>x p d. (ref_put ''B'' ''xeth'' 5 x, [], None)),
     sdk_Transfer = (\<lambda>x m. Inr (x, []))\<rparr>"

definition ref_packet :: packet where
  "ref_packet = \<lparr>SourcePort = ''transfer'', SourceChannel = ''c0'', DestPort = ''transfer'', DestChannel = ''c1'',
     PacketData = ''S''\<rparr>"

definition ref_ibc_ctx :: "ref_state ctx" where
  "ref_ibc_ctx = fund (GetEscrowAddress ref_ibc ''transfer'' ''c1'') ''ceth'' 1000
     (SetRegistry ref_ctx [new_entry (''ceth'', 12), (new_entry (''xeth'', 10))\<lparr>UnitDenom := ''ceth''\<rparr>])"

lemmas ibc_eval = ref_ibc_def ref_packet_def ref_ibc_ctx_def new_entry_def OnRecvPacketWhitelistConvert_def
  recv_entry_def IsRecvPacketAllowed_def GetMintedDenomFromPacket_def ExecConvForIncomingCoins_def
  ConvertIncomingCoins_def ibc_IncreasePrecision_def final_coins_def one_coin_def thenS_def withS_def bankS_def
  emitS_def GetEscrowAddress_def ibc_ModuleName_def ibc_Version_def SetRegistry_def GetRegistry_def
  WhitelistStorePrefix_def EqualFold_def

lemma ref_receive:
  "\<exists>c'. OnRecvPacketWhitelistConvert ref_lib ref_ibc ref_ibc_ctx ref_packet = Inr (c', ResultAcknowledgement [CHR 0x01])"
proof -
  have pre: "HasPrefix ''transfer/c0/xeth'' ''transfer/c0/''" by code_simp
  have amt: "ref_parse_int ''5'' = Some 5" by code_simp
  have ne: "ToLower ''ceth'' \<noteq> ToLower ''xeth''" by code_simp
  show ?thesis
    by (simp add: ibc_eval ref_eval Let_def pre amt ne i64_def u64_def cong: bindE_cong_weak split del: if_split)
qed

theorem ibc_receive_exact_witness:
  "\<exists>c'. OnRecvPacketWhitelistConvert ref_lib ref_ibc ref_ibc_ctx ref_packet = Inr (c', ResultAcknowledgement [CHR 0x01]) \<and>
     bal ref_lib c' ''B'' ''ceth'' = 500 \<and> bal ref_lib c' ''B'' ''xeth'' = 0"
proof -
  let ?m = "(new_entry (''xeth'', 10))\<lparr>UnitDenom := ''ceth''\<rparr>" and ?u = "new_entry (''ceth'', 12)"
  have pre: "HasPrefix ''transfer/c0/xeth'' ''transfer/c0/''" by code_simp
  have amt: "ref_parse_int ''5'' = Some 5" by code_simp
  have ne: "ToLower ''ceth'' \<noteq> ToLower ''xeth''" by code_simp
  obtain c' where r: "OnRecvPacketWhitelistConvert ref_lib ref_ibc ref_ibc_ctx ref_packet = Inr (c', ResultAcknowledgement [CHR 0x01])"
    using ref_receive by blast
  have reg: "GetRegistry ref_ibc_ctx = [?u, ?m]"
    by (simp add: ref_ibc_ctx_def SetRegistry_def GetRegistry_def ref_eval)
  then have dec: "list_all (\<lambda>e. Decimals e < 2 ^ 63) (GetRegistry ref_ibc_ctx)"
    by (simp add: new_entry_def)
  have ent: "GetEntry (GetRegistry ref_ibc_ctx) ''xeth'' = Inr ?m" "GetEntry (GetRegistry ref_ibc_ctx) ''ceth'' = Inr ?u"
    using ne by (simp_all add: reg new_entry_def EqualFold_def)
  have cv: "converts ?m ?u" by (simp add: converts_def new_entry_def)
  have um: "UnitDenom ?m = ''ceth''" by simp
  define data where "data = projr (UnmarshalPacketData ref_ibc ''S'')"
  have data: "UnmarshalPacketData ref_ibc (PacketData ref_packet) = Inr data"
      "AccAddressFromBech32 ref_lib (pd_Receiver data) = Inr ''B''" "NewIntFromString ref_lib (pd_Amount data) = Some 5"
      "GetMintedDenomFromPacket ref_ibc ref_packet data = Inr ''xeth''"
    by (simp_all add: data_def GetMintedDenomFromPacket_def ref_ibc_def ref_packet_def pre amt ref_eval)
  have sdk: "sdk_OnRecvPacket ref_ibc x p d = (ref_put ''B'' ''xeth'' 5 x, [], None)" for x p d
    by (simp add: ref_ibc_def)
  have "\<forall>a d. bal ref_lib c' a d = GetBalance ref_lib (ref_put ''B'' ''xeth'' 5 (ext ref_ibc_ctx)) a d
      + converted ref_ibc ref_packet ?m ?u ''B'' 5 a d"
    using ibc_receive_exact [OF ref.lib_laws_axioms dec r] by (auto simp: ent cv um data sdk)
  then show ?thesis
    using r by (auto simp: converted_def amount_if_def new_entry_def ref_eval ref_ibc_ctx_def ref_ibc_def ref_packet_def
        GetEscrowAddress_def ibc_Version_def SetRegistry_def)
qed

end
