(* ===== verification/Ante.thy ===== *)
theory Ante
  imports RefCtx
begin

section \<open>The fee check before a transaction\<close>

text \<open>
  \<open>app/ante\<close>: a decorator that the chain runs before a transaction. It lowers the gas price of a
  distribution, and demands a minimal fee in rowan of transactions that hold certain messages.
  The messages are seen as their type URLs; the decorators after it (\<open>next\<close>) are a parameter that
  is given the new minimal gas prices, if there are any.
\<close>

record tx =
  tx_MsgTypeURLs :: "string list"
  tx_Fee :: "coins option"

record dec_coin =
  dc_Denom :: string
  dc_Amount :: dec

definition MsgTypeCreateDistribution :: string where
  "MsgTypeCreateDistribution = ''createDistribution''"

definition MsgTypeRunDistribution :: string where
  "MsgTypeRunDistribution = ''runDistribution''"

definition high_fee_msg :: "string \<Rightarrow> bool" where
  "high_fee_msg url \<longleftrightarrow>
     Contains url (ToLower ''send'') \<or> Contains url (ToLower ''multisend'') \<or>
     Contains url ''createuserclaim'' \<or> Contains url ''swap'' \<or>
     Contains url ''removeliquidity'' \<or> Contains url ''addliquidity''"

fun min_fee :: "int \<Rightarrow> string list \<Rightarrow> int" where
  "min_fee minFee [] = minFee"
| "min_fee minFee (msg # msgs) =
     (let msgTypeURLLower = ToLower msg in
      min_fee
        (if high_fee_msg msgTypeURLLower then 100000000000000000
         else if Contains msgTypeURLLower ''transfer'' \<and> minFee \<le> 10000000000000000 then 10000000000000000
         else minFee) msgs)"

fun rowan_fee :: "int \<Rightarrow> coins \<Rightarrow> int" where
  "rowan_fee rowanFee [] = rowanFee"
| "rowan_fee rowanFee (fee # fees) =
     rowan_fee (if EqualFold ''rowan'' (coin_denom fee) then coin_amount fee else rowanFee) fees"

definition AnteHandle :: "'x lib \<Rightarrow> (dec_coin list option \<Rightarrow> 'r res) \<Rightarrow> tx \<Rightarrow> 'r res" where
  "AnteHandle L next t =
     (let msgs = tx_MsgTypeURLs t in
      if length msgs = 1 \<and> (Contains (ToLower (hd msgs)) (ToLower MsgTypeCreateDistribution) \<or>
           Contains (ToLower (hd msgs)) (ToLower MsgTypeRunDistribution))
      then let minGasPrice = \<lparr>dc_Denom = ''rowan'', dc_Amount = 50000000000\<rparr> in
        bindE (guardE (ValidateDenom L (dc_Denom minGasPrice) \<and> \<not> dc_Amount minGasPrice < 0)
          (ErrGo ''invalid gas price'')) (\<lambda>_.
        next (Some [minGasPrice]))
      else
        let minFee = min_fee 0 msgs in
        if minFee = 0 then next None
        else
          bindE (parseE (ErrGo ''tx must be a FeeTx'') (tx_Fee t)) (\<lambda>fees.
          let rowanFee = rowan_fee 0 fees in
          bindE (guardE (\<not> rowanFee \<le> 0) (ErrGo ''unsupported fee asset'')) (\<lambda>_.
          bindE (guardE (\<not> rowanFee < minFee) (ErrGo ''tx fee is too low'')) (\<lambda>_.
          next None))))"

subsection \<open>What the check enforces\<close>

text \<open>The fee that the messages of a transaction call for, whatever their order.\<close>

definition required_fee :: "string list \<Rightarrow> int" where
  "required_fee msgs =
     (if list_ex (\<lambda>m. high_fee_msg (ToLower m)) msgs then 10 ^ 17
      else if list_ex (\<lambda>m. Contains (ToLower m) ''transfer'') msgs then 10 ^ 16
      else 0)"

definition lowers_gas_price :: "string list \<Rightarrow> bool" where
  "lowers_gas_price msgs \<longleftrightarrow> length msgs = 1 \<and>
     (Contains (ToLower (hd msgs)) ''createdistribution'' \<or> Contains (ToLower (hd msgs)) ''rundistribution'')"

lemma min_fee_required:
  "n = 0 \<or> n = 10 ^ 16 \<or> n = 10 ^ 17 \<Longrightarrow> min_fee n msgs = max n (required_fee msgs)"
proof (induction msgs arbitrary: n)
  case Nil
  then show ?case by (auto simp: required_fee_def)
next
  case (Cons m msgs)
  let ?n = "if high_fee_msg (ToLower m) then 100000000000000000
     else if Contains (ToLower m) ''transfer'' \<and> n \<le> 10000000000000000 then 10000000000000000 else n"
  have "min_fee n (m # msgs) = max ?n (required_fee msgs)"
    using Cons.IH [of ?n] Cons.prems by (auto simp: Let_def)
  then show ?case
    using Cons.prems by (auto simp: required_fee_def)
qed

lemma ToLower_types [simp]:
  "ToLower MsgTypeCreateDistribution = ''createdistribution''" "ToLower MsgTypeRunDistribution = ''rundistribution''"
  by code_simp+

text \<open>The last coin of the fee whose denomination is rowan up to case.\<close>

lemma rowan_fee_last:
  "rowan_fee n fees =
     (case filter (\<lambda>c. EqualFold ''rowan'' (coin_denom c)) fees of [] \<Rightarrow> n | cs \<Rightarrow> coin_amount (last cs))"
  by (induction fees arbitrary: n) (auto split: list.splits)

text \<open>C36. The fee check refuses a transaction exactly if its messages call for a fee and the fee paid in
  rowan is missing or below it: a tenth of a rowan if any message is a transfer of the bank, a
  claim, a swap or a change of liquidity, else a hundredth if any is a transfer, in whatever
  order the messages stand. A single message that creates or runs a distribution passes with a
  lower gas price. The denomination is compared without regard to case.\<close>

theorem ante_fee_exact:
  assumes "ValidateDenom L ''rowan''"
  shows "AnteHandle L next t =
    (if lowers_gas_price (tx_MsgTypeURLs t) then next (Some [\<lparr>dc_Denom = ''rowan'', dc_Amount = 5 * 10 ^ 10\<rparr>])
     else if required_fee (tx_MsgTypeURLs t) = 0 then next None
     else case tx_Fee t of
         None \<Rightarrow> Inl (ErrGo ''tx must be a FeeTx'')
       | Some fees \<Rightarrow>
           (case filter (\<lambda>c. EqualFold ''rowan'' (coin_denom c)) fees of
              [] \<Rightarrow> Inl (ErrGo ''unsupported fee asset'')
            | cs \<Rightarrow>
                if coin_amount (last cs) \<le> 0 then Inl (ErrGo ''unsupported fee asset'')
                else if coin_amount (last cs) < required_fee (tx_MsgTypeURLs t) then Inl (ErrGo ''tx fee is too low'')
                else next None))"
proof -
  have "min_fee 0 (tx_MsgTypeURLs t) = required_fee (tx_MsgTypeURLs t)"
    by (subst min_fee_required) (auto simp: required_fee_def)
  then show ?thesis
    using assms by (auto simp: AnteHandle_def Let_def lowers_gas_price_def parseE_def rowan_fee_last
        split: option.splits list.splits)
qed

theorem ante_fee_exact_witness:
  "AnteHandle ref_lib Inr \<lparr>tx_MsgTypeURLs = [''/sifnode.clp.v1.MsgSwap''],
     tx_Fee = Some [\<lparr>coin_denom = ''rowan'', coin_amount = 7\<rparr>]\<rparr> = Inl (ErrGo ''tx fee is too low'')"
proof -
  have "ValidateDenom ref_lib ''rowan''" by (simp add: ref_eval)
  moreover have "\<not> lowers_gas_price [''/sifnode.clp.v1.MsgSwap'']" by code_simp
  moreover have "required_fee [''/sifnode.clp.v1.MsgSwap''] = 10 ^ 17" by code_simp
  ultimately show ?thesis by (simp add: ante_fee_exact)
qed

end
