(* ===== verification/RelayerParser.thy ===== *)
theory RelayerParser
  imports EthBridge
begin

section \<open>What the relayer reads\<close>

text \<open>
  \<open>cmd/ebrelayer\<close> carries burns and locks of the chain to Ethereum and the events of the bridge
  contracts to the chain. This theory holds the messages of both directions, the translation of
  token symbols, the parsers of \<open>txs/parser.go\<close> and the decoding of earlier contract calls.
  Bytes are characters. The bidirectional map of \<open>vishalkuo/bimap\<close> and the SDK's conversion of
  big integers are parameters; \<open>encoding/json\<close> hands over a decoded map.
\<close>

subsection \<open>Types\<close>

datatype relayer_event =
    Ev_Unsupported | Ev_MsgBurn | Ev_MsgLock | Ev_LogLock | Ev_LogBurn | Ev_LogNewProphecyClaim
  | Ev_NewProphecyClaim | Ev_CreateEthBridgeClaim

definition relayer_event_String :: "relayer_event \<Rightarrow> string" where
  "relayer_event_String d =
     (case d of
        Ev_Unsupported \<Rightarrow> ''unsupported''
      | Ev_MsgBurn \<Rightarrow> ''burn''
      | Ev_MsgLock \<Rightarrow> ''lock''
      | Ev_LogLock \<Rightarrow> ''LogLock''
      | Ev_LogBurn \<Rightarrow> ''LogBurn''
      | Ev_LogNewProphecyClaim \<Rightarrow> ''LogNewProphecyClaim''
      | Ev_NewProphecyClaim \<Rightarrow> ''newProphecyClaim''
      | Ev_CreateEthBridgeClaim \<Rightarrow> ''create_claim'')"

text \<open>The number that \<open>uint8(claim.ClaimType)\<close> sends to the contract.\<close>

definition relayer_event_nr :: "relayer_event \<Rightarrow> nat" where
  "relayer_event_nr d =
     (case d of
        Ev_Unsupported \<Rightarrow> 0 | Ev_MsgBurn \<Rightarrow> 1 | Ev_MsgLock \<Rightarrow> 2 | Ev_LogLock \<Rightarrow> 3 | Ev_LogBurn \<Rightarrow> 4
      | Ev_LogNewProphecyClaim \<Rightarrow> 5 | Ev_NewProphecyClaim \<Rightarrow> 6 | Ev_CreateEthBridgeClaim \<Rightarrow> 7)"

record ethereum_event =
  ee_To :: string
  ee_Symbol :: string
  ee_EthereumChainID :: int
  ee_Value :: int
  ee_Nonce :: int
  ee_ClaimType :: claim_type
  ee_BridgeContractAddress :: string
  ee_From :: string
  ee_Token :: string

text \<open>A nil \<open>*big.Int\<close> and the zero value of \<open>sdk.Int\<close> are \<open>None\<close>.\<close>

record cosmos_msg =
  cm_CosmosSender :: string
  cm_CosmosSenderSequence :: "int option"
  cm_Symbol :: string
  cm_Amount :: "int option"
  cm_EthereumReceiver :: string
  cm_ClaimType :: relayer_event

definition NewCosmosMsg ::
  "relayer_event \<Rightarrow> string \<Rightarrow> int option \<Rightarrow> string \<Rightarrow> string \<Rightarrow> int option \<Rightarrow> cosmos_msg" where
  "NewCosmosMsg claimType cosmosSender cosmosSenderSequence ethereumReceiver symbol amount =
     \<lparr>cm_CosmosSender = cosmosSender, cm_CosmosSenderSequence = cosmosSenderSequence, cm_Symbol = symbol,
      cm_Amount = amount, cm_EthereumReceiver = ethereumReceiver, cm_ClaimType = claimType\<rparr>"

record ethereum_bridge_claim =
  bc_EthereumSender :: string
  bc_CosmosSender :: addr
  bc_Nonce :: "int option"

record prophecy_claim_unique =
  pc_CosmosSenderSequence :: int
  pc_CosmosSender :: string

subsection \<open>Symbols\<close>

text \<open>A value of Go's \<open>interface{}\<close>: a string, or something else with its printed form.\<close>

datatype iface = IString string | IOther string

record 'b relay_lib =
  bm_New :: 'b
  bm_Insert :: "'b \<Rightarrow> iface \<Rightarrow> iface \<Rightarrow> 'b res"
  bm_MakeImmutable :: "'b \<Rightarrow> 'b"
  bm_Get :: "'b \<Rightarrow> iface \<Rightarrow> iface option"
  bm_GetInverse :: "'b \<Rightarrow> iface \<Rightarrow> iface option"
  NewIntFromBigInt :: "int \<Rightarrow> int res"

definition as_string :: "iface \<Rightarrow> string res" where
  "as_string v = (case v of IString s \<Rightarrow> Inr s | IOther _ \<Rightarrow> Inl Panic)"

definition GetWithDefault :: "'b relay_lib \<Rightarrow> 'b \<Rightarrow> iface \<Rightarrow> iface \<Rightarrow> iface" where
  "GetWithDefault B bimap k defaultValue =
     (case bm_Get B bimap k of Some result \<Rightarrow> result | None \<Rightarrow> defaultValue)"

definition GetInverseWithDefault :: "'b relay_lib \<Rightarrow> 'b \<Rightarrow> iface \<Rightarrow> iface \<Rightarrow> iface" where
  "GetInverseWithDefault B bimap k defaultValue =
     (case bm_GetInverse B bimap k of Some result \<Rightarrow> result | None \<Rightarrow> defaultValue)"

definition SifchainToEthereum :: "'b relay_lib \<Rightarrow> 'b \<Rightarrow> string \<Rightarrow> string res" where
  "SifchainToEthereum B t denom = as_string (GetWithDefault B t (IString denom) (IString denom))"

definition EthereumToSifchain :: "'b relay_lib \<Rightarrow> 'b \<Rightarrow> string \<Rightarrow> string res" where
  "EthereumToSifchain B t symbol = as_string (GetInverseWithDefault B t (IString symbol) (IString symbol))"

definition NewSymbolTranslator :: "'b relay_lib \<Rightarrow> 'b" where
  "NewSymbolTranslator B = bm_New B"

text \<open>The entries of the decoded JSON object, in the order in which Go's map iteration yields them.\<close>

definition NewSymbolTranslatorFromJSONBytes :: "'b relay_lib \<Rightarrow> (string \<times> iface) list res \<Rightarrow> 'b res" where
  "NewSymbolTranslatorFromJSONBytes B decoded =
     bindE decoded (\<lambda>symbolMap.
     bindE (foldE (\<lambda>m (k, v). bm_Insert B m (IString k) v) (bm_New B) symbolMap) (\<lambda>symbolBiMap.
     Inr (bm_MakeImmutable B symbolBiMap)))"

subsection \<open>Events of the contracts\<close>

definition nullAddress :: string where
  "nullAddress = ''0x0000000000000000000000000000000000000000''"

definition defaultSifchainPrefix :: char where
  "defaultSifchainPrefix = CHR ''c''"

definition isZeroAddress :: "'x lib \<Rightarrow> string \<Rightarrow> bool" where
  "isZeroAddress L address \<longleftrightarrow> address = HexToAddress L nullAddress"

definition claim_symbol :: "'x lib \<Rightarrow> 'b relay_lib \<Rightarrow> 'b \<Rightarrow> ethereum_event \<Rightarrow> string res" where
  "claim_symbol L B t event =
     (case ee_ClaimType event of
        CLAIM_TYPE_LOCK \<Rightarrow>
          (let symbol = ToLower (ee_Symbol event) in
           if symbol = ''eth'' \<and> \<not> isZeroAddress L (ee_Token event)
           then Inl (ErrGo ''symbol eth must have null address set as token address'')
           else Inr symbol)
      | CLAIM_TYPE_BURN \<Rightarrow> EthereumToSifchain B t (ee_Symbol event)
      | CLAIM_TYPE_UNSPECIFIED \<Rightarrow> Inr (ee_Symbol event))"

text \<open>\<open>big.Int.Int64\<close> keeps the low 64 bits, as \<^const>\<open>i64\<close> does.\<close>

definition EthereumEventToEthBridgeClaim ::
  "'x lib \<Rightarrow> 'b relay_lib \<Rightarrow> 'b \<Rightarrow> addr \<Rightarrow> ethereum_event \<Rightarrow> eth_bridge_claim res" where
  "EthereumEventToEthBridgeClaim L B t valAddr event =
     (let chainID = i64 (ee_EthereumChainID event);
          bridgeContractAddress = NewEthereumAddress L (EthAddress_String L (ee_BridgeContractAddress event));
          sender = NewEthereumAddress L (EthAddress_String L (ee_From event)) in
      bindE (AccAddressFromBech32 L (ee_To event)) (\<lambda>recipient.
      bindE (guardE (recipient \<noteq> []) (ErrGo ''empty recipient address'')) (\<lambda>_.
      let tokenContractAddress = NewEthereumAddress L (EthAddress_String L (ee_Token event)) in
      bindE (claim_symbol L B t event) (\<lambda>symbol.
      bindE (NewIntFromBigInt B (ee_Value event)) (\<lambda>amount.
      let nonce = i64 (ee_Nonce event) in
      Inr \<lparr>ebc_EthereumChainId = chainID,
           ebc_BridgeContractAddress = EthereumAddress_String L bridgeContractAddress,
           ebc_Nonce = nonce, ebc_Symbol = symbol,
           ebc_TokenContractAddress = EthereumAddress_String L tokenContractAddress,
           ebc_EthereumSender = EthereumAddress_String L sender,
           ebc_CosmosReceiver = AccAddress_String L recipient,
           ebc_ValidatorAddress = ValAddress_String L valAddr,
           ebc_Amount = amount, ebc_ClaimType = ee_ClaimType event\<rparr>)))))"

subsection \<open>Events of the chain\<close>

text \<open>\<open>big.Int.SetString(s, 10)\<close>: an optional sign and at least one digit.\<close>

definition is_digit :: "char \<Rightarrow> bool" where
  "is_digit c \<longleftrightarrow> 48 \<le> (of_char c :: nat) \<and> (of_char c :: nat) \<le> 57"

fun digits_value :: "nat \<Rightarrow> string \<Rightarrow> nat" where
  "digits_value n [] = n"
| "digits_value n (c # s) = digits_value (10 * n + (of_char c - 48)) s"

definition big_digits :: "string \<Rightarrow> nat option" where
  "big_digits s = (if s \<noteq> [] \<and> list_all is_digit s then Some (digits_value 0 s) else None)"

definition big_SetString :: "string \<Rightarrow> int option" where
  "big_SetString s =
     (case s of
        [] \<Rightarrow> None
      | c # r \<Rightarrow>
          if c = CHR ''-'' then map_option (\<lambda>n. - int n) (big_digits r)
          else if c = CHR ''+'' then map_option int (big_digits r)
          else map_option int (big_digits s))"

text \<open>\<open>strings.SplitAfter\<close> with a separator of one character.\<close>

fun SplitAfter :: "char \<Rightarrow> string \<Rightarrow> string list" where
  "SplitAfter sep [] = [[]]"
| "SplitAfter sep (c # s) =
     (if c = sep then [c] # SplitAfter sep s
      else case SplitAfter sep s of p # ps \<Rightarrow> (c # p) # ps | [] \<Rightarrow> [[c]])"

record burn_lock_vars =
  bv_cosmosSender :: string
  bv_cosmosSenderSequence :: "int option"
  bv_ethereumReceiver :: string
  bv_symbol :: string
  bv_amount :: "int option"
  bv_attributeNumber :: nat

definition count_attribute :: "burn_lock_vars \<Rightarrow> burn_lock_vars" where
  "count_attribute v = v\<lparr>bv_attributeNumber := bv_attributeNumber v + 1\<rparr>"

definition burn_lock_attribute ::
  "'x lib \<Rightarrow> 'b relay_lib \<Rightarrow> 'b \<Rightarrow> relayer_event \<Rightarrow> burn_lock_vars \<Rightarrow> string \<times> string \<Rightarrow> burn_lock_vars res" where
  "burn_lock_attribute L B t claimType v = (\<lambda>(key, val).
     if key = ''cosmos_sender'' then Inr (count_attribute (v\<lparr>bv_cosmosSender := val\<rparr>))
     else if key = ''cosmos_sender_sequence'' then
       bindE (parseE (ErrGo (''invalid account sequence: '' @ val)) (big_SetString val)) (\<lambda>n.
       Inr (count_attribute (v\<lparr>bv_cosmosSenderSequence := Some n\<rparr>)))
     else if key = ''ethereum_receiver'' then
       bindE (guardE (IsHexAddress L val) (ErrGo (''invalid recipient address: '' @ val))) (\<lambda>_.
       Inr (count_attribute (v\<lparr>bv_ethereumReceiver := HexToAddress L val\<rparr>)))
     else if key = ''symbol'' then
       (case claimType of
          Ev_MsgLock \<Rightarrow>
            bindE (SifchainToEthereum B t val) (\<lambda>symbol.
            Inr (count_attribute (v\<lparr>bv_symbol := symbol\<rparr>)))
        | Ev_MsgBurn \<Rightarrow>
            bindE (guardE (Contains val [defaultSifchainPrefix])
              (ErrGo ''can only relay burns of '%v' prefixed coinsc'')) (\<lambda>_.
            Inr (count_attribute (v\<lparr>bv_symbol := concat (tl (SplitAfter defaultSifchainPrefix val))\<rparr>)))
        | _ \<Rightarrow> Inr (count_attribute v))
     else if key = ''amount'' then
       bindE (parseE (ErrGo (''invalid amount:'' @ val)) (NewIntFromString L val)) (\<lambda>n.
       Inr (count_attribute (v\<lparr>bv_amount := Some n\<rparr>)))
     else Inr v)"

definition BurnLockEventToCosmosMsg ::
  "'x lib \<Rightarrow> 'b relay_lib \<Rightarrow> 'b \<Rightarrow> relayer_event \<Rightarrow> (string \<times> string) list \<Rightarrow> cosmos_msg res" where
  "BurnLockEventToCosmosMsg L B t claimType attributes =
     bindE (foldE (burn_lock_attribute L B t claimType)
       \<lparr>bv_cosmosSender = [], bv_cosmosSenderSequence = None, bv_ethereumReceiver = HexToAddress L nullAddress,
        bv_symbol = [], bv_amount = None, bv_attributeNumber = 0\<rparr> attributes) (\<lambda>v.
     if bv_attributeNumber v < 5 then Inl (ErrGo ''message not complete'')
     else Inr (NewCosmosMsg claimType (bv_cosmosSender v) (bv_cosmosSenderSequence v) (bv_ethereumReceiver v)
       (bv_symbol v) (bv_amount v)))"

definition bridge_claim_attribute ::
  "'x lib \<Rightarrow> ethereum_bridge_claim \<Rightarrow> string \<times> string \<Rightarrow> ethereum_bridge_claim res" where
  "bridge_claim_attribute L v = (\<lambda>(key, val).
     if key = ''cosmos_sender'' then
       bindE (ValAddressFromBech32 L val) (\<lambda>a. Inr (v\<lparr>bc_CosmosSender := a\<rparr>))
     else if key = ''ethereum_sender'' then
       bindE (guardE (IsHexAddress L val) (ErrGo (''invalid recipient address: '' @ val))) (\<lambda>_.
       Inr (v\<lparr>bc_EthereumSender := HexToAddress L val\<rparr>))
     else if key = ''ethereum_sender_nonce'' then
       bindE (parseE (ErrGo (''invalid nonce:'' @ val)) (NewIntFromString L val)) (\<lambda>n.
       Inr (v\<lparr>bc_Nonce := Some n\<rparr>))
     else Inr v)"

definition AttributesToEthereumBridgeClaim :: "'x lib \<Rightarrow> (string \<times> string) list \<Rightarrow> ethereum_bridge_claim res" where
  "AttributesToEthereumBridgeClaim L attributes =
     foldE (bridge_claim_attribute L)
       \<lparr>bc_EthereumSender = HexToAddress L nullAddress, bc_CosmosSender = [], bc_Nonce = None\<rparr> attributes"

definition getOracleClaimType :: "string \<Rightarrow> relayer_event" where
  "getOracleClaimType eventType =
     (if eventType = relayer_event_String Ev_MsgBurn then Ev_MsgBurn
      else if eventType = relayer_event_String Ev_MsgLock then Ev_MsgLock
      else Ev_Unsupported)"

subsection \<open>Calls of the contract\<close>

text \<open>\<open>hex.Encode\<close> followed by \<open>strconv.ParseUint(s, 16, 32)\<close>, which stops at the first overflow.\<close>

fun hex_digits :: "string \<Rightarrow> nat list" where
  "hex_digits [] = []"
| "hex_digits (c # s) = of_char c div 16 # of_char c mod 16 # hex_digits s"

fun parse_hex :: "nat \<Rightarrow> nat list \<Rightarrow> nat res" where
  "parse_hex n [] = Inr n"
| "parse_hex n (d # ds) =
     (if 16 * n + d < 2 ^ 32 then parse_hex (16 * n + d) ds else Inl (ErrGo ''value out of range''))"

definition MyDecode :: "string \<Rightarrow> prophecy_claim_unique res" where
  "MyDecode data =
     bindE (guardE (\<not> length data < 32 * 7 + 42) (ErrGo ''tx data length not enough'')) (\<lambda>_.
     bindE (parse_hex 0 (hex_digits (take 32 (drop 64 data)))) (\<lambda>sequence.
     Inr \<lparr>pc_CosmosSenderSequence = int sequence, pc_CosmosSender = take 42 (drop (32 * 7) data)\<rparr>))"

text \<open>Comparing with a nil sequence or nonce dereferences it.\<close>

fun MessageProcessed :: "cosmos_msg \<Rightarrow> prophecy_claim_unique list \<Rightarrow> bool res" where
  "MessageProcessed message [] = Inr False"
| "MessageProcessed message (prophecyClaim # prophecyClaims) =
     (if cm_CosmosSender message = pc_CosmosSender prophecyClaim
      then bindE (deref (cm_CosmosSenderSequence message)) (\<lambda>n.
        if n = pc_CosmosSenderSequence prophecyClaim then Inr True
        else MessageProcessed message prophecyClaims)
      else MessageProcessed message prophecyClaims)"

fun EventProcessed :: "ethereum_bridge_claim list \<Rightarrow> ethereum_event \<Rightarrow> bool res" where
  "EventProcessed [] event = Inr False"
| "EventProcessed (claim # bridgeClaims) event =
     (if ee_From event = bc_EthereumSender claim
      then bindE (deref (bc_Nonce claim)) (\<lambda>n.
        if ee_Nonce event = n then Inr True else EventProcessed bridgeClaims event)
      else EventProcessed bridgeClaims event)"

end
