(* ===== verification/Relayer.thy ===== *)
theory Relayer
  imports RelayerParser "HOL-Library.State_Monad"
begin

section \<open>The relayer\<close>

text \<open>
  The two listeners of \<open>cmd/ebrelayer\<close>, the senders they call, and the replay commands. The
  nodes, contracts and databases that the relayer talks to are operations on an outer world:
  an \<open>io\<close> action takes the world, answers with a value or an error and leaves a new world, so
  that two calls may answer differently. Pauses and log lines are left out. \<open>log.Fatalf\<close> ends
  the process and is an error that no caller handles.
\<close>

subsection \<open>Actions on the outer world\<close>

type_synonym ('e, 'a) io = "('e, 'a res) state"

definition returnIO :: "'a \<Rightarrow> ('e, 'a) io" where
  "returnIO a = State_Monad.return (Inr a)"

definition failIO :: "error \<Rightarrow> ('e, 'a) io" where
  "failIO e = State_Monad.return (Inl e)"

definition pureIO :: "'a res \<Rightarrow> ('e, 'a) io" where
  "pureIO r = State_Monad.return r"

definition bindIO :: "('e, 'a) io \<Rightarrow> ('a \<Rightarrow> ('e, 'b) io) \<Rightarrow> ('e, 'b) io" where
  "bindIO m f = State_Monad.bind m (\<lambda>r. case r of Inl e \<Rightarrow> failIO e | Inr a \<Rightarrow> f a)"

text \<open>A call whose error the caller logs and goes on; a panic is not caught.\<close>

definition elseIO :: "('e, 'a) io \<Rightarrow> ('a \<Rightarrow> ('e, 'b) io) \<Rightarrow> ('e, 'b) io \<Rightarrow> ('e, 'b) io" where
  "elseIO m f g = State_Monad.bind m (\<lambda>r. case r of
       Inl e \<Rightarrow> if e = Panic then failIO Panic else g
     | Inr a \<Rightarrow> f a)"

fun foldIO :: "('s \<Rightarrow> 'a \<Rightarrow> ('e, 's) io) \<Rightarrow> 's \<Rightarrow> 'a list \<Rightarrow> ('e, 's) io" where
  "foldIO f s [] = returnIO s"
| "foldIO f s (x # xs) = bindIO (f s x) (\<lambda>s'. foldIO f s' xs)"

subsection \<open>What the relayer talks to\<close>

datatype contract_registry = CR_Valset | CR_Oracle | CR_BridgeBank | CR_CosmosBridge

record transact_opts =
  to_Nonce :: int
  to_Value :: int
  to_GasLimit :: nat
  to_GasPrice :: int

record eth_log =
  el_Topics :: "string list"
  el_Data :: string
  el_TxHash :: string

record eth_tx =
  etx_Sender :: "string res"
  etx_Data :: string

record 'e net =
  EthereumPrivateKey :: string
  HexToECDSA :: "string \<Rightarrow> string res"
  PubkeyToAddress :: "string \<Rightarrow> string"
  ethclient_Dial :: "('e, unit) io"
  PendingNonceAt :: "string \<Rightarrow> ('e, nat) io"
  SuggestGasPrice :: "('e, int) io"
  NetworkID :: "('e, int) io"
  NewKeyedTransactorWithChainID :: "string \<Rightarrow> int \<Rightarrow> unit res"
  HeaderByNumber :: "('e, int) io"
  NewBridgeRegistry :: "string \<Rightarrow> unit res"
  registry_lookup :: "contract_registry \<Rightarrow> string \<Rightarrow> int \<Rightarrow> ('e, string) io"
  NewCosmosBridge :: "string \<Rightarrow> unit res"
  contract_NewProphecyClaim ::
    "string \<Rightarrow> transact_opts \<Rightarrow> nat \<Rightarrow> string \<Rightarrow> int option \<Rightarrow> string \<Rightarrow> string \<Rightarrow> int option \<Rightarrow> ('e, string) io"
  TransactionReceipt :: "string \<Rightarrow> ('e, unit) io"
  tm_New :: "('e, unit) io"
  tm_Start :: "('e, unit) io"
  tm_Block :: "('e, int) io"
  BlockResults :: "int \<Rightarrow> ('e, event list list) io"
  BlockByNumber :: "int \<Rightarrow> ('e, eth_tx list) io"
  FilterLogs :: "string \<Rightarrow> int \<Rightarrow> int \<Rightarrow> ('e, eth_log list) io"
  newProphecyClaim_ID :: string
  LogLock_ID :: string
  LogBurn_ID :: string
  UnpackIntoInterface :: "string \<Rightarrow> string \<Rightarrow> ethereum_event res"
  Keyring_Key :: "string \<Rightarrow> addr res"
  BroadcastTx :: "msg_create_eth_bridge_claim list \<Rightarrow> ('e, unit) io"
  DB_Put :: "string \<Rightarrow> int \<Rightarrow> ('e, unit) io"
  DB_Get :: "string \<Rightarrow> ('e, int) io"
  url_Scheme :: "string \<Rightarrow> string res"

subsection \<open>Sending to Ethereum\<close>

definition LoadPrivateKey :: "'e net \<Rightarrow> string res" where
  "LoadPrivateKey N =
     (if TrimSpace (EthereumPrivateKey N) = [] then Inl (ErrGo ''can't load ethereum private key'')
      else HexToECDSA N (EthereumPrivateKey N))"

definition LoadSender :: "'e net \<Rightarrow> string res" where
  "LoadSender N = bindE (LoadPrivateKey N) (\<lambda>key. Inr (PubkeyToAddress N key))"

definition GetAddressFromBridgeRegistry :: "'e net \<Rightarrow> string \<Rightarrow> contract_registry \<Rightarrow> ('e, string) io" where
  "GetAddressFromBridgeRegistry N registry target =
     bindIO (pureIO (LoadSender N)) (\<lambda>sender.
     bindIO (HeaderByNumber N) (\<lambda>header.
     bindIO (pureIO (NewBridgeRegistry N registry)) (\<lambda>_.
     registry_lookup N target sender header)))"

definition RelayGasLimit :: nat where
  "RelayGasLimit = 1800000"

definition relay_gas_price :: "int \<Rightarrow> int" where
  "relay_gas_price suggested =
     (let gasPrice = suggested * 2; quarterGasPrice = gasPrice div 4 in gasPrice - quarterGasPrice)"

definition target_contract :: "relayer_event \<Rightarrow> contract_registry res" where
  "target_contract event =
     (case event of
        Ev_MsgBurn \<Rightarrow> Inr CR_CosmosBridge
      | Ev_MsgLock \<Rightarrow> Inr CR_CosmosBridge
      | Ev_LogNewProphecyClaim \<Rightarrow> Inr CR_Oracle
      | _ \<Rightarrow> Inl Panic)"

definition InitRelayConfig ::
  "'e net \<Rightarrow> string \<Rightarrow> relayer_event \<Rightarrow> string \<Rightarrow> ('e, transact_opts \<times> string) io" where
  "InitRelayConfig N registry event key =
     bindIO (ethclient_Dial N) (\<lambda>_.
     bindIO (pureIO (LoadSender N)) (\<lambda>sender.
     bindIO (PendingNonceAt N sender) (\<lambda>nonce.
     bindIO (SuggestGasPrice N) (\<lambda>gasPrice.
     bindIO (NetworkID N) (\<lambda>chainID.
     bindIO (pureIO (NewKeyedTransactorWithChainID N key chainID)) (\<lambda>_.
     let auth = \<lparr>to_Nonce = i64 (int nonce), to_Value = 0, to_GasLimit = RelayGasLimit,
                 to_GasPrice = relay_gas_price gasPrice\<rparr> in
     bindIO (pureIO (target_contract event)) (\<lambda>targetContract.
     bindIO (GetAddressFromBridgeRegistry N registry targetContract) (\<lambda>target.
     returnIO (auth, target)))))))))"

fun await_receipt :: "'e net \<Rightarrow> string \<Rightarrow> nat \<Rightarrow> ('e, unit) io" where
  "await_receipt N hash 0 = failIO (ErrGo ''hit max tx receipt query retries'')"
| "await_receipt N hash (Suc n) =
     elseIO (TransactionReceipt N hash) (\<lambda>_. returnIO ()) (await_receipt N hash n)"

definition RelayProphecyClaimToEthereum ::
  "'e net \<Rightarrow> cosmos_msg \<Rightarrow> transact_opts \<Rightarrow> string \<Rightarrow> ('e, unit) io" where
  "RelayProphecyClaimToEthereum N claim auth cosmosBridgeInstance =
     bindIO (contract_NewProphecyClaim N cosmosBridgeInstance auth (relayer_event_nr (cm_ClaimType claim))
       (cm_CosmosSender claim) (cm_CosmosSenderSequence claim) (cm_EthereumReceiver claim) (cm_Symbol claim)
       (cm_Amount claim)) (\<lambda>hash.
     await_receipt N hash 60)"

record cosmos_sub =
  cs_RegistryContractAddress :: string
  cs_PrivateKey :: string

fun try_init :: "'e net \<Rightarrow> cosmos_sub \<Rightarrow> relayer_event \<Rightarrow> nat \<Rightarrow> ('e, transact_opts \<times> string) io" where
  "try_init N sub claimType 0 = failIO (ErrGo ''hit max initRelayConfig retries'')"
| "try_init N sub claimType (Suc n) =
     elseIO (InitRelayConfig N (cs_RegistryContractAddress sub) claimType (cs_PrivateKey sub)) returnIO
       (try_init N sub claimType n)"

definition tryInitRelayConfig :: "'e net \<Rightarrow> cosmos_sub \<Rightarrow> relayer_event \<Rightarrow> ('e, transact_opts \<times> string) io" where
  "tryInitRelayConfig N sub claimType = try_init N sub claimType 5"

fun relay_tries :: "'e net \<Rightarrow> cosmos_msg \<Rightarrow> transact_opts \<Rightarrow> string \<Rightarrow> nat \<Rightarrow> ('e, unit) io" where
  "relay_tries N cosmosMsg auth target 0 = returnIO ()"
| "relay_tries N cosmosMsg auth target (Suc n) =
     elseIO (RelayProphecyClaimToEthereum N cosmosMsg auth target) returnIO (relay_tries N cosmosMsg auth target n)"

definition handleBurnLockMsg :: "'e net \<Rightarrow> cosmos_sub \<Rightarrow> cosmos_msg \<Rightarrow> relayer_event \<Rightarrow> ('e, unit) io" where
  "handleBurnLockMsg N sub cosmosMsg claimType =
     elseIO (tryInitRelayConfig N sub claimType) (\<lambda>(auth, target).
       elseIO (pureIO (NewCosmosBridge N target)) (\<lambda>_. relay_tries N cosmosMsg auth target 5) (returnIO ()))
     (returnIO ())"

subsection \<open>Listening to the chain\<close>

text \<open>
  The state of the listener: the variable \<open>lastProcessedBlock\<close>, the value stored in LevelDB, and,
  as a record of what it did, the messages it handed to \<open>handleBurnLockMsg\<close>.
\<close>

record cosmos_state =
  cs_last :: int
  cs_db :: "int option"
  cs_relayed :: "cosmos_msg list"

definition cosmosLevelDBKey :: string where
  "cosmosLevelDBKey = ''cosmosLastProcessedBlock''"

definition cosmos_event ::
  "'x lib \<Rightarrow> 'b relay_lib \<Rightarrow> 'b \<Rightarrow> 'e net \<Rightarrow> cosmos_sub \<Rightarrow> cosmos_state \<Rightarrow> event \<Rightarrow> ('e, cosmos_state) io" where
  "cosmos_event L B t N sub s event =
     (let claimType = getOracleClaimType (event_type event) in
      if claimType = Ev_MsgBurn \<or> claimType = Ev_MsgLock then
        elseIO (pureIO (BurnLockEventToCosmosMsg L B t claimType (event_attributes event))) (\<lambda>cosmosMsg.
          bindIO (handleBurnLockMsg N sub cosmosMsg claimType) (\<lambda>_.
          returnIO (s\<lparr>cs_relayed := cs_relayed s @ [cosmosMsg]\<rparr>)))
        (returnIO s)
      else returnIO s)"

definition cosmos_block ::
  "'x lib \<Rightarrow> 'b relay_lib \<Rightarrow> 'b \<Rightarrow> 'e net \<Rightarrow> cosmos_sub \<Rightarrow> cosmos_state \<Rightarrow> event list list \<Rightarrow> ('e, cosmos_state) io" where
  "cosmos_block L B t N sub s block = foldIO (foldIO (cosmos_event L B t N sub)) s block"

text \<open>A block that cannot be fetched is asked for again, without a limit.\<close>

partial_function (option) cosmos_blocks ::
  "'x lib \<Rightarrow> 'b relay_lib \<Rightarrow> 'b \<Rightarrow> 'e net \<Rightarrow> cosmos_sub \<Rightarrow> int \<Rightarrow> int \<Rightarrow> cosmos_state \<Rightarrow> 'e \<Rightarrow>
   (cosmos_state res \<times> 'e) option" where
  "cosmos_blocks L B t N sub blockNumber blockHeight s e =
     (if blockNumber \<le> blockHeight then
        (case run_state (BlockResults N blockNumber) e of
           (Inl err, e) \<Rightarrow>
             if err = Panic then Some (Inl Panic, e)
             else cosmos_blocks L B t N sub blockNumber blockHeight s e
         | (Inr block, e) \<Rightarrow>
             (case run_state (cosmos_block L B t N sub s block) e of
                (Inl err, e) \<Rightarrow> Some (Inl err, e)
              | (Inr s, e) \<Rightarrow>
                  (case run_state (DB_Put N cosmosLevelDBKey blockNumber) e of
                     (Inl err, e) \<Rightarrow> Some (Inl (ErrGo ''Error saving lastProcessedBlock to leveldb''), e)
                   | (Inr _, e) \<Rightarrow>
                       cosmos_blocks L B t N sub (blockNumber + 1) blockHeight
                         (s\<lparr>cs_last := blockNumber, cs_db := Some blockNumber\<rparr>) e)))
      else Some (Inr s, e))"

text \<open>One event of the subscription; \<open>None\<close> is an event that is no new block.\<close>

definition cosmos_new_block ::
  "'x lib \<Rightarrow> 'b relay_lib \<Rightarrow> 'b \<Rightarrow> 'e net \<Rightarrow> cosmos_sub \<Rightarrow> cosmos_state \<Rightarrow> int option \<Rightarrow> 'e \<Rightarrow>
   (cosmos_state res \<times> 'e) option" where
  "cosmos_new_block L B t N sub s data e =
     (case data of
        None \<Rightarrow> Some (Inl Panic, e)
      | Some blockHeight \<Rightarrow>
          (let s = if cs_last s = 0 then s\<lparr>cs_last := blockHeight\<rparr> else s in
           cosmos_blocks L B t N sub (cs_last s + 1) blockHeight s e))"

definition cosmos_resume :: "'e net \<Rightarrow> cosmos_state \<Rightarrow> ('e, cosmos_state) io" where
  "cosmos_resume N s =
     elseIO (DB_Get N cosmosLevelDBKey) (\<lambda>n. returnIO (s\<lparr>cs_last := i64 n\<rparr>)) (returnIO (s\<lparr>cs_last := 0\<rparr>))"

subsection \<open>Sending to the chain\<close>

definition NewMsgCreateEthBridgeClaim :: "eth_bridge_claim \<Rightarrow> msg_create_eth_bridge_claim" where
  "NewMsgCreateEthBridgeClaim cl = \<lparr>mc_EthBridgeClaim = Some cl\<rparr>"

fun valid_messages :: "'x lib \<Rightarrow> eth_bridge_claim list \<Rightarrow> msg_create_eth_bridge_claim list res" where
  "valid_messages L [] = Inr []"
| "valid_messages L (claim # claims) =
     (let msg = NewMsgCreateEthBridgeClaim claim in
      case MsgCreateEthBridgeClaim_ValidateBasic L msg of
        Inl e \<Rightarrow> if e = Panic then Inl Panic else valid_messages L claims
      | Inr _ \<Rightarrow> bindE (valid_messages L claims) (\<lambda>ms. Inr (msg # ms)))"

definition RelayToCosmos :: "'x lib \<Rightarrow> 'e net \<Rightarrow> eth_bridge_claim list \<Rightarrow> ('e, unit) io" where
  "RelayToCosmos L N claims =
     bindIO (pureIO (valid_messages L claims)) (\<lambda>messages. BroadcastTx N messages)"

record ethereum_sub =
  es_ValidatorName :: string
  es_ValidatorAddress :: addr
  es_RegistryContractAddress :: string

fun event_claims ::
  "'x lib \<Rightarrow> 'b relay_lib \<Rightarrow> 'b \<Rightarrow> addr \<Rightarrow> ethereum_event list \<Rightarrow> eth_bridge_claim list res" where
  "event_claims L B t valAddr [] = Inr []"
| "event_claims L B t valAddr (event # evs) =
     (case EthereumEventToEthBridgeClaim L B t valAddr event of
        Inl e \<Rightarrow> if e = Panic then Inl Panic else event_claims L B t valAddr evs
      | Inr cl \<Rightarrow> bindE (event_claims L B t valAddr evs) (\<lambda>cs. Inr (cl # cs)))"

definition handleEthereumEvent ::
  "'x lib \<Rightarrow> 'b relay_lib \<Rightarrow> 'b \<Rightarrow> 'e net \<Rightarrow> ethereum_sub \<Rightarrow> ethereum_event list \<Rightarrow> ('e, unit) io" where
  "handleEthereumEvent L B t N sub evs =
     bindIO (pureIO (Keyring_Key N (es_ValidatorName sub))) (\<lambda>valAddr.
     bindIO (pureIO (event_claims L B t valAddr evs)) (\<lambda>prophecyClaims.
     if length evs = 0 then returnIO () else RelayToCosmos L N prophecyClaims))"

subsection \<open>Listening to Ethereum\<close>

text \<open>
  The state of the listener, with the events it handed to \<open>handleEthereumEvent\<close> as a record of
  what it did. \<open>EventRecords\<close> is the program's global map.
\<close>

record ethereum_state =
  es_last :: int
  es_db :: "int option"
  es_EventRecords :: "string \<rightharpoonup> ethereum_event"
  es_handled :: "ethereum_event list"

definition ethLevelDBKey :: string where
  "ethLevelDBKey = ''ethereumLastProcessedBlock''"

definition trailingBlocks :: int where
  "trailingBlocks = 50"

definition NewEventWrite :: "string \<Rightarrow> ethereum_event \<Rightarrow> ethereum_state \<Rightarrow> ethereum_state" where
  "NewEventWrite txHash event s = s\<lparr>es_EventRecords := (es_EventRecords s)(txHash \<mapsto> event)\<rparr>"

text \<open>The event of a log with the new records, or nothing for a log of another kind.\<close>

definition logToEvent ::
  "'e net \<Rightarrow> int \<Rightarrow> string \<Rightarrow> ethereum_state \<Rightarrow> eth_log \<Rightarrow> (ethereum_event option \<times> ethereum_state) res" where
  "logToEvent N clientChainID contractAddress s cLog =
     (case el_Topics cLog of
        [] \<Rightarrow> Inl Panic
      | topic # _ \<Rightarrow>
          (let eventName = (if topic = LogBurn_ID N then relayer_event_String Ev_LogBurn
               else if topic = LogLock_ID N then relayer_event_String Ev_LogLock else []) in
           if eventName = [] then Inr (None, s)
           else bindE (UnpackIntoInterface N eventName (el_Data cLog)) (\<lambda>event.
             let event = event\<lparr>ee_BridgeContractAddress := contractAddress, ee_EthereumChainID := clientChainID,
                   ee_ClaimType := (if eventName = relayer_event_String Ev_LogBurn then CLAIM_TYPE_BURN
                     else CLAIM_TYPE_LOCK)\<rparr> in
             Inr (Some event, NewEventWrite (el_TxHash cLog) event s))))"

fun log_events ::
  "'e net \<Rightarrow> int \<Rightarrow> string \<Rightarrow> ethereum_state \<Rightarrow> eth_log list \<Rightarrow> (ethereum_event list \<times> ethereum_state) res" where
  "log_events N clientChainID contractAddress s [] = Inr ([], s)"
| "log_events N clientChainID contractAddress s (ethLog # ethLogs) =
     (case logToEvent N clientChainID contractAddress s ethLog of
        Inl e \<Rightarrow> if e = Panic then Inl Panic else log_events N clientChainID contractAddress s ethLogs
      | Inr (None, s) \<Rightarrow> log_events N clientChainID contractAddress s ethLogs
      | Inr (Some event, s) \<Rightarrow>
          bindE (log_events N clientChainID contractAddress s ethLogs) (\<lambda>(evs, s). Inr (event # evs, s)))"

text \<open>A batch of events; its error is only logged.\<close>

definition handle_batch ::
  "'x lib \<Rightarrow> 'b relay_lib \<Rightarrow> 'b \<Rightarrow> 'e net \<Rightarrow> ethereum_sub \<Rightarrow> ethereum_event list \<Rightarrow> ethereum_state \<Rightarrow>
   ('e, ethereum_state) io" where
  "handle_batch L B t N sub evs s =
     (let s = s\<lparr>es_handled := es_handled s @ evs\<rparr> in
      elseIO (handleEthereumEvent L B t N sub evs) (\<lambda>_. returnIO s) (returnIO s))"

definition ethereum_new_head ::
  "'x lib \<Rightarrow> 'b relay_lib \<Rightarrow> 'b \<Rightarrow> 'e net \<Rightarrow> ethereum_sub \<Rightarrow> int \<Rightarrow> string \<Rightarrow> ethereum_state \<Rightarrow> int \<Rightarrow>
   ('e, ethereum_state) io" where
  "ethereum_new_head L B t N sub clientChainID bridgeBankAddress s newHead =
     (let endingBlock = newHead - trailingBlocks in
      if endingBlock < 0 then returnIO s
      else let s = (if es_last s = 0 then s\<lparr>es_last := endingBlock\<rparr> else s) in
        elseIO (FilterLogs N bridgeBankAddress (es_last s) endingBlock) (\<lambda>ethLogs.
          bindIO (pureIO (log_events N clientChainID bridgeBankAddress s ethLogs)) (\<lambda>(evs, s).
          bindIO (if 0 < length evs then handle_batch L B t N sub evs s else returnIO s) (\<lambda>s.
          let endingBlock = endingBlock + 1 in
          elseIO (DB_Put N ethLevelDBKey endingBlock)
            (\<lambda>_. returnIO (s\<lparr>es_last := endingBlock, es_db := Some endingBlock\<rparr>))
            (failIO (ErrGo ''Error saving lastProcessedBlock to leveldb'')))))
        (returnIO s))"

definition ethereum_resume :: "'e net \<Rightarrow> ethereum_state \<Rightarrow> ('e, ethereum_state) io" where
  "ethereum_resume N s =
     elseIO (DB_Get N ethLevelDBKey) (\<lambda>n. returnIO (s\<lparr>es_last := n\<rparr>)) (returnIO (s\<lparr>es_last := 0\<rparr>))"

subsection \<open>Replaying\<close>

definition own_claim_event ::
  "'x lib \<Rightarrow> ethereum_sub \<Rightarrow> ethereum_bridge_claim list \<Rightarrow> event \<Rightarrow> ethereum_bridge_claim list res" where
  "own_claim_event L sub claimArray event =
     (if event_type event = ''create_claim'' then
        (case AttributesToEthereumBridgeClaim L (event_attributes event) of
           Inl e \<Rightarrow> if e = Panic then Inl Panic else Inr claimArray
         | Inr claim \<Rightarrow>
             if bc_CosmosSender claim = es_ValidatorAddress sub then Inr (claimArray @ [claim])
             else Inr claimArray)
      else Inr claimArray)"

definition getAllClaims ::
  "'x lib \<Rightarrow> 'e net \<Rightarrow> ethereum_sub \<Rightarrow> int \<Rightarrow> int \<Rightarrow> ('e, ethereum_bridge_claim list) io" where
  "getAllClaims L N sub fromBlock toBlock =
     elseIO (bindIO (tm_New N) (\<lambda>_. tm_Start N)) (\<lambda>_.
       foldIO (\<lambda>claimArray blockNumber.
         elseIO (BlockResults N blockNumber) (\<lambda>block.
           pureIO (foldE (foldE (own_claim_event L sub)) claimArray block))
         (returnIO claimArray)) [] [fromBlock..toBlock - 1])
     (returnIO [])"

definition ethereum_Replay ::
  "'x lib \<Rightarrow> 'b relay_lib \<Rightarrow> 'b \<Rightarrow> 'e net \<Rightarrow> ethereum_sub \<Rightarrow> int \<Rightarrow> int \<Rightarrow> int \<Rightarrow> int \<Rightarrow> ethereum_state \<Rightarrow>
   ('e, ethereum_state) io" where
  "ethereum_Replay L B t N sub fromBlock toBlock cosmosFromBlock cosmosToBlock s =
     bindIO (getAllClaims L N sub cosmosFromBlock cosmosToBlock) (\<lambda>bridgeClaims.
     elseIO (bindIO (ethclient_Dial N) (\<lambda>_.
             bindIO (NetworkID N) (\<lambda>clientChainID.
             bindIO (GetAddressFromBridgeRegistry N (es_RegistryContractAddress sub) CR_BridgeBank) (\<lambda>subContractAddress.
             bindIO (FilterLogs N subContractAddress fromBlock toBlock) (\<lambda>logs.
             returnIO (clientChainID, subContractAddress, logs))))))
       (\<lambda>(clientChainID, subContractAddress, logs).
         foldIO (\<lambda>s ethLog.
           elseIO (pureIO (logToEvent N clientChainID subContractAddress s ethLog)) (\<lambda>(event, s).
             case event of
               None \<Rightarrow> returnIO s
             | Some event \<Rightarrow>
                 bindIO (pureIO (EventProcessed bridgeClaims event)) (\<lambda>processed.
                 if \<not> processed then handle_batch L B t N sub [event] s else returnIO s))
           (returnIO s)) s logs)
       (returnIO s))"

definition own_prophecy_claim ::
  "'e net \<Rightarrow> string \<Rightarrow> prophecy_claim_unique list \<Rightarrow> eth_tx \<Rightarrow> prophecy_claim_unique list" where
  "own_prophecy_claim N ethereumAddress prophecyClaimArray tx =
     (case etx_Sender tx of
        Inl _ \<Rightarrow> prophecyClaimArray
      | Inr sender \<Rightarrow>
          if sender \<noteq> ethereumAddress then prophecyClaimArray
          else if length (etx_Data tx) < 4 then prophecyClaimArray
          else if take 4 (etx_Data tx) \<noteq> newProphecyClaim_ID N then prophecyClaimArray
          else (case MyDecode (drop 4 (etx_Data tx)) of
              Inl _ \<Rightarrow> prophecyClaimArray
            | Inr prophecyClaim \<Rightarrow> prophecyClaimArray @ [prophecyClaim]))"

definition GetAllProphecyClaim :: "'e net \<Rightarrow> string \<Rightarrow> int \<Rightarrow> int \<Rightarrow> ('e, prophecy_claim_unique list) io" where
  "GetAllProphecyClaim N ethereumAddress ethFromBlock ethToBlock =
     foldIO (\<lambda>prophecyClaimArray blockNumber.
       elseIO (BlockByNumber N blockNumber) (\<lambda>txs.
         returnIO (foldl (own_prophecy_claim N ethereumAddress) prophecyClaimArray txs))
       (returnIO prophecyClaimArray)) [] [ethFromBlock..ethToBlock - 1]"

text \<open>The messages of a block's events that no earlier claim covers are passed to \<open>act\<close>.\<close>

definition missed_event ::
  "'x lib \<Rightarrow> 'b relay_lib \<Rightarrow> 'b \<Rightarrow> prophecy_claim_unique list \<Rightarrow>
   (cosmos_msg \<Rightarrow> relayer_event \<Rightarrow> ('e, unit) io) \<Rightarrow> cosmos_msg list \<Rightarrow> event \<Rightarrow> ('e, cosmos_msg list) io" where
  "missed_event L B t prophecyClaims act missed event =
     (let claimType = getOracleClaimType (event_type event) in
      if claimType = Ev_MsgBurn \<or> claimType = Ev_MsgLock then
        elseIO (pureIO (BurnLockEventToCosmosMsg L B t claimType (event_attributes event))) (\<lambda>cosmosMsg.
          bindIO (pureIO (MessageProcessed cosmosMsg prophecyClaims)) (\<lambda>processed.
          if \<not> processed then bindIO (act cosmosMsg claimType) (\<lambda>_. returnIO (missed @ [cosmosMsg]))
          else returnIO missed))
        (returnIO missed)
      else returnIO missed)"

definition missed_blocks ::
  "'x lib \<Rightarrow> 'b relay_lib \<Rightarrow> 'b \<Rightarrow> 'e net \<Rightarrow> prophecy_claim_unique list \<Rightarrow>
   (cosmos_msg \<Rightarrow> relayer_event \<Rightarrow> ('e, unit) io) \<Rightarrow> int \<Rightarrow> int \<Rightarrow> ('e, cosmos_msg list) io" where
  "missed_blocks L B t N prophecyClaims act fromBlock toBlock =
     foldIO (\<lambda>missed blockNumber.
       elseIO (BlockResults N blockNumber) (\<lambda>block.
         foldIO (foldIO (missed_event L B t prophecyClaims act)) missed block)
       (returnIO missed)) [] [fromBlock..toBlock - 1]"

definition cosmos_Replay ::
  "'x lib \<Rightarrow> 'b relay_lib \<Rightarrow> 'b \<Rightarrow> 'e net \<Rightarrow> cosmos_sub \<Rightarrow> int \<Rightarrow> int \<Rightarrow> int \<Rightarrow> int \<Rightarrow> ('e, cosmos_msg list) io" where
  "cosmos_Replay L B t N sub fromBlock toBlock ethFromBlock ethToBlock =
     elseIO (bindIO (ethclient_Dial N) (\<lambda>_. bindIO (NetworkID N) (\<lambda>_. pureIO (LoadSender N)))) (\<lambda>mySender.
       bindIO (GetAllProphecyClaim N mySender ethFromBlock ethToBlock) (\<lambda>prophecyClaims.
       elseIO (bindIO (tm_New N) (\<lambda>_. tm_Start N)) (\<lambda>_.
         missed_blocks L B t N prophecyClaims (handleBurnLockMsg N sub) fromBlock toBlock)
       (returnIO [])))
     (returnIO [])"

text \<open>The heights are \<open>int64\<close>.\<close>

definition blocks_back :: "int \<Rightarrow> int \<Rightarrow> int \<Rightarrow> int" where
  "blocks_back perMinute days current =
     (let blocks = i64 (perMinute * 60 * 24 * days); from = i64 (current - blocks) in
      if from < 0 then 0 else from)"

definition ListMissedCosmosEvent ::
  "'x lib \<Rightarrow> 'b relay_lib \<Rightarrow> 'b \<Rightarrow> 'e net \<Rightarrow> string \<Rightarrow> int \<Rightarrow> ('e, cosmos_msg list) io" where
  "ListMissedCosmosEvent L B t N ethereumAddress days =
     elseIO (bindIO (ethclient_Dial N) (\<lambda>_. HeaderByNumber N)) (\<lambda>header.
       let currentEthHeight = i64 header; ethFromHeight = blocks_back 4 days currentEthHeight in
       bindIO (GetAllProphecyClaim N ethereumAddress ethFromHeight currentEthHeight) (\<lambda>prophecyClaims.
       elseIO (bindIO (tm_New N) (\<lambda>_. bindIO (tm_Block N) (\<lambda>height. bindIO (tm_Start N) (\<lambda>_. returnIO height))))
         (\<lambda>currentCosmosHeight.
           missed_blocks L B t N prophecyClaims (\<lambda>_ _. returnIO ())
             (blocks_back 10 days currentCosmosHeight) currentCosmosHeight)
         (returnIO [])))
     (returnIO [])"

subsection \<open>Commands\<close>

text \<open>
  The commands after cobra has checked the number of their arguments. The translator is the
  result of \<open>buildSymbolTranslator\<close>; \<open>strings.Trim(s, "")\<close> cuts nothing off.
\<close>

definition IsWebsocketURL :: "'e net \<Rightarrow> string \<Rightarrow> bool" where
  "IsWebsocketURL N rawurl =
     (case url_Scheme N rawurl of Inl _ \<Rightarrow> False | Inr scheme \<Rightarrow> scheme = ''ws'' \<or> scheme = ''wss'')"

definition ParseInt64 :: "string \<Rightarrow> int option" where
  "ParseInt64 s =
     (case big_SetString s of
        None \<Rightarrow> None
      | Some n \<Rightarrow> if - (2 ^ 63) \<le> n \<and> n < 2 ^ 63 then Some n else None)"

definition parse_block :: "string \<Rightarrow> string \<Rightarrow> string \<Rightarrow> ('e, int) io" where
  "parse_block name arg shown = pureIO (parseE (ErrGo (''invalid ['' @ name @ '']: '' @ shown)) (ParseInt64 arg))"

definition NewEthereumSub :: "string \<Rightarrow> string \<Rightarrow> addr \<Rightarrow> ethereum_sub" where
  "NewEthereumSub validatorMoniker registryContractAddress validatorAddress =
     \<lparr>es_ValidatorName = validatorMoniker, es_ValidatorAddress = validatorAddress,
      es_RegistryContractAddress = registryContractAddress\<rparr>"

definition NewCosmosSub :: "string \<Rightarrow> string \<Rightarrow> cosmos_sub" where
  "NewCosmosSub registryContractAddress key =
     \<lparr>cs_RegistryContractAddress = registryContractAddress, cs_PrivateKey = key\<rparr>"

definition RunReplayEthereumCmd ::
  "'x lib \<Rightarrow> 'b relay_lib \<Rightarrow> 'b res \<Rightarrow> 'e net \<Rightarrow> string list \<Rightarrow> ethereum_state \<Rightarrow> ('e, ethereum_state) io" where
  "RunReplayEthereumCmd L B translator N args s =
     (case args of
        [tendermintNode, web3Provider, registry, validatorMoniker, mnemonic, from, to, cosmosFrom, cosmosTo] \<Rightarrow>
          bindIO (pureIO (guardE (IsHexAddress L registry)
            (ErrGo (''invalid [bridge-registry-contract-address]: '' @ web3Provider)))) (\<lambda>_.
          let contractAddress = HexToAddress L registry in
          bindIO (pureIO (guardE (length validatorMoniker \<noteq> 0)
            (ErrGo (''invalid [validator-moniker]: '' @ registry)))) (\<lambda>_.
          bindIO (parse_block ''from-block'' from from) (\<lambda>fromBlock.
          bindIO (parse_block ''to-block'' to to) (\<lambda>toBlock.
          bindIO (parse_block ''from-block'' cosmosFrom cosmosFrom) (\<lambda>cosmosFromBlock.
          bindIO (parse_block ''to-block'' cosmosTo cosmosTo) (\<lambda>cosmosToBlock.
          bindIO (pureIO translator) (\<lambda>t.
          ethereum_Replay L B t N (NewEthereumSub validatorMoniker contractAddress []) fromBlock toBlock
            cosmosFromBlock cosmosToBlock s)))))))
      | _ \<Rightarrow> failIO (ErrGo ''accepts 9 arg(s)''))"

definition RunReplayCosmosCmd ::
  "'x lib \<Rightarrow> 'b relay_lib \<Rightarrow> 'b res \<Rightarrow> 'e net \<Rightarrow> string list \<Rightarrow> ('e, cosmos_msg list) io" where
  "RunReplayCosmosCmd L B translator N args =
     (case args of
        [tendermintNode, web3Provider, registry, from, to, ethFrom, ethTo] \<Rightarrow>
          bindIO (pureIO (guardE (length tendermintNode \<noteq> 0)
            (ErrGo (''invalid [tendermint-node]: '' @ tendermintNode)))) (\<lambda>_.
          bindIO (pureIO (guardE (IsWebsocketURL N web3Provider)
            (ErrGo (''invalid [web3-provider]: '' @ web3Provider)))) (\<lambda>_.
          bindIO (pureIO (guardE (IsHexAddress L registry)
            (ErrGo (''invalid [bridge-registry-contract-address]: '' @ registry)))) (\<lambda>_.
          let contractAddress = HexToAddress L registry in
          bindIO (parse_block ''from-block'' from from) (\<lambda>fromBlock.
          bindIO (parse_block ''to-block'' to to) (\<lambda>toBlock.
          bindIO (parse_block ''eth-from-block'' ethFrom from) (\<lambda>ethFromBlock.
          bindIO (parse_block ''eth-to-block'' ethTo to) (\<lambda>ethToBlock.
          bindIO (pureIO translator) (\<lambda>t.
          bindIO (pureIO (wrapE (ErrGo ''failed to load ETHEREUM_PRIVATE_KEY'') (LoadPrivateKey N))) (\<lambda>key.
          cosmos_Replay L B t N (NewCosmosSub contractAddress key) fromBlock toBlock ethFromBlock ethToBlock)))))))))
      | _ \<Rightarrow> failIO (ErrGo ''accepts 7 arg(s)''))"

definition RunListMissedCosmosEventCmd ::
  "'x lib \<Rightarrow> 'b relay_lib \<Rightarrow> 'b res \<Rightarrow> 'e net \<Rightarrow> string list \<Rightarrow> ('e, cosmos_msg list) io" where
  "RunListMissedCosmosEventCmd L B translator N args =
     (case args of
        [tendermintNode, web3Provider, registry, relayer, d] \<Rightarrow>
          bindIO (pureIO (guardE (length tendermintNode \<noteq> 0)
            (ErrGo (''invalid [tendermint-node]: '' @ tendermintNode)))) (\<lambda>_.
          bindIO (pureIO (guardE (IsWebsocketURL N web3Provider)
            (ErrGo (''invalid [web3-provider]: '' @ web3Provider)))) (\<lambda>_.
          bindIO (pureIO (guardE (IsHexAddress L registry)
            (ErrGo (''invalid [bridge-registry-contract-address]: '' @ registry)))) (\<lambda>_.
          bindIO (pureIO (guardE (IsHexAddress L relayer)
            (ErrGo (''invalid [relayer-ethereum-address]: '' @ relayer)))) (\<lambda>_.
          bindIO (parse_block ''days'' d relayer) (\<lambda>days.
          bindIO (pureIO translator) (\<lambda>t.
          ListMissedCosmosEvent L B t N (HexToAddress L relayer) days))))))
      | _ \<Rightarrow> failIO (ErrGo ''accepts 5 arg(s)''))"

end
