(* ===== verification/RelayerProperties.thy ===== *)
theory RelayerProperties
  imports Relayer EthBridgeProperties
begin

section \<open>What the relayer guarantees\<close>

text \<open>
  The relayer reads from the chain exactly the burns and locks that were made; each listener
  covers every block; a claim sent earlier is recognised in its call data; and the calls to the
  contract are bounded. The replay of Ethereum events, however, never recognises its own claims.
\<close>

subsection \<open>Actions\<close>

named_theorems io_simps

lemma run_returnIO [io_simps, simp]: "run_state (returnIO a) e = (Inr a, e)"
  by (simp add: returnIO_def State_Monad.return_def)

lemma run_failIO [io_simps, simp]: "run_state (failIO x) e = (Inl x, e)"
  by (simp add: failIO_def State_Monad.return_def)

lemma run_pureIO [io_simps, simp]: "run_state (pureIO r) e = (r, e)"
  by (simp add: pureIO_def State_Monad.return_def)

lemma run_bindIO:
  "run_state (bindIO m f) e =
     (case run_state m e of (Inl x, e') \<Rightarrow> (Inl x, e') | (Inr a, e') \<Rightarrow> run_state (f a) e')"
  by (auto simp: bindIO_def State_Monad.bind_def split: prod.splits sum.splits)

lemma run_elseIO:
  "run_state (elseIO m f g) e =
     (case run_state m e of
        (Inl x, e') \<Rightarrow> if x = Panic then (Inl Panic, e') else run_state g e'
      | (Inr a, e') \<Rightarrow> run_state (f a) e')"
  by (auto simp: elseIO_def State_Monad.bind_def split: prod.splits sum.splits)

lemma run_bindIO_Inr [io_simps]:
  "run_state (bindIO m f) e = (Inr b, e'') \<longleftrightarrow>
     (\<exists>a e'. run_state m e = (Inr a, e') \<and> run_state (f a) e' = (Inr b, e''))"
  by (auto simp: run_bindIO split: prod.splits sum.splits)

lemma run_elseIO_Inr [io_simps]:
  "run_state (elseIO m f g) e = (Inr b, e'') \<longleftrightarrow>
     (\<exists>a e'. run_state m e = (Inr a, e') \<and> run_state (f a) e' = (Inr b, e'')) \<or>
     (\<exists>x e'. x \<noteq> Panic \<and> run_state m e = (Inl x, e') \<and> run_state g e' = (Inr b, e''))"
  by (auto simp: run_elseIO split: prod.splits sum.splits)

lemma foldIO_append:
  "run_state (foldIO f s (xs @ ys)) e = run_state (bindIO (foldIO f s xs) (\<lambda>s. foldIO f s ys)) e"
  by (induction xs arbitrary: s e) (simp_all add: run_bindIO split: prod.splits sum.splits)

lemma foldIO_inv:
  assumes "run_state (foldIO f s xs) e = (Inr s', e')" and "I s e"
    and "\<And>s x s' e e'. x \<in> set xs \<Longrightarrow> I s e \<Longrightarrow> run_state (f s x) e = (Inr s', e') \<Longrightarrow> I s' e'"
  shows "I s' e'"
  using assms
proof (induction xs arbitrary: s e)
  case (Cons x xs)
  from Cons.prems(1) obtain s1 e1 where "run_state (f s x) e = (Inr s1, e1)"
    and "run_state (foldIO f s1 xs) e1 = (Inr s', e')"
    by (auto simp: io_simps)
  with Cons show ?case by (metis list.set_intros(1,2))
qed simp

subsection \<open>Reading the chain\<close>

lemma digits_value_append: "digits_value n (s @ [c]) = 10 * digits_value n s + (of_char c - 48)"
  by (induction s arbitrary: n) simp_all

lemma digits_value_nat_string: "digits_value 0 (nat_string n) = n"
proof (induction n rule: nat_string.induct)
  case (1 n)
  show ?case
    using "1.IH" by (subst nat_string.simps) (simp add: digits_value_append of_char_digit)
qed

lemma is_digit_nat_string: "list_all is_digit (nat_string n)"
  using nat_string_chars of_char_digit by (fastforce simp: list_all_iff is_digit_def)

lemma big_SetString_nat [simp]: "big_SetString (nat_string n) = Some (int n)"
proof -
  obtain c r where s: "nat_string n = c # r" by (cases "nat_string n") auto
  then have "is_digit c" using is_digit_nat_string [of n] by simp
  then have "c \<noteq> CHR ''-''" "c \<noteq> CHR ''+''" by (auto simp: is_digit_def)
  then show ?thesis
    using is_digit_nat_string [of n] digits_value_nat_string [of n] s
    by (simp add: big_SetString_def big_digits_def)
qed

lemma SplitAfter_nonempty [simp]: "SplitAfter c s \<noteq> []"
  by (induction s) (auto split: list.splits)

lemma concat_SplitAfter: "concat (SplitAfter c s) = s"
  by (induction s) (auto split: list.splits)

definition event_msg :: "'x lib \<Rightarrow> 'b relay_lib \<Rightarrow> 'b \<Rightarrow> event \<Rightarrow> cosmos_msg option" where
  "event_msg L B t ev =
     (let claimType = getOracleClaimType (event_type ev) in
      if claimType = Ev_MsgBurn \<or> claimType = Ev_MsgLock
      then (case BurnLockEventToCosmosMsg L B t claimType (event_attributes ev) of Inl _ \<Rightarrow> None | Inr m \<Rightarrow> Some m)
      else None)"

definition event_msgs :: "'x lib \<Rightarrow> 'b relay_lib \<Rightarrow> 'b \<Rightarrow> event list \<Rightarrow> cosmos_msg list" where
  "event_msgs L B t evs = List.map_filter (event_msg L B t) evs"

lemma event_msgs_simps [simp]:
  "event_msgs L B t [] = []"
  "event_msgs L B t (ev # evs) = (case event_msg L B t ev of None \<Rightarrow> [] | Some m \<Rightarrow> [m]) @ event_msgs L B t evs"
  "event_msgs L B t (evs @ evs') = event_msgs L B t evs @ event_msgs L B t evs'"
  by (simp_all add: event_msgs_def List.map_filter_def split: option.splits)

lemma event_msg_other: "event_type ev \<notin> {''burn'', ''lock''} \<Longrightarrow> event_msg L B t ev = None"
  by (simp add: event_msg_def getOracleClaimType_def relayer_event_String_def)


context lib_laws
begin

lemma event_msg_burn:
  assumes "IsHexAddress L receiver" and "\<bar>amount\<bar> < 2 ^ 255"
  shows "event_msg L B t (Event ''burn'' [
         (''ethereum_chain_id'', i), (''cosmos_sender'', sender), (''cosmos_sender_sequence'', nat_string n),
         (''ethereum_receiver'', receiver), (''amount'', int_string amount), (''symbol'', CHR ''c'' # symbol),
         (''ceth_amount'', f)]) =
    Some (NewCosmosMsg Ev_MsgBurn sender (Some (int n)) (HexToAddress L receiver) symbol (Some amount))"
  using assms int_of_string
  by (simp add: event_msg_def getOracleClaimType_def relayer_event_String_def BurnLockEventToCosmosMsg_def
      burn_lock_attribute_def count_attribute_def parseE_def guardE_def defaultSifchainPrefix_def concat_SplitAfter)

lemma event_msg_lock:
  assumes "IsHexAddress L receiver" and "\<bar>amount\<bar> < 2 ^ 255" and "SifchainToEthereum B t symbol = Inr ethSymbol"
  shows "event_msg L B t (Event ''lock'' [
         (''ethereum_chain_id'', i), (''cosmos_sender'', sender), (''cosmos_sender_sequence'', nat_string n),
         (''ethereum_receiver'', receiver), (''amount'', int_string amount), (''symbol'', symbol),
         (''ceth_amount'', f)]) =
    Some (NewCosmosMsg Ev_MsgLock sender (Some (int n)) (HexToAddress L receiver) ethSymbol (Some amount))"
  using assms int_of_string
  by (simp add: event_msg_def getOracleClaimType_def relayer_event_String_def BurnLockEventToCosmosMsg_def
      burn_lock_attribute_def count_attribute_def parseE_def guardE_def)

end

text \<open>A message that passed \<open>ValidateBasic\<close>, whose amount is a value of \<open>sdk.Int\<close> and whose symbol the translator knows or leaves alone.\<close>

definition relayable :: "'x lib \<Rightarrow> 'b relay_lib \<Rightarrow> 'b \<Rightarrow> bridge_msg \<Rightarrow> bool" where
  "relayable L B t msg =
     (case msg of
        MsgBurn m \<Rightarrow> MsgBurn_ValidateBasic L m = Inr () \<and> \<bar>mb_Amount m\<bar> < 2 ^ 255
      | MsgLock m \<Rightarrow> MsgLock_ValidateBasic L m = Inr () \<and> \<bar>ml_Amount m\<bar> < 2 ^ 255 \<and>
          \<not> isl (SifchainToEthereum B t (ml_Symbol m))
      | _ \<Rightarrow> True)"

definition account_sequence :: "'x lib \<Rightarrow> 'x ctx \<Rightarrow> string \<Rightarrow> int option" where
  "account_sequence L c sender = map_option int (GetAccount L (ext c) (projr (AccAddressFromBech32 L sender)))"

definition relayed_as :: "'x lib \<Rightarrow> 'b relay_lib \<Rightarrow> 'b \<Rightarrow> 'x ctx \<Rightarrow> bridge_msg \<Rightarrow> cosmos_msg list" where
  "relayed_as L B t c msg =
     (case msg of
        MsgBurn m \<Rightarrow> [\<lparr>cm_CosmosSender = mb_CosmosSender m,
          cm_CosmosSenderSequence = account_sequence L c (mb_CosmosSender m),
          cm_Symbol = drop 1 (mb_Symbol m), cm_Amount = Some (mb_Amount m),
          cm_EthereumReceiver = HexToAddress L (mb_EthereumReceiver m), cm_ClaimType = Ev_MsgBurn\<rparr>]
      | MsgLock m \<Rightarrow> [\<lparr>cm_CosmosSender = ml_CosmosSender m,
          cm_CosmosSenderSequence = account_sequence L c (ml_CosmosSender m),
          cm_Symbol = projr (SifchainToEthereum B t (ml_Symbol m)), cm_Amount = Some (ml_Amount m),
          cm_EthereumReceiver = HexToAddress L (ml_EthereumReceiver m), cm_ClaimType = Ev_MsgLock\<rparr>]
      | _ \<Rightarrow> [])"

lemma bank_events: "bank f c = Inr c' \<Longrightarrow> events c' = events c"
  by (auto simp: res_simps)

lemma ProcessBurn_events: "ProcessBurn L c a m = Inr c' \<Longrightarrow> events c' = events c"
  by (auto simp: ProcessBurn_def res_simps dest!: bank_events split: if_splits)

lemma ProcessLock_events: "ProcessLock L c a m = Inr c' \<Longrightarrow> events c' = events c"
  by (auto simp: ProcessLock_def res_simps dest!: bank_events split: if_splits)






lemma MsgBurn_valid:
  assumes "MsgBurn_ValidateBasic L m = Inr ()"
  shows "IsHexAddress L (mb_EthereumReceiver m)" and "mb_Symbol m = CHR ''c'' # drop 1 (mb_Symbol m)"
  using assms by (cases "mb_Symbol m"; auto simp: MsgBurn_ValidateBasic_def PeggedCoinPrefix_def Let_def res_simps)+

lemma MsgLock_valid: "MsgLock_ValidateBasic L m = Inr () \<Longrightarrow> IsHexAddress L (ml_EthereumReceiver m)"
  by (auto simp: MsgLock_ValidateBasic_def res_simps)

context lib_laws
begin

lemma Burn_msgs:
  assumes "msg_Burn L c m = Inr c'" and "relayable L B t (MsgBurn m)" and "events c = []"
  shows "event_msgs L B t (events c') = relayed_as L B t c (MsgBurn m)"
proof -
  obtain a n c1 where a: "AccAddressFromBech32 L (mb_CosmosSender m) = Inr a"
    and n: "GetAccount L (ext c) a = Some n" and c1: "ProcessBurn L c a m = Inr c1"
    and c': "c' = EmitEvents [message_event bridge_ModuleName (mb_CosmosSender m),
       Event ''burn'' [(''ethereum_chain_id'', int_string (mb_EthereumChainId m)),
         (''cosmos_sender'', mb_CosmosSender m), (''cosmos_sender_sequence'', nat_string n),
         (''ethereum_receiver'', mb_EthereumReceiver m), (''amount'', int_string (mb_Amount m)),
         (''symbol'', mb_Symbol m), (''ceth_amount'', int_string (mb_CethAmount m))]] c1"
    using assms(1) by (auto simp: msg_Burn_def account_of_def res_simps)
  have v: "IsHexAddress L (mb_EthereumReceiver m)" "mb_Symbol m = CHR ''c'' # drop 1 (mb_Symbol m)"
      "\<bar>mb_Amount m\<bar> < 2 ^ 255"
    using assms(2) MsgBurn_valid by (auto simp: relayable_def)
  have "events c1 = []" using ProcessBurn_events [OF c1] assms(3) by simp
  then show ?thesis
    using event_msg_burn [OF v(1,3), of B t _ _ n "drop 1 (mb_Symbol m)"] v(2) a n
    by (simp add: c' event_msg_other message_event_def relayed_as_def account_sequence_def NewCosmosMsg_def)
qed

lemma Lock_msgs:
  assumes "msg_Lock L c m = Inr c'" and "relayable L B t (MsgLock m)" and "events c = []"
  shows "event_msgs L B t (events c') = relayed_as L B t c (MsgLock m)"
proof -
  obtain a n c1 where a: "AccAddressFromBech32 L (ml_CosmosSender m) = Inr a"
    and n: "GetAccount L (ext c) a = Some n" and c1: "ProcessLock L c a m = Inr c1"
    and c': "c' = EmitEvents [message_event bridge_ModuleName (ml_CosmosSender m),
       Event ''lock'' [(''ethereum_chain_id'', int_string (ml_EthereumChainId m)),
         (''cosmos_sender'', ml_CosmosSender m), (''cosmos_sender_sequence'', nat_string n),
         (''ethereum_receiver'', ml_EthereumReceiver m), (''amount'', int_string (ml_Amount m)),
         (''symbol'', ml_Symbol m), (''ceth_amount'', int_string (ml_CethAmount m))]] c1"
    using assms(1) by (auto simp: msg_Lock_def account_of_def res_simps)
  obtain s where v: "IsHexAddress L (ml_EthereumReceiver m)" "SifchainToEthereum B t (ml_Symbol m) = Inr s"
      "\<bar>ml_Amount m\<bar> < 2 ^ 255"
    using assms(2) MsgLock_valid by (cases "SifchainToEthereum B t (ml_Symbol m)") (auto simp: relayable_def)
  have "events c1 = []" using ProcessLock_events [OF c1] assms(3) by simp
  then show ?thesis
    using event_msg_lock [OF v(1,3,2)] v(2) a n
    by (simp add: c' event_msg_other message_event_def relayed_as_def account_sequence_def NewCosmosMsg_def)
qed

end


subsection \<open>Covering Ethereum\<close>

datatype ethereum_input = NewHead int | Resubscribe

definition ethereum_step ::
  "'x lib \<Rightarrow> 'b relay_lib \<Rightarrow> 'b \<Rightarrow> 'e net \<Rightarrow> ethereum_sub \<Rightarrow> int \<Rightarrow> string \<Rightarrow> ethereum_state \<Rightarrow> ethereum_input \<Rightarrow>
   ('e, ethereum_state) io" where
  "ethereum_step L B t N sub chainID A s i =
     (case i of NewHead h \<Rightarrow> ethereum_new_head L B t N sub chainID A s h | Resubscribe \<Rightarrow> ethereum_resume N s)"

definition log_event :: "'e net \<Rightarrow> int \<Rightarrow> string \<Rightarrow> eth_log \<Rightarrow> ethereum_event option" where
  "log_event N chainID A cLog =
     (case logToEvent N chainID A \<lparr>es_last = 0, es_db = None, es_EventRecords = Map.empty, es_handled = []\<rparr> cLog of
        Inl _ \<Rightarrow> None | Inr (ev, _) \<Rightarrow> ev)"

fun heads :: "ethereum_input list \<Rightarrow> int list" where
  "heads [] = []"
| "heads (NewHead h # is) = h # heads is"
| "heads (Resubscribe # is) = heads is"

lemma logToEvent_cases:
  "logToEvent N chainID A s cLog = Inr (ev, s') \<Longrightarrow>
     log_event N chainID A cLog = ev \<and> es_last s' = es_last s \<and> es_db s' = es_db s \<and> es_handled s' = es_handled s"
  "logToEvent N chainID A s cLog = Inl x \<Longrightarrow> log_event N chainID A cLog = None"
  by (auto simp: log_event_def logToEvent_def Let_def NewEventWrite_def res_simps bindE_def
      split: list.splits if_splits sum.splits)

lemma log_events_exact:
  "log_events N chainID A s ls = Inr (evs, s') \<Longrightarrow>
     evs = List.map_filter (log_event N chainID A) ls \<and> es_last s' = es_last s \<and> es_db s' = es_db s \<and>
     es_handled s' = es_handled s"
proof (induction ls arbitrary: s evs s')
  case (Cons l ls)
  show ?case
  proof (cases "logToEvent N chainID A s l")
    case (Inl x)
    then show ?thesis
      using Cons logToEvent_cases(2) [OF Inl] by (auto simp: List.map_filter_simps split: if_splits)
  next
    case (Inr r)
    obtain ev s1 where r: "r = (ev, s1)" by (cases r)
    show ?thesis
      using Cons Inr logToEvent_cases(1) [OF Inr [unfolded r]]
      by (cases ev) (auto simp: r List.map_filter_simps res_simps)
  qed
qed (simp add: List.map_filter_simps)

lemma upto_append: "i \<le> j \<Longrightarrow> j \<le> k + 1 \<Longrightarrow> [i..k] = [i..j - 1] @ [j..k]" for i j k :: int
  by (cases "j = k + 1") (simp_all add: upto_split1)

text \<open>
  What the listener relies on: LevelDB returns what was stored last under the listener's key, the
  queries and broadcasts leave it alone, and a query that succeeds returns the logs of all blocks
  of its range in their order.
\<close>

locale ethereum_world =
  fixes N :: "'e net" and stored :: "'e \<Rightarrow> int option" and chain :: "int \<Rightarrow> eth_log list" and A :: string
  assumes put: "run_state (DB_Put N ethLevelDBKey n) e = (Inr u, e') \<Longrightarrow> stored e' = Some n"
    and get: "run_state (DB_Get N ethLevelDBKey) e = (r, e') \<Longrightarrow> stored e = Some n \<Longrightarrow> r = Inr n \<and> stored e' = Some n"
    and logs: "run_state (FilterLogs N A from to) e = (Inr ls, e') \<Longrightarrow> ls = concat (map chain [from..to])"
    and logs_db: "run_state (FilterLogs N A from to) e = (r', e') \<Longrightarrow> stored e' = stored e"
    and broadcast_db: "run_state (BroadcastTx N ms) e = (r'', e') \<Longrightarrow> stored e' = stored e"
begin

lemma handle_batch_effect:
  assumes "run_state (handle_batch L B t N sub evs s) e = (Inr s', e')"
  shows "s' = s\<lparr>es_handled := es_handled s @ evs\<rparr> \<and> stored e' = stored e"
proof -
  have "stored e1 = stored e" if "run_state (handleEthereumEvent L B t N sub evs) e = (r, e1)" for r e1
    using that broadcast_db
    by (auto simp: handleEthereumEvent_def RelayToCosmos_def run_bindIO split: sum.splits prod.splits if_splits)
  then show ?thesis
    using assms by (auto simp: handle_batch_def Let_def io_simps)
qed

lemma new_head_step:
  assumes "run_state (ethereum_new_head L B t N sub chainID A s h) e = (Inr s', e')"
    and "stored e = Some (es_last s)" and "0 < es_last s"
  shows "stored e' = Some (es_last s') \<and>
    (es_last s' = es_last s \<and> es_handled s' = es_handled s \<or>
     50 \<le> h \<and> es_last s' = h - 49 \<and>
       es_handled s' = es_handled s @ List.map_filter (log_event N chainID A) (concat (map chain [es_last s..h - 50])))"
proof (cases "h < 50")
  case True
  then show ?thesis
    using assms by (simp add: ethereum_new_head_def trailingBlocks_def)
next
  case False
  then consider
      (stay) x e1 where "run_state (FilterLogs N A (es_last s) (h - 50)) e = (Inl x, e1)" "s' = s" "e' = e1"
    | (go) ls e1 evs s1 s2 e2 where "run_state (FilterLogs N A (es_last s) (h - 50)) e = (Inr ls, e1)"
        "log_events N chainID A s ls = Inr (evs, s1)"
        "run_state (if 0 < length evs then handle_batch L B t N sub evs s1 else returnIO s1) e1 = (Inr s2, e2)"
        "run_state (DB_Put N ethLevelDBKey (h - 50 + 1)) e2 = (Inr (), e')"
        "s' = s2\<lparr>es_last := h - 50 + 1, es_db := Some (h - 50 + 1)\<rparr>"
    using assms(1,3) by (auto simp: ethereum_new_head_def trailingBlocks_def Let_def io_simps)
  then show ?thesis
  proof cases
    case stay
    then show ?thesis using logs_db assms(2) by simp
  next
    case go
    have evs: "evs = List.map_filter (log_event N chainID A) (concat (map chain [es_last s..h - 50]))"
      and s1: "es_handled s1 = es_handled s"
      using log_events_exact [OF go(2)] logs [OF go(1)] by simp_all
    have "es_handled s2 = es_handled s1 @ evs"
      using go(3) by (auto dest: handle_batch_effect split: if_splits)
    then show ?thesis
      using go(4,5) put [OF go(4)] evs s1 False by simp
  qed
qed

lemma resume_step:
  assumes "run_state (ethereum_resume N s) e = (Inr s', e')" and "stored e = Some (es_last s)"
  shows "stored e' = Some (es_last s') \<and> es_last s' = es_last s \<and> es_handled s' = es_handled s"
  using assms(1) get [OF _ assms(2)] by (auto simp: ethereum_resume_def io_simps dest: get [OF _ assms(2)])

lemma step_cases:
  assumes "run_state (ethereum_step L B t N sub chainID A s i) e = (Inr s', e')"
    and "stored e = Some (es_last s)" and "0 < es_last s"
  shows "stored e' = Some (es_last s') \<and>
    (es_last s' = es_last s \<and> es_handled s' = es_handled s \<or>
     (\<exists>h. i = NewHead h \<and> 50 \<le> h \<and> es_last s' = h - 49 \<and>
       es_handled s' = es_handled s @ List.map_filter (log_event N chainID A) (concat (map chain [es_last s..h - 50]))))"
proof (cases i)
  case (NewHead h)
  then show ?thesis
    using assms(1) new_head_step [OF _ assms(2,3), of L B t sub chainID h s' e'] by (simp add: ethereum_step_def)
next
  case Resubscribe
  then show ?thesis
    using assms(1) resume_step [OF _ assms(2)] by (simp add: ethereum_step_def)
qed

lemma run_covers:
  assumes "run_state (foldIO (ethereum_step L B t N sub chainID A) s is) e = (Inr s', e')"
    and "stored e = Some (es_last s)" and "0 < es_last s"
  shows "stored e' = Some (es_last s') \<and> 0 < es_last s' \<and>
    (\<forall>n l ev. es_last s \<le> n \<longrightarrow> n < es_last s' \<longrightarrow> l \<in> set (chain n) \<longrightarrow> log_event N chainID A l = Some ev \<longrightarrow>
      ev \<in> set (es_handled s'))"
  using assms(1)
proof (rule foldIO_inv [where I = "\<lambda>s1 e1. stored e1 = Some (es_last s1) \<and> 0 < es_last s1 \<and>
    (\<forall>n l ev. es_last s \<le> n \<longrightarrow> n < es_last s1 \<longrightarrow> l \<in> set (chain n) \<longrightarrow> log_event N chainID A l = Some ev \<longrightarrow>
      ev \<in> set (es_handled s1))"])
  fix s1 i s2 e1 e2
  assume I: "stored e1 = Some (es_last s1) \<and> 0 < es_last s1 \<and>
      (\<forall>n l ev. es_last s \<le> n \<longrightarrow> n < es_last s1 \<longrightarrow> l \<in> set (chain n) \<longrightarrow> log_event N chainID A l = Some ev \<longrightarrow>
        ev \<in> set (es_handled s1))"
    and run: "run_state (ethereum_step L B t N sub chainID A s1 i) e1 = (Inr s2, e2)"
  have st: "stored e2 = Some (es_last s2)" using step_cases [OF run] I by blast
  consider (stay) "es_last s2 = es_last s1" "es_handled s2 = es_handled s1"
    | (go) h where "50 \<le> h" "es_last s2 = h - 49" "es_handled s2 = es_handled s1 @
        List.map_filter (log_event N chainID A) (concat (map chain [es_last s1..h - 50]))"
    using step_cases [OF run] I by blast
  then show "stored e2 = Some (es_last s2) \<and> 0 < es_last s2 \<and>
      (\<forall>n l ev. es_last s \<le> n \<longrightarrow> n < es_last s2 \<longrightarrow> l \<in> set (chain n) \<longrightarrow> log_event N chainID A l = Some ev \<longrightarrow>
        ev \<in> set (es_handled s2))"
  proof cases
    case stay
    then show ?thesis using st I by simp
  next
    case go
    have "ev \<in> set (es_handled s2)"
      if "es_last s \<le> n" "n < es_last s2" "l \<in> set (chain n)" "log_event N chainID A l = Some ev" for n l ev
    proof (cases "n < es_last s1")
      case True
      then show ?thesis using I that go(3) by auto
    next
      case False
      then have "n \<in> set [es_last s1..h - 50]" using that(2) go(2) by simp
      then show ?thesis using that(3,4) go(3) by (force simp: List.map_filter_def)
    qed
    then show ?thesis using st go(1,2) by simp
  qed
qed (use assms(2,3) in simp)

lemma run_exact:
  assumes "run_state (foldIO (ethereum_step L B t N sub chainID A) s is) e = (Inr s', e')"
    and "stored e = Some (es_last s)" and "0 < es_last s"
    and "sorted_wrt (<) (heads is)" and "\<forall>h \<in> set (heads is). es_last s \<le> h - 49"
  shows "es_last s \<le> es_last s' \<and>
    es_handled s' = es_handled s @ List.map_filter (log_event N chainID A) (concat (map chain [es_last s..es_last s' - 1]))"
  using assms
proof (induction "is" arbitrary: s e)
  case (Cons i "is")
  from Cons.prems(1) obtain s1 e1 where run: "run_state (ethereum_step L B t N sub chainID A s i) e = (Inr s1, e1)"
    and rest: "run_state (foldIO (ethereum_step L B t N sub chainID A) s1 is) e1 = (Inr s', e')"
    by (auto simp: io_simps)
  note step = step_cases [OF run Cons.prems(2,3)]
  have sub: "sorted_wrt (<) (heads is)" "\<forall>h \<in> set (heads is). es_last s \<le> h - 49"
    using Cons.prems(4,5) by (cases i; simp)+
  consider (stay) "es_last s1 = es_last s" "es_handled s1 = es_handled s"
    | (go) h where "i = NewHead h" "50 \<le> h" "es_last s1 = h - 49" "es_handled s1 = es_handled s @
        List.map_filter (log_event N chainID A) (concat (map chain [es_last s..h - 50]))"
    using step by blast
  then show ?case
  proof cases
    case stay
    then show ?thesis using Cons.IH [OF rest] step sub Cons.prems(3) by simp
  next
    case go
    have h: "es_last s \<le> h - 49" "\<forall>h' \<in> set (heads is). h < h'" using Cons.prems(4,5) go(1) by simp_all
    have IH: "es_last s1 \<le> es_last s'" "es_handled s' = es_handled s1 @
        List.map_filter (log_event N chainID A) (concat (map chain [es_last s1..es_last s' - 1]))"
      using Cons.IH [OF rest] step sub(1) go(2,3) h(2) by force+
    have "[es_last s..es_last s' - 1] = [es_last s..h - 50] @ [es_last s1..es_last s' - 1]"
      using upto_append [of "es_last s" "es_last s1" "es_last s' - 1"] h(1) IH(1) go(3) by simp
    then show ?thesis using IH go(3,4) h(1) by (simp add: List.map_filter_def)
  qed
qed simp

end

text \<open>C38. The Ethereum listener misses no event: whatever the order of the new heads, the queries that fail and
  the times it subscribes anew and goes on from LevelDB, every lock and burn in the blocks from
  where it started up to its current position was handed to the chain's side. If the heads
  increase, it handed over the events of exactly these blocks, each once and in their order.\<close>

theorem relayer_covers_ethereum:
  assumes "ethereum_world N stored chain A" and "stored e = Some (es_last s)" and "0 < es_last s"
    and "run_state (foldIO (ethereum_step L B t N sub chainID A) s is) e = (Inr s', e')"
  shows "(\<forall>n l ev. es_last s \<le> n \<longrightarrow> n < es_last s' \<longrightarrow> l \<in> set (chain n) \<longrightarrow> log_event N chainID A l = Some ev \<longrightarrow>
      ev \<in> set (es_handled s')) \<and>
    (sorted_wrt (<) (heads is) \<longrightarrow> (\<forall>h \<in> set (heads is). es_last s \<le> h - 49) \<longrightarrow>
      es_handled s' = es_handled s @
        List.map_filter (log_event N chainID A) (concat (map chain [es_last s..es_last s' - 1])))"
  using ethereum_world.run_covers [OF assms(1,4,2,3)] ethereum_world.run_exact [OF assms(1,4,2,3)] by blast

subsection \<open>Covering the chain\<close>

text \<open>A block that the node delivers after finitely many failures.\<close>

inductive answers :: "'e net \<Rightarrow> int \<Rightarrow> 'e \<Rightarrow> bool" for N b where
  now: "run_state (BlockResults N b) e = (Inr blk, e') \<Longrightarrow> answers N b e"
| later: "run_state (BlockResults N b) e = (Inl x, e') \<Longrightarrow> answers N b e' \<Longrightarrow> answers N b e"

lemma BurnLock_no_panic:
  assumes "\<And>d. SifchainToEthereum B t d \<noteq> Inl Panic"
  shows "BurnLockEventToCosmosMsg L B t ct as \<noteq> Inl Panic"
proof -
  have step: "burn_lock_attribute L B t ct v a \<noteq> Inl Panic" for v a
    using assms by (cases a) (auto simp: burn_lock_attribute_def bindE_def parseE_def guardE_def
        split: relayer_event.splits sum.splits option.splits)
  have "foldE (burn_lock_attribute L B t ct) v as \<noteq> Inl Panic" for v
  proof (induction as arbitrary: v)
    case (Cons a as)
    then show ?case using step [of v a] by (cases "burn_lock_attribute L B t ct v a") auto
  qed simp
  then show ?thesis
    by (auto simp: BurnLockEventToCosmosMsg_def bindE_def split: sum.splits)
qed

text \<open>
  What the listener relies on: the libraries return errors instead of panicking, a block that the
  node delivers is the block of the chain, and LevelDB can be written.
\<close>

locale cosmos_world =
  fixes N :: "'e net" and chain :: "int \<Rightarrow> event list list"
  assumes block: "run_state (BlockResults N b) e = (Inr blk, e') \<Longrightarrow> blk = chain b"
    and block_error: "fst (run_state (BlockResults N b) e) \<noteq> Inl Panic"
    and put: "\<exists>e'. run_state (DB_Put N cosmosLevelDBKey n) e = (Inr (), e')"
    and no_panic:
      "HexToECDSA N k \<noteq> Inl Panic" "NewKeyedTransactorWithChainID N k n \<noteq> Inl Panic"
      "NewBridgeRegistry N a \<noteq> Inl Panic" "NewCosmosBridge N a \<noteq> Inl Panic"
      "fst (run_state (ethclient_Dial N) e) \<noteq> Inl Panic" "fst (run_state (PendingNonceAt N a) e) \<noteq> Inl Panic"
      "fst (run_state (SuggestGasPrice N) e) \<noteq> Inl Panic" "fst (run_state (NetworkID N) e) \<noteq> Inl Panic"
      "fst (run_state (HeaderByNumber N) e) \<noteq> Inl Panic" "fst (run_state (registry_lookup N cr a n) e) \<noteq> Inl Panic"
      "fst (run_state (contract_NewProphecyClaim N a auth k1 s1 n1 s2 s3 n2) e) \<noteq> Inl Panic"
      "fst (run_state (TransactionReceipt N h) e) \<noteq> Inl Panic"
begin

lemma bindIO_no_panic:
  "fst (run_state m e) \<noteq> Inl Panic \<Longrightarrow> (\<And>a e'. fst (run_state (f a) e') \<noteq> Inl Panic) \<Longrightarrow>
     fst (run_state (bindIO m f) e) \<noteq> Inl Panic"
  by (auto simp: run_bindIO split: prod.splits sum.splits)

lemma elseIO_no_panic:
  "fst (run_state m e) \<noteq> Inl Panic \<Longrightarrow> (\<And>a e'. fst (run_state (f a) e') \<noteq> Inl Panic) \<Longrightarrow>
     (\<And>e'. fst (run_state g e') \<noteq> Inl Panic) \<Longrightarrow> fst (run_state (elseIO m f g) e) \<noteq> Inl Panic"
  by (auto simp: run_elseIO split: prod.splits sum.splits)

lemma LoadSender_no_panic: "LoadSender N \<noteq> Inl Panic"
  using no_panic(1) by (auto simp: LoadSender_def LoadPrivateKey_def bindE_def split: sum.splits)

lemma InitRelayConfig_no_panic:
  assumes "ct \<in> {Ev_MsgBurn, Ev_MsgLock}"
  shows "fst (run_state (InitRelayConfig N reg ct key) e) \<noteq> Inl Panic"
  unfolding InitRelayConfig_def Let_def GetAddressFromBridgeRegistry_def
  using assms by (intro bindIO_no_panic) (auto simp: no_panic LoadSender_no_panic target_contract_def)

lemma try_init_no_panic:
  "ct \<in> {Ev_MsgBurn, Ev_MsgLock} \<Longrightarrow> fst (run_state (try_init N sub ct n) e) \<noteq> Inl Panic"
  by (induction n arbitrary: e) (simp_all add: elseIO_no_panic InitRelayConfig_no_panic)

lemma relay_tries_no_panic: "fst (run_state (relay_tries N m auth target n) e) \<noteq> Inl Panic"
proof -
  have "fst (run_state (await_receipt N h k) e) \<noteq> Inl Panic" for h k e
    by (induction k arbitrary: e) (simp_all add: elseIO_no_panic no_panic)
  then have "fst (run_state (RelayProphecyClaimToEthereum N m auth target) e) \<noteq> Inl Panic" for e
    by (simp add: RelayProphecyClaimToEthereum_def bindIO_no_panic no_panic)
  then show ?thesis
    by (induction n arbitrary: e) (simp_all add: elseIO_no_panic)
qed

lemma relay_tries_returns: "\<exists>e'. run_state (relay_tries N m auth target n) e = (Inr (), e')"
  using relay_tries_no_panic
proof (induction n arbitrary: e)
  case (Suc n)
  show ?case
  proof (cases "run_state (RelayProphecyClaimToEthereum N m auth target) e")
    case (Pair r e1)
    show ?thesis
      using Suc.IH [of e1] Suc.prems relay_tries_no_panic [of m auth target "Suc n" e] Pair
      by (cases r) (auto simp: run_elseIO split: if_splits)
  qed
qed simp

lemma handleBurnLockMsg_returns:
  assumes "ct \<in> {Ev_MsgBurn, Ev_MsgLock}"
  shows "\<exists>e'. run_state (handleBurnLockMsg N sub m ct) e = (Inr (), e')"
proof (cases "run_state (try_init N sub ct 5) e")
  case (Pair r e1)
  show ?thesis
  proof (cases r)
    case (Inl x)
    then show ?thesis
      using Pair try_init_no_panic [OF assms, of sub 5 e]
      by (simp add: handleBurnLockMsg_def tryInitRelayConfig_def run_elseIO)
  next
    case (Inr a)
    then show ?thesis
      using Pair relay_tries_returns [of m "fst a" "snd a" 5 e1] no_panic(4) [of "snd a"]
      by (cases "NewCosmosBridge N (snd a)")
        (auto simp: handleBurnLockMsg_def tryInitRelayConfig_def run_elseIO split: prod.splits)
  qed
qed

lemma cosmos_event_effect:
  assumes "\<And>d. SifchainToEthereum B t d \<noteq> Inl Panic"
  shows "\<exists>e'. run_state (cosmos_event L B t N sub s ev) e =
    (Inr (s\<lparr>cs_relayed := cs_relayed s @ event_msgs L B t [ev]\<rparr>), e')"
proof (cases "getOracleClaimType (event_type ev) \<in> {Ev_MsgBurn, Ev_MsgLock}")
  case True
  let ?ct = "getOracleClaimType (event_type ev)"
  show ?thesis
  proof (cases "BurnLockEventToCosmosMsg L B t ?ct (event_attributes ev)")
    case (Inl x)
    then have "x \<noteq> Panic" using BurnLock_no_panic [OF assms] by metis
    then show ?thesis
      using True Inl by (auto simp: cosmos_event_def event_msg_def run_elseIO Let_def)
  next
    case (Inr m)
    then show ?thesis
      using True handleBurnLockMsg_returns [OF True, of sub m e]
      by (auto simp: cosmos_event_def event_msg_def run_elseIO run_bindIO Let_def)
  qed
qed (auto simp: cosmos_event_def event_msg_def Let_def)

lemma cosmos_events_effect:
  assumes "\<And>d. SifchainToEthereum B t d \<noteq> Inl Panic"
  shows "\<exists>e'. run_state (foldIO (cosmos_event L B t N sub) s evs) e =
    (Inr (s\<lparr>cs_relayed := cs_relayed s @ event_msgs L B t evs\<rparr>), e')"
proof (induction evs arbitrary: s e)
  case (Cons ev evs)
  obtain e1 where "run_state (cosmos_event L B t N sub s ev) e =
      (Inr (s\<lparr>cs_relayed := cs_relayed s @ event_msgs L B t [ev]\<rparr>), e1)"
    using cosmos_event_effect [OF assms] by blast
  then show ?case
    using Cons [of "s\<lparr>cs_relayed := cs_relayed s @ event_msgs L B t [ev]\<rparr>" e1] by (simp add: run_bindIO)
qed simp

lemma cosmos_block_effect:
  assumes "\<And>d. SifchainToEthereum B t d \<noteq> Inl Panic"
  shows "\<exists>e'. run_state (cosmos_block L B t N sub s block) e =
    (Inr (s\<lparr>cs_relayed := cs_relayed s @ event_msgs L B t (concat block)\<rparr>), e')"
  unfolding cosmos_block_def
proof (induction block arbitrary: s e)
  case (Cons evs block)
  obtain e1 where "run_state (foldIO (cosmos_event L B t N sub) s evs) e =
      (Inr (s\<lparr>cs_relayed := cs_relayed s @ event_msgs L B t evs\<rparr>), e1)"
    using cosmos_events_effect [OF assms] by blast
  then show ?case
    using Cons [of "s\<lparr>cs_relayed := cs_relayed s @ event_msgs L B t evs\<rparr>" e1] by (simp add: run_bindIO)
qed simp

text \<open>One block: the queries that fail are repeated until it arrives.\<close>

lemma cosmos_blocks_step:
  assumes "answers N b e" and "b \<le> h" and "\<And>d. SifchainToEthereum B t d \<noteq> Inl Panic"
  shows "\<exists>e'. cosmos_blocks L B t N sub b h s e =
    cosmos_blocks L B t N sub (b + 1) h (s\<lparr>cs_relayed := cs_relayed s @ event_msgs L B t (concat (chain b)),
      cs_last := b, cs_db := Some b\<rparr>) e'"
  using assms(1)
proof (induction rule: answers.induct)
  case (now e blk e1)
  have "blk = chain b" by (rule block [OF now])
  moreover obtain e2 where "run_state (cosmos_block L B t N sub s (chain b)) e1 =
      (Inr (s\<lparr>cs_relayed := cs_relayed s @ event_msgs L B t (concat (chain b))\<rparr>), e2)"
    using cosmos_block_effect [OF assms(3)] by blast
  moreover obtain e3 where "run_state (DB_Put N cosmosLevelDBKey b) e2 = (Inr (), e3)"
    using put by blast
  ultimately show ?case
    using now assms(2) by (subst cosmos_blocks.simps) auto
next
  case (later e x e1)
  have "x \<noteq> Panic" using block_error [of b e] later(1) by auto
  then show ?case
    using later assms(2) by (subst cosmos_blocks.simps) simp
qed

lemma cosmos_blocks_returns:
  assumes "\<And>d. SifchainToEthereum B t d \<noteq> Inl Panic" and "\<And>n e. b \<le> n \<Longrightarrow> n \<le> h \<Longrightarrow> answers N n e"
    and "b \<le> h + 1" and "cs_last s = b - 1"
  shows "\<exists>s' e'. cosmos_blocks L B t N sub b h s e = Some (Inr s', e') \<and> cs_last s' = h \<and>
    cs_relayed s' = cs_relayed s @ event_msgs L B t (concat (concat (map chain [b..h])))"
  using assms
proof (induction "nat (h + 1 - b)" arbitrary: b s e)
  case 0
  then have "b = h + 1" by simp
  then show ?case using 0 by (subst cosmos_blocks.simps) simp
next
  case (Suc k)
  then have le: "b \<le> h" by simp
  let ?s = "s\<lparr>cs_relayed := cs_relayed s @ event_msgs L B t (concat (chain b)),
      cs_last := b, cs_db := Some b\<rparr>"
  obtain e1 where step: "cosmos_blocks L B t N sub b h s e = cosmos_blocks L B t N sub (b + 1) h ?s e1"
    using cosmos_blocks_step [OF Suc.prems(2) [OF _ le] le Suc.prems(1)] by blast
  have "\<exists>s' e'. cosmos_blocks L B t N sub (b + 1) h ?s e1 = Some (Inr s', e') \<and> cs_last s' = h \<and>
      cs_relayed s' = cs_relayed ?s @ event_msgs L B t (concat (concat (map chain [b + 1..h])))"
    using Suc.hyps(2) le by (intro Suc.hyps(1) Suc.prems) auto
  then show ?case
    using step le by (auto simp: upto_rec1 [of b h])
qed

end

text \<open>C39. The chain's listener finishes every new block if the node delivers each block after finitely many
  failures: it goes through all blocks after its last one up to the new one in their order, hands
  over every burn and lock of theirs once, and is then at the new block. On a fresh database it
  starts after the first block it hears of, which it does not read.\<close>

theorem relayer_covers_chain:
  assumes "cosmos_world N chain" and "\<And>d. SifchainToEthereum B t d \<noteq> Inl Panic"
    and "\<And>n e. cs_last s < n \<Longrightarrow> n \<le> h \<Longrightarrow> answers N n e" and "cs_last s \<le> h"
  shows "\<exists>s' e'. cosmos_new_block L B t N sub s (Some h) e = Some (Inr s', e') \<and> cs_last s' = h \<and>
    cs_relayed s' = cs_relayed s @
      (if cs_last s = 0 then [] else event_msgs L B t (concat (concat (map chain [cs_last s + 1..h]))))"
proof (cases "cs_last s = 0")
  case True
  show ?thesis
    unfolding cosmos_new_block_def Let_def using True by (subst cosmos_blocks.simps) simp
next
  case False
  have "\<exists>s' e'. cosmos_blocks L B t N sub (cs_last s + 1) h s e = Some (Inr s', e') \<and> cs_last s' = h \<and>
      cs_relayed s' = cs_relayed s @ event_msgs L B t (concat (concat (map chain [cs_last s + 1..h])))"
    using assms(3,4) by (intro cosmos_world.cosmos_blocks_returns [OF assms(1,2)]) auto
  then show ?thesis
    using False by (simp add: cosmos_new_block_def)
qed

subsection \<open>Bounded sending\<close>

text \<open>Counters of the calls of \<open>newProphecyClaim\<close> and of the queries for a receipt.\<close>

locale counted_world =
  fixes N :: "'e net" and sent polled :: "'e \<Rightarrow> nat"
  assumes claim_counts: "run_state (contract_NewProphecyClaim N a auth k s1 n1 s2 s3 n2) e = (r, e') \<Longrightarrow>
      sent e' = sent e + 1 \<and> polled e' = polled e"
    and receipt_counts: "run_state (TransactionReceipt N h) e = (r1, e') \<Longrightarrow>
      sent e' = sent e \<and> polled e' = polled e + 1"
    and others_keep:
      "run_state (ethclient_Dial N) e = (r2, e') \<Longrightarrow> sent e' = sent e \<and> polled e' = polled e"
      "run_state (PendingNonceAt N a) e = (r3, e') \<Longrightarrow> sent e' = sent e \<and> polled e' = polled e"
      "run_state (SuggestGasPrice N) e = (r4, e') \<Longrightarrow> sent e' = sent e \<and> polled e' = polled e"
      "run_state (NetworkID N) e = (r4, e') \<Longrightarrow> sent e' = sent e \<and> polled e' = polled e"
      "run_state (HeaderByNumber N) e = (r4, e') \<Longrightarrow> sent e' = sent e \<and> polled e' = polled e"
      "run_state (registry_lookup N cr a n) e = (r5, e') \<Longrightarrow> sent e' = sent e \<and> polled e' = polled e"
begin

lemma await_receipt_bound:
  "run_state (await_receipt N h n) e = (r, e') \<Longrightarrow> sent e' = sent e \<and> polled e' \<le> polled e + n"
proof (induction n arbitrary: e)
  case (Suc n)
  obtain r1 e1 where q: "run_state (TransactionReceipt N h) e = (r1, e1)" by fastforce
  note c = receipt_counts [OF q]
  show ?case
  proof (cases r1)
    case (Inr u)
    then show ?thesis using Suc.prems q c by (simp add: run_elseIO)
  next
    case (Inl x)
    then show ?thesis
      using Suc.prems Suc.IH [of e1] q c by (cases "x = Panic") (auto simp: run_elseIO)
  qed
qed simp

lemma Relay_bound:
  assumes "run_state (RelayProphecyClaimToEthereum N m auth target) e = (r, e')"
  shows "sent e' = sent e + 1 \<and> polled e' \<le> polled e + 60"
proof -
  obtain r1 e1 where q: "run_state (contract_NewProphecyClaim N target auth (relayer_event_nr (cm_ClaimType m))
      (cm_CosmosSender m) (cm_CosmosSenderSequence m) (cm_EthereumReceiver m) (cm_Symbol m) (cm_Amount m)) e = (r1, e1)"
    by fastforce
  note c = claim_counts [OF q]
  show ?thesis
    using assms q c await_receipt_bound [of _ 60 e1 r e']
    by (cases r1) (auto simp: RelayProphecyClaimToEthereum_def run_bindIO)
qed

lemma relay_tries_bound:
  "run_state (relay_tries N m auth target n) e = (r, e') \<Longrightarrow> sent e' \<le> sent e + n \<and> polled e' \<le> polled e + 60 * n"
proof (induction n arbitrary: e)
  case (Suc n)
  obtain r1 e1 where q: "run_state (RelayProphecyClaimToEthereum N m auth target) e = (r1, e1)" by fastforce
  note c = Relay_bound [OF q]
  show ?case
  proof (cases r1)
    case (Inr u)
    then show ?thesis using Suc.prems q c by (simp add: run_elseIO)
  next
    case (Inl x)
    then show ?thesis
      using Suc.prems Suc.IH [of e1] q c by (cases "x = Panic") (auto simp: run_elseIO)
  qed
qed simp

text \<open>Actions that neither send nor ask for a receipt.\<close>

definition keeps :: "('e, 'a) io \<Rightarrow> bool" where
  "keeps m \<longleftrightarrow> (\<forall>e r e'. run_state m e = (r, e') \<longrightarrow> sent e' = sent e \<and> polled e' = polled e)"

lemma keeps_bind: "keeps m \<Longrightarrow> (\<And>a. keeps (f a)) \<Longrightarrow> keeps (bindIO m f)"
  unfolding keeps_def by (auto simp: run_bindIO split: prod.splits sum.splits)

lemma keeps_else: "keeps m \<Longrightarrow> (\<And>a. keeps (f a)) \<Longrightarrow> keeps g \<Longrightarrow> keeps (elseIO m f g)"
  unfolding keeps_def by (auto simp: run_elseIO split: prod.splits sum.splits if_splits)

lemma keeps_simps [simp]: "keeps (returnIO a)" "keeps (failIO x)" "keeps (pureIO r)"
  by (simp_all add: keeps_def)

lemma keeps_others:
  "keeps (ethclient_Dial N)" "keeps (PendingNonceAt N a)" "keeps (SuggestGasPrice N)" "keeps (NetworkID N)"
  "keeps (HeaderByNumber N)" "keeps (registry_lookup N cr a n)"
  by (auto simp: keeps_def dest: others_keep)

lemma try_init_keeps: "keeps (try_init N sub ct n)"
proof (induction n)
  case (Suc n)
  have "keeps (InitRelayConfig N reg ct key)" for reg key
    unfolding InitRelayConfig_def Let_def GetAddressFromBridgeRegistry_def
    by (intro keeps_bind keeps_others keeps_simps)
  then show ?case using Suc by (simp add: keeps_else)
qed simp

lemma handleBurnLockMsg_bound:
  assumes "run_state (handleBurnLockMsg N sub m ct) e = (r, e')"
  shows "sent e' \<le> sent e + 5 \<and> polled e' \<le> polled e + 300"
proof -
  obtain r1 e1 where q: "run_state (try_init N sub ct 5) e = (r1, e1)" by fastforce
  have c: "sent e1 = sent e" "polled e1 = polled e" using try_init_keeps q unfolding keeps_def by blast+
  show ?thesis
  proof (cases r1)
    case (Inl x)
    then show ?thesis
      using assms q c by (auto simp: handleBurnLockMsg_def tryInitRelayConfig_def run_elseIO split: if_splits)
  next
    case (Inr a)
    then show ?thesis
      using assms q c relay_tries_bound [of m "fst a" "snd a" 5 e1 r e']
      by (cases "NewCosmosBridge N (snd a)")
        (auto simp: handleBurnLockMsg_def tryInitRelayConfig_def run_elseIO split: if_splits prod.splits)
  qed
qed

end

text \<open>For one burn or lock the relayer calls the contract at most five times and asks at most three hundred
  times for a receipt, whatever the node answers.\<close>

theorem relayer_sends_bounded:
  assumes "counted_world N sent polled" and "run_state (handleBurnLockMsg N sub m ct) e = (r, e')"
  shows "sent e' \<le> sent e + 5 \<and> polled e' \<le> polled e + 300"
  by (rule counted_world.handleBurnLockMsg_bound [OF assms])

subsection \<open>Recognising earlier claims\<close>

text \<open>A word of call data is 32 bytes, the highest first; \<open>bytes\<close> stand as they are.\<close>

fun be_bytes :: "nat \<Rightarrow> nat \<Rightarrow> string" where
  "be_bytes 0 n = []"
| "be_bytes (Suc k) n = be_bytes k (n div 256) @ [char_of (n mod 256)]"

definition abi_word :: "nat \<Rightarrow> string" where
  "abi_word n = be_bytes 32 n"

text \<open>
  The arguments of \<open>newProphecyClaim(uint8, bytes, uint256, address, string, uint256)\<close> in the
  layout of the contract ABI: six words, of which the second and the fifth are offsets, then the
  length and the bytes of the sender, and the rest.
\<close>

definition claim_call :: "nat \<Rightarrow> nat \<Rightarrow> nat \<Rightarrow> nat \<Rightarrow> nat \<Rightarrow> string \<Rightarrow> string \<Rightarrow> string" where
  "claim_call claimType sequence receiver symbolOffset amount sender rest =
     abi_word claimType @ abi_word 192 @ abi_word sequence @ abi_word receiver @ abi_word symbolOffset @
     abi_word amount @ abi_word (length sender) @ sender @ rest"

lemma length_be_bytes [simp]: "length (be_bytes k n) = k"
  by (induction k arbitrary: n) simp_all

lemma length_abi_word [simp]: "length (abi_word n) = 32"
  by (simp add: abi_word_def)

lemma hex_digits_append: "hex_digits (s @ s') = hex_digits s @ hex_digits s'"
  by (induction s) simp_all

lemma parse_hex_append: "parse_hex n (ds @ ds') = bindE (parse_hex n ds) (\<lambda>n. parse_hex n ds')"
  by (induction ds arbitrary: n) simp_all

lemma parse_hex_be_bytes:
  "parse_hex 0 (hex_digits (be_bytes k n)) =
     (if n mod 256 ^ k < 2 ^ 32 then Inr (n mod 256 ^ k) else Inl (ErrGo ''value out of range''))"
proof (induction k arbitrary: n)
  case (Suc k)
  let ?q = "n div 256 mod 256 ^ k"
  have split: "n mod 256 ^ Suc k = 256 * ?q + n mod 256"
    using mod_mult2_eq [of n 256 "256 ^ k"] by simp
  have digits: "16 * (16 * ?q + n mod 256 div 16) + n mod 256 mod 16 = 256 * ?q + n mod 256"
    by (simp add: algebra_simps)
  show ?case
  proof (cases "256 * ?q + n mod 256 < 2 ^ 32")
    case True
    then have "?q < 2 ^ 32" "16 * ?q + n mod 256 div 16 < 2 ^ 32" by linarith+
    then show ?thesis
      using Suc [of "n div 256"] digits True unfolding split by (simp add: hex_digits_append parse_hex_append)
  next
    case False
    then show ?thesis
      using Suc [of "n div 256"] digits unfolding split
      by (auto simp: hex_digits_append parse_hex_append)
  qed
qed simp

text \<open>C40. A call that the relayer sent earlier is recognised: the decoder finds its sender and sequence in the
  call data if the sequence fits in 32 bits, and a burn or lock with that sender and sequence then
  counts as processed, any other one does not. A larger sequence is not decoded.\<close>

theorem relayer_recognises_claim:
  assumes "length (newProphecyClaim_ID N) = 4" and "length sender = 42" and "sequence < 2 ^ 256"
    and "cm_CosmosSenderSequence msg = Some n"
  shows "MessageProcessed msg (own_prophecy_claim N a []
      \<lparr>etx_Sender = Inr a, etx_Data = newProphecyClaim_ID N @ claim_call ct sequence r off amount sender rest\<rparr>) =
    Inr (sequence < 2 ^ 32 \<and> cm_CosmosSender msg = sender \<and> n = int sequence)"
proof -
  let ?d = "claim_call ct sequence r off amount sender rest"
  have word: "take 32 (drop 64 ?d) = abi_word sequence" and snd: "take 42 (drop (32 * 7) ?d) = sender"
    and len: "\<not> length ?d < 32 * 7 + 42"
    using assms(2) by (simp_all add: claim_call_def)
  have "sequence mod 256 ^ 32 = sequence" using assms(3) by simp
  then have "MyDecode ?d = (if sequence < 2 ^ 32 then Inr \<lparr>pc_CosmosSenderSequence = int sequence, pc_CosmosSender = sender\<rparr>
      else Inl (ErrGo ''value out of range''))"
    using parse_hex_be_bytes [of 32 sequence] len unfolding MyDecode_def word snd
    by (simp add: abi_word_def guardE_def)
  then show ?thesis
    using assms(1,4) by (auto simp: own_prophecy_claim_def deref_def)
qed

subsection \<open>Replaying Ethereum events\<close>

context lib_laws
begin

lemma claim_sender_nonempty:
  assumes "AttributesToEthereumBridgeClaim L as = Inr cl" and "''cosmos_sender'' \<in> fst ` set as"
  shows "bc_CosmosSender cl \<noteq> []"
proof -
  have step: "bc_CosmosSender v' \<noteq> []"
    if "bridge_claim_attribute L v a = Inr v'" "fst a = ''cosmos_sender'' \<or> bc_CosmosSender v \<noteq> []" for v a v'
    using that val_of_string by (cases a) (auto simp: bridge_claim_attribute_def res_simps split: if_splits)
  have "bc_CosmosSender v' \<noteq> []"
    if "foldE (bridge_claim_attribute L) v as = Inr v'" "''cosmos_sender'' \<in> fst ` set as \<or> bc_CosmosSender v \<noteq> []" for v v'
    using that
  proof (induction as arbitrary: v)
    case (Cons a as)
    from Cons.prems(1) obtain v1 where a: "bridge_claim_attribute L v a = Inr v1"
      and rest: "foldE (bridge_claim_attribute L) v1 as = Inr v'"
      by (auto simp: res_simps)
    show ?case
    proof (cases "fst a = ''cosmos_sender'' \<or> bc_CosmosSender v \<noteq> []")
      case True
      then show ?thesis using Cons.IH [OF rest] step [OF a] by blast
    next
      case False
      then show ?thesis using Cons.IH [OF rest] Cons.prems(2) by auto
    qed
  qed simp
  then show ?thesis
    using assms unfolding AttributesToEthereumBridgeClaim_def by blast
qed

lemma own_claim_event_none:
  assumes "own_claim_event L (NewEthereumSub m r []) cs ev = Inr cs'"
    and "event_type ev = ''create_claim'' \<Longrightarrow> ''cosmos_sender'' \<in> fst ` set (event_attributes ev)"
  shows "cs' = cs"
  using assms claim_sender_nonempty
  by (auto simp: own_claim_event_def NewEthereumSub_def split: if_splits sum.splits)

end

text \<open>The command that replays Ethereum events never sees its own claims: it builds the listener without a
  validator address, so that the search for claims sent before finds none on a chain where every
  claim names its validator, and every event counts as not yet processed.\<close>

theorem relayer_replay_forgets:
  assumes "lib_laws L"
    and "\<And>b e blk e' evs ev. run_state (BlockResults N b) e = (Inr blk, e') \<Longrightarrow> evs \<in> set blk \<Longrightarrow> ev \<in> set evs \<Longrightarrow>
      event_type ev = ''create_claim'' \<Longrightarrow> ''cosmos_sender'' \<in> fst ` set (event_attributes ev)"
    and "run_state (getAllClaims L N (NewEthereumSub moniker contractAddress []) fromBlock toBlock) e = (Inr cs, e')"
  shows "cs = [] \<and> EventProcessed cs event = Inr False"
proof -
  let ?sub = "NewEthereumSub moniker contractAddress []"
  have tx: "cs2 = cs1" if "foldE (own_claim_event L ?sub) cs1 evs = Inr cs2" "evs \<in> set blk"
    "run_state (BlockResults N b) e1 = (Inr blk, e2)" for cs1 cs2 evs blk b e1 e2
    by (rule foldE_inv [OF that(1), where I = "\<lambda>c. c = cs1"])
      (use lib_laws.own_claim_event_none [OF assms(1)] assms(2) [OF that(3,2)] in auto)
  have block: "cs2 = cs1" if "foldE (foldE (own_claim_event L ?sub)) cs1 blk = Inr cs2"
    "run_state (BlockResults N b) e1 = (Inr blk, e2)" for cs1 cs2 blk b e1 e2
    by (rule foldE_inv [OF that(1), where I = "\<lambda>c. c = cs1"]) (use tx [OF _ _ that(2)] in auto)
  have "cs = []" if "run_state (foldIO (\<lambda>claimArray blockNumber.
         elseIO (BlockResults N blockNumber) (\<lambda>block.
           pureIO (foldE (foldE (own_claim_event L ?sub)) claimArray block))
         (returnIO claimArray)) [] [fromBlock..toBlock - 1]) e1 = (Inr cs, e2)" for e1 e2
    by (rule foldIO_inv [OF that, where I = "\<lambda>c _. c = []"]) (auto simp: io_simps dest: block)
  then have "cs = []"
    using assms(3) unfolding getAllClaims_def by (auto simp: io_simps)
  then show ?thesis by simp
qed

subsection \<open>A world for the relayer\<close>

text \<open>
  Every second query for a block times out, receipts arrive on the second query, and each
  Ethereum block holds one lock whose nonce is the number of the block.
\<close>

definition ref_relay_lib :: "(iface \<times> iface) list relay_lib" where
  "ref_relay_lib = \<lparr>bm_New = [], bm_Insert = (\<lambda>m k v. Inr ((k, v) # m)), bm_MakeImmutable = (\<lambda>m. m),
     bm_Get = map_of, bm_GetInverse = (\<lambda>m v. map_of (map (\<lambda>(k, v). (v, k)) m) v),
     NewIntFromBigInt = (\<lambda>n. if \<bar>n\<bar> < 2 ^ 255 then Inr n else Inl Panic)\<rparr>"

record ref_world =
  rw_db :: "(string \<times> int) list"
  rw_sent :: nat
  rw_polled :: nat
  rw_time :: nat

definition ref_block :: "int \<Rightarrow> event list list" where
  "ref_block b = [[Event ''create_claim'' [(''cosmos_sender'', ''sifvaloper1V'')],
     Event ''burn'' [(''cosmos_sender'', ''sif1U''), (''cosmos_sender_sequence'', ''3''),
       (''ethereum_receiver'', nullAddress), (''amount'', ''30''), (''symbol'', ''ceth'')]]]"

definition ref_logs :: "int \<Rightarrow> eth_log list" where
  "ref_logs b = [\<lparr>el_Topics = [''L''], el_Data = int_string b, el_TxHash = int_string b\<rparr>]"

definition ref_unpack :: "string \<Rightarrow> ethereum_event" where
  "ref_unpack data = \<lparr>ee_To = ''sif1U'', ee_Symbol = ''ETH'', ee_EthereumChainID = 0, ee_Value = 5,
     ee_Nonce = the (big_SetString data), ee_ClaimType = CLAIM_TYPE_UNSPECIFIED, ee_BridgeContractAddress = [],
     ee_From = ''0xe'', ee_Token = nullAddress\<rparr>"

definition ref_net :: "ref_world net" where
  "ref_net = \<lparr>EthereumPrivateKey = ''key'', HexToECDSA = Inr, PubkeyToAddress = (\<lambda>k. k),
     ethclient_Dial = returnIO (), PendingNonceAt = (\<lambda>_. returnIO 0), SuggestGasPrice = returnIO 100,
     NetworkID = returnIO 1, NewKeyedTransactorWithChainID = (\<lambda>_ _. Inr ()), HeaderByNumber = returnIO 100,
     NewBridgeRegistry = (\<lambda>_. Inr ()), registry_lookup = (\<lambda>_ _ _. returnIO ''bank''),
     NewCosmosBridge = (\<lambda>_. Inr ()),
     contract_NewProphecyClaim = (\<lambda>_ _ _ _ _ _ _ _. State (\<lambda>e. (Inr ''hash'', e\<lparr>rw_sent := rw_sent e + 1\<rparr>))),
     TransactionReceipt = (\<lambda>_. State (\<lambda>e. (if even (rw_polled e) then Inl (ErrGo ''not found'') else Inr (),
       e\<lparr>rw_polled := rw_polled e + 1\<rparr>))),
     tm_New = returnIO (), tm_Start = returnIO (), tm_Block = returnIO 10,
     BlockResults = (\<lambda>b. State (\<lambda>e. (if even (rw_time e) then Inl (ErrGo ''timeout'') else Inr (ref_block b),
       e\<lparr>rw_time := rw_time e + 1\<rparr>))),
     BlockByNumber = (\<lambda>_. returnIO []), FilterLogs = (\<lambda>_ from to. returnIO (concat (map ref_logs [from..to]))),
     newProphecyClaim_ID = ''npc!'', LogLock_ID = ''L'', LogBurn_ID = ''B'',
     UnpackIntoInterface = (\<lambda>_ data. Inr (ref_unpack data)), Keyring_Key = (\<lambda>_. Inr ''V''),
     BroadcastTx = (\<lambda>_. returnIO ()),
     DB_Put = (\<lambda>k n. State (\<lambda>e. (Inr (), e\<lparr>rw_db := (k, n) # rw_db e\<rparr>))),
     DB_Get = (\<lambda>k. State (\<lambda>e. (case map_of (rw_db e) k of None \<Rightarrow> Inl (ErrGo ''not found'') | Some n \<Rightarrow> Inr n, e))),
     url_Scheme = (\<lambda>_. Inr ''ws'')\<rparr>"

definition ref_world0 :: ref_world where
  "ref_world0 = \<lparr>rw_db = [(ethLevelDBKey, 2)], rw_sent = 0, rw_polled = 0, rw_time = 0\<rparr>"

lemma ref_net_simps [simp]:
  "EthereumPrivateKey ref_net = ''key''" "HexToECDSA ref_net = Inr" "PubkeyToAddress ref_net = (\<lambda>k. k)"
  "ethclient_Dial ref_net = returnIO ()" "PendingNonceAt ref_net a = returnIO 0"
  "SuggestGasPrice ref_net = returnIO 100" "NetworkID ref_net = returnIO 1"
  "NewKeyedTransactorWithChainID ref_net a n = Inr ()" "HeaderByNumber ref_net = returnIO 100"
  "NewBridgeRegistry ref_net a = Inr ()" "registry_lookup ref_net cr a n = returnIO ''bank''"
  "NewCosmosBridge ref_net a = Inr ()" "tm_New ref_net = returnIO ()" "tm_Start ref_net = returnIO ()"
  "FilterLogs ref_net a from to = returnIO (concat (map ref_logs [from..to]))"
  "newProphecyClaim_ID ref_net = ''npc!''" "LogLock_ID ref_net = ''L''" "LogBurn_ID ref_net = ''B''"
  "UnpackIntoInterface ref_net name data = Inr (ref_unpack data)" "Keyring_Key ref_net name = Inr ''V''"
  "BroadcastTx ref_net ms = returnIO ()"
  by (simp_all add: ref_net_def)

lemma ref_net_runs [simp]:
  "run_state (contract_NewProphecyClaim ref_net a auth k1 s1 n1 s2 s3 n2) e = (Inr ''hash'', e\<lparr>rw_sent := rw_sent e + 1\<rparr>)"
  "run_state (TransactionReceipt ref_net h) e =
     (if even (rw_polled e) then Inl (ErrGo ''not found'') else Inr (), e\<lparr>rw_polled := rw_polled e + 1\<rparr>)"
  "run_state (BlockResults ref_net b) e =
     (if even (rw_time e) then Inl (ErrGo ''timeout'') else Inr (ref_block b), e\<lparr>rw_time := rw_time e + 1\<rparr>)"
  "run_state (DB_Put ref_net k n) e = (Inr (), e\<lparr>rw_db := (k, n) # rw_db e\<rparr>)"
  "run_state (DB_Get ref_net k) e =
     (case map_of (rw_db e) k of None \<Rightarrow> Inl (ErrGo ''not found'') | Some n \<Rightarrow> Inr n, e)"
  by (simp_all add: ref_net_def)

interpretation ref_eth: ethereum_world ref_net "\<lambda>e. map_of (rw_db e) ethLevelDBKey" ref_logs "''bank''"
  by unfold_locales auto

interpretation ref_cosmos: cosmos_world ref_net ref_block
  by unfold_locales (auto split: if_splits)

interpretation ref_counted: counted_world ref_net rw_sent rw_polled
  by unfold_locales auto

lemma ref_answers: "answers ref_net b e"
proof -
  have odd: "answers ref_net b e" if "odd (rw_time e)" for e
    using that answers.now [of ref_net b e "ref_block b"] by simp
  show ?thesis
  proof (cases "even (rw_time e)")
    case True
    then show ?thesis
      using answers.later [of ref_net b e "ErrGo ''timeout''" "e\<lparr>rw_time := rw_time e + 1\<rparr>"] odd by simp
  qed (rule odd)
qed



definition ref_eth_state :: ethereum_state where
  "ref_eth_state = \<lparr>es_last = 2, es_db = Some 2, es_EventRecords = Map.empty, es_handled = []\<rparr>"

definition ref_eth_event :: "int \<Rightarrow> ethereum_event" where
  "ref_eth_event n = (ref_unpack (int_string n))\<lparr>ee_BridgeContractAddress := ''bank'', ee_EthereumChainID := 1,
     ee_ClaimType := CLAIM_TYPE_LOCK\<rparr>"

lemma ref_log_event: "log_event ref_net 1 ''bank'' (hd (ref_logs n)) = Some (ref_eth_event n)"
  by (simp add: log_event_def logToEvent_def ref_logs_def ref_eth_event_def relayer_event_String_def Let_def)

lemma ref_log_events:
  "\<exists>s'. log_events ref_net 1 ''bank'' s (concat (map ref_logs ns)) = Inr (map ref_eth_event ns, s')"
proof (induction ns arbitrary: s)
  case (Cons n ns)
  have "\<exists>s1. logToEvent ref_net 1 ''bank'' s (hd (ref_logs n)) = Inr (Some (ref_eth_event n), s1)"
    by (simp add: logToEvent_def ref_logs_def ref_eth_event_def relayer_event_String_def Let_def)
  then obtain s1 where "logToEvent ref_net 1 ''bank'' s (hd (ref_logs n)) = Inr (Some (ref_eth_event n), s1)" ..
  then show ?case using Cons [of s1] by (auto simp: ref_logs_def)
qed simp

lemma valid_messages_no_panic: "valid_messages L cls \<noteq> Inl Panic"
proof (induction cls)
  case (Cons cl cls)
  have "MsgCreateEthBridgeClaim_ValidateBasic L (NewMsgCreateEthBridgeClaim cl) \<noteq> Inl Panic"
    by (auto simp: MsgCreateEthBridgeClaim_ValidateBasic_def NewMsgCreateEthBridgeClaim_def deref_def guardE_def bindE_def
        split: sum.splits)
  then show ?case using Cons by (auto simp: Let_def bindE_def split: sum.splits)
qed simp

lemma ref_event_claims: "event_claims ref_lib ref_relay_lib [] v (map ref_eth_event ns) \<noteq> Inl Panic"
proof (induction ns)
  case (Cons n ns)
  have "EthereumEventToEthBridgeClaim ref_lib ref_relay_lib [] v (ref_eth_event n) \<noteq> Inl Panic"
    by (simp add: EthereumEventToEthBridgeClaim_def claim_symbol_def ref_eth_event_def ref_unpack_def ref_relay_lib_def
        ref_eval Let_def cong: bindE_cong_weak)
  then show ?case using Cons by (auto simp: bindE_def split: sum.splits)
qed simp

lemma ref_handle_batch:
  "\<exists>s' e'. run_state (handle_batch ref_lib ref_relay_lib [] ref_net sub (map ref_eth_event ns) s) e = (Inr s', e')"
  using ref_event_claims [of "''V''" ns] valid_messages_no_panic
  by (auto simp: handle_batch_def handleEthereumEvent_def RelayToCosmos_def run_elseIO run_bindIO Let_def
      split: sum.splits prod.splits if_splits)

lemma ref_new_head:
  assumes "50 \<le> h" and "es_last s \<noteq> 0"
  shows "\<exists>s' e'. run_state (ethereum_new_head ref_lib ref_relay_lib [] ref_net sub 1 ''bank'' s h) e = (Inr s', e') \<and>
    es_last s' = h - 49 \<and> map_of (rw_db e') ethLevelDBKey = Some (h - 49)"
proof -
  obtain s1 where ls: "log_events ref_net 1 ''bank'' s (concat (map ref_logs [es_last s..h - 50])) =
      Inr (map ref_eth_event [es_last s..h - 50], s1)"
    using ref_log_events by blast
  obtain s2 e2 where hb: "run_state (handle_batch ref_lib ref_relay_lib [] ref_net sub
      (map ref_eth_event [es_last s..h - 50]) s1) e = (Inr s2, e2)"
    using ref_handle_batch by blast
  show ?thesis
    using assms ls hb by (auto simp: ethereum_new_head_def trailingBlocks_def run_elseIO run_bindIO Let_def)
qed

theorem relayer_covers_ethereum_witness:
  "\<exists>s' e'. run_state (foldIO (ethereum_step ref_lib ref_relay_lib [] ref_net (NewEthereumSub ''val'' ''reg'' ''V'') 1 ''bank'')
      ref_eth_state [NewHead 55, Resubscribe, NewHead 58]) ref_world0 = (Inr s', e') \<and>
    es_handled s' = map ref_eth_event [2..8]"
proof -
  let ?sub = "NewEthereumSub ''val'' ''reg'' ''V''"
  obtain s1 e1 where 1: "run_state (ethereum_new_head ref_lib ref_relay_lib [] ref_net ?sub 1 ''bank'' ref_eth_state 55) ref_world0
      = (Inr s1, e1)" "es_last s1 = 6" "map_of (rw_db e1) ethLevelDBKey = Some 6"
    using ref_new_head [of 55 ref_eth_state ?sub ref_world0] by (auto simp: ref_eth_state_def)
  obtain s2 e2 where 2: "run_state (ethereum_new_head ref_lib ref_relay_lib [] ref_net ?sub 1 ''bank'' (s1\<lparr>es_last := 6\<rparr>) 58) e1
      = (Inr s2, e2)" "es_last s2 = 9"
    using ref_new_head [of 58 "s1\<lparr>es_last := 6\<rparr>" ?sub e1] by auto
  have run: "run_state (foldIO (ethereum_step ref_lib ref_relay_lib [] ref_net ?sub 1 ''bank'') ref_eth_state
      [NewHead 55, Resubscribe, NewHead 58]) ref_world0 = (Inr s2, e2)"
    using 1 2 by (simp add: ethereum_step_def ethereum_resume_def run_bindIO run_elseIO)
  have "map_of (rw_db ref_world0) ethLevelDBKey = Some (es_last ref_eth_state)" "0 < es_last ref_eth_state"
    by (simp_all add: ref_world0_def ref_eth_state_def)
  from relayer_covers_ethereum [OF ref_eth.ethereum_world_axioms this run]
  have "es_handled s2 = List.map_filter (log_event ref_net 1 ''bank'') (concat (map ref_logs [2..8]))"
    using 2(2) by (simp add: ref_eth_state_def)
  also have "\<dots> = map ref_eth_event [2..8]"
  proof -
    have "List.map_filter (log_event ref_net 1 ''bank'') (concat (map ref_logs ns)) = map ref_eth_event ns" for ns
      using ref_log_event by (induction ns) (simp_all add: ref_logs_def List.map_filter_def)
    then show ?thesis .
  qed
  finally show ?thesis using run by blast
qed

lemma ref_translator: "SifchainToEthereum ref_relay_lib [] d \<noteq> Inl Panic"
  by (simp add: SifchainToEthereum_def GetWithDefault_def as_string_def ref_relay_lib_def)

definition ref_cosmos_state :: cosmos_state where
  "ref_cosmos_state = \<lparr>cs_last = 4, cs_db = Some 4, cs_relayed = []\<rparr>"

lemma ref_block_msgs: "map cm_Symbol (event_msgs ref_lib ref_relay_lib [] (concat (ref_block b))) = [''eth'']"
proof -
  have "big_SetString ''3'' = Some 3" "ref_parse_int ''30'' = Some 30" "ref_is_hex nullAddress" by code_simp+
  then show ?thesis
    by (simp add: ref_block_def event_msg_def getOracleClaimType_def relayer_event_String_def BurnLockEventToCosmosMsg_def
        burn_lock_attribute_def count_attribute_def parseE_def guardE_def defaultSifchainPrefix_def NewCosmosMsg_def ref_eval)
qed

theorem relayer_covers_chain_witness:
  "\<exists>s' e'. cosmos_new_block ref_lib ref_relay_lib [] ref_net (NewCosmosSub ''reg'' ''key'') ref_cosmos_state (Some 6) ref_world0 =
      Some (Inr s', e') \<and> cs_last s' = 6 \<and> map cm_Symbol (cs_relayed s') = [''eth'', ''eth'']"
proof -
  have r: "[5..6] = [5, 6 :: int]" by (simp add: upto.simps)
  show ?thesis
    using relayer_covers_chain [OF ref_cosmos.cosmos_world_axioms ref_translator ref_answers,
        of ref_cosmos_state 6 ref_lib "NewCosmosSub ''reg'' ''key''" ref_world0] ref_block_msgs
    by (auto simp: ref_cosmos_state_def r)
qed

theorem relayer_sends_bounded_witness:
  "rw_sent (snd (run_state (handleBurnLockMsg ref_net (NewCosmosSub ''reg'' ''key'')
     (NewCosmosMsg Ev_MsgBurn ''sif1U'' (Some 3) nullAddress ''eth'' (Some 30)) Ev_MsgBurn) ref_world0)) \<le> 5"
proof -
  have "rw_sent ref_world0 = 0" by (simp add: ref_world0_def)
  then show ?thesis
    using relayer_sends_bounded [OF ref_counted.counted_world_axioms prod.collapse [symmetric],
        of "NewCosmosSub ''reg'' ''key''" "NewCosmosMsg Ev_MsgBurn ''sif1U'' (Some 3) nullAddress ''eth'' (Some 30)"
          Ev_MsgBurn ref_world0]
    by simp
qed

theorem relayer_recognises_claim_witness:
  "MessageProcessed (NewCosmosMsg Ev_MsgBurn (replicate 42 CHR ''a'') (Some 7) nullAddress ''eth'' (Some 30))
     (own_prophecy_claim ref_net ''me'' [] \<lparr>etx_Sender = Inr ''me'',
        etx_Data = ''npc!'' @ claim_call 1 7 0 288 30 (replicate 42 CHR ''a'') []\<rparr>) = Inr True"
  using relayer_recognises_claim [of ref_net "replicate 42 CHR ''a''" 7
      "NewCosmosMsg Ev_MsgBurn (replicate 42 CHR ''a'') (Some 7) nullAddress ''eth'' (Some 30)" 7 "''me''" 1 0 288 30 "[]"]
  by (simp add: NewCosmosMsg_def)

theorem relayer_replay_forgets_witness:
  "run_state (getAllClaims ref_lib ref_net (NewEthereumSub ''val'' ''reg'' []) 1 3) ref_world0 =
     (Inr [], ref_world0\<lparr>rw_time := 2\<rparr>)"
proof -
  have r: "[1..2] = [1, 2 :: int]" by (simp add: upto.simps)
  have ok: "''cosmos_sender'' \<in> fst ` set (event_attributes ev)"
    if "run_state (BlockResults ref_net b) e = (Inr blk, e')" "evs \<in> set blk" "ev \<in> set evs" "event_type ev = ''create_claim''"
    for b e blk e' evs ev
    using that by (auto simp: ref_block_def split: if_splits)
  have "\<exists>cs. run_state (getAllClaims ref_lib ref_net (NewEthereumSub ''val'' ''reg'' []) 1 3) ref_world0 =
      (Inr cs, ref_world0\<lparr>rw_time := 2\<rparr>)"
    by (simp add: getAllClaims_def r run_elseIO run_bindIO ref_world0_def ref_block_def own_claim_event_def NewEthereumSub_def
        AttributesToEthereumBridgeClaim_def bridge_claim_attribute_def ref_eval)
  then obtain cs where run: "run_state (getAllClaims ref_lib ref_net (NewEthereumSub ''val'' ''reg'' []) 1 3) ref_world0 =
      (Inr cs, ref_world0\<lparr>rw_time := 2\<rparr>)" ..
  have "cs = [] \<and> EventProcessed cs (ref_eth_event 1) = Inr False"
    by (rule relayer_replay_forgets [OF ref.lib_laws_axioms _ run]) (rule ok)
  then show ?thesis using run by simp
qed

end
