(* ===== verification/Spec2Isabelle.thy ===== *)
theory Spec2Isabelle
  imports AppFrame Genesis ClpPricing ClpLiquidity ClpQuery OracleProperties EthBridgeProperties DispensationProperties
    IbcProperties Ante RelayerProperties
begin

text \<open>
  This library models sifnode, an application chain built on the Cosmos SDK, and the relayer
  that connects it to Ethereum, and proves what users and operators rely on. Paths are relative
  to \<open>src/\<close>.

  \<^bold>\<open>The program.\<close> The chain has six modules over one bank. \<open>x/tokenregistry\<close> lists the tokens and
  what each may be used for. \<open>x/clp\<close> holds liquidity pools of rowan and one other token; it asks
  the registry for decimals and permissions. \<open>x/oracle\<close> collects claims of white-listed
  validators until one has seven tenths of their power. \<open>x/ethbridge\<close> takes tokens that leave for
  Ethereum and pays those that the oracle has confirmed. \<open>x/dispensation\<close> keeps the tokens of
  airdrops and pays them out in runs of ten records. \<open>x/ibctransfer\<close> wraps the transfers of ibc-go
  and converts between precisions with the registry. \<open>app/ante\<close> demands the fee, \<open>app/app.go\<close>
  connects the modules, \<open>cmd/sifnoded/cmd\<close> edits and migrates the genesis, and \<open>cmd/ebrelayer\<close>
  reads the events of each side and sends them to the other.

  \<^bold>\<open>How the code is modelled.\<close> A handler is a function from the context and a message to a new
  context or an error; Go's panics are the error \<open>Panic\<close>. \<open>deliver\<close> keeps the old context when a
  message fails, as the transaction runner does, and a history is a fold of it. Stores are
  sorted association lists with the iteration order of the SDK, values are the protobuf records of
  the code. The SDK, go-ethereum and ibc-go are not in the repository: their functions are the
  fields of the record \<open>lib\<close> (and \<open>codec\<close>, and the \<open>io\<close> actions of the relayer), their documented
  behaviour is stated in locales, and \<open>RefLib\<close> interprets all of them, so that every property is
  applied to a concrete chain in its witness.

  \<^bold>\<open>Theories.\<close>
  \<^item> \<open>Prelude\<close>: results and errors, strings and numbers of Go, histories (\<open>machine\<close>, \<open>once_only\<close>), the
    key-value store with its interface \<open>kv_store\<close>. \<open>Types\<close>: the stored records. \<open>Lib\<close>: the libraries and their
    laws. \<open>State\<close>: \<open>sdk.Context\<close>. \<open>RefLib\<close>, \<open>RefCtx\<close>: an instance of the laws. \<open>Balances\<close>: the bank's laws
    on contexts. \<open>Float64\<close>: the \<open>float64\<close> comparison of the oracle.
  \<^item> \<open>TokenRegistry\<close>: \<open>x/tokenregistry\<close>, keeper, messages, genesis, with an interface \<open>denom_registry\<close>: the last
    write of a denomination is what a lookup finds, entries stay unique, only the admin writes.
  \<^item> \<open>ClpCalc\<close> (\<open>calculations.go\<close>, \<open>pureCalculation.go\<close>), \<open>ClpKeeper\<close> (\<open>pool.go\<close>, \<open>liquidityprovider.go\<close>,
    \<open>executors.go\<close>, \<open>validatorWhitelist.go\<close>), \<open>ClpMsgServer\<close> (\<open>msg_server.go\<close>, \<open>msgs.go\<close>, \<open>handler.go\<close>), \<open>ClpQuery\<close>
    (\<open>grpc_query.go\<close>, \<open>genesis.go\<close>, \<open>params.go\<close>). \<open>ClpInvariants\<close> shows how each handler changes the
    difference between the module's account and its books, \<open>ClpProperties\<close> and \<open>ClpLiquidity\<close> the exact
    effect of swaps, deposits, withdrawals and decommissions, \<open>ClpPricing\<close> how far the rounded results are
    from the formulas, \<open>ClpGenesis\<close> export, import and migration.
  \<^item> \<open>Oracle\<close> (\<open>x/oracle\<close>) and \<open>OracleProperties\<close>: decisions are final, each validator counts once, and the
    outcome is that of exact arithmetic. \<open>EthBridge\<close> (\<open>x/ethbridge\<close>) and \<open>EthBridgeProperties\<close>: exact effects of
    each message, payment at most once, the black list, the administrator.
  \<^item> \<open>Dispensation\<close> (\<open>x/dispensation\<close>), \<open>DispensationInvariants\<close>, \<open>DispensationProperties\<close>: solvency, exact runs,
    every record is settled after enough runs, queries, genesis, migration.
  \<^item> \<open>IbcTransfer\<close> (\<open>x/ibctransfer\<close>) and \<open>IbcProperties\<close>: who may send and receive, and the conversions.
    \<open>Ante\<close> (\<open>app/ante\<close>): the required fee.
  \<^item> \<open>RelayerParser\<close> (\<open>txs/parser.go\<close>, \<open>types\<close>, \<open>internal\<close>), \<open>Relayer\<close> (\<open>relayer/cosmos.go\<close>, \<open>relayer/ethereum.go\<close>,
    \<open>txs\<close>, \<open>replay.go\<close>) and \<open>RelayerProperties\<close>: the relayer reads what the chain emitted, skips no block, and
    recognises its own calls; the world outside is given by the locales \<open>ethereum_world\<close>, \<open>cosmos_world\<close> and
    \<open>counted_world\<close>.
  \<^item> \<open>App\<close> (\<open>app/app.go\<close>): one handler for the messages of the four modules, and their signers. \<open>AppFrame\<close>: the
    stores that each handler may write and the accounts that it may debit, from which the
    invariants of single modules carry over to histories of the whole chain. \<open>Genesis\<close>: the
    commands of \<open>cmd/sifnoded/cmd\<close>, the migration, and the start of the modules in the order of
    \<open>app.go\<close>. This theory holds the properties of the whole chain.

  \<^bold>\<open>Bounds.\<close> \<open>int64\<close> and \<open>uint64\<close> arithmetic is reduced to its range where the code can leave it
  (the powers of the oracle, decimals, page limits); \<open>sdk.Uint\<close>, \<open>sdk.Int\<close> and \<open>sdk.Dec\<close> panic outside
  theirs, as their laws say. \<open>sdk.Dec\<close> is an integer mantissa and every product and quotient is
  rounded. All loops over data are structural recursion. The only loop that may not end is the
  retry of the relayer's chain listener (\<open>cosmos_blocks\<close>), a \<open>partial_function\<close> whose result is no value
  if it never ends; \<open>relayer_covers_chain\<close> proves that it ends when the node delivers each block after
  finitely many failures. The five sends and three hundred receipt queries of
  \<open>handleBurnLockMsg\<close> are the numbers of the code.

  \<^bold>\<open>Not modelled.\<close>
  \<^item> The rest of \<open>app\<close> (keepers, stores, the API server, \<open>setup_handlers.go\<close>, \<open>export.go\<close>) only calls the SDK.
    \<open>x/dispensation/keeper/upgrade.go\<close> is commented out.
  \<^item> Command line and REST clients, legacy queriers, codecs and registration files decode and
    forward. The channel callbacks of \<open>x/ibctransfer/module.go\<close> delegate to ibc-go.
  \<^item> Generated protobuf code and contract bindings, beyond the types taken from them.
  \<^item> Of the relayer and of the genesis commands: clients, signals, log lines, flags, files and the
    keyring; \<open>add-genesis-account\<close> repeats the command of the SDK.
  \<^item> The Solidity contracts in \<open>smart-contracts\<close> are another program, which the relayer knows by its
    events and calls. \<open>tools\<close>, \<open>cmd/sifgen\<close>, \<open>scripts\<close>, \<open>ui\<close> and test helpers are not part of the chain.
  \<^item> Gas, telemetry and log output.
\<close>

section \<open>Properties of the whole chain\<close>

text \<open>C1. Solvency of the chain: if the account of the liquidity pools covers the books of all pools and
  the account of the distributions covers all unpaid records, both still do, in every
  denomination, after every history of messages of the four modules, in any order and by any
  signers other than the modules' accounts, with symmetric withdrawals.\<close>

theorem app_history_solvent:
  assumes "lib_laws L" and "distinct (module_accounts L)" and "clp_wf c" and "clp_solvent L c"
    and "disp_wf L c" and "disp_solvent L c" and "list_all (app_allowed L) msgs"
  shows "clp_solvent L (foldl (deliver (app_handler L)) c msgs) \<and>
    disp_solvent L (foldl (deliver (app_handler L)) c msgs)"
  by (rule app_laws.app_run_solvent [OF app_laws.intro [OF assms(1) app_laws_axioms.intro [OF assms(2)]] assms(5,6,3,4,7)])

text \<open>C2. Nobody pays for what others sign: whatever messages of the four modules are delivered, in any
  order, no balance of an account that signed none of them decreases, asymmetric withdrawals,
  decommissioned pools, runs of distributions and administrative messages included. The modules'
  own accounts, which pay out, are excepted.\<close>

theorem app_only_signers_pay:
  assumes "lib_laws L" and "distinct (module_accounts L)" and "disp_wf L c" and "disp_solvent L c"
    and "a \<notin> set (module_accounts L)"
    and "list_all (\<lambda>msg. list_all (\<lambda>b. \<not> signed_by L msg b) (a # module_accounts L)) msgs"
  shows "bal L c a d \<le> bal L (foldl (deliver (app_handler L)) c msgs) a d"
  by (rule app_laws.app_run_purse [OF app_laws.intro [OF assms(1) app_laws_axioms.intro [OF assms(2)]] assms(3-6)])

subsection \<open>Instances\<close>

text \<open>Alice creates a pool and a distribution, and locks tokens on the bridge; Bob holds seven rowan.\<close>

definition ref_app_ctx :: "ref_state ctx" where
  "ref_app_ctx = fund ''bob'' ''rowan'' 7 ref_clp_ctx"

definition app_lock :: msg_lock where
  "app_lock = \<lparr>ml_CosmosSender = ''sif1alice'', ml_Amount = 10, ml_Symbol = ''rowan'', ml_EthereumChainId = 1,
     ml_EthereumReceiver = ''0x1'', ml_CethAmount = 1\<rparr>"

definition app_distribution :: msg_create_distribution where
  "app_distribution = \<lparr>mcd_Distributor = ''sif1alice'', mcd_AuthorizedRunner = ''sif1carol'',
     mcd_DistributionType = DISTRIBUTION_TYPE_AIRDROP,
     mcd_Output = [\<lparr>out_Address = ''sif1bob'', out_Coins = [\<lparr>coin_denom = ''rowan'', coin_amount = 5\<rparr>]\<rparr>]\<rparr>"

definition ref_history :: "app_msg list" where
  "ref_history = [ClpMsg (MsgCreatePool ref_create_pool), DispensationMsg (MsgCreateDistribution app_distribution),
     BridgeMsg (MsgLock app_lock)]"

lemma ref_app_ok:
  "clp_wf ref_app_ctx" "clp_solvent ref_lib ref_app_ctx" "disp_wf ref_lib ref_app_ctx" "disp_solvent ref_lib ref_app_ctx"
  by (simp_all add: ref_app_ctx_def ref_clp_ctx_def ref_eval clp_wf_def kv_ok_def clp_solvent_def clp_owed_def kv_sum_def
      disp_wf_def store_wf_def disp_solvent_def disp_owed_def bal_def)

lemma ref_history_signed: "list_all (\<lambda>msg. signed_by ref_lib msg b \<longleftrightarrow> b = ''alice'') ref_history"
  by (auto simp: ref_history_def signed_by_def app_GetSigners_def clp_GetSigners_def dispensation_GetSigners_def
      bridge_GetSigners_def MsgCreatePool_GetSigners_def MsgCreateDistribution_GetSigners_def MsgLock_GetSigners_def
      ref_create_pool_def app_distribution_def app_lock_def ref_eval)

lemma ref_history_starts: "\<exists>c'. app_handler ref_lib ref_app_ctx (hd ref_history) = Inr c'"
  by (simp add: ref_history_def app_handler_def clp_NewHandler_def ref_app_ctx_def ref_clp_ctx_def ref_create_pool_def
      ref_eval new_entry_def CalculatePoolUnits_def Let_def cong: bindE_cong_weak split del: if_split)

theorem app_history_solvent_witness:
  "clp_solvent ref_lib (foldl (deliver (app_handler ref_lib)) ref_app_ctx ref_history) \<and>
   disp_solvent ref_lib (foldl (deliver (app_handler ref_lib)) ref_app_ctx ref_history)"
proof (rule app_history_solvent [OF ref.lib_laws_axioms ref_app.module_accounts_distinct ref_app_ok])
  show "list_all (app_allowed ref_lib) ref_history"
    using ref_history_signed by (auto simp: app_allowed_def ref_module_accounts ref_history_def ref_eval)
qed

theorem app_only_signers_pay_witness:
  "7 \<le> bal ref_lib (foldl (deliver (app_handler ref_lib)) ref_app_ctx ref_history) ''bob'' ''rowan''"
proof -
  have "bal ref_lib ref_app_ctx ''bob'' ''rowan'' \<le>
      bal ref_lib (foldl (deliver (app_handler ref_lib)) ref_app_ctx ref_history) ''bob'' ''rowan''"
  proof (rule app_only_signers_pay [OF ref.lib_laws_axioms ref_app.module_accounts_distinct ref_app_ok(3,4)])
    show "list_all (\<lambda>msg. list_all (\<lambda>b. \<not> signed_by ref_lib msg b) (''bob'' # module_accounts ref_lib)) ref_history"
      using ref_history_signed by (auto simp: ref_module_accounts ref_history_def ref_eval)
  qed (simp add: ref_module_accounts ref_eval)
  moreover have "bal ref_lib ref_app_ctx ''bob'' ''rowan'' = 7"
    by (simp add: ref_app_ctx_def ref_clp_ctx_def bal_def ref_eval)
  ultimately show ?thesis by simp
qed

end
